(* ===== verification/Prelude.thy ===== *)
theory Prelude
  imports Main "HOL-Library.Word"
begin

text \<open>
  Shared vocabulary of the development: the machine integers of the Rust sources,
  Rust's \<open>Result\<close>, the state-and-error computations every method with a
  \<open>&mut self\<close> receiver is translated to, the weakest preconditions used to reason
  about them, and the decimal and hexadecimal formatting of \<open>format!\<close>.

  A computation of type \<open>('s, 'a, 'e) eff\<close> takes the state behind \<open>&mut self\<close> and
  returns \<open>Some (r, s')\<close> when the method returns the \<open>Result\<close> \<open>r\<close> and leaves
  the state \<open>s'\<close>, and \<open>None\<close> when it panics (an index out of bounds, an
  \<open>unreachable!()\<close>, an arithmetic overflow).  The \<open>?\<close> operator is \<open>bindE\<close>.
\<close>

unbundle bit_operations_syntax

section \<open>Types\<close>

type_synonym u8 = "8 word"
type_synonym u16 = "16 word"
type_synonym u32 = "32 word"
type_synonym u64 = "64 word"

datatype ('a, 'e) result = Ok (unwrap: 'a) | Err (unwrap_err: 'e)

definition is_ok :: "('a, 'e) result \<Rightarrow> bool" where
  "is_ok r = (case r of Ok _ \<Rightarrow> True | Err _ \<Rightarrow> False)"

definition ok_or :: "'a option \<Rightarrow> 'e \<Rightarrow> ('a, 'e) result" where
  "ok_or x e = (case x of Some a \<Rightarrow> Ok a | None \<Rightarrow> Err e)"

definition map_err :: "('e \<Rightarrow> 'f) \<Rightarrow> ('a, 'e) result \<Rightarrow> ('a, 'f) result" where
  "map_err f r = (case r of Ok a \<Rightarrow> Ok a | Err e \<Rightarrow> Err (f e))"

definition map_ok :: "('a \<Rightarrow> 'b) \<Rightarrow> ('a, 'e) result \<Rightarrow> ('b, 'e) result" where
  "map_ok f r = (case r of Ok a \<Rightarrow> Ok (f a) | Err e \<Rightarrow> Err e)"

definition and_then :: "('a, 'e) result \<Rightarrow> ('a \<Rightarrow> ('b, 'e) result) \<Rightarrow> ('b, 'e) result" where
  "and_then r f = (case r of Ok a \<Rightarrow> f a | Err e \<Rightarrow> Err e)"

text \<open>A loop whose body may return early with an error: the first error ends it.\<close>

fun try_each :: "('x \<Rightarrow> (unit, 'e) result) \<Rightarrow> 'x list \<Rightarrow> (unit, 'e) result" where
  "try_each f [] = Ok ()"
| "try_each f (x # xs) = and_then (f x) (\<lambda>_. try_each f xs)"

text \<open>A loop that pushes one record per element onto a vector.\<close>

fun try_map :: "('x \<Rightarrow> ('y, 'e) result) \<Rightarrow> 'x list \<Rightarrow> ('y list, 'e) result" where
  "try_map f [] = Ok []"
| "try_map f (x # xs) =
     and_then (f x) (\<lambda>y. and_then (try_map f xs) (\<lambda>ys. Ok (y # ys)))"

lemma result_simps [simp]:
  "is_ok (Ok a)" "\<not> is_ok (Err e)"
  "ok_or (Some a) e = Ok a" "ok_or None e = Err e"
  "map_err f (Ok a) = Ok a" "map_err f (Err e) = Err (f e)"
  "map_ok g (Ok a) = Ok (g a)" "map_ok g (Err e) = Err e"
  "and_then (Ok a) h = h a" "and_then (Err e) h = Err e"
  by (simp_all add: is_ok_def ok_or_def map_err_def map_ok_def and_then_def)

lemma and_then_Ok_iff: "and_then r f = Ok b \<longleftrightarrow> (\<exists>a. r = Ok a \<and> f a = Ok b)"
  by (cases r) simp_all

lemma and_then_Err_iff:
  "and_then r f = Err e \<longleftrightarrow> r = Err e \<or> (\<exists>a. r = Ok a \<and> f a = Err e)"
  by (cases r) simp_all

lemma map_err_Ok_iff [simp]: "map_err f r = Ok a \<longleftrightarrow> r = Ok a"
  by (cases r) simp_all

lemma map_ok_Ok_iff: "map_ok f r = Ok b \<longleftrightarrow> (\<exists>a. r = Ok a \<and> b = f a)"
  by (cases r) auto

lemma ok_or_Ok_iff [simp]: "ok_or x e = Ok a \<longleftrightarrow> x = Some a"
  by (cases x) simp_all

lemma try_each_Ok_iff: "try_each f xs = Ok () \<longleftrightarrow> (\<forall>x \<in> set xs. f x = Ok ())"
  by (induction xs) (auto simp: and_then_Ok_iff)

lemma try_map_Ok_iff: "try_map f xs = Ok ys \<longleftrightarrow> list_all2 (\<lambda>x y. f x = Ok y) xs ys"
  by (induction xs arbitrary: ys) (auto simp: and_then_Ok_iff list_all2_Cons1)

lemma unit_result_cases:
  obtains (ok) "(r :: (unit, 'e) result) = Ok ()" | (err) e where "r = Err e"
  by (cases r) auto

section \<open>Computations on \<open>&mut self\<close>\<close>

type_synonym ('s, 'a, 'e) eff = "'s \<Rightarrow> (('a, 'e) result \<times> 's) option"

definition ret :: "'a \<Rightarrow> ('s, 'a, 'e) eff" where
  "ret a = (\<lambda>s. Some (Ok a, s))"

definition raise :: "'e \<Rightarrow> ('s, 'a, 'e) eff" where
  "raise e = (\<lambda>s. Some (Err e, s))"

definition panic :: "('s, 'a, 'e) eff" where
  "panic = (\<lambda>s. None)"

definition bindE :: "('s, 'a, 'e) eff \<Rightarrow> ('a \<Rightarrow> ('s, 'b, 'e) eff) \<Rightarrow> ('s, 'b, 'e) eff" where
  "bindE m f = (\<lambda>s. case m s of
     None \<Rightarrow> None
   | Some (Ok a, s') \<Rightarrow> f a s'
   | Some (Err e, s') \<Rightarrow> Some (Err e, s'))"

definition thenE :: "('s, unit, 'e) eff \<Rightarrow> ('s, 'b, 'e) eff \<Rightarrow> ('s, 'b, 'e) eff" where
  "thenE m k = bindE m (\<lambda>_. k)"

definition liftR :: "('a, 'e) result \<Rightarrow> ('s, 'a, 'e) eff" where
  "liftR r = (\<lambda>s. Some (r, s))"

definition gets :: "('s \<Rightarrow> 'a) \<Rightarrow> ('s, 'a, 'e) eff" where
  "gets f = (\<lambda>s. Some (Ok (f s), s))"

definition modify :: "('s \<Rightarrow> 's) \<Rightarrow> ('s, unit, 'e) eff" where
  "modify f = (\<lambda>s. Some (Ok (), f s))"

definition map_errE :: "('e \<Rightarrow> 'f) \<Rightarrow> ('s, 'a, 'e) eff \<Rightarrow> ('s, 'a, 'f) eff" where
  "map_errE f m = (\<lambda>s. case m s of None \<Rightarrow> None | Some (r, s') \<Rightarrow> Some (map_err f r, s'))"

text \<open>\<open>xs[i]\<close>: indexing a slice panics out of bounds.\<close>

definition indexE :: "'a list \<Rightarrow> nat \<Rightarrow> ('s, 'a, 'e) eff" where
  "indexE xs i = (if i < length xs then ret (xs ! i) else panic)"

text \<open>A method of a field: run a computation on a component of the state.\<close>

definition zoom :: "('s \<Rightarrow> 'c) \<Rightarrow> ('c \<Rightarrow> 's \<Rightarrow> 's) \<Rightarrow> ('c, 'a, 'e) eff \<Rightarrow> ('s, 'a, 'e) eff" where
  "zoom get put m = (\<lambda>s. case m (get s) of None \<Rightarrow> None | Some (r, c) \<Rightarrow> Some (r, put c s))"

text \<open>\<open>match m { .. }\<close> on the result of a computation, and a call that cannot fail.\<close>

definition tryE :: "('s, 'a, 'e) eff \<Rightarrow> (('a, 'e) result \<Rightarrow> ('s, 'b, 'f) eff) \<Rightarrow> ('s, 'b, 'f) eff" where
  "tryE m f = (\<lambda>s. case m s of None \<Rightarrow> None | Some (r, s') \<Rightarrow> f r s')"

definition callE :: "('s \<Rightarrow> 'a \<times> 's) \<Rightarrow> ('s, 'a, 'e) eff" where
  "callE f = (\<lambda>s. let (a, s') = f s in Some (Ok a, s'))"

text \<open>\<open>for x in xs { body? }\<close>\<close>

fun for_each :: "'x list \<Rightarrow> ('x \<Rightarrow> ('s, unit, 'e) eff) \<Rightarrow> ('s, unit, 'e) eff" where
  "for_each [] body = ret ()"
| "for_each (x # xs) body = thenE (body x) (for_each xs body)"

section \<open>Weakest preconditions\<close>

text \<open>
  \<open>wp m Q s\<close>: started in \<open>s\<close>, the computation \<open>m\<close> returns (it does not panic) and
  the result and the final state satisfy \<open>Q\<close>.
\<close>

definition wp :: "('s, 'a, 'e) eff \<Rightarrow> (('a, 'e) result \<Rightarrow> 's \<Rightarrow> bool) \<Rightarrow> 's \<Rightarrow> bool" where
  "wp m Q s = (case m s of None \<Rightarrow> False | Some (r, s') \<Rightarrow> Q r s')"

definition post_ok :: "('a \<Rightarrow> 's \<Rightarrow> bool) \<Rightarrow> ('e \<Rightarrow> 's \<Rightarrow> bool) \<Rightarrow> ('a, 'e) result \<Rightarrow> 's \<Rightarrow> bool" where
  "post_ok Q E r s = (case r of Ok a \<Rightarrow> Q a s | Err e \<Rightarrow> E e s)"

lemma post_ok_simps [simp]: "post_ok Q E (Ok a) s = Q a s" "post_ok Q E (Err e) s = E e s"
  by (simp_all add: post_ok_def)

named_theorems wp_simps \<open>weakest preconditions of the statement forms\<close>

lemma wp_ret [wp_simps]: "wp (ret a) Q s = Q (Ok a) s"
  by (simp add: wp_def ret_def)

lemma wp_raise [wp_simps]: "wp (raise e) Q s = Q (Err e) s"
  by (simp add: wp_def raise_def)

lemma wp_panic [wp_simps]: "wp panic Q s = False"
  by (simp add: wp_def panic_def)

lemma wp_bindE [wp_simps]:
  "wp (bindE m f) Q s = wp m (post_ok (\<lambda>a. wp (f a) Q) (\<lambda>e. Q (Err e))) s"
  by (simp add: wp_def bindE_def split: option.split prod.split result.split)

lemma wp_thenE [wp_simps]:
  "wp (thenE m k) Q s = wp m (post_ok (\<lambda>_. wp k Q) (\<lambda>e. Q (Err e))) s"
  by (simp add: thenE_def wp_bindE)

lemma wp_liftR [wp_simps]: "wp (liftR r) Q s = Q r s"
  by (simp add: wp_def liftR_def)

lemma wp_gets [wp_simps]: "wp (gets f) Q s = Q (Ok (f s)) s"
  by (simp add: wp_def gets_def)

lemma wp_modify [wp_simps]: "wp (modify f) Q s = Q (Ok ()) (f s)"
  by (simp add: wp_def modify_def)

lemma wp_map_errE [wp_simps]: "wp (map_errE f m) Q s = wp m (\<lambda>r. Q (map_err f r)) s"
  by (simp add: wp_def map_errE_def split: option.split)

lemma wp_indexE [wp_simps]: "wp (indexE xs i) Q s = (i < length xs \<and> Q (Ok (xs ! i)) s)"
  by (simp add: indexE_def wp_ret wp_panic)

lemma wp_zoom [wp_simps]: "wp (zoom g p m) Q s = wp m (\<lambda>r c. Q r (p c s)) (g s)"
  by (simp add: wp_def zoom_def split: option.split)

lemma wp_tryE [wp_simps]: "wp (tryE m f) Q s = wp m (\<lambda>r. wp (f r) Q) s"
  by (simp add: wp_def tryE_def split: option.split prod.split)

lemma wp_callE [wp_simps]: "wp (callE f) Q s = Q (Ok (fst (f s))) (snd (f s))"
  by (simp add: wp_def callE_def split: prod.split)

lemma bindE_gets: "bindE (gets f) k s = k (f s) s"
  by (simp add: bindE_def gets_def)

lemma bindE_ret: "bindE m ret = m"
  by (auto simp: bindE_def ret_def fun_eq_iff split: option.split result.split)

lemma tryE_SomeE:
  assumes "tryE m f s = Some (r, t)"
  obtains q u where "m s = Some (q, u)" "f q u = Some (r, t)"
  using assms by (auto simp: tryE_def split: option.splits)

lemma wp_mono: "wp m Q s \<Longrightarrow> (\<And>r t. Q r t \<Longrightarrow> Q' r t) \<Longrightarrow> wp m Q' s"
  by (auto simp: wp_def split: option.splits)

lemma wp_conj: "wp m Q s \<Longrightarrow> wp m Q' s \<Longrightarrow> wp m (\<lambda>r t. Q r t \<and> Q' r t) s"
  by (auto simp: wp_def split: option.splits)

lemma wpE:
  assumes "wp m Q s"
  obtains r t where "m s = Some (r, t)" and "Q r t"
  using assms by (auto simp: wp_def split: option.splits)

lemma bindE_SomeE:
  assumes "bindE m k s = Some (r, t)"
  obtains (err) e where "m s = Some (Err e, t)" "r = Err e"
  | (ok) a u where "m s = Some (Ok a, u)" "k a u = Some (r, t)"
  using assms by (auto simp: bindE_def split: option.splits prod.splits result.splits)

lemma result_ex: "(\<exists>r. P r) \<longleftrightarrow> (\<exists>a. P (Ok a)) \<or> (\<exists>e. P (Err e))"
  by (metis result.exhaust)

lemma wp_Some: "m s = Some (r, t) \<Longrightarrow> wp m Q s = Q r t"
  by (simp add: wp_def)

lemma evaluates_ok:
  assumes "map_option (is_ok \<circ> fst) m = Some True"
  obtains a s where "m = Some (Ok a, s)"
  using assms by (cases m) (auto simp: is_ok_def split: result.splits)

text \<open>
  An invariant \<open>I\<close> kept by a computation on every path, the error paths included.
\<close>

definition keeps :: "('s \<Rightarrow> bool) \<Rightarrow> ('s, 'a, 'e) eff \<Rightarrow> bool" where
  "keeps I m = (\<forall>s. I s \<longrightarrow> wp m (\<lambda>_. I) s)"

named_theorems keeps_intros \<open>invariant rules of the statement forms\<close>

lemma keepsI: "(\<And>s. I s \<Longrightarrow> wp m (\<lambda>_. I) s) \<Longrightarrow> keeps I m"
  by (simp add: keeps_def)

lemma keepsD: "keeps I m \<Longrightarrow> I s \<Longrightarrow> wp m (\<lambda>_. I) s"
  by (simp add: keeps_def)

lemma keeps_ret [keeps_intros]: "keeps I (ret a)"
  by (simp add: keeps_def wp_simps)

lemma keeps_raise [keeps_intros]: "keeps I (raise e)"
  by (simp add: keeps_def wp_simps)

lemma keeps_liftR [keeps_intros]: "keeps I (liftR r)"
  by (simp add: keeps_def wp_simps)

lemma keeps_gets [keeps_intros]: "keeps I (gets f)"
  by (simp add: keeps_def wp_simps)

lemma keeps_modify: "(\<And>s. I s \<Longrightarrow> I (f s)) \<Longrightarrow> keeps I (modify f)"
  by (simp add: keeps_def wp_simps)

lemma keeps_bindE [keeps_intros]:
  assumes "keeps I m" and "\<And>a. keeps I (f a)"
  shows "keeps I (bindE m f)"
proof (rule keepsI)
  fix s assume "I s"
  with assms(1) have "wp m (\<lambda>_. I) s" by (rule keepsD)
  then show "wp (bindE m f) (\<lambda>_. I) s"
    unfolding wp_bindE
    by (rule wp_mono) (simp add: post_ok_def keepsD [OF assms(2)] split: result.split)
qed

lemma keeps_thenE [keeps_intros]: "keeps I m \<Longrightarrow> keeps I k \<Longrightarrow> keeps I (thenE m k)"
  unfolding thenE_def by (rule keeps_bindE)

lemma keeps_map_errE [keeps_intros]: "keeps I m \<Longrightarrow> keeps I (map_errE f m)"
  by (simp add: keeps_def wp_simps)

lemma keeps_tryE [keeps_intros]:
  assumes "keeps I m" and "\<And>r. keeps I (f r)"
  shows "keeps I (tryE m f)"
  using assms by (force simp: keeps_def wp_simps intro: wp_mono)

lemma keeps_case_result [keeps_intros]:
  "(\<And>a. r = Ok a \<Longrightarrow> keeps I (m a)) \<Longrightarrow> (\<And>e. r = Err e \<Longrightarrow> keeps I (k e)) \<Longrightarrow>
   keeps I (case r of Ok a \<Rightarrow> m a | Err e \<Rightarrow> k e)"
  by (cases r) simp_all

lemma keeps_for_each [keeps_intros]:
  assumes "\<And>x. x \<in> set xs \<Longrightarrow> keeps I (body x)"
  shows "keeps I (for_each xs body)"
  using assms by (induction xs) (auto intro: keeps_intros)

lemma keeps_if [keeps_intros]: "(b \<Longrightarrow> keeps I m) \<Longrightarrow> (\<not> b \<Longrightarrow> keeps I k) \<Longrightarrow> keeps I (if b then m else k)"
  by simp

lemma keeps_case_option [keeps_intros]:
  "keeps I m \<Longrightarrow> (\<And>x. keeps I (k x)) \<Longrightarrow> keeps I (case v of None \<Rightarrow> m | Some x \<Rightarrow> k x)"
  by (cases v) simp_all

lemma keeps_bindE_liftR [keeps_intros]:
  "(\<And>a. r = Ok a \<Longrightarrow> keeps I (f a)) \<Longrightarrow> keeps I (bindE (liftR r) f)"
  by (cases r) (simp_all add: keeps_def wp_simps)

lemma keeps_thenE_liftR [keeps_intros]:
  "(r = Ok () \<Longrightarrow> keeps I m) \<Longrightarrow> keeps I (thenE (liftR r) m)"
  by (cases r) (simp_all add: keeps_def wp_simps)

lemma keeps_bindE_indexE [keeps_intros]:
  "i < length xs \<Longrightarrow> keeps I (f (xs ! i)) \<Longrightarrow> keeps I (bindE (indexE xs i) f)"
  by (simp add: keeps_def wp_simps)

lemma keeps_bindE_gets:
  "(\<And>s. I s \<Longrightarrow> wp (f (g s)) (\<lambda>_. I) s) \<Longrightarrow> keeps I (bindE (gets g) f)"
  by (simp add: keeps_def wp_simps)

text \<open>
  \<open>leaves f m\<close>: whenever \<open>m\<close> returns, the part \<open>f\<close> of the state is what it was.
\<close>

definition leaves :: "('s \<Rightarrow> 'b) \<Rightarrow> ('s, 'a, 'e) eff \<Rightarrow> bool" where
  "leaves f m = (\<forall>s r t. m s = Some (r, t) \<longrightarrow> f t = f s)"

named_theorems leaves_intros \<open>frame rules of the statement forms\<close>

lemma leavesD: "leaves f m \<Longrightarrow> m s = Some (r, t) \<Longrightarrow> f t = f s"
  by (auto simp: leaves_def)

lemma leaves_basic [leaves_intros]:
  "leaves f (ret a)" "leaves f (raise e)" "leaves f panic" "leaves f (liftR r)" "leaves f (gets g)"
  by (simp_all add: leaves_def ret_def raise_def panic_def liftR_def gets_def)

lemma leaves_modify: "(\<And>s. f (g s) = f s) \<Longrightarrow> leaves f (modify g)"
  by (simp add: leaves_def modify_def)

lemma leaves_bindE [leaves_intros]:
  assumes "leaves f m" and "\<And>a. leaves f (k a)"
  shows "leaves f (bindE m k)"
  unfolding leaves_def
proof (intro allI impI)
  fix s r t assume "bindE m k s = Some (r, t)"
  then show "f t = f s"
    using leavesD [OF assms(1)] leavesD [OF assms(2)]
    by (fastforce simp: bindE_def split: option.splits prod.splits result.splits)
qed

lemma leaves_thenE [leaves_intros]: "leaves f m \<Longrightarrow> leaves f k \<Longrightarrow> leaves f (thenE m k)"
  unfolding thenE_def by (rule leaves_bindE)

lemma leaves_tryE [leaves_intros]: "leaves f m \<Longrightarrow> (\<And>r. leaves f (k r)) \<Longrightarrow> leaves f (tryE m k)"
  unfolding leaves_def by (metis tryE_SomeE)

lemma leaves_case_result [leaves_intros]:
  "(\<And>a. leaves f (m a)) \<Longrightarrow> (\<And>e. leaves f (k e)) \<Longrightarrow> leaves f (case r of Ok a \<Rightarrow> m a | Err e \<Rightarrow> k e)"
  by (cases r) simp_all

lemma leaves_map_errE [leaves_intros]: "leaves f m \<Longrightarrow> leaves f (map_errE g m)"
  by (auto simp: leaves_def map_errE_def split: option.splits)

lemma leaves_indexE [leaves_intros]: "leaves f (indexE xs i)"
  by (simp add: indexE_def leaves_intros)

lemma leaves_zoom: "(\<And>s c. f (p c s) = f s) \<Longrightarrow> leaves f (zoom g p m)"
  by (auto simp: leaves_def zoom_def split: option.splits)

lemma leaves_for_each [leaves_intros]:
  assumes "\<And>x. leaves f (body x)"
  shows "leaves f (for_each xs body)"
  using assms by (induction xs) (auto intro: leaves_intros)

lemma leaves_if [leaves_intros]: "leaves f m \<Longrightarrow> leaves f k \<Longrightarrow> leaves f (if b then m else k)"
  by simp

text \<open>\<open>raises_only P m\<close>: every error \<open>m\<close> returns satisfies \<open>P\<close>.\<close>

definition raises_only :: "('e \<Rightarrow> bool) \<Rightarrow> ('s, 'a, 'e) eff \<Rightarrow> bool" where
  "raises_only P m = (\<forall>s e t. m s = Some (Err e, t) \<longrightarrow> P e)"

named_theorems raises_intros \<open>error rules of the statement forms\<close>

lemma raises_onlyD: "raises_only P m \<Longrightarrow> m s = Some (Err e, t) \<Longrightarrow> P e"
  unfolding raises_only_def by blast

lemma raises_only_basic [raises_intros]:
  "raises_only P (ret a)" "raises_only P panic" "raises_only P (gets g)" "raises_only P (modify f)"
  "raises_only P (indexE xs i)" "P e \<Longrightarrow> raises_only P (raise e)"
  by (simp_all add: raises_only_def ret_def raise_def panic_def gets_def modify_def indexE_def)

lemma raises_only_liftR [raises_intros]: "(\<And>e. r = Err e \<Longrightarrow> P e) \<Longrightarrow> raises_only P (liftR r)"
  by (simp add: raises_only_def liftR_def)

lemma raises_only_bindE [raises_intros]:
  assumes "raises_only P m" and "\<And>a. raises_only P (f a)"
  shows "raises_only P (bindE m f)"
  using raises_onlyD [OF assms(1)] raises_onlyD [OF assms(2)]
  by (auto simp: raises_only_def bindE_def split: option.splits prod.splits result.splits)

lemma raises_only_thenE [raises_intros]:
  "raises_only P m \<Longrightarrow> raises_only P k \<Longrightarrow> raises_only P (thenE m k)"
  unfolding thenE_def by (rule raises_only_bindE)

lemma raises_only_if [raises_intros]:
  "(b \<Longrightarrow> raises_only P m) \<Longrightarrow> (\<not> b \<Longrightarrow> raises_only P k) \<Longrightarrow> raises_only P (if b then m else k)"
  by simp

lemma raises_only_case_option [raises_intros]:
  "raises_only P m \<Longrightarrow> (\<And>x. raises_only P (k x)) \<Longrightarrow>
   raises_only P (case v of None \<Rightarrow> m | Some x \<Rightarrow> k x)"
  by (cases v) simp_all

lemma raises_only_for_each [raises_intros]:
  "(\<And>x. raises_only P (body x)) \<Longrightarrow> raises_only P (for_each xs body)"
  by (induction xs) (auto intro: raises_intros)

section \<open>Formatting\<close>

text \<open>\<open>{n}\<close>, \<open>{n:X}\<close> and the zero-padded widths of \<open>{n:02X}\<close>, \<open>{n:08x}\<close>.\<close>

definition digit_char :: "bool \<Rightarrow> nat \<Rightarrow> char" where
  "digit_char upper d =
     (if d < 10 then char_of (48 + d) else char_of ((if upper then 55 else 87) + d))"

function radix_digits :: "nat \<Rightarrow> bool \<Rightarrow> nat \<Rightarrow> string" where
  "radix_digits b upper n =
     (if b < 2 \<or> n < b then [digit_char upper n]
      else radix_digits b upper (n div b) @ [digit_char upper (n mod b)])"
  by pat_completeness auto
termination
  by (relation "measure (\<lambda>(b, _, n). n)") auto

declare radix_digits.simps [simp del]

definition fmt_dec :: "'a::len word \<Rightarrow> string" where
  "fmt_dec w = radix_digits 10 False (unat w)"

definition fmt_nat :: "nat \<Rightarrow> string" where
  "fmt_nat n = radix_digits 10 False n"

definition pad_zeros :: "nat \<Rightarrow> string \<Rightarrow> string" where
  "pad_zeros w s = replicate (w - length s) (CHR ''0'') @ s"

definition fmt_hex_upper :: "nat \<Rightarrow> 'a::len word \<Rightarrow> string" where
  "fmt_hex_upper width w = pad_zeros width (radix_digits 16 True (unat w))"

definition fmt_hex_lower :: "nat \<Rightarrow> 'a::len word \<Rightarrow> string" where
  "fmt_hex_lower width w = pad_zeros width (radix_digits 16 False (unat w))"

text \<open>Rust strings are byte sequences in UTF-8; a \<^typ>\<open>char\<close> is one byte of them.\<close>

definition as_bytes :: "string \<Rightarrow> u8 list" where
  "as_bytes s = map (\<lambda>c. word_of_nat (of_char c)) s"

definition from_bytes :: "u8 list \<Rightarrow> string" where
  "from_bytes bs = map (\<lambda>b. char_of (unat b)) bs"

lemma length_as_bytes [simp]: "length (as_bytes s) = length s"
  by (simp add: as_bytes_def)

lemma length_from_bytes [simp]: "length (from_bytes bs) = length bs"
  by (simp add: from_bytes_def)

lemma from_as_bytes [simp]: "from_bytes (as_bytes s) = s"
proof -
  have "char_of (unat (word_of_nat (of_char c) :: u8)) = c" for c
  proof -
    have "of_char c < (256 :: nat)" by simp
    then have "unat (word_of_nat (of_char c) :: u8) = of_char c"
      by (simp add: unat_of_nat)
    then show ?thesis by simp
  qed
  then show ?thesis by (simp add: as_bytes_def from_bytes_def comp_def)
qed

section \<open>Words\<close>

lemma word_less_iff_unat: "(a :: 'a::len word) < b \<longleftrightarrow> unat a < unat b"
  by (simp add: word_less_nat_alt)

lemma unat_ucast_up:
  "LENGTH('a::len) \<le> LENGTH('b::len) \<Longrightarrow> unat (ucast (w :: 'a word) :: 'b word) = unat w"
  by (simp add: unsigned_ucast_eq take_bit_nat_eq_self
      less_le_trans [OF unsigned_less [where 'b = 'a]])

lemma ucast_down_up:
  fixes w :: "'b::len word"
  assumes "unat w < 2 ^ LENGTH('a::len)" and "LENGTH('a) \<le> LENGTH('b)"
  shows "ucast (ucast w :: 'a word) = w"
proof -
  have "unat (ucast w :: 'a word) = unat w"
    using assms(1) by (simp add: unsigned_ucast_eq take_bit_nat_eq_self)
  then have "unat (ucast (ucast w :: 'a word) :: 'b word) = unat w"
    by (simp add: unat_ucast_up [OF assms(2)])
  then show ?thesis by (simp add: word_unat_eq_iff)
qed

text \<open>\<open>u32::from(b)\<close> and \<open>u8::from(b)\<close> on a Boolean.\<close>

definition of_flag :: "bool \<Rightarrow> 'a::len word" where
  "of_flag b = (if b then 1 else 0)"

lemma of_flag_simps [simp]:
  "of_flag True = 1" "of_flag False = 0" "of_flag b \<noteq> 0 \<longleftrightarrow> b" "of_flag b = 0 \<longleftrightarrow> \<not> b"
  by (simp_all add: of_flag_def)

end
