(* ===== verification/ByteCodec.thy ===== *)
theory ByteCodec
  imports Prelude
begin

text \<open>
  The little-endian accessors at the end of \<open>rpu_wire.rs\<close>: \<open>put_u16\<close>, \<open>put_u32\<close>,
  \<open>put_u64\<close> write \<open>to_le_bytes\<close> of a word into a byte buffer, \<open>get_u16\<close>, \<open>get_u32\<close>,
  \<open>get_u64\<close> read one back.  Offsets are constants of the callers, always inside the
  64-byte frames; \<open>le_bytes\<close> and \<open>from_le\<close> are the standard library's
  \<open>to_le_bytes\<close> and \<open>from_le_bytes\<close> at any width.
\<close>

fun le_bytes :: "nat \<Rightarrow> 'a::len word \<Rightarrow> u8 list" where
  "le_bytes 0 w = []"
| "le_bytes (Suc n) w = ucast w # le_bytes n (drop_bit 8 w)"

fun from_le :: "u8 list \<Rightarrow> 'a::len word" where
  "from_le [] = 0"
| "from_le (b # bs) = ucast b OR push_bit 8 (from_le bs)"

definition put_bytes :: "u8 list \<Rightarrow> nat \<Rightarrow> u8 list \<Rightarrow> u8 list" where
  "put_bytes out off bs = take off out @ bs @ drop (off + length bs) out"

definition put_u16 :: "u8 list \<Rightarrow> nat \<Rightarrow> u16 \<Rightarrow> u8 list" where
  "put_u16 out off value = put_bytes out off (le_bytes 2 value)"

definition put_u32 :: "u8 list \<Rightarrow> nat \<Rightarrow> u32 \<Rightarrow> u8 list" where
  "put_u32 out off value = put_bytes out off (le_bytes 4 value)"

definition put_u64 :: "u8 list \<Rightarrow> nat \<Rightarrow> u64 \<Rightarrow> u8 list" where
  "put_u64 out off value = put_bytes out off (le_bytes 8 value)"

definition get_u16 :: "u8 list \<Rightarrow> nat \<Rightarrow> u16" where
  "get_u16 input off = from_le [input ! off, input ! (off + 1)]"

definition get_u32 :: "u8 list \<Rightarrow> nat \<Rightarrow> u32" where
  "get_u32 input off =
     from_le [input ! off, input ! (off + 1), input ! (off + 2), input ! (off + 3)]"

definition get_u64 :: "u8 list \<Rightarrow> nat \<Rightarrow> u64" where
  "get_u64 input off =
     from_le [input ! off, input ! (off + 1), input ! (off + 2), input ! (off + 3),
              input ! (off + 4), input ! (off + 5), input ! (off + 6), input ! (off + 7)]"

lemma length_le_bytes [simp]: "length (le_bytes n w) = n"
  by (induction n arbitrary: w) simp_all

lemma le_bytes_numeral:
  "le_bytes 2 w = [ucast w, ucast (drop_bit 8 w)]"
  "le_bytes 4 w = [ucast w, ucast (drop_bit 8 w), ucast (drop_bit 16 w), ucast (drop_bit 24 w)]"
  "le_bytes 8 w = [ucast w, ucast (drop_bit 8 w), ucast (drop_bit 16 w), ucast (drop_bit 24 w),
     ucast (drop_bit 32 w), ucast (drop_bit 40 w), ucast (drop_bit 48 w), ucast (drop_bit 56 w)]"
  by (simp_all add: eval_nat_numeral)

text \<open>The byte at position \<open>i\<close> of a word, and the word those bytes determine.\<close>

lemma bit_from_le:
  "bit (from_le bs :: 'a::len word) k \<longleftrightarrow>
     k < LENGTH('a) \<and> k div 8 < length bs \<and> bit (bs ! (k div 8)) (k mod 8)"
proof (induction bs arbitrary: k)
  case Nil
  then show ?case by simp
next
  case (Cons b bs)
  show ?case
  proof (cases "k < 8")
    case True
    then show ?thesis by (auto simp: bit_simps dest: bit_imp_le_length)
  next
    case False
    then have "k div 8 = Suc ((k - 8) div 8)" and "(k - 8) mod 8 = k mod 8"
      by (auto simp: div_if mod_if)
    moreover have "\<not> bit b k"
      using False bit_imp_le_length [of b k] by auto
    ultimately show ?thesis
      using False by (auto simp: bit_simps Cons.IH)
  qed
qed

lemma nth_le_bytes: "i < n \<Longrightarrow> le_bytes n w ! i = ucast (drop_bit (8 * i) w)"
  by (induction n arbitrary: w i) (auto simp: nth_Cons less_Suc_eq_0_disj add.commute split: nat.split)

lemma from_le_bytes:
  assumes "8 * n = LENGTH('a)"
  shows "from_le (le_bytes n w) = (w :: 'a::len word)"
proof (rule bit_word_eqI)
  fix k assume k: "k < LENGTH('a)"
  then have "k div 8 < n" using assms by linarith
  then show "bit (from_le (le_bytes n w) :: 'a word) k = bit w k"
    using k by (auto simp: bit_from_le nth_le_bytes bit_simps)
qed

lemma le_bytes_from_le:
  assumes "length bs = n" and "8 * n = LENGTH('a)"
  shows "le_bytes n (from_le bs :: 'a::len word) = bs"
proof (rule nth_equalityI)
  show "length (le_bytes n (from_le bs :: 'a word)) = length bs" using assms by simp
next
  fix i assume "i < length (le_bytes n (from_le bs :: 'a word))"
  then have i: "i < n" by simp
  show "le_bytes n (from_le bs :: 'a word) ! i = bs ! i"
  proof (rule bit_word_eqI)
    fix k assume "k < LENGTH(8)"
    then have k: "k < 8" by simp
    then have "8 * i + k < LENGTH('a)" and "(8 * i + k) div 8 = i"
      using i assms(2) by linarith+
    moreover have "(8 * i + k) mod 8 = k"
      using k by simp
    ultimately show "bit (le_bytes n (from_le bs :: 'a word) ! i) k = bit (bs ! i) k"
      using i k assms(1) by (simp add: nth_le_bytes bit_simps bit_from_le)
  qed
qed

lemma length_put_bytes [simp]:
  "off + length bs \<le> length out \<Longrightarrow> length (put_bytes out off bs) = length out"
  by (simp add: put_bytes_def)

lemma length_put [simp]:
  "off + 2 \<le> length out \<Longrightarrow> length (put_u16 out off a) = length out"
  "off + 4 \<le> length out \<Longrightarrow> length (put_u32 out off b) = length out"
  "off + 8 \<le> length out \<Longrightarrow> length (put_u64 out off c) = length out"
  by (simp_all add: put_u16_def put_u32_def put_u64_def)

lemma nth_put_bytes:
  "off + length bs \<le> length out \<Longrightarrow> i < length out \<Longrightarrow>
   put_bytes out off bs ! i =
     (if off \<le> i \<and> i < off + length bs then bs ! (i - off) else out ! i)"
  by (auto simp: put_bytes_def nth_append)

end
