(* ===== verification/Afe.thy ===== *)
theory Afe
  imports Prelude
begin

text \<open>
  \<open>crates/daphne-sc-core/src/afe.rs\<close>: the identifiers of the five analogue front ends
  (by board position and by position in the programmable logic), the forty channels, the
  commands of the slow-control interface and their range check \<open>AfeCommand::validate\<close>.
  The fields of \<open>AfeId\<close> and \<open>ChannelId\<close> are private in the source, so a value is
  always one that \<open>from_board\<close> or \<open>new\<close> returned: \<open>wf_afe_id\<close>, \<open>wf_channel_id\<close>.
\<close>

section \<open>Identifiers\<close>

definition AFE_COUNT :: u8 where "AFE_COUNT = 5"
definition CHANNELS_PER_AFE :: u8 where "CHANNELS_PER_AFE = 8"
definition CHANNEL_COUNT :: u8 where "CHANNEL_COUNT = AFE_COUNT * CHANNELS_PER_AFE"
definition DAC_12BIT_MAX :: u16 where "DAC_12BIT_MAX = 4095"

definition AFE_BOARD_TO_PL :: "u8 list" where "AFE_BOARD_TO_PL = [0, 4, 3, 2, 1]"
definition AFE_PL_TO_BOARD :: "u8 list" where "AFE_PL_TO_BOARD = [0, 4, 3, 2, 1]"

datatype afe_validation_error =
    AfeOutOfRange u8
  | ChannelOutOfRange u8
  | ValueOutOfRange u16 u16  \<comment> \<open>the value and the maximum\<close>

record afe_id =
  id_board :: u8
  id_pl :: u8

definition from_board :: "u8 \<Rightarrow> (afe_id, afe_validation_error) result" where
  "from_board b =
     and_then
       (ok_or (if unat b < length AFE_BOARD_TO_PL then Some (AFE_BOARD_TO_PL ! unat b) else None)
              (AfeOutOfRange b))
       (\<lambda>p. Ok \<lparr>id_board = b, id_pl = p\<rparr>)"

record channel_id =
  ch_channel :: u8
  ch_afe :: afe_id
  ch_afe_channel :: u8

definition channel_new :: "u8 \<Rightarrow> (channel_id, afe_validation_error) result" where
  "channel_new c =
     (if CHANNEL_COUNT \<le> c then Err (ChannelOutOfRange c)
      else and_then (from_board (c div CHANNELS_PER_AFE))
             (\<lambda>a. Ok \<lparr>ch_channel = c, ch_afe = a, ch_afe_channel = c mod CHANNELS_PER_AFE\<rparr>))"

datatype afe_target = AfeOne afe_id | AfeAll

datatype channel_target = TargetOne channel_id | TargetAfe afe_id | TargetAll

section \<open>Commands\<close>

record adc_config =
  adc_resolution :: bool
  adc_output_format :: bool
  adc_msb_first :: bool

record pga_config =
  pga_lpf_cut_frequency :: u8
  pga_integrator_disable :: bool
  pga_gain :: bool

record lna_config =
  lna_clamp :: u8
  lna_gain :: u8
  lna_integrator_disable :: bool

record afe_frontend_config =
  fe_afe :: afe_id
  fe_attenuation :: u16
  fe_bias :: u16
  fe_adc :: adc_config
  fe_pga :: pga_config
  fe_lna :: lna_config

record channel_frontend_config =
  fc_channel :: channel_id
  fc_trim :: u16
  fc_offset :: u16
  fc_gain :: u16

datatype afe_command =
    ReadRegister afe_id u8
  | WriteRegister afe_id u8 u16
  | ReadAttenuation afe_id
  | SetAttenuation afe_id u16
  | ReadBias afe_id
  | SetBias afe_id u16
  | ReadTrim channel_target
  | SetTrim channel_target u16 bool  \<comment> \<open>value, gain\<close>
  | ReadOffset channel_target
  | SetOffset channel_target u16 bool
  | ReadVbiasControl
  | SetVbiasControl u16 bool  \<comment> \<open>value, enable\<close>
  | SetReset bool
  | DoReset
  | SetPowerState bool
  | WriteFunction afe_id string u16
  | ReadAlignment afe_id
  | ConfigureFrontend "afe_frontend_config list" "channel_frontend_config list" u16
  | Align

definition validate_12bit :: "u16 \<Rightarrow> (unit, afe_validation_error) result" where
  "validate_12bit v = (if v > DAC_12BIT_MAX then Err (ValueOutOfRange v DAC_12BIT_MAX) else Ok ())"

definition validate :: "afe_command \<Rightarrow> (unit, afe_validation_error) result" where
  "validate c = (case c of
     SetAttenuation _ v \<Rightarrow> validate_12bit v
   | SetBias _ v \<Rightarrow> validate_12bit v
   | SetTrim _ v _ \<Rightarrow> validate_12bit v
   | SetOffset _ v _ \<Rightarrow> validate_12bit v
   | SetVbiasControl v _ \<Rightarrow> validate_12bit v
   | ConfigureFrontend afes channels bias_control \<Rightarrow>
       and_then (validate_12bit bias_control) (\<lambda>_.
       and_then (try_each (\<lambda>a.
           and_then (validate_12bit (fe_attenuation a)) (\<lambda>_. validate_12bit (fe_bias a))) afes) (\<lambda>_.
       try_each (\<lambda>c.
           and_then (validate_12bit (fc_trim c)) (\<lambda>_. validate_12bit (fc_offset c))) channels))
   | _ \<Rightarrow> Ok ())"

definition afe_validation_error_to_string :: "afe_validation_error \<Rightarrow> string" where
  "afe_validation_error_to_string e = (case e of
     AfeOutOfRange afe \<Rightarrow> ''AFE out of range: '' @ fmt_dec afe @ ''; expected 0..4''
   | ChannelOutOfRange c \<Rightarrow> ''channel out of range: '' @ fmt_dec c @ ''; expected 0..39''
   | ValueOutOfRange v m \<Rightarrow>
       ''value out of range: '' @ fmt_dec v @ ''; expected 0..'' @ fmt_dec m)"

section \<open>Well-formed identifiers\<close>

definition wf_afe_id :: "afe_id \<Rightarrow> bool" where
  "wf_afe_id a \<longleftrightarrow> from_board (id_board a) = Ok a"

definition wf_channel_id :: "channel_id \<Rightarrow> bool" where
  "wf_channel_id c \<longleftrightarrow> channel_new (ch_channel c) = Ok c"

definition wf_channel_target :: "channel_target \<Rightarrow> bool" where
  "wf_channel_target t = (case t of
     TargetOne c \<Rightarrow> wf_channel_id c | TargetAfe a \<Rightarrow> wf_afe_id a | TargetAll \<Rightarrow> True)"

lemmas afe_const_defs = AFE_COUNT_def CHANNELS_PER_AFE_def CHANNEL_COUNT_def DAC_12BIT_MAX_def

lemma length_board_to_pl [simp]: "length AFE_BOARD_TO_PL = 5" "length AFE_PL_TO_BOARD = 5"
  by (simp_all add: AFE_BOARD_TO_PL_def AFE_PL_TO_BOARD_def)

lemma from_board_Ok_iff:
  "from_board b = Ok a \<longleftrightarrow>
     unat b < 5 \<and> a = \<lparr>id_board = b, id_pl = AFE_BOARD_TO_PL ! unat b\<rparr>"
  by (auto simp: from_board_def)

lemma from_board_Err_iff: "from_board b = Err e \<longleftrightarrow> 5 \<le> unat b \<and> e = AfeOutOfRange b"
  by (auto simp: from_board_def)

lemma from_board_wf: "from_board b = Ok a \<Longrightarrow> wf_afe_id a"
  by (auto simp: wf_afe_id_def from_board_Ok_iff)

lemma less_5_cases: "n < 5 \<Longrightarrow> n = 0 \<or> n = 1 \<or> n = 2 \<or> n = 3 \<or> n = (4 :: nat)"
  by auto

lemma word_less_5_cases:
  assumes "unat (x :: u8) < 5"
  shows "x = 0 \<or> x = 1 \<or> x = 2 \<or> x = 3 \<or> x = 4"
proof -
  have w: "x = word_of_nat n" if "unat x = n" for n using that by auto
  show ?thesis
    using less_5_cases [OF assms] w [of 0] w [of 1] w [of 2] w [of 3] w [of 4] by auto
qed

lemma board_to_pl_less: "n < 5 \<Longrightarrow> AFE_BOARD_TO_PL ! n < 5"
  by (drule less_5_cases) (auto simp: AFE_BOARD_TO_PL_def)

lemma wf_afe_id_iff:
  "wf_afe_id a \<longleftrightarrow> unat (id_board a) < 5 \<and> id_pl a = AFE_BOARD_TO_PL ! unat (id_board a)"
  by (cases a) (simp add: wf_afe_id_def from_board_Ok_iff)

lemma wf_afe_id_bounds:
  assumes "wf_afe_id a"
  shows "id_board a < 5" and "id_pl a < 5"
  using assms board_to_pl_less [of "unat (id_board a)"]
  by (simp_all add: wf_afe_id_iff word_less_iff_unat)

lemma channel_new_Ok_iff:
  "channel_new c = Ok ch \<longleftrightarrow>
     c < 40 \<and> (\<exists>a. from_board (c div 8) = Ok a \<and>
                  ch = \<lparr>ch_channel = c, ch_afe = a, ch_afe_channel = c mod 8\<rparr>)"
  by (auto simp: channel_new_def afe_const_defs and_then_Ok_iff)

lemma channel_new_wf: "channel_new c = Ok ch \<Longrightarrow> wf_channel_id ch \<and> wf_afe_id (ch_afe ch)"
  by (auto simp: wf_channel_id_def channel_new_Ok_iff intro: from_board_wf)

lemma channel_div_less: "(c :: u8) < 40 \<Longrightarrow> unat (c div 8) < 5"
  by (simp add: word_less_nat_alt unat_div_distrib)

lemma channel_mod_less: "(c :: u8) mod 8 < 8"
  by (simp add: word_less_nat_alt unat_mod_distrib)

lemma channel_new_total: "c < 40 \<Longrightarrow> \<exists>ch. channel_new c = Ok ch"
  using channel_div_less [of c] by (auto simp: channel_new_Ok_iff from_board_Ok_iff)

lemma wf_channel_id_bounds:
  assumes "wf_channel_id c"
  shows "ch_channel c < 40" and "ch_afe_channel c < 8" and "wf_afe_id (ch_afe c)"
    and "id_board (ch_afe c) = ch_channel c div 8" and "ch_afe_channel c = ch_channel c mod 8"
proof -
  from assms obtain a where a: "ch_channel c < 40" "from_board (ch_channel c div 8) = Ok a"
    "c = \<lparr>ch_channel = ch_channel c, ch_afe = a, ch_afe_channel = ch_channel c mod 8\<rparr>"
    by (auto simp: wf_channel_id_def channel_new_Ok_iff)
  have c: "ch_afe c = a" "ch_afe_channel c = ch_channel c mod 8"
    using a(3) by (metis channel_id.select_convs(2), metis channel_id.select_convs(3))
  show "ch_channel c < 40" and "ch_afe_channel c < 8" and "wf_afe_id (ch_afe c)"
    and "id_board (ch_afe c) = ch_channel c div 8" and "ch_afe_channel c = ch_channel c mod 8"
    using a(1,2) c by (auto simp: channel_mod_less from_board_Ok_iff intro: from_board_wf)
qed

lemma validate_12bit_Ok_iff: "validate_12bit v = Ok () \<longleftrightarrow> unat v \<le> 4095"
  by (simp add: validate_12bit_def afe_const_defs word_less_nat_alt)

lemma validate_12bit_Err_iff:
  "validate_12bit v = Err e \<longleftrightarrow> 4095 < unat v \<and> e = ValueOutOfRange v 4095"
  by (auto simp: validate_12bit_def afe_const_defs word_less_nat_alt)

section \<open>Properties\<close>

text \<open>The board-to-PL table is a permutation of the five positions and its own inverse:
  translating a board position to the PL position and back through \<open>AFE_PL_TO_BOARD\<close>
  gives the board position again, and two AFEs with one PL position are the same AFE.\<close>

theorem board_pl_bijection:
  "from_board b = Ok a \<Longrightarrow>
     id_pl a < AFE_COUNT \<and> AFE_PL_TO_BOARD ! unat (id_pl a) = b
     \<and> (\<forall>b' a'. from_board b' = Ok a' \<longrightarrow> id_pl a' = id_pl a \<longrightarrow> a' = a)"
proof -
  assume a: "from_board b = Ok a"
  have inv: "AFE_PL_TO_BOARD ! unat (id_pl x) = y" if "from_board y = Ok x" for x y
    using that word_less_5_cases [of y]
    by (auto simp: from_board_Ok_iff AFE_BOARD_TO_PL_def AFE_PL_TO_BOARD_def)
  have lt: "id_pl a < AFE_COUNT"
    using wf_afe_id_bounds(2) [OF from_board_wf [OF a]] by (simp add: AFE_COUNT_def)
  have "a' = a" if a': "from_board b' = Ok a'" and same: "id_pl a' = id_pl a" for b' a'
  proof -
    have "b' = b" using inv [OF a] inv [OF a'] same by simp
    with a a' show ?thesis by simp
  qed
  with lt inv [OF a] show ?thesis by blast
qed

theorem board_pl_bijection_witness:
  "id_pl \<lparr>id_board = 1, id_pl = 4\<rparr> < AFE_COUNT \<and>
   AFE_PL_TO_BOARD ! unat (id_pl \<lparr>id_board = 1, id_pl = 4\<rparr>) = 1"
  using board_pl_bijection [of 1 "\<lparr>id_board = 1, id_pl = 4\<rparr>"]
  by (simp add: from_board_def AFE_BOARD_TO_PL_def)

end
