(* ===== verification/RpuWire.thy ===== *)
theory RpuWire
  imports ByteCodec Afe
begin

text \<open>
  \<open>crates/daphne-sc-core/src/rpu_wire.rs\<close>: the fixed 64-byte command and reply frames between
  the Linux server and the RPU, their encoders and decoders, the typed accessors of the
  frontend-configuration frames and the translation of an \<open>AfeCommand\<close> into frames.
  A \<open>[u8; N]\<close> array is a list of that length (\<open>wf_wire_command\<close> for the payload).
\<close>

section \<open>Frame data\<close>

definition RPU_WIRE_MAGIC :: u32 where "RPU_WIRE_MAGIC = 0x52505344"
definition RPU_WIRE_ABI_VERSION :: u16 where "RPU_WIRE_ABI_VERSION = 2"
definition RPU_WIRE_COMMAND_LEN :: nat where "RPU_WIRE_COMMAND_LEN = 64"
definition RPU_WIRE_REPLY_LEN :: nat where "RPU_WIRE_REPLY_LEN = 64"
definition RPU_WIRE_PAYLOAD_LEN :: nat where "RPU_WIRE_PAYLOAD_LEN = 32"
definition RPU_WIRE_FUNCTION_NAME_MAX :: nat where
  "RPU_WIRE_FUNCTION_NAME_MAX = RPU_WIRE_PAYLOAD_LEN - 1"

lemmas wire_const_defs =
  RPU_WIRE_COMMAND_LEN_def RPU_WIRE_REPLY_LEN_def RPU_WIRE_PAYLOAD_LEN_def
  RPU_WIRE_FUNCTION_NAME_MAX_def

datatype rpu_wire_error =
    BadLength nat nat  \<comment> \<open>expected, actual\<close>
  | BadMagic u32
  | BadAbi u16
  | UnknownOp u16
  | UnknownTarget u8
  | UnknownStatus u16
  | UnsupportedCommand string
  | BadPayload string
  | PayloadTooLong string nat nat  \<comment> \<open>field, max, actual\<close>
  | WireValueOutOfRange string u32 u32

datatype rpu_wire_op =
    OpStatus | OpReadRegister | OpWriteRegister | OpReadAttenuation | OpSetAttenuation
  | OpReadBias | OpSetBias | OpReadTrim | OpSetTrim | OpReadOffset | OpSetOffset
  | OpReadVbiasControl | OpSetVbiasControl | OpSetReset | OpDoReset | OpSetPowerState
  | OpAlign | OpBeginConfigureFrontend | OpConfigureAfe | OpConfigureChannel
  | OpApplyConfigureFrontend | OpWriteFunction | OpReadAlignment

definition op_code :: "rpu_wire_op \<Rightarrow> u16" where
  "op_code op = (case op of
     OpStatus \<Rightarrow> 0 | OpReadRegister \<Rightarrow> 1 | OpWriteRegister \<Rightarrow> 2 | OpReadAttenuation \<Rightarrow> 3
   | OpSetAttenuation \<Rightarrow> 4 | OpReadBias \<Rightarrow> 5 | OpSetBias \<Rightarrow> 6 | OpReadTrim \<Rightarrow> 7
   | OpSetTrim \<Rightarrow> 8 | OpReadOffset \<Rightarrow> 9 | OpSetOffset \<Rightarrow> 10 | OpReadVbiasControl \<Rightarrow> 11
   | OpSetVbiasControl \<Rightarrow> 12 | OpSetReset \<Rightarrow> 13 | OpDoReset \<Rightarrow> 14 | OpSetPowerState \<Rightarrow> 15
   | OpAlign \<Rightarrow> 16 | OpBeginConfigureFrontend \<Rightarrow> 17 | OpConfigureAfe \<Rightarrow> 18
   | OpConfigureChannel \<Rightarrow> 19 | OpApplyConfigureFrontend \<Rightarrow> 20 | OpWriteFunction \<Rightarrow> 21
   | OpReadAlignment \<Rightarrow> 22)"

definition op_try_from :: "u16 \<Rightarrow> (rpu_wire_op, rpu_wire_error) result" where
  "op_try_from v =
     (if v = 0 then Ok OpStatus
      else if v = 1 then Ok OpReadRegister
      else if v = 2 then Ok OpWriteRegister
      else if v = 3 then Ok OpReadAttenuation
      else if v = 4 then Ok OpSetAttenuation
      else if v = 5 then Ok OpReadBias
      else if v = 6 then Ok OpSetBias
      else if v = 7 then Ok OpReadTrim
      else if v = 8 then Ok OpSetTrim
      else if v = 9 then Ok OpReadOffset
      else if v = 10 then Ok OpSetOffset
      else if v = 11 then Ok OpReadVbiasControl
      else if v = 12 then Ok OpSetVbiasControl
      else if v = 13 then Ok OpSetReset
      else if v = 14 then Ok OpDoReset
      else if v = 15 then Ok OpSetPowerState
      else if v = 16 then Ok OpAlign
      else if v = 17 then Ok OpBeginConfigureFrontend
      else if v = 18 then Ok OpConfigureAfe
      else if v = 19 then Ok OpConfigureChannel
      else if v = 20 then Ok OpApplyConfigureFrontend
      else if v = 21 then Ok OpWriteFunction
      else if v = 22 then Ok OpReadAlignment
      else Err (UnknownOp v))"

datatype rpu_wire_target = TgtNone | TgtAfe | TgtChannel | TgtAll

definition target_code :: "rpu_wire_target \<Rightarrow> u8" where
  "target_code t = (case t of TgtNone \<Rightarrow> 0 | TgtAfe \<Rightarrow> 1 | TgtChannel \<Rightarrow> 2 | TgtAll \<Rightarrow> 3)"

definition target_try_from :: "u8 \<Rightarrow> (rpu_wire_target, rpu_wire_error) result" where
  "target_try_from v =
     (if v = 0 then Ok TgtNone else if v = 1 then Ok TgtAfe
      else if v = 2 then Ok TgtChannel else if v = 3 then Ok TgtAll
      else Err (UnknownTarget v))"

datatype rpu_wire_status =
  StAccepted | StApplied | StRejected | StInterlocked | StFault | StTimeout

definition status_code :: "rpu_wire_status \<Rightarrow> u16" where
  "status_code s = (case s of
     StAccepted \<Rightarrow> 0 | StApplied \<Rightarrow> 1 | StRejected \<Rightarrow> 2 | StInterlocked \<Rightarrow> 3
   | StFault \<Rightarrow> 4 | StTimeout \<Rightarrow> 5)"

definition status_try_from :: "u16 \<Rightarrow> (rpu_wire_status, rpu_wire_error) result" where
  "status_try_from v =
     (if v = 0 then Ok StAccepted else if v = 1 then Ok StApplied
      else if v = 2 then Ok StRejected else if v = 3 then Ok StInterlocked
      else if v = 4 then Ok StFault else if v = 5 then Ok StTimeout
      else Err (UnknownStatus v))"

record rpu_wire_command =
  wc_sequence :: u64
  wc_op :: rpu_wire_op
  wc_target :: rpu_wire_target
  wc_afe_board :: u8
  wc_afe_pl :: u8
  wc_channel :: u8
  wc_afe_channel :: u8
  wc_register :: u16
  wc_value :: u32
  wc_flags :: u32
  wc_payload :: "u8 list"

record rpu_wire_reply =
  wr_sequence :: u64
  wr_status :: rpu_wire_status
  wr_readback :: "u32 option"
  wr_heartbeat :: u64
  wr_fault_code :: u32
  wr_interlock_code :: u32

record rpu_wire_config_counts =
  cc_afe_count :: u16
  cc_channel_count :: u16
  cc_bias_control :: u16

record rpu_wire_afe_config =
  ac_afe_board :: u8
  ac_afe_pl :: u8
  ac_attenuation :: u16
  ac_bias :: u16
  ac_adc :: adc_config
  ac_pga :: pga_config
  ac_lna :: lna_config

record rpu_wire_channel_config =
  hc_channel :: u8
  hc_afe_board :: u8
  hc_afe_pl :: u8
  hc_afe_channel :: u8
  hc_trim :: u16
  hc_offset :: u16
  hc_gain :: u16

definition wf_wire_command :: "rpu_wire_command \<Rightarrow> bool" where
  "wf_wire_command c \<longleftrightarrow> length (wc_payload c) = RPU_WIRE_PAYLOAD_LEN"

definition rpu_wire_error_to_string :: "rpu_wire_error \<Rightarrow> string" where
  "rpu_wire_error_to_string e = (case e of
     BadLength expected actual \<Rightarrow>
       ''bad RPU wire length: expected '' @ fmt_nat expected @ '', got '' @ fmt_nat actual
   | BadMagic magic \<Rightarrow> ''bad RPU wire magic: 0x'' @ fmt_hex_upper 8 magic
   | BadAbi abi \<Rightarrow> ''unsupported RPU ABI version: '' @ fmt_dec abi
   | UnknownOp op \<Rightarrow> ''unknown RPU wire operation: '' @ fmt_dec op
   | UnknownTarget t \<Rightarrow> ''unknown RPU wire target: '' @ fmt_dec t
   | UnknownStatus s \<Rightarrow> ''unknown RPU wire status: '' @ fmt_dec s
   | UnsupportedCommand message \<Rightarrow> message
   | BadPayload message \<Rightarrow> ''bad RPU wire payload: '' @ message
   | PayloadTooLong field mx actual \<Rightarrow>
       field @ '' is too long: '' @ fmt_nat actual @ ''; max '' @ fmt_nat mx
   | WireValueOutOfRange field mx actual \<Rightarrow>
       field @ '' is out of range: '' @ fmt_dec actual @ ''; max '' @ fmt_dec mx)"

section \<open>Packing helpers\<close>

definition sequence_for_frame :: "u64 \<Rightarrow> nat \<Rightarrow> u64" where
  "sequence_for_frame first_sequence offset = max (first_sequence + word_of_nat offset) 1"

definition ensure_record_count :: "string \<Rightarrow> nat \<Rightarrow> (unit, rpu_wire_error) result" where
  "ensure_record_count field count =
     (if count > 65535 then Err (PayloadTooLong field 65535 count) else Ok ())"

definition require_op :: "rpu_wire_op \<Rightarrow> rpu_wire_op \<Rightarrow> (unit, rpu_wire_error) result" where
  "require_op actual expected =
     (if actual = expected then Ok ()
      else Err (BadPayload ''decoded helper used with wrong opcode''))"

definition require_u16 :: "string \<Rightarrow> u32 \<Rightarrow> (u16, rpu_wire_error) result" where
  "require_u16 field v =
     (if v \<le> 0xFFFF then Ok (ucast v) else Err (WireValueOutOfRange field 0xFFFF v))"

definition pack_u16_pair :: "u16 \<Rightarrow> u16 \<Rightarrow> u32" where
  "pack_u16_pair low high = ucast low OR push_bit 16 (ucast high)"

definition unpack_u16_pair :: "u32 \<Rightarrow> u16 \<times> u16" where
  "unpack_u16_pair v = (ucast (v AND 0xFFFF), ucast (drop_bit 16 v))"

definition set_function_name :: "u8 list \<Rightarrow> string \<Rightarrow> (u8 list, rpu_wire_error) result" where
  "set_function_name payload name =
     (let bytes = as_bytes name in
      if bytes = [] then Err (BadPayload ''AFE function name is empty'')
      else if length bytes > RPU_WIRE_FUNCTION_NAME_MAX
      then Err (PayloadTooLong ''AFE function name'' RPU_WIRE_FUNCTION_NAME_MAX (length bytes))
      else Ok (put_bytes (payload[0 := word_of_nat (length bytes)]) 1 bytes))"

definition pack_adc :: "adc_config \<Rightarrow> u8" where
  "pack_adc adc =
     of_flag (adc_resolution adc) OR push_bit 1 (of_flag (adc_output_format adc))
     OR push_bit 2 (of_flag (adc_msb_first adc))"

definition unpack_adc :: "u8 \<Rightarrow> adc_config" where
  "unpack_adc flags =
     \<lparr>adc_resolution = flags AND 0x01 \<noteq> 0, adc_output_format = flags AND 0x02 \<noteq> 0,
      adc_msb_first = flags AND 0x04 \<noteq> 0\<rparr>"

definition pack_pga_flags :: "pga_config \<Rightarrow> u8" where
  "pack_pga_flags pga =
     of_flag (pga_integrator_disable pga) OR push_bit 1 (of_flag (pga_gain pga))"

definition unpack_pga :: "u8 \<Rightarrow> u8 \<Rightarrow> pga_config" where
  "unpack_pga lpf flags =
     \<lparr>pga_lpf_cut_frequency = lpf, pga_integrator_disable = flags AND 0x01 \<noteq> 0,
      pga_gain = flags AND 0x02 \<noteq> 0\<rparr>"

definition unpack_lna :: "u8 \<Rightarrow> u8 \<Rightarrow> u8 \<Rightarrow> lna_config" where
  "unpack_lna clamp gain flags =
     \<lparr>lna_clamp = clamp, lna_gain = gain, lna_integrator_disable = flags AND 0x01 \<noteq> 0\<rparr>"

definition pack_afe_payload :: "u8 list \<Rightarrow> afe_frontend_config \<Rightarrow> u8 list" where
  "pack_afe_payload payload afe =
     payload[0 := pack_adc (fe_adc afe),
             1 := pga_lpf_cut_frequency (fe_pga afe),
             2 := pack_pga_flags (fe_pga afe),
             3 := lna_clamp (fe_lna afe),
             4 := lna_gain (fe_lna afe),
             5 := of_flag (lna_integrator_disable (fe_lna afe))]"

text \<open>\<open>str::from_utf8\<close>: the well-formed UTF-8 byte sequences.\<close>

definition utf8_cont :: "u8 \<Rightarrow> bool" where
  "utf8_cont b \<longleftrightarrow> 0x80 \<le> b \<and> b \<le> 0xBF"

fun utf8_valid :: "u8 list \<Rightarrow> bool" where
  "utf8_valid [] = True"
| "utf8_valid (b # bs) =
     (if b < 0x80 then utf8_valid bs
      else case bs of
        [] \<Rightarrow> False
      | c1 # r1 \<Rightarrow>
          if 0xC2 \<le> b \<and> b \<le> 0xDF then utf8_cont c1 \<and> utf8_valid r1
          else (case r1 of
            [] \<Rightarrow> False
          | c2 # r2 \<Rightarrow>
              if 0xE0 \<le> b \<and> b \<le> 0xEF
              then utf8_cont c1 \<and> utf8_cont c2 \<and> (b = 0xE0 \<longrightarrow> 0xA0 \<le> c1)
                   \<and> (b = 0xED \<longrightarrow> c1 \<le> 0x9F) \<and> utf8_valid r2
              else (case r2 of
                [] \<Rightarrow> False
              | c3 # r3 \<Rightarrow>
                  0xF0 \<le> b \<and> b \<le> 0xF4 \<and> utf8_cont c1 \<and> utf8_cont c2 \<and> utf8_cont c3
                  \<and> (b = 0xF0 \<longrightarrow> 0x90 \<le> c1) \<and> (b = 0xF4 \<longrightarrow> c1 \<le> 0x8F) \<and> utf8_valid r3)))"

section \<open>Commands to frames\<close>

definition wire_status :: "u64 \<Rightarrow> rpu_wire_command" where
  "wire_status sequence =
     \<lparr>wc_sequence = sequence, wc_op = OpStatus, wc_target = TgtNone, wc_afe_board = 0,
      wc_afe_pl = 0, wc_channel = 0, wc_afe_channel = 0, wc_register = 0, wc_value = 0,
      wc_flags = 0, wc_payload = replicate RPU_WIRE_PAYLOAD_LEN 0\<rparr>"

definition set_afe :: "afe_id \<Rightarrow> rpu_wire_command \<Rightarrow> rpu_wire_command" where
  "set_afe a w = w\<lparr>wc_target := TgtAfe, wc_afe_board := id_board a, wc_afe_pl := id_pl a\<rparr>"

definition set_channel :: "channel_id \<Rightarrow> rpu_wire_command \<Rightarrow> rpu_wire_command" where
  "set_channel c w =
     w\<lparr>wc_target := TgtChannel, wc_channel := ch_channel c, wc_afe_board := id_board (ch_afe c),
       wc_afe_pl := id_pl (ch_afe c), wc_afe_channel := ch_afe_channel c\<rparr>"

definition set_channel_target :: "channel_target \<Rightarrow> rpu_wire_command \<Rightarrow> rpu_wire_command" where
  "set_channel_target t w = (case t of
     TargetOne c \<Rightarrow> set_channel c w
   | TargetAfe a \<Rightarrow> set_afe a w
   | TargetAll \<Rightarrow> w\<lparr>wc_target := TgtAll\<rparr>)"

definition frame_count_for_afe_command :: "afe_command \<Rightarrow> (nat, rpu_wire_error) result" where
  "frame_count_for_afe_command command = (case command of
     ConfigureFrontend afes channels _ \<Rightarrow>
       and_then (ensure_record_count ''AFE config'' (length afes)) (\<lambda>_.
       and_then (ensure_record_count ''channel config'' (length channels)) (\<lambda>_.
       Ok (2 + length afes + length channels)))
   | _ \<Rightarrow> Ok 1)"

definition from_afe_command ::
    "u64 \<Rightarrow> afe_command \<Rightarrow> (rpu_wire_command, rpu_wire_error) result" where
  "from_afe_command sequence command = (let wire = wire_status sequence in case command of
     ReadRegister afe register \<Rightarrow>
       Ok ((set_afe afe (wire\<lparr>wc_op := OpReadRegister\<rparr>))\<lparr>wc_register := ucast register\<rparr>)
   | WriteRegister afe register v \<Rightarrow>
       Ok ((set_afe afe (wire\<lparr>wc_op := OpWriteRegister\<rparr>))
             \<lparr>wc_register := ucast register, wc_value := ucast v\<rparr>)
   | ReadAttenuation afe \<Rightarrow> Ok (set_afe afe (wire\<lparr>wc_op := OpReadAttenuation\<rparr>))
   | SetAttenuation afe v \<Rightarrow>
       Ok ((set_afe afe (wire\<lparr>wc_op := OpSetAttenuation\<rparr>))\<lparr>wc_value := ucast v\<rparr>)
   | ReadBias afe \<Rightarrow> Ok (set_afe afe (wire\<lparr>wc_op := OpReadBias\<rparr>))
   | SetBias afe v \<Rightarrow> Ok ((set_afe afe (wire\<lparr>wc_op := OpSetBias\<rparr>))\<lparr>wc_value := ucast v\<rparr>)
   | ReadTrim t \<Rightarrow> Ok (set_channel_target t (wire\<lparr>wc_op := OpReadTrim\<rparr>))
   | SetTrim t v gain \<Rightarrow>
       Ok ((set_channel_target t (wire\<lparr>wc_op := OpSetTrim\<rparr>))
             \<lparr>wc_value := ucast v, wc_flags := of_flag gain\<rparr>)
   | ReadOffset t \<Rightarrow> Ok (set_channel_target t (wire\<lparr>wc_op := OpReadOffset\<rparr>))
   | SetOffset t v gain \<Rightarrow>
       Ok ((set_channel_target t (wire\<lparr>wc_op := OpSetOffset\<rparr>))
             \<lparr>wc_value := ucast v, wc_flags := of_flag gain\<rparr>)
   | ReadVbiasControl \<Rightarrow> Ok (wire\<lparr>wc_op := OpReadVbiasControl\<rparr>)
   | SetVbiasControl v enable \<Rightarrow>
       Ok (wire\<lparr>wc_op := OpSetVbiasControl, wc_value := ucast v, wc_flags := of_flag enable\<rparr>)
   | SetReset asserted \<Rightarrow> Ok (wire\<lparr>wc_op := OpSetReset, wc_flags := of_flag asserted\<rparr>)
   | DoReset \<Rightarrow> Ok (wire\<lparr>wc_op := OpDoReset\<rparr>)
   | SetPowerState enabled \<Rightarrow>
       Ok (wire\<lparr>wc_op := OpSetPowerState, wc_flags := of_flag enabled\<rparr>)
   | Align \<Rightarrow> Ok (wire\<lparr>wc_op := OpAlign\<rparr>)
   | WriteFunction afe name v \<Rightarrow>
       (let w = (set_afe afe (wire\<lparr>wc_op := OpWriteFunction\<rparr>))\<lparr>wc_value := ucast v\<rparr>
        in and_then (set_function_name (wc_payload w) name) (\<lambda>p. Ok (w\<lparr>wc_payload := p\<rparr>)))
   | ReadAlignment afe \<Rightarrow> Ok (set_afe afe (wire\<lparr>wc_op := OpReadAlignment\<rparr>))
   | ConfigureFrontend _ _ _ \<Rightarrow>
       Err (UnsupportedCommand
              ''configure-frontend requires a multi-frame RPU config sequence''))"

definition configure_afe_frame :: "u64 \<Rightarrow> afe_frontend_config \<Rightarrow> rpu_wire_command" where
  "configure_afe_frame sequence afe =
     (let frame = (set_afe (fe_afe afe) ((wire_status sequence)\<lparr>wc_op := OpConfigureAfe\<rparr>))
            \<lparr>wc_value := ucast (fe_attenuation afe), wc_flags := ucast (fe_bias afe)\<rparr>
      in frame\<lparr>wc_payload := pack_afe_payload (wc_payload frame) afe\<rparr>)"

definition configure_channel_frame :: "u64 \<Rightarrow> channel_frontend_config \<Rightarrow> rpu_wire_command" where
  "configure_channel_frame sequence ch =
     (set_channel (fc_channel ch) ((wire_status sequence)\<lparr>wc_op := OpConfigureChannel\<rparr>))
       \<lparr>wc_value := ucast (fc_trim ch), wc_flags := pack_u16_pair (fc_offset ch) (fc_gain ch)\<rparr>"

text \<open>The vector \<open>frames\<close> grows by one frame per step; its length numbers the next frame.\<close>

definition push_frames ::
    "u64 \<Rightarrow> (u64 \<Rightarrow> 'r \<Rightarrow> rpu_wire_command) \<Rightarrow> 'r list \<Rightarrow> rpu_wire_command list \<Rightarrow> rpu_wire_command list" where
  "push_frames first_sequence mk recs frames =
     foldl (\<lambda>fs r. fs @ [mk (sequence_for_frame first_sequence (length fs)) r]) frames recs"

definition configure_frontend_sequence ::
    "u64 \<Rightarrow> afe_frontend_config list \<Rightarrow> channel_frontend_config list \<Rightarrow> u16
     \<Rightarrow> (rpu_wire_command list, rpu_wire_error) result" where
  "configure_frontend_sequence first_sequence afes channels bias_control =
     and_then (ensure_record_count ''AFE config'' (length afes)) (\<lambda>_.
     and_then (ensure_record_count ''channel config'' (length channels)) (\<lambda>_.
       let counts = pack_u16_pair (word_of_nat (length afes)) (word_of_nat (length channels));
           begin_frame = (wire_status (sequence_for_frame first_sequence 0))
             \<lparr>wc_op := OpBeginConfigureFrontend, wc_value := ucast bias_control,
              wc_flags := counts\<rparr>;
           frames = push_frames first_sequence configure_afe_frame afes [begin_frame];
           frames' = push_frames first_sequence configure_channel_frame channels frames;
           apply_frame = (wire_status (sequence_for_frame first_sequence (length frames')))
             \<lparr>wc_op := OpApplyConfigureFrontend, wc_flags := counts\<rparr>
       in Ok (frames' @ [apply_frame])))"

definition from_afe_command_sequence ::
    "u64 \<Rightarrow> afe_command \<Rightarrow> (rpu_wire_command list, rpu_wire_error) result" where
  "from_afe_command_sequence first_sequence command = (case command of
     ConfigureFrontend afes channels bias_control \<Rightarrow>
       configure_frontend_sequence first_sequence afes channels bias_control
   | _ \<Rightarrow> and_then (from_afe_command first_sequence command) (\<lambda>f. Ok [f]))"

section \<open>Encoding and decoding\<close>

definition encode_command :: "rpu_wire_command \<Rightarrow> u8 list" where
  "encode_command c =
     (let out = replicate RPU_WIRE_COMMAND_LEN 0;
          out = put_u32 out 0 RPU_WIRE_MAGIC;
          out = put_u16 out 4 RPU_WIRE_ABI_VERSION;
          out = put_u16 out 6 (op_code (wc_op c));
          out = put_u64 out 8 (wc_sequence c);
          out = out[16 := target_code (wc_target c)];
          out = out[17 := wc_afe_board c];
          out = out[18 := wc_afe_pl c];
          out = out[19 := wc_channel c];
          out = out[20 := wc_afe_channel c];
          out = put_u16 out 22 (wc_register c);
          out = put_u32 out 24 (wc_value c);
          out = put_u32 out 28 (wc_flags c);
          out = put_bytes out 32 (wc_payload c)
      in out)"

definition decode_command :: "u8 list \<Rightarrow> (rpu_wire_command, rpu_wire_error) result" where
  "decode_command input =
     (if length input \<noteq> RPU_WIRE_COMMAND_LEN
      then Err (BadLength RPU_WIRE_COMMAND_LEN (length input))
      else if get_u32 input 0 \<noteq> RPU_WIRE_MAGIC then Err (BadMagic (get_u32 input 0))
      else if get_u16 input 4 \<noteq> RPU_WIRE_ABI_VERSION then Err (BadAbi (get_u16 input 4))
      else and_then (op_try_from (get_u16 input 6)) (\<lambda>op.
           and_then (target_try_from (input ! 16)) (\<lambda>target.
           Ok \<lparr>wc_sequence = get_u64 input 8, wc_op = op, wc_target = target,
               wc_afe_board = input ! 17, wc_afe_pl = input ! 18, wc_channel = input ! 19,
               wc_afe_channel = input ! 20, wc_register = get_u16 input 22,
               wc_value = get_u32 input 24, wc_flags = get_u32 input 28,
               wc_payload = take 32 (drop 32 input)\<rparr>)))"

definition encode_reply :: "rpu_wire_reply \<Rightarrow> u8 list" where
  "encode_reply r =
     (let out = replicate RPU_WIRE_REPLY_LEN 0;
          out = put_u32 out 0 RPU_WIRE_MAGIC;
          out = put_u16 out 4 RPU_WIRE_ABI_VERSION;
          out = put_u16 out 6 (status_code (wr_status r));
          out = put_u64 out 8 (wr_sequence r);
          out = put_u32 out 16 (case wr_readback r of None \<Rightarrow> 0 | Some v \<Rightarrow> v);
          out = put_u32 out 20 (of_flag (wr_readback r \<noteq> None));
          out = put_u64 out 24 (wr_heartbeat r);
          out = put_u32 out 32 (wr_fault_code r);
          out = put_u32 out 36 (wr_interlock_code r)
      in out)"

definition decode_reply :: "u8 list \<Rightarrow> (rpu_wire_reply, rpu_wire_error) result" where
  "decode_reply input =
     (if length input \<noteq> RPU_WIRE_REPLY_LEN
      then Err (BadLength RPU_WIRE_REPLY_LEN (length input))
      else if get_u32 input 0 \<noteq> RPU_WIRE_MAGIC then Err (BadMagic (get_u32 input 0))
      else if get_u16 input 4 \<noteq> RPU_WIRE_ABI_VERSION then Err (BadAbi (get_u16 input 4))
      else let readback = (if get_u32 input 20 = 0 then None else Some (get_u32 input 16)) in
           and_then (status_try_from (get_u16 input 6)) (\<lambda>status.
           Ok \<lparr>wr_sequence = get_u64 input 8, wr_status = status, wr_readback = readback,
               wr_heartbeat = get_u64 input 24, wr_fault_code = get_u32 input 32,
               wr_interlock_code = get_u32 input 36\<rparr>))"

section \<open>Accessors of decoded frames\<close>

definition configure_counts ::
    "rpu_wire_command \<Rightarrow> (rpu_wire_config_counts, rpu_wire_error) result" where
  "configure_counts c =
     and_then (require_op (wc_op c) OpBeginConfigureFrontend) (\<lambda>_.
       let (afe_count, channel_count) = unpack_u16_pair (wc_flags c) in
       and_then (require_u16 ''bias_control'' (wc_value c)) (\<lambda>bias_control.
       Ok \<lparr>cc_afe_count = afe_count, cc_channel_count = channel_count,
           cc_bias_control = bias_control\<rparr>))"

definition wire_afe_config ::
    "rpu_wire_command \<Rightarrow> (rpu_wire_afe_config, rpu_wire_error) result" where
  "wire_afe_config c =
     and_then (require_op (wc_op c) OpConfigureAfe) (\<lambda>_.
     and_then (require_u16 ''attenuation'' (wc_value c)) (\<lambda>attenuation.
     and_then (require_u16 ''bias'' (wc_flags c)) (\<lambda>bias.
     Ok \<lparr>ac_afe_board = wc_afe_board c, ac_afe_pl = wc_afe_pl c, ac_attenuation = attenuation,
         ac_bias = bias, ac_adc = unpack_adc (wc_payload c ! 0),
         ac_pga = unpack_pga (wc_payload c ! 1) (wc_payload c ! 2),
         ac_lna = unpack_lna (wc_payload c ! 3) (wc_payload c ! 4) (wc_payload c ! 5)\<rparr>)))"

definition wire_channel_config ::
    "rpu_wire_command \<Rightarrow> (rpu_wire_channel_config, rpu_wire_error) result" where
  "wire_channel_config c =
     and_then (require_op (wc_op c) OpConfigureChannel) (\<lambda>_.
       let (offset, gain) = unpack_u16_pair (wc_flags c) in
       and_then (require_u16 ''trim'' (wc_value c)) (\<lambda>trim.
       Ok \<lparr>hc_channel = wc_channel c, hc_afe_board = wc_afe_board c, hc_afe_pl = wc_afe_pl c,
           hc_afe_channel = wc_afe_channel c, hc_trim = trim, hc_offset = offset,
           hc_gain = gain\<rparr>))"

definition function_name :: "rpu_wire_command \<Rightarrow> (string, rpu_wire_error) result" where
  "function_name c =
     and_then (require_op (wc_op c) OpWriteFunction) (\<lambda>_.
       let len = unat (wc_payload c ! 0) in
       if len = 0 \<or> len > RPU_WIRE_FUNCTION_NAME_MAX
       then Err (BadPayload ''invalid AFE function name length'')
       else let bytes = take len (drop 1 (wc_payload c)) in
         if utf8_valid bytes then Ok (from_bytes bytes)
         else Err (BadPayload ''AFE function name is not UTF-8''))"

end
