(* ===== verification/RpuWireFacts.thy ===== *)
theory RpuWireFacts
  imports RpuWire
begin

text \<open>
  What the frame codec of \<open>rpu_wire.rs\<close> guarantees: the byte layout of a frame, the round
  trips of commands and replies, what the decoder accepts, that a frame determines the
  command it was made from, and the shape and contents of a configuration sequence.
\<close>

section \<open>Opcodes, targets, status codes\<close>

lemma op_roundtrip [simp]: "op_try_from (op_code op) = Ok op"
  by (cases op) (simp_all add: op_code_def op_try_from_def)

lemma target_roundtrip [simp]: "target_try_from (target_code t) = Ok t"
  by (cases t) (simp_all add: target_code_def target_try_from_def)

lemma status_roundtrip [simp]: "status_try_from (status_code s) = Ok s"
  by (cases s) (simp_all add: status_code_def status_try_from_def)

lemma op_try_from_Ok: "op_try_from v = Ok op \<Longrightarrow> op_code op = v"
  by (simp add: op_try_from_def split: if_splits) (auto simp: op_code_def)

lemma target_try_from_Ok: "target_try_from v = Ok t \<Longrightarrow> target_code t = v"
  by (simp add: target_try_from_def target_code_def split: if_splits; auto)

lemma status_try_from_Ok: "status_try_from v = Ok s \<Longrightarrow> status_code s = v"
  by (simp add: status_try_from_def status_code_def split: if_splits; auto)

section \<open>Reading back fields of a layout\<close>

lemma list_update_put_bytes: "i < length out \<Longrightarrow> out[i := v] = put_bytes out i [v]"
  by (simp add: put_bytes_def upd_conv_take_nth_drop)

named_theorems layout_simps \<open>reading a field of a concatenation of fields\<close>

lemma get_here [layout_simps]:
  "get_u16 (le_bytes 2 a @ ys) 0 = a" "get_u32 (le_bytes 4 b @ ys) 0 = b"
  "get_u64 (le_bytes 8 c @ ys) 0 = c"
proof -
  have "from_le (le_bytes 2 a) = a" "from_le (le_bytes 4 b) = b" "from_le (le_bytes 8 c) = c"
    by (rule from_le_bytes, simp)+
  then show "get_u16 (le_bytes 2 a @ ys) 0 = a" "get_u32 (le_bytes 4 b @ ys) 0 = b"
    "get_u64 (le_bytes 8 c @ ys) 0 = c"
    unfolding get_u16_def get_u32_def get_u64_def le_bytes_numeral by simp_all
qed

lemma get_skip [layout_simps]:
  "length xs \<le> off \<Longrightarrow> get_u16 (xs @ ys) off = get_u16 ys (off - length xs)"
  "length xs \<le> off \<Longrightarrow> get_u32 (xs @ ys) off = get_u32 ys (off - length xs)"
  "length xs \<le> off \<Longrightarrow> get_u64 (xs @ ys) off = get_u64 ys (off - length xs)"
  by (simp_all add: get_u16_def get_u32_def get_u64_def nth_append Suc_diff_le)

lemma get_skip_Cons [layout_simps]:
  "0 < off \<Longrightarrow> get_u16 (x # ys) off = get_u16 ys (off - 1)"
  "0 < off \<Longrightarrow> get_u32 (x # ys) off = get_u32 ys (off - 1)"
  "0 < off \<Longrightarrow> get_u64 (x # ys) off = get_u64 ys (off - 1)"
  by (simp_all add: get_u16_def get_u32_def get_u64_def nth_Cons')

lemma le_bytes_get:
  "off + 2 \<le> length xs \<Longrightarrow> le_bytes 2 (get_u16 xs off) = take 2 (drop off xs)"
  "off + 4 \<le> length xs \<Longrightarrow> le_bytes 4 (get_u32 xs off) = take 4 (drop off xs)"
  "off + 8 \<le> length xs \<Longrightarrow> le_bytes 8 (get_u64 xs off) = take 8 (drop off xs)"
  unfolding get_u16_def get_u32_def get_u64_def
  by (subst le_bytes_from_le; simp add: list_eq_iff_nth_eq nth_Cons' less_Suc_eq numeral_eq_Suc; fail)+

lemma take_drop_chunk: "k + m = n \<Longrightarrow> take m (drop k xs) @ drop n xs = drop k xs"
  by (metis add.commute append_take_drop_id drop_drop)

section \<open>The byte layout\<close>

lemma encode_command_layout:
  assumes "wf_wire_command c"
  shows "encode_command c =
    le_bytes 4 RPU_WIRE_MAGIC @ le_bytes 2 RPU_WIRE_ABI_VERSION @ le_bytes 2 (op_code (wc_op c))
    @ le_bytes 8 (wc_sequence c)
    @ [target_code (wc_target c), wc_afe_board c, wc_afe_pl c, wc_channel c, wc_afe_channel c, 0]
    @ le_bytes 2 (wc_register c) @ le_bytes 4 (wc_value c) @ le_bytes 4 (wc_flags c)
    @ wc_payload c"
  using assms unfolding encode_command_def wf_wire_command_def Let_def wire_const_defs
  by (simp add: list_update_put_bytes put_u16_def put_u32_def put_u64_def put_bytes_def
      del: le_bytes.simps)

lemma wf_wire_status [simp]: "wf_wire_command (wire_status n)"
  by (simp add: wf_wire_command_def wire_status_def)

lemma wf_wire_command_update [simp]:
  "wf_wire_command (w\<lparr>wc_op := p\<rparr>) = wf_wire_command w"
  "wf_wire_command (w\<lparr>wc_value := v\<rparr>) = wf_wire_command w"
  "wf_wire_command (w\<lparr>wc_flags := v\<rparr>) = wf_wire_command w"
  by (simp_all add: wf_wire_command_def)

lemma length_encode_command [simp]: "wf_wire_command c \<Longrightarrow> length (encode_command c) = 64"
  by (simp add: encode_command_layout wf_wire_command_def wire_const_defs)

lemma encode_reply_layout:
  "encode_reply r =
    le_bytes 4 RPU_WIRE_MAGIC @ le_bytes 2 RPU_WIRE_ABI_VERSION
    @ le_bytes 2 (status_code (wr_status r)) @ le_bytes 8 (wr_sequence r)
    @ le_bytes 4 (case wr_readback r of None \<Rightarrow> 0 | Some v \<Rightarrow> v)
    @ le_bytes 4 (of_flag (wr_readback r \<noteq> None) :: u32) @ le_bytes 8 (wr_heartbeat r)
    @ le_bytes 4 (wr_fault_code r) @ le_bytes 4 (wr_interlock_code r) @ replicate 24 0"
  unfolding encode_reply_def Let_def wire_const_defs
  by (simp add: put_u16_def put_u32_def put_u64_def put_bytes_def del: le_bytes.simps)

lemma length_encode_reply [simp]: "length (encode_reply r) = 64"
  by (simp add: encode_reply_layout)

section \<open>Round trips\<close>

lemma command_decode_encode:
  assumes "wf_wire_command c"
  shows "decode_command (encode_command c) = Ok c"
proof -
  have "length (encode_command c) = 64" using assms by simp
  moreover have "length (wc_payload c) = 32"
    using assms by (simp add: wf_wire_command_def wire_const_defs)
  ultimately show ?thesis
    unfolding decode_command_def wire_const_defs encode_command_layout [OF assms]
    by (simp add: layout_simps nth_append del: le_bytes.simps)
qed

text \<open>C31: every command survives the wire: encoding a command (with its 32-byte payload) gives a
  64-byte frame that decodes to the same command, whatever its fields.\<close>

theorem command_roundtrip:
  assumes "wf_wire_command c"
  shows "decode_command (encode_command c) = Ok c"
  using assms by (rule command_decode_encode)

theorem command_roundtrip_witness:
  "decode_command (encode_command (wire_status 5)) = Ok (wire_status 5)"
  by (rule command_roundtrip) simp

lemma reply_decode_encode: "decode_reply (encode_reply r) = Ok r"
proof -
  have "length (encode_reply r) = 64" by simp
  then show ?thesis
    unfolding decode_reply_def wire_const_defs Let_def
    apply simp
    unfolding encode_reply_layout
    by (cases "wr_readback r") (simp_all add: layout_simps del: le_bytes.simps)
qed

text \<open>Every reply survives the wire, a missing readback and a readback of zero told apart.\<close>

theorem reply_roundtrip: "decode_reply (encode_reply r) = Ok r"
  by (rule reply_decode_encode)

text \<open>C32: the decoder accepts exactly the 64-byte inputs that carry the magic, the ABI version, a
  known operation and a known target; the checks are made in this order.\<close>

theorem decode_command_accepts:
  "is_ok (decode_command bs) \<longleftrightarrow>
     length bs = 64 \<and> get_u32 bs 0 = RPU_WIRE_MAGIC \<and> get_u16 bs 4 = RPU_WIRE_ABI_VERSION
     \<and> get_u16 bs 6 < 23 \<and> bs ! 16 < 4"
proof -
  have op: "is_ok (op_try_from v) \<longleftrightarrow> v < 23" for v
  proof
    show "v < 23" if "is_ok (op_try_from v)"
      using that by (cases "op_try_from v"; cases "unwrap (op_try_from v)")
        (auto simp: op_code_def dest!: op_try_from_Ok)
    have "list_all (\<lambda>n. is_ok (op_try_from (word_of_nat n))) [0..<23]" by code_simp
    then have "\<forall>n < 23. is_ok (op_try_from (word_of_nat n))" by (simp add: list_all_iff)
    moreover have "v = word_of_nat (unat v)" by simp
    moreover have "unat v < 23" if "v < 23" using that by (simp add: word_less_nat_alt)
    ultimately show "is_ok (op_try_from v)" if "v < 23"
      using that by metis
  qed
  have tgt: "is_ok (target_try_from v) \<longleftrightarrow> v < 4" for v
  proof
    show "is_ok (target_try_from v)" if "v < 4"
      using that word_less_5_cases [of v]
      by (auto simp: target_try_from_def word_less_nat_alt)
    show "v < 4" if "is_ok (target_try_from v)"
      using that by (simp add: target_try_from_def split: if_splits)
  qed
  show ?thesis
    using op [of "get_u16 bs 6"] tgt [of "bs ! 16"]
    unfolding decode_command_def wire_const_defs
    by (cases "op_try_from (get_u16 bs 6)"; cases "target_try_from (bs ! 16)") auto
qed

text \<open>The decoder loses nothing but the reserved byte 21: re-encoding a decoded frame gives
  the input back with that byte cleared.\<close>

theorem decode_command_reencodes:
  assumes "decode_command bs = Ok c"
  shows "wf_wire_command c \<and> encode_command c = bs[21 := 0]"
proof -
  from assms have len: "length bs = 64" and m: "get_u32 bs 0 = RPU_WIRE_MAGIC"
    and a: "get_u16 bs 4 = RPU_WIRE_ABI_VERSION"
    by (auto simp: decode_command_def wire_const_defs split: if_splits)
  from assms len m a obtain op t
    where op: "op_code op = get_u16 bs 6" and t: "target_code t = bs ! 16"
      and c: "c = \<lparr>wc_sequence = get_u64 bs 8, wc_op = op, wc_target = t,
               wc_afe_board = bs ! 17, wc_afe_pl = bs ! 18, wc_channel = bs ! 19,
               wc_afe_channel = bs ! 20, wc_register = get_u16 bs 22,
               wc_value = get_u32 bs 24, wc_flags = get_u32 bs 28,
               wc_payload = take 32 (drop 32 bs)\<rparr>"
    by (auto simp: decode_command_def wire_const_defs and_then_Ok_iff
        dest!: op_try_from_Ok target_try_from_Ok)
  have wf: "wf_wire_command c"
    using len by (simp add: c wf_wire_command_def wire_const_defs)
  have five: "[bs ! 16, bs ! 17, bs ! 18, bs ! 19, bs ! 20] = take 5 (drop 16 bs)"
    using len by (simp add: list_eq_iff_nth_eq nth_Cons' less_Suc_eq numeral_eq_Suc)
  have "encode_command c =
      take 4 (drop 0 bs) @ take 2 (drop 4 bs) @ take 2 (drop 6 bs) @ take 8 (drop 8 bs)
      @ take 5 (drop 16 bs) @ [0] @ take 2 (drop 22 bs) @ take 4 (drop 24 bs)
      @ take 4 (drop 28 bs) @ take 32 (drop 32 bs)"
    unfolding encode_command_layout [OF wf] five [symmetric] using len
    by (simp add: c op t le_bytes_get m [symmetric] a [symmetric] del: le_bytes.simps)
  also have "\<dots> = take 21 bs @ [0] @ drop 22 bs"
  proof -
    have "take 32 (drop 32 bs) = drop 32 bs" using len by simp
    moreover have "take 4 (drop 28 bs) @ drop 32 bs = drop 28 bs"
      "take 4 (drop 24 bs) @ drop 28 bs = drop 24 bs"
      "take 2 (drop 22 bs) @ drop 24 bs = drop 22 bs"
      by (rule take_drop_chunk, simp)+
    moreover have "take 4 (drop 0 bs) @ take 2 (drop 4 bs) @ take 2 (drop 6 bs)
        @ take 8 (drop 8 bs) @ take 5 (drop 16 bs) = take 21 bs"
      using take_add [of 16 5 bs] take_add [of 8 8 bs] take_add [of 6 2 bs]
        take_add [of 4 2 bs] by simp
    ultimately show ?thesis by (metis append.assoc)
  qed
  also have "\<dots> = bs[21 := 0]"
    using len by (simp add: upd_conv_take_nth_drop)
  finally show ?thesis using wf by simp
qed

theorem decode_command_reencodes_witness:
  "\<exists>bs c. decode_command bs = Ok c \<and> encode_command c = bs[21 := 0] \<and> bs ! 21 = 7"
proof -
  define bs where "bs = (encode_command (wire_status 5))[21 := 7]"
  have "length (encode_command (wire_status 5)) = 64" by simp
  moreover have "decode_command bs = Ok (wire_status 5)"
    unfolding bs_def decode_command_def wire_const_defs
    apply simp
    unfolding encode_command_layout [OF wf_wire_status]
    by (simp add: layout_simps list_update_append nth_append wire_status_def wire_const_defs
        del: le_bytes.simps)
  ultimately have "encode_command (wire_status 5) = bs[21 := 0]" and "bs ! 21 = 7"
    and "decode_command bs = Ok (wire_status 5)"
    using decode_command_reencodes [of bs "wire_status 5"] by (simp_all add: bs_def)
  then show ?thesis by blast
qed

section \<open>A frame determines its command\<close>

lemma ucast_up_down [simp]:
  "LENGTH('a::len) \<le> LENGTH('b::len) \<Longrightarrow> ucast (ucast (w :: 'a word) :: 'b word) = w"
  by (rule bit_word_eqI) (simp add: bit_simps)

lemma set_function_name_Ok:
  assumes "set_function_name payload name = Ok q" and "length payload = 32"
  shows "unat (q ! 0) = length name" and "0 < length name" and "length name \<le> 31"
    and "take (length name) (drop 1 q) = as_bytes name" and "length q = 32"
proof -
  from assms(1) have q: "q = put_bytes (payload[0 := word_of_nat (length name)]) 1 (as_bytes name)"
    and len: "0 < length name" "length name \<le> 31"
    by (auto simp: set_function_name_def wire_const_defs Let_def as_bytes_def split: if_splits)
  show "0 < length name" "length name \<le> 31" using len .
  show "length q = 32" using assms(2) len by (simp add: q)
  show "unat (q ! 0) = length name"
    using assms(2) len by (simp add: q nth_put_bytes unat_of_nat)
  show "take (length name) (drop 1 q) = as_bytes name"
    using assms(2) len by (simp add: q put_bytes_def)
qed

text \<open>The channel target and the command a frame stands for.\<close>

definition frame_target :: "rpu_wire_command \<Rightarrow> channel_target" where
  "frame_target f = (let a = \<lparr>id_board = wc_afe_board f, id_pl = wc_afe_pl f\<rparr> in
     case wc_target f of
       TgtChannel \<Rightarrow> TargetOne \<lparr>ch_channel = wc_channel f, ch_afe = a, ch_afe_channel = wc_afe_channel f\<rparr>
     | TgtAfe \<Rightarrow> TargetAfe a
     | _ \<Rightarrow> TargetAll)"

definition frame_command :: "rpu_wire_command \<Rightarrow> afe_command" where
  "frame_command f = (let a = \<lparr>id_board = wc_afe_board f, id_pl = wc_afe_pl f\<rparr>; t = frame_target f;
       v = ucast (wc_value f); b = (wc_flags f \<noteq> 0) in
     case wc_op f of
       OpReadRegister \<Rightarrow> ReadRegister a (ucast (wc_register f))
     | OpWriteRegister \<Rightarrow> WriteRegister a (ucast (wc_register f)) v
     | OpReadAttenuation \<Rightarrow> ReadAttenuation a
     | OpSetAttenuation \<Rightarrow> SetAttenuation a v
     | OpReadBias \<Rightarrow> ReadBias a
     | OpSetBias \<Rightarrow> SetBias a v
     | OpReadTrim \<Rightarrow> ReadTrim t
     | OpSetTrim \<Rightarrow> SetTrim t v b
     | OpReadOffset \<Rightarrow> ReadOffset t
     | OpSetOffset \<Rightarrow> SetOffset t v b
     | OpReadVbiasControl \<Rightarrow> ReadVbiasControl
     | OpSetVbiasControl \<Rightarrow> SetVbiasControl v b
     | OpSetReset \<Rightarrow> SetReset b
     | OpDoReset \<Rightarrow> DoReset
     | OpSetPowerState \<Rightarrow> SetPowerState b
     | OpWriteFunction \<Rightarrow>
         WriteFunction a (from_bytes (take (unat (wc_payload f ! 0)) (drop 1 (wc_payload f)))) v
     | OpReadAlignment \<Rightarrow> ReadAlignment a
     | _ \<Rightarrow> Align)"

lemma frame_target_set [simp]:
  "frame_target (set_channel_target t w\<lparr>wc_value := v, wc_flags := g\<rparr>) = t"
  "frame_target (set_channel_target t w) = t"
  if "wc_target w = TgtNone"
  using that by (cases t; simp add: frame_target_def set_channel_target_def set_channel_def set_afe_def)+

lemmas set_target_defs = set_channel_target_def set_channel_def set_afe_def

lemma set_channel_target_fields [simp]:
  "wc_op (set_channel_target t w) = wc_op w" "wc_value (set_channel_target t w) = wc_value w"
  "wc_flags (set_channel_target t w) = wc_flags w"
  "wc_payload (set_channel_target t w) = wc_payload w"
  "wc_sequence (set_channel_target t w) = wc_sequence w"
  "wc_register (set_channel_target t w) = wc_register w"
  by (cases t; simp add: set_target_defs)+

lemma length_wire_payload [simp]: "length (wc_payload (wire_status n)) = 32"
  by (simp add: wire_status_def wire_const_defs)

lemma from_afe_command_wf:
  assumes "from_afe_command s c = Ok f"
  shows "wf_wire_command f" and "wc_sequence f = s"
proof -
  have "wf_wire_command f \<and> wc_sequence f = s"
    using assms
    by (cases c) (auto simp: from_afe_command_def Let_def wf_wire_command_def wire_const_defs
        and_then_Ok_iff set_afe_def wire_status_def
        dest!: set_function_name_Ok(5))
  then show "wf_wire_command f" and "wc_sequence f = s" by simp_all
qed

lemma frame_command_inverse:
  assumes "from_afe_command s c = Ok f"
  shows "frame_command f = c"
proof (cases c)
  case (WriteFunction a n v)
  from assms obtain q where q: "set_function_name (replicate 32 0) n = Ok q"
    and f: "f = (set_afe a (wire_status s\<lparr>wc_op := OpWriteFunction\<rparr>))
                  \<lparr>wc_value := ucast v, wc_payload := q\<rparr>"
    by (auto simp: WriteFunction from_afe_command_def Let_def and_then_Ok_iff set_afe_def
        wire_status_def wire_const_defs)
  from set_function_name_Ok(1,4) [OF q] show ?thesis
    by (simp add: f WriteFunction frame_command_def set_afe_def)
qed (use assms in \<open>auto simp: from_afe_command_def frame_command_def Let_def set_afe_def
  wire_status_def\<close>)

text \<open>C15: no two AFE commands share a frame: a frame produced by \<open>from_afe_command\<close> carries every
  argument of the command (identifiers, register, value, flag, channel target, function name), so
  equal frames come from equal commands.\<close>

theorem frame_determines_command:
  assumes "from_afe_command s a = Ok f" and "from_afe_command s b = Ok f"
  shows "a = b"
  using frame_command_inverse [OF assms(1)] frame_command_inverse [OF assms(2)] by simp

theorem frame_determines_command_witness:
  "from_afe_command 9 (SetVbiasControl 5 True) \<noteq> from_afe_command 9 (SetVbiasControl 5 False)"
proof
  assume eq: "from_afe_command 9 (SetVbiasControl 5 True) = from_afe_command 9 (SetVbiasControl 5 False)"
  obtain f where f: "from_afe_command 9 (SetVbiasControl 5 True) = Ok f"
    by (simp add: from_afe_command_def)
  from frame_determines_command [OF f] f eq show False by fastforce
qed

text \<open>An AFE function name of 1 to 31 UTF-8 bytes written into a frame is read back unchanged
  by \<open>function_name\<close> once the frame has been encoded and decoded.\<close>

theorem function_name_roundtrip:
  assumes "from_afe_command s (WriteFunction a name v) = Ok f"
    and "utf8_valid (as_bytes name)"
  shows "and_then (decode_command (encode_command f)) function_name = Ok name"
proof -
  from assms(1) obtain q where q: "set_function_name (replicate 32 0) name = Ok q"
    and f: "wc_payload f = q" "wc_op f = OpWriteFunction"
    by (auto simp: from_afe_command_def Let_def and_then_Ok_iff set_afe_def
        wire_status_def wire_const_defs)
  have "decode_command (encode_command f) = Ok f"
    using from_afe_command_wf(1) [OF assms(1)] by (rule command_decode_encode)
  moreover have "function_name f = Ok name"
    using set_function_name_Ok(1-4) [OF q] assms(2) f
    by (simp add: function_name_def require_op_def Let_def wire_const_defs)
  ultimately show ?thesis by simp
qed

theorem function_name_roundtrip_witness:
  "\<exists>f. from_afe_command 3 (WriteFunction \<lparr>id_board = 0, id_pl = 2\<rparr> ''LPF'' 7) = Ok f
     \<and> and_then (decode_command (encode_command f)) function_name = Ok ''LPF''"
proof -
  obtain f where f: "from_afe_command 3 (WriteFunction \<lparr>id_board = 0, id_pl = 2\<rparr> ''LPF'' 7) = Ok f"
    by (auto simp: from_afe_command_def set_function_name_def wire_const_defs Let_def as_bytes_def)
  have "utf8_valid (as_bytes ''LPF'')" by (simp add: as_bytes_def)
  from function_name_roundtrip [OF f this] f show ?thesis by blast
qed

section \<open>Configuration sequences\<close>

lemma push_frames_eq:
  "push_frames s mk recs frames =
     frames @ map (\<lambda>i. mk (sequence_for_frame s (length frames + i)) (recs ! i)) [0..<length recs]"
proof (induction recs arbitrary: frames)
  case Nil
  then show ?case by (simp add: push_frames_def)
next
  case (Cons r recs)
  have "push_frames s mk (r # recs) frames =
      push_frames s mk recs (frames @ [mk (sequence_for_frame s (length frames)) r])"
    by (simp add: push_frames_def)
  also have "\<dots> = frames @ mk (sequence_for_frame s (length frames)) r #
      map (\<lambda>i. mk (sequence_for_frame s (length frames + Suc i)) ((r # recs) ! Suc i)) [0..<length recs]"
    by (simp add: Cons.IH)
  finally show ?case
    by (simp add: upt_conv_Cons map_Suc_upt [symmetric] comp_def del: upt_Suc)
qed

lemma pack_roundtrips [simp]:
  "unpack_u16_pair (pack_u16_pair a b) = (a, b)" "unpack_adc (pack_adc c) = c"
  "unpack_pga (pga_lpf_cut_frequency p) (pack_pga_flags p) = p"
  "unpack_lna (lna_clamp l) (lna_gain l) (of_flag (lna_integrator_disable l)) = l"
proof -
  have mask: "(0xFFFF :: u32) = mask 16" by (simp add: mask_eq_exp_minus_1)
  show "unpack_u16_pair (pack_u16_pair a b) = (a, b)"
    using bit_imp_le_length [of a "16 + n" for n]
    by (simp add: unpack_u16_pair_def pack_u16_pair_def mask)
       (fastforce simp: bit_simps intro!: bit_word_eqI)
  show "unpack_adc (pack_adc c) = c"
    by (cases c) (simp add: unpack_adc_def pack_adc_def of_flag_def)
  show "unpack_pga (pga_lpf_cut_frequency p) (pack_pga_flags p) = p"
    by (cases p) (simp add: unpack_pga_def pack_pga_flags_def of_flag_def)
  show "unpack_lna (lna_clamp l) (lna_gain l) (of_flag (lna_integrator_disable l)) = l"
    by (cases l) (simp add: unpack_lna_def of_flag_def)
qed

lemma require_u16_ucast [simp]: "require_u16 field (ucast (v :: u16)) = Ok v"
proof -
  have "unat (ucast v :: u32) = unat v" by (simp add: unat_ucast_up)
  moreover have "unat v < 65536" by (rule order_less_le_trans [OF unsigned_less]) simp
  ultimately have "(ucast v :: u32) \<le> 0xFFFF" by (simp add: word_le_nat_alt)
  then show ?thesis by (simp add: require_u16_def)
qed

text \<open>The records a configuration sequence announces, as the remote side reads them.\<close>

definition afe_record :: "afe_frontend_config \<Rightarrow> rpu_wire_afe_config" where
  "afe_record a =
     \<lparr>ac_afe_board = id_board (fe_afe a), ac_afe_pl = id_pl (fe_afe a),
      ac_attenuation = fe_attenuation a, ac_bias = fe_bias a, ac_adc = fe_adc a,
      ac_pga = fe_pga a, ac_lna = fe_lna a\<rparr>"

definition channel_record :: "channel_frontend_config \<Rightarrow> rpu_wire_channel_config" where
  "channel_record c =
     \<lparr>hc_channel = ch_channel (fc_channel c), hc_afe_board = id_board (ch_afe (fc_channel c)),
      hc_afe_pl = id_pl (ch_afe (fc_channel c)), hc_afe_channel = ch_afe_channel (fc_channel c),
      hc_trim = fc_trim c, hc_offset = fc_offset c, hc_gain = fc_gain c\<rparr>"

lemma configure_afe_frame_fields [simp]:
  "wire_afe_config (configure_afe_frame n a) = Ok (afe_record a)"
  "wc_sequence (configure_afe_frame n a) = n" "wc_op (configure_afe_frame n a) = OpConfigureAfe"
  "wf_wire_command (configure_afe_frame n a)"
proof -
  have "length (wc_payload (wire_status n)) = 32" by simp
  then show "wire_afe_config (configure_afe_frame n a) = Ok (afe_record a)"
    by (simp add: wire_afe_config_def configure_afe_frame_def set_afe_def require_op_def
        pack_afe_payload_def afe_record_def Let_def)
qed (simp_all add: configure_afe_frame_def set_afe_def wire_status_def Let_def
  wf_wire_command_def pack_afe_payload_def)

lemma configure_channel_frame_fields [simp]:
  "wire_channel_config (configure_channel_frame n c) = Ok (channel_record c)"
  "wc_sequence (configure_channel_frame n c) = n"
  "wc_op (configure_channel_frame n c) = OpConfigureChannel"
  "wf_wire_command (configure_channel_frame n c)"
  by (simp_all add: wire_channel_config_def configure_channel_frame_def set_channel_def
      require_op_def channel_record_def wire_status_def wf_wire_command_def)

text \<open>The frames of a sequence, by position.\<close>

lemma configure_frontend_sequence_eq:
  assumes "length afes \<le> 65535" and "length chs \<le> 65535"
  shows "configure_frontend_sequence s afes chs bc = Ok (
    (wire_status (sequence_for_frame s 0))
       \<lparr>wc_op := OpBeginConfigureFrontend, wc_value := ucast bc,
        wc_flags := pack_u16_pair (word_of_nat (length afes)) (word_of_nat (length chs))\<rparr>
    # map (\<lambda>i. configure_afe_frame (sequence_for_frame s (1 + i)) (afes ! i)) [0..<length afes]
    @ map (\<lambda>i. configure_channel_frame (sequence_for_frame s (1 + length afes + i)) (chs ! i))
        [0..<length chs]
    @ [(wire_status (sequence_for_frame s (1 + length afes + length chs)))
       \<lparr>wc_op := OpApplyConfigureFrontend,
        wc_flags := pack_u16_pair (word_of_nat (length afes)) (word_of_nat (length chs))\<rparr>])"
  using assms
  by (simp add: configure_frontend_sequence_def ensure_record_count_def push_frames_eq Let_def)

lemma configure_frontend_sequence_Ok:
  "configure_frontend_sequence s afes chs bc = Ok fs \<Longrightarrow>
   length afes \<le> 65535 \<and> length chs \<le> 65535"
  by (auto simp: configure_frontend_sequence_def ensure_record_count_def and_then_Ok_iff
      split: if_splits)

lemma map_upt_split:
  "map f [0..<m + n] = map f [0..<m] @ map (\<lambda>i. f (m + i)) [0..<n]"
  by (rule nth_equalityI) (auto simp: nth_append)

lemma configure_frontend_sequence_numbers:
  assumes "configure_frontend_sequence s afes chs bc = Ok fs"
  shows "length fs = 2 + length afes + length chs"
    and "map wc_sequence fs = map (sequence_for_frame s) [0..<length fs]"
    and "list_all wf_wire_command fs"
proof -
  note le = configure_frontend_sequence_Ok [OF assms]
  from assms le show len: "length fs = 2 + length afes + length chs"
    by (auto simp: configure_frontend_sequence_eq)
  have "[0..<length fs] = [0..<1 + (length afes + (length chs + 1))]" by (simp add: len)
  then show "map wc_sequence fs = map (sequence_for_frame s) [0..<length fs]"
    using assms le unfolding map_upt_split
    by (simp only: map_upt_split) (auto simp: configure_frontend_sequence_eq wire_status_def add.assoc)
  show "list_all wf_wire_command fs"
    using assms le by (auto simp: configure_frontend_sequence_eq list_all_iff)
qed

lemma sequence_for_frame_unat:
  assumes "1 \<le> s" and "unat s + i < 2 ^ 64"
  shows "unat (sequence_for_frame s i) = unat s + i"
proof -
  have "1 \<le> unat s" using assms(1) by (simp add: word_le_nat_alt)
  have *: "unat (s + word_of_nat i) = unat s + i"
    using assms(2) by (simp add: unat_word_ariths unat_of_nat)
  then have "1 \<le> s + word_of_nat i"
    using \<open>1 \<le> unat s\<close> by (simp add: word_le_nat_alt)
  then show ?thesis using * by (simp add: sequence_for_frame_def max_absorb1)
qed

lemma from_afe_command_sequence_numbers:
  assumes "from_afe_command_sequence s c = Ok fs"
  shows "frame_count_for_afe_command c = Ok (length fs)"
    and "map wc_sequence fs = map (sequence_for_frame s) [0..<length fs] \<or> map wc_sequence fs = [s]"
    and "list_all wf_wire_command fs"
proof -
  have "frame_count_for_afe_command c = Ok (length fs)
    \<and> (map wc_sequence fs = map (sequence_for_frame s) [0..<length fs] \<or> map wc_sequence fs = [s])
    \<and> list_all wf_wire_command fs"
  proof (cases "\<exists>afes chs bc. c = ConfigureFrontend afes chs bc")
    case True
    then obtain afes chs bc where c: "c = ConfigureFrontend afes chs bc" by blast
    then have fs: "configure_frontend_sequence s afes chs bc = Ok fs"
      using assms by (simp add: from_afe_command_sequence_def)
    show ?thesis
      using configure_frontend_sequence_numbers [OF fs] configure_frontend_sequence_Ok [OF fs]
      by (simp add: c frame_count_for_afe_command_def ensure_record_count_def)
  next
    case False
    then obtain f where "from_afe_command s c = Ok f" and "fs = [f]"
      using assms by (cases c) (auto simp: from_afe_command_sequence_def and_then_Ok_iff)
    moreover have "frame_count_for_afe_command c = Ok 1"
      using False by (cases c) (auto simp: frame_count_for_afe_command_def)
    ultimately show ?thesis using from_afe_command_wf [of s c f] by simp
  qed
  then show "frame_count_for_afe_command c = Ok (length fs)"
    and "map wc_sequence fs = map (sequence_for_frame s) [0..<length fs] \<or> map wc_sequence fs = [s]"
    and "list_all wf_wire_command fs" by blast+
qed

text \<open>The numbers of the frames of a command.\<close>

lemma reserved_numbers:
  assumes "from_afe_command_sequence s c = Ok fs"
    and "1 \<le> s" and "unat s + length fs \<le> 2 ^ 64"
  shows "frame_count_for_afe_command c = Ok (length fs)
    \<and> map (\<lambda>f. unat (wc_sequence f)) fs = [unat s..<unat s + length fs]"
proof
  note nums = from_afe_command_sequence_numbers [OF assms(1)]
  show "frame_count_for_afe_command c = Ok (length fs)" by (rule nums(1))
  have "map unat (map wc_sequence fs) = [unat s..<unat s + length fs]"
  proof (rule disjE [OF nums(2)])
    assume "map wc_sequence fs = map (sequence_for_frame s) [0..<length fs]"
    moreover have "map (\<lambda>i. unat (sequence_for_frame s i)) [0..<length fs] =
        map (\<lambda>i. unat s + i) [0..<length fs]"
      using assms(2,3) by (auto intro!: sequence_for_frame_unat)
    ultimately show ?thesis by (simp add: comp_def map_add_upt add.commute)
  next
    assume eq: "map wc_sequence fs = [s]"
    then have "length fs = 1" by (metis One_nat_def length_Cons length_map list.size(3))
    with eq show ?thesis by simp
  qed
  then show "map (\<lambda>f. unat (wc_sequence f)) fs = [unat s..<unat s + length fs]"
    by (simp add: comp_def)
qed

text \<open>The number of frames announced by \<open>frame_count_for_afe_command\<close> is the number produced,
  and when the reserved block of sequence numbers does not wrap the frames carry exactly the
  numbers of that block, in order, starting at the first.\<close>

theorem command_frames_use_reserved_numbers:
  assumes "from_afe_command_sequence s c = Ok fs"
    and "1 \<le> s" and "unat s + length fs \<le> 2 ^ 64"
  shows "frame_count_for_afe_command c = Ok (length fs)
    \<and> map (\<lambda>f. unat (wc_sequence f)) fs = [unat s..<unat s + length fs]"
  by (rule reserved_numbers [OF assms])

theorem command_frames_use_reserved_numbers_witness:
  "\<exists>fs. from_afe_command_sequence 41 (ConfigureFrontend [] [] 1500) = Ok fs
     \<and> map (\<lambda>f. unat (wc_sequence f)) fs = [41, 42]"
proof -
  obtain fs where fs: "from_afe_command_sequence 41 (ConfigureFrontend [] [] 1500) = Ok fs"
    and len: "length fs = 2"
    by (auto simp: from_afe_command_sequence_def configure_frontend_sequence_eq)
  have "unat (41 :: u64) + length fs \<le> 2 ^ 64" by (simp add: len)
  from command_frames_use_reserved_numbers [OF fs _ this]
  have "map (\<lambda>f. unat (wc_sequence f)) fs = [41..<43]" by (simp add: len word_le_nat_alt)
  moreover have "[41..<43] = [41, 42 :: nat]" by (simp add: upt_rec)
  ultimately show ?thesis using fs by auto
qed

text \<open>A configuration sequence says what the command says: the first frame announces the
  record counts and the bias control, then follow one frame per AFE and one per channel, in
  order, whose accessors return every setting unchanged, then the apply frame.\<close>

theorem configure_sequence_contents:
  assumes "from_afe_command_sequence s (ConfigureFrontend afes chs bc) = Ok fs"
  shows "configure_counts (hd fs) = Ok \<lparr>cc_afe_count = word_of_nat (length afes),
           cc_channel_count = word_of_nat (length chs), cc_bias_control = bc\<rparr>
    \<and> map wire_afe_config (take (length afes) (tl fs)) = map (Ok \<circ> afe_record) afes
    \<and> map wire_channel_config (take (length chs) (drop (1 + length afes) fs))
        = map (Ok \<circ> channel_record) chs
    \<and> wc_op (last fs) = OpApplyConfigureFrontend
    \<and> length fs = 2 + length afes + length chs"
proof -
  have fs: "configure_frontend_sequence s afes chs bc = Ok fs"
    using assms by (simp add: from_afe_command_sequence_def)
  note le = configure_frontend_sequence_Ok [OF fs]
  note fs = fs [unfolded configure_frontend_sequence_eq
    [OF conjunct1 [OF le] conjunct2 [OF le]], simplified, symmetric]
  have "map (\<lambda>i. g (xs ! i)) [0..<length xs] = map g xs" for g :: "'p \<Rightarrow> 'q" and xs
    by (rule nth_equalityI) simp_all
  note nth = this [of "Ok \<circ> afe_record", simplified] this [of "Ok \<circ> channel_record", simplified]
  show ?thesis
    by (simp add: fs configure_counts_def require_op_def comp_def nth)
qed

theorem configure_sequence_contents_witness:
  "\<exists>fs. from_afe_command_sequence 1 (ConfigureFrontend [] [] 1500) = Ok fs
     \<and> configure_counts (hd fs) =
         Ok \<lparr>cc_afe_count = 0, cc_channel_count = 0, cc_bias_control = 1500\<rparr>"
proof -
  obtain fs where fs: "from_afe_command_sequence 1 (ConfigureFrontend [] [] 1500) = Ok fs"
    by (auto simp: from_afe_command_sequence_def configure_frontend_sequence_eq)
  from configure_sequence_contents [OF fs] fs show ?thesis by simp
qed

end
