(* ===== verification/Transport.thy ===== *)
theory Transport
  imports Prelude
begin

text \<open>
  \<open>crates/daphne-sc-core/src/transport.rs\<close>: the message types of the version 2 protocol, their
  numbers on the wire, and the backend each one is routed to.
\<close>

datatype message_type_v2 =
    ConfigureClksReq | ConfigureFeReq | WriteAfeRegReq | WriteAfeVgainReq | WriteAfeBiasSetReq
    | WriteTrimAllChReq | WriteTrimAllAfeReq | WriteTrimChReq | WriteOffsetAllChReq
    | WriteOffsetAllAfeReq | WriteOffsetChReq | WriteVbiasControlReq | ReadAfeRegReq
    | ReadAfeVgainReq | ReadAfeBiasSetReq | ReadTrimAllChReq | ReadTrimAllAfeReq
    | ReadTrimChReq | ReadOffsetAllChReq | ReadOffsetAllAfeReq | ReadOffsetChReq
    | ReadVbiasControlReq | ReadCurrentMonitorReq | ReadBiasVoltageMonitorReq | SetAfeResetReq
    | DoAfeResetReq | SetAfePowerStateReq | WriteAfeAttenuationReq | DumpSpybufferReq
    | AlignAfeReq | WriteAfeFunctionReq | DoSoftwareTriggerReq | DumpSpybufferChunkReq
    | ReadTestRegReq | ReadTriggerCountersReq | ReadGeneralInfoReq | ReadSlowControlStatusReq

definition message_type_code :: "message_type_v2 \<Rightarrow> u32" where
  "message_type_code m = (case m of
     ConfigureClksReq \<Rightarrow> 200 | ConfigureFeReq \<Rightarrow> 202 | WriteAfeRegReq \<Rightarrow> 204
     | WriteAfeVgainReq \<Rightarrow> 206 | WriteAfeBiasSetReq \<Rightarrow> 208
     | WriteTrimAllChReq \<Rightarrow> 210 | WriteTrimAllAfeReq \<Rightarrow> 212
     | WriteTrimChReq \<Rightarrow> 214 | WriteOffsetAllChReq \<Rightarrow> 216
     | WriteOffsetAllAfeReq \<Rightarrow> 218 | WriteOffsetChReq \<Rightarrow> 220
     | WriteVbiasControlReq \<Rightarrow> 222 | ReadAfeRegReq \<Rightarrow> 224
     | ReadAfeVgainReq \<Rightarrow> 226 | ReadAfeBiasSetReq \<Rightarrow> 228
     | ReadTrimAllChReq \<Rightarrow> 230 | ReadTrimAllAfeReq \<Rightarrow> 232
     | ReadTrimChReq \<Rightarrow> 234 | ReadOffsetAllChReq \<Rightarrow> 236
     | ReadOffsetAllAfeReq \<Rightarrow> 238 | ReadOffsetChReq \<Rightarrow> 240
     | ReadVbiasControlReq \<Rightarrow> 242 | ReadCurrentMonitorReq \<Rightarrow> 244
     | ReadBiasVoltageMonitorReq \<Rightarrow> 246 | SetAfeResetReq \<Rightarrow> 248
     | DoAfeResetReq \<Rightarrow> 250 | SetAfePowerStateReq \<Rightarrow> 252
     | WriteAfeAttenuationReq \<Rightarrow> 254 | DumpSpybufferReq \<Rightarrow> 256
     | AlignAfeReq \<Rightarrow> 258 | WriteAfeFunctionReq \<Rightarrow> 260
     | DoSoftwareTriggerReq \<Rightarrow> 262 | DumpSpybufferChunkReq \<Rightarrow> 300
     | ReadTestRegReq \<Rightarrow> 304 | ReadTriggerCountersReq \<Rightarrow> 320
     | ReadGeneralInfoReq \<Rightarrow> 322 | ReadSlowControlStatusReq \<Rightarrow> 1000)"

text \<open>\<open>TryFrom<u32>\<close>; its error type is the unit.\<close>

definition message_type_try_from :: "u32 \<Rightarrow> message_type_v2 option" where
  "message_type_try_from v =
     (if v = 200 then Some ConfigureClksReq
      else if v = 202 then Some ConfigureFeReq
      else if v = 204 then Some WriteAfeRegReq
      else if v = 206 then Some WriteAfeVgainReq
      else if v = 208 then Some WriteAfeBiasSetReq
      else if v = 210 then Some WriteTrimAllChReq
      else if v = 212 then Some WriteTrimAllAfeReq
      else if v = 214 then Some WriteTrimChReq
      else if v = 216 then Some WriteOffsetAllChReq
      else if v = 218 then Some WriteOffsetAllAfeReq
      else if v = 220 then Some WriteOffsetChReq
      else if v = 222 then Some WriteVbiasControlReq
      else if v = 224 then Some ReadAfeRegReq
      else if v = 226 then Some ReadAfeVgainReq
      else if v = 228 then Some ReadAfeBiasSetReq
      else if v = 230 then Some ReadTrimAllChReq
      else if v = 232 then Some ReadTrimAllAfeReq
      else if v = 234 then Some ReadTrimChReq
      else if v = 236 then Some ReadOffsetAllChReq
      else if v = 238 then Some ReadOffsetAllAfeReq
      else if v = 240 then Some ReadOffsetChReq
      else if v = 242 then Some ReadVbiasControlReq
      else if v = 244 then Some ReadCurrentMonitorReq
      else if v = 246 then Some ReadBiasVoltageMonitorReq
      else if v = 248 then Some SetAfeResetReq
      else if v = 250 then Some DoAfeResetReq
      else if v = 252 then Some SetAfePowerStateReq
      else if v = 254 then Some WriteAfeAttenuationReq
      else if v = 256 then Some DumpSpybufferReq
      else if v = 258 then Some AlignAfeReq
      else if v = 260 then Some WriteAfeFunctionReq
      else if v = 262 then Some DoSoftwareTriggerReq
      else if v = 300 then Some DumpSpybufferChunkReq
      else if v = 304 then Some ReadTestRegReq
      else if v = 320 then Some ReadTriggerCountersReq
      else if v = 322 then Some ReadGeneralInfoReq
      else if v = 1000 then Some ReadSlowControlStatusReq
      else None)"

datatype command_route = RpuAfe | LinuxStatus | LinuxFpga | Unsupported

definition route_message_type :: "message_type_v2 \<Rightarrow> command_route" where
  "route_message_type m = (case m of
     ConfigureFeReq \<Rightarrow> RpuAfe | WriteAfeRegReq \<Rightarrow> RpuAfe
     | WriteAfeVgainReq \<Rightarrow> RpuAfe | WriteAfeBiasSetReq \<Rightarrow> RpuAfe
     | WriteTrimAllChReq \<Rightarrow> RpuAfe | WriteTrimAllAfeReq \<Rightarrow> RpuAfe
     | WriteTrimChReq \<Rightarrow> RpuAfe | WriteOffsetAllChReq \<Rightarrow> RpuAfe
     | WriteOffsetAllAfeReq \<Rightarrow> RpuAfe | WriteOffsetChReq \<Rightarrow> RpuAfe
     | WriteVbiasControlReq \<Rightarrow> RpuAfe | ReadAfeRegReq \<Rightarrow> RpuAfe
     | ReadAfeVgainReq \<Rightarrow> RpuAfe | ReadAfeBiasSetReq \<Rightarrow> RpuAfe
     | ReadTrimAllChReq \<Rightarrow> RpuAfe | ReadTrimAllAfeReq \<Rightarrow> RpuAfe
     | ReadTrimChReq \<Rightarrow> RpuAfe | ReadOffsetAllChReq \<Rightarrow> RpuAfe
     | ReadOffsetAllAfeReq \<Rightarrow> RpuAfe | ReadOffsetChReq \<Rightarrow> RpuAfe
     | ReadVbiasControlReq \<Rightarrow> RpuAfe | SetAfeResetReq \<Rightarrow> RpuAfe
     | DoAfeResetReq \<Rightarrow> RpuAfe | SetAfePowerStateReq \<Rightarrow> RpuAfe
     | WriteAfeAttenuationReq \<Rightarrow> RpuAfe | AlignAfeReq \<Rightarrow> RpuAfe
     | WriteAfeFunctionReq \<Rightarrow> RpuAfe | ReadCurrentMonitorReq \<Rightarrow> LinuxStatus
     | ReadBiasVoltageMonitorReq \<Rightarrow> LinuxStatus | ReadGeneralInfoReq \<Rightarrow> LinuxStatus
     | ReadSlowControlStatusReq \<Rightarrow> LinuxStatus | ConfigureClksReq \<Rightarrow> LinuxFpga
     | DumpSpybufferReq \<Rightarrow> LinuxFpga | DumpSpybufferChunkReq \<Rightarrow> LinuxFpga
     | DoSoftwareTriggerReq \<Rightarrow> LinuxFpga | ReadTriggerCountersReq \<Rightarrow> LinuxFpga
     | ReadTestRegReq \<Rightarrow> LinuxFpga)"

lemma message_type_try_from_code [simp]:
  "message_type_try_from (message_type_code m) = Some m"
  by (cases m) (simp_all add: message_type_code_def message_type_try_from_def)

lemma message_type_try_from_Some:
  "message_type_try_from v = Some m \<Longrightarrow> message_type_code m = v"
  by (simp add: message_type_try_from_def split: if_splits) (auto simp: message_type_code_def)

text \<open>The numbers of the message types are a bijection onto the accepted values: a number is
  accepted as a type exactly when it is that type's number.\<close>

theorem message_type_numbers:
  "message_type_try_from v = Some m \<longleftrightarrow> message_type_code m = v"
  using message_type_try_from_Some message_type_try_from_code by blast

end
