(* ===== verification/Rpu.thy ===== *)
theory Rpu
  imports Afe
begin

text \<open>
  \<open>crates/daphne-sc-core/src/rpu.rs\<close> and \<open>status.rs\<close>: the replies and errors of the RPU link,
  the transport interface the server talks to (a Rust trait, here a record of computations on the
  transport's state), the fail-closed transport, and the records of the slow-control status.
\<close>

section \<open>The RPU link\<close>

record afe_command_reply =
  ar_accepted :: bool
  ar_applied :: bool
  ar_readback :: "u32 option"
  ar_fault_code :: u32
  ar_context_code :: u32
  ar_message :: string

record rpu_link_status =
  ls_available :: bool
  ls_running :: bool
  ls_firmware :: "string option"
  ls_heartbeat :: "u64 option"
  ls_last_fault :: "string option"

datatype rpu_error = Unavailable | TransportError string | RejectedError string | TimeoutError

definition rpu_error_to_string :: "rpu_error \<Rightarrow> string" where
  "rpu_error_to_string e = (case e of
     Unavailable \<Rightarrow> ''RPU AFE backend is unavailable''
   | TransportError msg \<Rightarrow> ''RPU transport error: '' @ msg
   | RejectedError msg \<Rightarrow> ''RPU rejected command: '' @ msg
   | TimeoutError \<Rightarrow> ''RPU command timed out'')"

record 's rpu_afe_transport =
  rt_status :: "('s, rpu_link_status, rpu_error) eff"
  rt_submit_afe_command :: "afe_command \<Rightarrow> ('s, afe_command_reply, rpu_error) eff"

definition fail_closed_transport :: "unit rpu_afe_transport" where
  "fail_closed_transport =
     \<lparr>rt_status = ret \<lparr>ls_available = False, ls_running = False, ls_firmware = None,
        ls_heartbeat = None,
        ls_last_fault = Some ''RPU AFE transport is not configured''\<rparr>,
      rt_submit_afe_command = (\<lambda>_. raise Unavailable)\<rparr>"

section \<open>Slow-control status\<close>

text \<open>Floating-point readings are a parameter type of the records that hold them.\<close>

record firmware_status =
  fs_loaded :: bool
  fs_fpga_manager_state :: "string option"
  fs_overlay_name :: "string option"
  fs_build_id :: "string option"
  fs_pl_devices_present :: "string list"

record i2c_device_status =
  ids_address :: u8
  ids_name :: string
  ids_present :: bool
  ids_status :: "string option"

record i2c_bus_status =
  ibs_bus :: u8
  ibs_path :: string
  ibs_devices :: "i2c_device_status list"

record clock_status =
  cs_endpoint_clock_source_controlled :: "bool option"
  cs_mmcm0_locked :: "bool option"
  cs_mmcm1_locked :: "bool option"
  cs_raw_endpoint_status :: "u32 option"

record 'f temperature_reading =
  tr_name :: string
  tr_celsius :: 'f

record 'f rail_reading =
  rr_name :: string
  rr_voltage_v :: "'f option"
  rr_current_a :: "'f option"
  rr_power_w :: "'f option"
  rr_status :: "string option"

record service_status =
  sv_name :: string
  sv_active :: bool
  sv_state :: string

record 'f slow_control_status =
  sc_firmware :: firmware_status
  sc_rpu :: rpu_link_status
  sc_i2c :: "i2c_bus_status list"
  sc_clocks :: clock_status
  sc_temperatures :: "'f temperature_reading list"
  sc_rails :: "'f rail_reading list"
  sc_services :: "service_status list"
  sc_errors :: "string list"

end
