(* ===== verification/ClockChip.thy ===== *)
theory ClockChip
  imports Prelude "HOL-Library.Sublist"
begin

text \<open>
  \<open>crates/daphne-sc-core/src/clockchip.rs\<close>: the register table of the clock chip, the routine
  that programs it (optionally verifying each register and pulsing the reset) and the routine
  that verifies it.  The bus is the trait \<open>ClockChipBus\<close>, here a record of computations.
  The locale \<open>register_bus\<close> states what a bus in front of a register file promises; the
  routines are proved against it once.
\<close>

section \<open>The table\<close>

definition CLOCKCHIP_DEFAULT_ADDR :: u16 where "CLOCKCHIP_DEFAULT_ADDR = 0x70"
definition CLOCKCHIP_DISCOVERY_ADDRS :: "u16 list" where
  "CLOCKCHIP_DISCOVERY_ADDRS = [0x70, 0x71, 0x72]"
definition CLOCKCHIP_SANITY_REGISTER :: u8 where "CLOCKCHIP_SANITY_REGISTER = 0xE6"
definition CLOCKCHIP_SANITY_VALUE :: u8 where "CLOCKCHIP_SANITY_VALUE = 0x06"
definition CLOCKCHIP_RESET_REGISTER :: u8 where "CLOCKCHIP_RESET_REGISTER = 0xF6"
definition CLOCKCHIP_RESET_SEQUENCE :: "u8 list" where "CLOCKCHIP_RESET_SEQUENCE = [0x02, 0x00]"

record clock_chip_register =
  cr_register :: u8
  cr_value :: u8

definition reg :: "u8 \<Rightarrow> u8 \<Rightarrow> clock_chip_register" where
  "reg r v = \<lparr>cr_register = r, cr_value = v\<rparr>"

definition CLOCKCHIP_REGISTERS :: "clock_chip_register list" where
  "CLOCKCHIP_REGISTERS = [
    reg 0x06 0x08, reg 0x1C 0x0B, reg 0x1D 0x08, reg 0x1E 0xB0, reg 0x1F 0xC0, reg 0x20 0xE3,
    reg 0x21 0xE3, reg 0x22 0xC0, reg 0x23 0x41, reg 0x24 0x06, reg 0x25 0x00, reg 0x26 0x00,
    reg 0x27 0x06, reg 0x28 0x64, reg 0x29 0x0C, reg 0x2A 0x24, reg 0x2D 0x00, reg 0x2E 0x00,
    reg 0x2F 0x14, reg 0x30 0x3A, reg 0x31 0x00, reg 0x32 0xC4, reg 0x33 0x07, reg 0x34 0x10,
    reg 0x35 0x00, reg 0x36 0x06, reg 0x37 0x00, reg 0x38 0x00, reg 0x39 0x00, reg 0x3A 0x00,
    reg 0x3B 0x01, reg 0x3C 0x00, reg 0x3D 0x00, reg 0x3E 0x00, reg 0x3F 0x10, reg 0x40 0x00,
    reg 0x41 0x00, reg 0x42 0x00, reg 0x43 0x00, reg 0x44 0x00, reg 0x45 0x00, reg 0x46 0x00,
    reg 0x47 0x00, reg 0x48 0x00, reg 0x49 0x00, reg 0x4A 0x10, reg 0x4B 0x00, reg 0x4C 0x00,
    reg 0x4D 0x00, reg 0x4E 0x00, reg 0x4F 0x00, reg 0x50 0x00, reg 0x51 0x00, reg 0x52 0x00,
    reg 0x53 0x00, reg 0x54 0x00, reg 0x55 0x10, reg 0x56 0x80, reg 0x57 0x0A, reg 0x58 0x00,
    reg 0x59 0x00, reg 0x5A 0x00, reg 0x5B 0x00, reg 0x5C 0x01, reg 0x5D 0x00, reg 0x5E 0x00,
    reg 0x5F 0x00, reg 0x61 0x00, reg 0x62 0x30, reg 0x63 0x00, reg 0x64 0x00, reg 0x65 0x00,
    reg 0x66 0x00, reg 0x67 0x01, reg 0x68 0x00, reg 0x69 0x00, reg 0x6A 0x80, reg 0x6B 0x00,
    reg 0x6C 0x00, reg 0x6D 0x00, reg 0x6E 0x40, reg 0x6F 0x00, reg 0x70 0x00, reg 0x71 0x00,
    reg 0x72 0x40, reg 0x73 0x00, reg 0x74 0x80, reg 0x75 0x00, reg 0x76 0x40, reg 0x77 0x00,
    reg 0x78 0x00, reg 0x79 0x00, reg 0x7A 0x40, reg 0x7B 0x00, reg 0x7C 0x00, reg 0x7D 0x00,
    reg 0x7E 0x00, reg 0x7F 0x00, reg 0x80 0x00, reg 0x81 0x00, reg 0x82 0x00, reg 0x83 0x00,
    reg 0x84 0x00, reg 0x85 0x00, reg 0x86 0x00, reg 0x87 0x00, reg 0x88 0x00, reg 0x89 0x00,
    reg 0x8A 0x00, reg 0x8B 0x00, reg 0x8C 0x00, reg 0x8D 0x00, reg 0x8E 0x00, reg 0x8F 0x00,
    reg 0x90 0x00, reg 0x98 0x00, reg 0x99 0x00, reg 0x9A 0x00, reg 0x9B 0x00, reg 0x9C 0x00,
    reg 0x9D 0x00, reg 0x9E 0x00, reg 0x9F 0x00, reg 0xA0 0x00, reg 0xA1 0x00, reg 0xA2 0x00,
    reg 0xA3 0x00, reg 0xA4 0x00, reg 0xA5 0x00, reg 0xA6 0x00, reg 0xA7 0x00, reg 0xA8 0x00,
    reg 0xA9 0x00, reg 0xAA 0x00, reg 0xAB 0x00, reg 0xAC 0x00, reg 0xAD 0x00, reg 0xAE 0x00,
    reg 0xAF 0x00, reg 0xB0 0x00, reg 0xB1 0x00, reg 0xB2 0x00, reg 0xB3 0x00, reg 0xB4 0x00,
    reg 0xB5 0x00, reg 0xB6 0x00, reg 0xB7 0x00, reg 0xB8 0x00, reg 0xB9 0x00, reg 0xBA 0x00,
    reg 0xBB 0x00, reg 0xBC 0x00, reg 0xBD 0x00, reg 0xBE 0x00, reg 0xBF 0x00, reg 0xC0 0x00,
    reg 0xC1 0x00, reg 0xC2 0x00, reg 0xC3 0x00, reg 0xC4 0x00, reg 0xC5 0x00, reg 0xC6 0x00,
    reg 0xC7 0x00, reg 0xC8 0x00, reg 0xC9 0x00, reg 0xCA 0x00, reg 0xCB 0x00, reg 0xCC 0x00,
    reg 0xCD 0x00, reg 0xCE 0x00, reg 0xCF 0x00, reg 0xD0 0x00, reg 0xD1 0x00, reg 0xD2 0x00,
    reg 0xD3 0x00, reg 0xD4 0x00, reg 0xD5 0x00, reg 0xD6 0x00, reg 0xD7 0x00, reg 0xD8 0x00,
    reg 0xD9 0x00, reg 0xE6 0x06]"

section \<open>Options and reports\<close>

record clock_chip_range =
  rg_start :: u8
  rg_end :: u8

definition range_new :: "u8 \<Rightarrow> u8 \<Rightarrow> clock_chip_range" where
  "range_new s e =
     (if s \<le> e then \<lparr>rg_start = s, rg_end = e\<rparr> else \<lparr>rg_start = e, rg_end = s\<rparr>)"

definition range_contains :: "clock_chip_range \<Rightarrow> u8 \<Rightarrow> bool" where
  "range_contains g r \<longleftrightarrow> rg_start g \<le> r \<and> r \<le> rg_end g"

record clock_chip_options =
  co_verify :: bool
  co_reset :: bool
  co_ranges :: "clock_chip_range list"

definition default_options :: clock_chip_options where
  "default_options = \<lparr>co_verify = False, co_reset = True, co_ranges = []\<rparr>"

definition includes_register :: "clock_chip_options \<Rightarrow> u8 \<Rightarrow> bool" where
  "includes_register opts r \<longleftrightarrow>
     co_ranges opts = [] \<or> list_ex (\<lambda>g. range_contains g r) (co_ranges opts)"

record clock_chip_report =
  cp_written :: nat
  cp_verified :: nat
  cp_reset_pulses :: nat

definition empty_report :: clock_chip_report where
  "empty_report = \<lparr>cp_written = 0, cp_verified = 0, cp_reset_pulses = 0\<rparr>"

datatype clock_chip_operation = OperationRead | OperationWrite

datatype 'e clock_chip_error =
    BusError u8 clock_chip_operation 'e  \<comment> \<open>register, operation, source\<close>
  | VerifyMismatch u8 u8 u8  \<comment> \<open>register, expected, actual\<close>

definition operation_to_string :: "clock_chip_operation \<Rightarrow> string" where
  "operation_to_string p = (case p of OperationRead \<Rightarrow> ''read'' | OperationWrite \<Rightarrow> ''write'')"

definition clock_chip_error_to_string :: "('e \<Rightarrow> string) \<Rightarrow> 'e clock_chip_error \<Rightarrow> string" where
  "clock_chip_error_to_string source_to_string e = (case e of
     BusError r p source \<Rightarrow>
       ''clock-chip '' @ operation_to_string p @ '' failed at register 0x'' @ fmt_hex_upper 2 r
       @ '': '' @ source_to_string source
   | VerifyMismatch r expected actual \<Rightarrow>
       ''clock-chip verify mismatch at register 0x'' @ fmt_hex_upper 2 r @ '': expected 0x''
       @ fmt_hex_upper 2 expected @ '', got 0x'' @ fmt_hex_upper 2 actual)"

section \<open>Programming and verifying\<close>

record ('s, 'e) clock_chip_bus =
  cb_write_register :: "u8 \<Rightarrow> u8 \<Rightarrow> ('s, unit, 'e) eff"
  cb_read_register :: "u8 \<Rightarrow> ('s, u8, 'e) eff"
  cb_reset_delay :: "'s \<Rightarrow> 's"

definition verify_register ::
    "('s, 'e) clock_chip_bus \<Rightarrow> clock_chip_register \<Rightarrow> ('s, unit, 'e clock_chip_error) eff" where
  "verify_register bus entry =
     bindE (map_errE (BusError (cr_register entry) OperationRead)
              (cb_read_register bus (cr_register entry))) (\<lambda>actual.
     if actual \<noteq> cr_value entry
     then raise (VerifyMismatch (cr_register entry) (cr_value entry) actual)
     else ret ())"

fun program_entries ::
    "('s, 'e) clock_chip_bus \<Rightarrow> clock_chip_options \<Rightarrow> clock_chip_register list \<Rightarrow> clock_chip_report
     \<Rightarrow> ('s, clock_chip_report, 'e clock_chip_error) eff" where
  "program_entries bus opts [] report = ret report"
| "program_entries bus opts (entry # rest) report =
     (if \<not> includes_register opts (cr_register entry)
      then program_entries bus opts rest report
      else thenE (map_errE (BusError (cr_register entry) OperationWrite)
                    (cb_write_register bus (cr_register entry) (cr_value entry)))
        (let report = report\<lparr>cp_written := cp_written report + 1\<rparr> in
         if co_verify opts
         then thenE (verify_register bus entry)
                (program_entries bus opts rest
                   (report\<lparr>cp_verified := cp_verified report + 1\<rparr>))
         else program_entries bus opts rest report))"

fun reset_pulses ::
    "('s, 'e) clock_chip_bus \<Rightarrow> u8 list \<Rightarrow> clock_chip_report
     \<Rightarrow> ('s, clock_chip_report, 'e clock_chip_error) eff" where
  "reset_pulses bus [] report = ret report"
| "reset_pulses bus (v # vs) report =
     thenE (map_errE (BusError CLOCKCHIP_RESET_REGISTER OperationWrite)
              (cb_write_register bus CLOCKCHIP_RESET_REGISTER v))
     (thenE (modify (cb_reset_delay bus))
     (reset_pulses bus vs (report\<lparr>cp_reset_pulses := cp_reset_pulses report + 1\<rparr>)))"

definition program_clock_chip ::
    "('s, 'e) clock_chip_bus \<Rightarrow> clock_chip_options
     \<Rightarrow> ('s, clock_chip_report, 'e clock_chip_error) eff" where
  "program_clock_chip bus opts =
     bindE (program_entries bus opts CLOCKCHIP_REGISTERS empty_report) (\<lambda>report.
     if co_reset opts then reset_pulses bus CLOCKCHIP_RESET_SEQUENCE report else ret report)"

fun verify_entries ::
    "('s, 'e) clock_chip_bus \<Rightarrow> clock_chip_options \<Rightarrow> clock_chip_register list \<Rightarrow> clock_chip_report
     \<Rightarrow> ('s, clock_chip_report, 'e clock_chip_error) eff" where
  "verify_entries bus opts [] report = ret report"
| "verify_entries bus opts (entry # rest) report =
     (if \<not> includes_register opts (cr_register entry)
      then verify_entries bus opts rest report
      else thenE (verify_register bus entry)
             (verify_entries bus opts rest (report\<lparr>cp_verified := cp_verified report + 1\<rparr>)))"

definition verify_clock_chip ::
    "('s, 'e) clock_chip_bus \<Rightarrow> clock_chip_range list
     \<Rightarrow> ('s, clock_chip_report, 'e clock_chip_error) eff" where
  "verify_clock_chip bus ranges =
     (let opts = \<lparr>co_verify = True, co_reset = False, co_ranges = ranges\<rparr>
      in verify_entries bus opts CLOCKCHIP_REGISTERS empty_report)"

section \<open>A bus in front of a register file\<close>

definition selected :: "clock_chip_options \<Rightarrow> clock_chip_register list \<Rightarrow> clock_chip_register list" where
  "selected opts es = filter (\<lambda>e. includes_register opts (cr_register e)) es"

definition entry_write :: "clock_chip_register \<Rightarrow> u8 \<times> u8" where
  "entry_write e = (cr_register e, cr_value e)"

text \<open>The writes a programming run is to make, in order.\<close>

definition planned_writes :: "clock_chip_options \<Rightarrow> (u8 \<times> u8) list" where
  "planned_writes opts =
     map entry_write (selected opts CLOCKCHIP_REGISTERS)
     @ (if co_reset opts then map (Pair CLOCKCHIP_RESET_REGISTER) CLOCKCHIP_RESET_SEQUENCE else [])"

definition full_report :: "clock_chip_options \<Rightarrow> clock_chip_report" where
  "full_report opts =
     (let n = length (selected opts CLOCKCHIP_REGISTERS) in
      \<lparr>cp_written = n, cp_verified = (if co_verify opts then n else 0),
       cp_reset_pulses = (if co_reset opts then length CLOCKCHIP_RESET_SEQUENCE else 0)\<rparr>)"

definition write_all :: "(u8 \<times> u8) list \<Rightarrow> (u8 \<Rightarrow> u8) \<Rightarrow> (u8 \<Rightarrow> u8)" where
  "write_all ws m = foldl (\<lambda>m (r, v). m(r := v)) m ws"

text \<open>The registers of the table ascend, so each is written once, and the reset register is not
  one of them.\<close>

lemma table_ascending: "successively (<) (map cr_register CLOCKCHIP_REGISTERS)"
  unfolding CLOCKCHIP_REGISTERS_def reg_def by (simp add: word_less_nat_alt)

lemma table_distinct: "distinct (map cr_register CLOCKCHIP_REGISTERS)"
  using table_ascending strict_sorted_iff
  by (subst (asm) successively_conv_sorted_wrt) (auto simp: transp_def)

lemma reset_register_not_in_table:
  "e \<in> set CLOCKCHIP_REGISTERS \<Longrightarrow> cr_register e \<noteq> CLOCKCHIP_RESET_REGISTER"
proof -
  have "list_all (\<lambda>e. cr_register e \<noteq> CLOCKCHIP_RESET_REGISTER) CLOCKCHIP_REGISTERS"
    unfolding CLOCKCHIP_REGISTERS_def reg_def CLOCKCHIP_RESET_REGISTER_def by simp
  then show "e \<in> set CLOCKCHIP_REGISTERS \<Longrightarrow> cr_register e \<noteq> CLOCKCHIP_RESET_REGISTER"
    by (simp add: list_all_iff)
qed

lemma write_all_append: "write_all (ws @ ws') m = write_all ws' (write_all ws m)"
  by (simp add: write_all_def)

lemma write_all_other: "r \<notin> fst ` set ws \<Longrightarrow> write_all ws m r = m r"
  by (induction ws arbitrary: m) (auto simp: write_all_def)

lemma write_all_selected:
  assumes "distinct (map cr_register es)" and "e \<in> set es"
  shows "write_all (map entry_write es) m (cr_register e) = cr_value e"
  using assms
proof (induction es arbitrary: m)
  case (Cons d es)
  have step: "write_all (map entry_write (d # es)) m =
      write_all (map entry_write es) (m(cr_register d := cr_value d))"
    by (simp add: write_all_def entry_write_def)
  show ?case
  proof (cases "e = d")
    case True
    with Cons.prems show ?thesis
      unfolding step by (subst write_all_other) (auto simp: entry_write_def)
  next
    case False
    with Cons show ?thesis unfolding step by simp
  qed
qed simp

lemma planned_writes_effect:
  assumes "e \<in> set (selected opts CLOCKCHIP_REGISTERS)"
  shows "write_all (planned_writes opts) m (cr_register e) = cr_value e"
proof -
  have "distinct (map cr_register (selected opts CLOCKCHIP_REGISTERS))"
    using table_distinct by (simp add: selected_def distinct_map_filter)
  moreover have "cr_register e \<noteq> CLOCKCHIP_RESET_REGISTER"
    using assms by (intro reset_register_not_in_table) (simp add: selected_def)
  ultimately show ?thesis
    using assms write_all_selected
    by (auto simp: planned_writes_def write_all_append write_all_other image_iff)
qed

text \<open>
  What a bus promises: it never panics; a write that succeeds changes that register only and is
  the next one on the bus, a write that fails leaves no trace; a read changes nothing and a read
  that succeeds returns the register.
\<close>

locale register_bus =
  fixes bus :: "('s, 'e) clock_chip_bus"
    and mem :: "'s \<Rightarrow> u8 \<Rightarrow> u8"
    and log :: "'s \<Rightarrow> (u8 \<times> u8) list"
  assumes write_law: "wp (cb_write_register bus r v)
      (post_ok (\<lambda>_ t. mem t = (mem s)(r := v) \<and> log t = log s @ [(r, v)])
               (\<lambda>_ t. mem t = mem s \<and> log t = log s)) s"
    and read_law: "wp (cb_read_register bus r)
      (\<lambda>res t. mem t = mem s \<and> log t = log s \<and> (\<forall>v. res = Ok v \<longrightarrow> v = mem s r)) s"
    and delay_law: "mem (cb_reset_delay bus s) = mem s \<and> log (cb_reset_delay bus s) = log s"
begin

lemma verify_register_spec:
  "wp (verify_register bus e)
     (\<lambda>res t. mem t = mem s \<and> log t = log s \<and>
        (res = Ok () \<longrightarrow> mem s (cr_register e) = cr_value e) \<and>
        (\<forall>err. res = Err err \<longrightarrow>
           (\<exists>src. err = BusError (cr_register e) OperationRead src) \<or>
           mem s (cr_register e) \<noteq> cr_value e \<and>
           err = VerifyMismatch (cr_register e) (cr_value e) (mem s (cr_register e)))) s"
  unfolding verify_register_def wp_simps
  by (rule wp_mono [OF read_law])
     (auto simp: wp_simps post_ok_def map_err_def split: result.splits)

definition wrote :: "(u8 \<times> u8) list \<Rightarrow> 's \<Rightarrow> 's \<Rightarrow> bool" where
  "wrote ws s t \<longleftrightarrow> log t = log s @ ws \<and> mem t = write_all ws (mem s)"

lemma wrote_refl [simp]: "wrote [] s s"
  by (simp add: wrote_def write_all_def)

lemma wrote_trans: "wrote ws s t \<Longrightarrow> wrote ws' t u \<Longrightarrow> wrote (ws @ ws') s u"
  by (simp add: wrote_def write_all_def)

lemma write_spec:
  "wp (cb_write_register bus r v)
     (post_ok (\<lambda>_ t. wrote [(r, v)] s t) (\<lambda>_ t. wrote [] s t)) s"
  by (rule wp_mono [OF write_law]) (auto simp: post_ok_def wrote_def write_all_def split: result.splits)

text \<open>A run that makes the writes \<open>ws\<close>, or stops at a bus error after some of them.\<close>

definition writes_post ::
    "(u8 \<times> u8) list \<Rightarrow> 's \<Rightarrow> clock_chip_report \<Rightarrow> (clock_chip_report, 'e clock_chip_error) result \<Rightarrow> 's \<Rightarrow> bool"
  where
  "writes_post ws s rep res t \<longleftrightarrow>
     (\<forall>rep'. res = Ok rep' \<longrightarrow> wrote ws s t \<and> rep' = rep)
     \<and> (\<forall>err. res = Err err \<longrightarrow> (\<exists>n. wrote (take n ws) s t) \<and> (\<exists>r p src. err = BusError r p src))"

lemma writes_post_Cons:
  "writes_post ws t rep res u \<Longrightarrow> wrote [w] s t \<Longrightarrow> writes_post (w # ws) s rep res u"
  using wrote_trans [of "[w]" s t] by (fastforce simp: writes_post_def intro: exI [of _ "Suc n" for n])

lemma program_entries_spec:
  "wp (program_entries bus opts es report)
     (writes_post (map entry_write (selected opts es)) s
        (report\<lparr>cp_written := cp_written report + length (selected opts es),
                cp_verified := cp_verified report
                  + of_bool (co_verify opts) * length (selected opts es)\<rparr>)) s"
proof (induction es arbitrary: s report)
  case Nil
  then show ?case by (simp add: wp_simps selected_def writes_post_def)
next
  case (Cons e es)
  show ?case
  proof (cases "includes_register opts (cr_register e)")
    case False
    then have "selected opts (e # es) = selected opts es" by (simp add: selected_def)
    with False show ?thesis using Cons.IH [of report s] by simp
  next
    case True
    then have sel: "selected opts (e # es) = e # selected opts es" by (simp add: selected_def)
    define w where "w = (cr_register e, cr_value e)"
    have tail: "wp (program_entries bus opts es rep)
        (writes_post (map entry_write (selected opts (e # es))) s
          (rep\<lparr>cp_written := cp_written rep + length (selected opts es),
               cp_verified := cp_verified rep
                 + of_bool (co_verify opts) * length (selected opts es)\<rparr>)) t"
      if "wrote [w] s t" for rep t
      by (rule wp_mono [OF Cons.IH])
         (simp only: sel list.map entry_write_def [of e] w_def [symmetric] writes_post_Cons [OF _ that])
    have checked: "wp (verify_register bus e)
        (\<lambda>res u. wrote [w] s u \<and> (\<forall>err. res = Err err \<longrightarrow> (\<exists>r p src. err = BusError r p src))) t"
      if "wrote [w] s t" for t
      by (rule wp_mono [OF verify_register_spec])
         (use that in \<open>auto simp: wrote_def w_def write_all_def\<close>)
    have stop: "writes_post (map entry_write (selected opts (e # es))) s rep
        (Err (BusError r p src)) t"
      if "wrote [] s t \<or> wrote [w] s t" for rep r p src t
      using that by (auto simp: writes_post_def sel entry_write_def w_def [symmetric]
          intro: exI [of _ 0] exI [of _ 1])
    define rep where "rep = report\<lparr>cp_written := cp_written report + 1,
      cp_verified := cp_verified report + of_bool (co_verify opts)\<rparr>"
    let ?post = "writes_post (map entry_write (selected opts (e # es))) s
      (report\<lparr>cp_written := cp_written report + length (selected opts (e # es)),
              cp_verified := cp_verified report
                + of_bool (co_verify opts) * length (selected opts (e # es))\<rparr>)"
    have rest: "wp (program_entries bus opts es rep) ?post t" if "wrote [w] s t" for t
      using tail [OF that, of rep] by (cases "co_verify opts") (simp_all add: sel rep_def)
    have body: "wp (if co_verify opts then thenE (verify_register bus e) (program_entries bus opts es rep)
        else program_entries bus opts es rep) ?post t" if w: "wrote [w] s t" for t
      using rest [OF w] rest stop
      by (auto simp: wp_simps post_ok_def split: result.splits intro!: wp_mono [OF checked [OF w]])
    have step: "program_entries bus opts (e # es) report =
        thenE (map_errE (BusError (cr_register e) OperationWrite)
                 (cb_write_register bus (cr_register e) (cr_value e)))
          (if co_verify opts then thenE (verify_register bus e) (program_entries bus opts es rep)
           else program_entries bus opts es rep)"
      using True by (simp add: rep_def Let_def)
    show ?thesis
      unfolding step wp_thenE wp_map_errE
      by (rule wp_mono [OF write_spec])
         (use body stop in \<open>auto simp: post_ok_def w_def [symmetric] split: result.splits\<close>)
  qed
qed

lemma writes_post_append:
  "writes_post ws s rep (Ok a) t \<Longrightarrow> writes_post ws' t rep' res u \<Longrightarrow> writes_post (ws @ ws') s rep' res u"
  using wrote_trans [of ws s t]
  by (fastforce simp: writes_post_def intro: exI [of _ "length ws + n" for n])

lemma writes_post_Err_append:
  assumes "writes_post ws s rep (Err err) t"
  shows "writes_post (ws @ ws') s rep' (Err err) t"
proof -
  from assms obtain n where "wrote (take n ws) s t" "\<exists>r p src. err = BusError r p src"
    by (auto simp: writes_post_def)
  moreover have "take n ws = take (min n (length ws)) (ws @ ws')" by (simp add: min_def)
  ultimately show ?thesis unfolding writes_post_def by (metis result.distinct(1) result.inject(2))
qed

lemma reset_pulses_spec:
  "wp (reset_pulses bus vs report)
     (writes_post (map (Pair CLOCKCHIP_RESET_REGISTER) vs) s
        (report\<lparr>cp_reset_pulses := cp_reset_pulses report + length vs\<rparr>)) s"
proof (induction vs arbitrary: s report)
  case Nil
  then show ?case by (simp add: wp_simps writes_post_def)
next
  case (Cons v vs)
  let ?ws = "map (Pair CLOCKCHIP_RESET_REGISTER) vs"
  have rest: "wp (reset_pulses bus vs (report\<lparr>cp_reset_pulses := cp_reset_pulses report + 1\<rparr>))
      (writes_post ((CLOCKCHIP_RESET_REGISTER, v) # ?ws) s
        (report\<lparr>cp_reset_pulses := cp_reset_pulses report + length (v # vs)\<rparr>)) (cb_reset_delay bus t)"
    if "wrote [(CLOCKCHIP_RESET_REGISTER, v)] s t" for t
  proof -
    have "wrote [(CLOCKCHIP_RESET_REGISTER, v)] s (cb_reset_delay bus t)"
      using that by (simp add: wrote_def delay_law)
    then show ?thesis
      by (intro wp_mono [OF Cons.IH]) (simp add: writes_post_Cons)
  qed
  have stop: "writes_post ((CLOCKCHIP_RESET_REGISTER, v) # ?ws) s rep (Err (BusError r p src)) t"
    if "wrote [] s t" for t rep r p src
    using that by (auto simp: writes_post_def intro: exI [of _ 0])
  show ?case
    unfolding reset_pulses.simps wp_thenE wp_map_errE wp_modify
    by (rule wp_mono [OF write_spec])
       (use rest stop in \<open>auto simp: post_ok_def split: result.splits\<close>)
qed

lemma program_spec:
  "wp (program_clock_chip bus opts) (writes_post (planned_writes opts) s (full_report opts)) s"
proof -
  let ?ws = "map entry_write (selected opts CLOCKCHIP_REGISTERS)"
  let ?rs = "map (Pair CLOCKCHIP_RESET_REGISTER) CLOCKCHIP_RESET_SEQUENCE"
  define rep where "rep = empty_report\<lparr>
    cp_written := cp_written empty_report + length (selected opts CLOCKCHIP_REGISTERS),
    cp_verified := cp_verified empty_report
      + of_bool (co_verify opts) * length (selected opts CLOCKCHIP_REGISTERS)\<rparr>"
  have reset: "wp (reset_pulses bus CLOCKCHIP_RESET_SEQUENCE rep)
      (writes_post (?ws @ ?rs) s
        (rep\<lparr>cp_reset_pulses := cp_reset_pulses rep + length CLOCKCHIP_RESET_SEQUENCE\<rparr>)) t"
    if "writes_post ?ws s rep (Ok rep) t" for t
    by (rule wp_mono [OF reset_pulses_spec]) (rule writes_post_append [OF that])
  have tail: "wp (if co_reset opts then reset_pulses bus CLOCKCHIP_RESET_SEQUENCE a else ret a)
      (writes_post (planned_writes opts) s (full_report opts)) t"
    if "writes_post ?ws s rep (Ok a) t" for a t
  proof -
    have "a = rep" using that by (simp add: writes_post_def)
    then show ?thesis
      using reset [of t] that
      by (cases "co_verify opts"; cases "co_reset opts")
         (simp_all add: wp_simps planned_writes_def full_report_def rep_def empty_report_def Let_def)
  qed
  show ?thesis
    unfolding program_clock_chip_def wp_bindE
    by (rule wp_mono [OF program_entries_spec])
       (use tail in \<open>auto simp: post_ok_def rep_def planned_writes_def split: result.splits
          intro: writes_post_Err_append writes_post_Err_append [where ws' = "[]", simplified]\<close>)
qed

text \<open>Verifying changes nothing and succeeds exactly on the values it read.\<close>

definition verify_post ::
    "clock_chip_register list \<Rightarrow> 's \<Rightarrow> clock_chip_report \<Rightarrow> (clock_chip_report, 'e clock_chip_error) result \<Rightarrow> 's \<Rightarrow> bool"
  where
  "verify_post es s rep res t \<longleftrightarrow> mem t = mem s \<and> log t = log s
     \<and> (\<forall>rep'. res = Ok rep' \<longrightarrow> (\<forall>e \<in> set es. mem s (cr_register e) = cr_value e) \<and> rep' = rep)
     \<and> (\<forall>err. res = Err err \<longrightarrow>
          (\<exists>e \<in> set es. (\<exists>src. err = BusError (cr_register e) OperationRead src)
             \<or> mem s (cr_register e) \<noteq> cr_value e
               \<and> err = VerifyMismatch (cr_register e) (cr_value e) (mem s (cr_register e))))"

lemma verify_entries_spec:
  "wp (verify_entries bus opts es report)
     (verify_post (selected opts es) s
        (report\<lparr>cp_verified := cp_verified report + length (selected opts es)\<rparr>)) s"
proof (induction es arbitrary: s report)
  case Nil
  then show ?case by (simp add: wp_simps selected_def verify_post_def)
next
  case (Cons e es)
  show ?case
  proof (cases "includes_register opts (cr_register e)")
    case False
    then have "selected opts (e # es) = selected opts es" by (simp add: selected_def)
    with False show ?thesis using Cons.IH [of report s] by simp
  next
    case True
    then have sel: "selected opts (e # es) = e # selected opts es" by (simp add: selected_def)
    have rest: "wp (verify_entries bus opts es (report\<lparr>cp_verified := cp_verified report + 1\<rparr>))
        (verify_post (selected opts (e # es)) s
          (report\<lparr>cp_verified := cp_verified report + length (selected opts (e # es))\<rparr>)) t"
      if "mem t = mem s" "log t = log s" "mem s (cr_register e) = cr_value e" for t
      by (rule wp_mono [OF Cons.IH]) (use that in \<open>auto simp: verify_post_def sel\<close>)
    show ?thesis
      using True
      by (simp add: wp_simps)
         (rule wp_mono [OF verify_register_spec],
          use rest in \<open>auto simp: post_ok_def verify_post_def sel split: result.splits\<close>)
  qed
qed

lemma verify_spec:
  "wp (verify_clock_chip bus ranges)
     (verify_post (selected \<lparr>co_verify = True, co_reset = False, co_ranges = ranges\<rparr> CLOCKCHIP_REGISTERS) s
        (full_report \<lparr>co_verify = True, co_reset = False, co_ranges = ranges\<rparr>\<lparr>cp_written := 0\<rparr>)) s"
  unfolding verify_clock_chip_def Let_def
  by (rule wp_mono [OF verify_entries_spec]) (simp add: full_report_def empty_report_def Let_def)

text \<open>Right after a successful programming run, verifying the same ranges finds no mismatch.\<close>

lemma program_then_verify:
  assumes "wrote (planned_writes opts) s t"
  shows "wp (verify_clock_chip bus (co_ranges opts))
    (\<lambda>res u. log u = log t \<and> (\<forall>err. res = Err err \<longrightarrow> (\<exists>r src. err = BusError r OperationRead src))) t"
proof -
  have sel: "selected \<lparr>co_verify = True, co_reset = False, co_ranges = co_ranges opts\<rparr> CLOCKCHIP_REGISTERS
      = selected opts CLOCKCHIP_REGISTERS"
    by (simp add: selected_def includes_register_def)
  have "mem t (cr_register e) = cr_value e" if "e \<in> set (selected opts CLOCKCHIP_REGISTERS)" for e
    using assms planned_writes_effect [OF that] by (simp add: wrote_def)
  then show ?thesis
    by (intro wp_mono [OF verify_spec]) (auto simp: verify_post_def sel)
qed

text \<open>The three results written out.\<close>

lemma program_outcome:
  "\<exists>res t. program_clock_chip bus opts s = Some (res, t) \<and> (case res of
     Ok rep \<Rightarrow> rep = full_report opts \<and> log t = log s @ planned_writes opts
       \<and> (\<forall>e \<in> set CLOCKCHIP_REGISTERS. includes_register opts (cr_register e) \<longrightarrow>
             mem t (cr_register e) = cr_value e)
   | Err err \<Rightarrow> (\<exists>r p src. err = BusError r p src) \<and> prefix (log s) (log t)
       \<and> prefix (log t) (log s @ planned_writes opts))"
proof -
  from program_spec [of opts s] obtain res t
    where run: "program_clock_chip bus opts s = Some (res, t)"
      and post: "writes_post (planned_writes opts) s (full_report opts) res t"
    by (rule wpE)
  show ?thesis
  proof (intro exI conjI, rule run, cases res)
    case (Ok rep)
    with post show "case res of Ok rep \<Rightarrow> rep = full_report opts \<and> log t = log s @ planned_writes opts
       \<and> (\<forall>e \<in> set CLOCKCHIP_REGISTERS. includes_register opts (cr_register e) \<longrightarrow>
             mem t (cr_register e) = cr_value e)
      | Err err \<Rightarrow> (\<exists>r p src. err = BusError r p src) \<and> prefix (log s) (log t)
       \<and> prefix (log t) (log s @ planned_writes opts)"
      by (auto simp: writes_post_def wrote_def selected_def intro!: planned_writes_effect)
  next
    case (Err err)
    with post show "case res of Ok rep \<Rightarrow> rep = full_report opts \<and> log t = log s @ planned_writes opts
       \<and> (\<forall>e \<in> set CLOCKCHIP_REGISTERS. includes_register opts (cr_register e) \<longrightarrow>
             mem t (cr_register e) = cr_value e)
      | Err err \<Rightarrow> (\<exists>r p src. err = BusError r p src) \<and> prefix (log s) (log t)
       \<and> prefix (log t) (log s @ planned_writes opts)"
      by (auto simp: writes_post_def wrote_def take_is_prefix)
  qed
qed

lemma verify_outcome:
  "\<exists>res t. verify_clock_chip bus ranges s = Some (res, t) \<and> mem t = mem s \<and> log t = log s
   \<and> (let es = filter (\<lambda>e. ranges = [] \<or> (\<exists>g \<in> set ranges. range_contains g (cr_register e))) CLOCKCHIP_REGISTERS
      in case res of
        Ok rep \<Rightarrow> rep = \<lparr>cp_written = 0, cp_verified = length es, cp_reset_pulses = 0\<rparr>
          \<and> (\<forall>e \<in> set es. mem s (cr_register e) = cr_value e)
      | Err err \<Rightarrow> (\<exists>e \<in> set es. (\<exists>src. err = BusError (cr_register e) OperationRead src)
          \<or> mem s (cr_register e) \<noteq> cr_value e
            \<and> err = VerifyMismatch (cr_register e) (cr_value e) (mem s (cr_register e))))"
proof -
  from verify_spec [of ranges s] obtain res t
    where run: "verify_clock_chip bus ranges s = Some (res, t)"
      and post: "verify_post (selected \<lparr>co_verify = True, co_reset = False, co_ranges = ranges\<rparr> CLOCKCHIP_REGISTERS) s
        (full_report \<lparr>co_verify = True, co_reset = False, co_ranges = ranges\<rparr>\<lparr>cp_written := 0\<rparr>) res t"
    by (rule wpE)
  have sel: "selected \<lparr>co_verify = True, co_reset = False, co_ranges = ranges\<rparr> CLOCKCHIP_REGISTERS
      = filter (\<lambda>e. ranges = [] \<or> (\<exists>g \<in> set ranges. range_contains g (cr_register e))) CLOCKCHIP_REGISTERS"
    by (simp add: selected_def includes_register_def list_ex_iff)
  show ?thesis
    using run post unfolding sel verify_post_def
    by (auto simp: Let_def full_report_def sel split: result.splits)
qed

lemma program_verify_outcome:
  assumes "program_clock_chip bus opts s = Some (Ok rep, t)"
  shows "\<exists>res u. verify_clock_chip bus (co_ranges opts) t = Some (res, u) \<and> log u = log t
    \<and> (\<forall>err. res = Err err \<longrightarrow> (\<exists>r src. err = BusError r OperationRead src))"
proof -
  have "wrote (planned_writes opts) s t"
    using program_spec [of opts s] assms by (simp add: wp_Some writes_post_def)
  from program_then_verify [OF this] show ?thesis by (auto elim: wpE)
qed

end

section \<open>The bus of the unit tests\<close>

record fake_bus =
  fb_registers :: "u8 \<rightharpoonup> u8"
  fb_writes :: "(u8 \<times> u8) list"
  fb_delays :: nat

definition fake_clock_bus :: "(fake_bus, unit) clock_chip_bus" where
  "fake_clock_bus =
     \<lparr>cb_write_register = (\<lambda>r v. modify (\<lambda>b. b\<lparr>fb_registers := (fb_registers b)(r \<mapsto> v),
                                              fb_writes := fb_writes b @ [(r, v)]\<rparr>)),
      cb_read_register = (\<lambda>r. gets (\<lambda>b. case fb_registers b r of Some v \<Rightarrow> v | None \<Rightarrow> 0)),
      cb_reset_delay = (\<lambda>b. b\<lparr>fb_delays := fb_delays b + 1\<rparr>)\<rparr>"

definition fake_memory :: "fake_bus \<Rightarrow> u8 \<Rightarrow> u8" where
  "fake_memory b r = (case fb_registers b r of Some v \<Rightarrow> v | None \<Rightarrow> 0)"

interpretation unit_bus: register_bus fake_clock_bus fake_memory fb_writes
  by unfold_locales (auto simp: fake_clock_bus_def fake_memory_def wp_simps post_ok_def)

end
