(* ===== verification/RustText.thy ===== *)
theory RustText
  imports Prelude "HOL-Library.Sublist"
begin

text \<open>
  The operations of Rust's \<open>str\<close> that the server uses, on strings as the bytes of their UTF-8
  form: parsing of numbers, prefixes, splitting, lines, trimming of Unicode white space.
\<close>

section \<open>Numbers\<close>

text \<open>\<open>from_str_radix\<close> of an unsigned type, and \<open>str::parse\<close> with radix 10: an optional plus sign
  and digits, the value within the type.\<close>

definition digit_value :: "nat \<Rightarrow> char \<Rightarrow> nat option" where
  "digit_value radix c =
     (let n = of_char c :: nat;
          d = (if 48 \<le> n \<and> n \<le> 57 then n - 48
               else if 97 \<le> n \<and> n \<le> 122 then n - 87
               else if 65 \<le> n \<and> n \<le> 90 then n - 55 else radix)
      in if d < radix then Some d else None)"

fun parse_digits :: "nat \<Rightarrow> nat \<Rightarrow> nat \<Rightarrow> string \<Rightarrow> nat option" where
  "parse_digits radix limit acc [] = Some acc"
| "parse_digits radix limit acc (c # cs) = (case digit_value radix c of
     None \<Rightarrow> None
   | Some d \<Rightarrow> if limit < acc * radix + d then None else parse_digits radix limit (acc * radix + d) cs)"

definition from_str_radix :: "nat \<Rightarrow> string \<Rightarrow> ('a::len word) option" where
  "from_str_radix radix s =
     (let digits = (case s of c # cs \<Rightarrow> if c = CHR ''+'' then cs else s | [] \<Rightarrow> [])
      in if digits = [] then None
         else map_option word_of_nat (parse_digits radix (2 ^ LENGTH('a) - 1) 0 digits))"

section \<open>Prefixes and joining\<close>

definition strip_prefix :: "string \<Rightarrow> string \<Rightarrow> string option" where
  "strip_prefix p s = (if take (length p) s = p then Some (drop (length p) s) else None)"

definition strip_suffix :: "string \<Rightarrow> string \<Rightarrow> string option" where
  "strip_suffix p s = map_option rev (strip_prefix (rev p) (rev s))"

definition starts_with :: "string \<Rightarrow> string \<Rightarrow> bool" where
  "starts_with p s \<longleftrightarrow> prefix p s"

definition ends_with :: "string \<Rightarrow> string \<Rightarrow> bool" where
  "ends_with p s \<longleftrightarrow> suffix p s"

definition contains :: "string \<Rightarrow> string \<Rightarrow> bool" where
  "contains p s \<longleftrightarrow> sublist p s"

definition join_with :: "string \<Rightarrow> string list \<Rightarrow> string" where
  "join_with sep xs = (case xs of [] \<Rightarrow> [] | x # rest \<Rightarrow> x @ concat (map (\<lambda>y. sep @ y) rest))"

section \<open>Splitting\<close>

text \<open>\<open>split\<close> at every character of a set (one part more than separators) and the two forms of
  \<open>split_once\<close>, at the first and at the last occurrence.\<close>

fun split_at :: "(char \<Rightarrow> bool) \<Rightarrow> string \<Rightarrow> string list" where
  "split_at p [] = [[]]"
| "split_at p (c # cs) = (if p c then [] # split_at p cs
     else (case split_at p cs of part # parts \<Rightarrow> (c # part) # parts | [] \<Rightarrow> [[c]]))"

fun split_once :: "string \<Rightarrow> string \<Rightarrow> (string \<times> string) option" where
  "split_once pat [] = (if pat = [] then Some ([], []) else None)"
| "split_once pat (c # cs) = (case strip_prefix pat (c # cs) of
     Some rest \<Rightarrow> Some ([], rest)
   | None \<Rightarrow> map_option (\<lambda>(a, b). (c # a, b)) (split_once pat cs))"

definition rsplit_once :: "char \<Rightarrow> string \<Rightarrow> (string \<times> string) option" where
  "rsplit_once c s = map_option (\<lambda>(a, b). (rev b, rev a)) (split_once [c] (rev s))"

text \<open>\<open>lines\<close>: the parts between newlines without a carriage return at their end; nothing follows
  a final newline.\<close>

definition drop_cr :: "string \<Rightarrow> string" where
  "drop_cr l = (case strip_suffix [CHR 0x0D] l of Some l' \<Rightarrow> l' | None \<Rightarrow> l)"

fun split_lines :: "string list \<Rightarrow> string list" where
  "split_lines [] = []"
| "split_lines [l] = (if l = [] then [] else [l])"
| "split_lines (l # m # ls) = drop_cr l # split_lines (m # ls)"

definition lines :: "string \<Rightarrow> string list" where
  "lines s = split_lines (split_at (\<lambda>c. c = CHR 0x0A) s)"

section \<open>Trimming\<close>

text \<open>The characters of the Unicode property White_Space, in UTF-8.\<close>

definition white_space :: "string list" where
  "white_space =
     [[CHR 0x09], [CHR 0x0A], [CHR 0x0B], [CHR 0x0C], [CHR 0x0D], [CHR 0x20],
      [CHR 0xC2, CHR 0x85], [CHR 0xC2, CHR 0xA0], [CHR 0xE1, CHR 0x9A, CHR 0x80]]
     @ map (\<lambda>n. [CHR 0xE2, CHR 0x80, char_of n]) ([0x80..<0x8B] @ [0xA8, 0xA9, 0xAF :: nat])
     @ [[CHR 0xE2, CHR 0x81, CHR 0x9F], [CHR 0xE3, CHR 0x80, CHR 0x80]]"

text \<open>\<open>white_at ws s\<close> is the length of the element of \<open>ws\<close> that \<open>s\<close> begins with; \<open>trim_from ws n s\<close>
  drops the \<open>n\<close> bytes left of the current one and then every further element.\<close>

definition white_at :: "string list \<Rightarrow> string \<Rightarrow> nat" where
  "white_at ws s = (case find (\<lambda>w. prefix w s) ws of Some w \<Rightarrow> length w | None \<Rightarrow> 0)"

fun trim_from :: "string list \<Rightarrow> nat \<Rightarrow> string \<Rightarrow> string" where
  "trim_from ws n [] = []"
| "trim_from ws (Suc n) (c # cs) = trim_from ws n cs"
| "trim_from ws 0 (c # cs) = (case white_at ws (c # cs) of 0 \<Rightarrow> c # cs | Suc n \<Rightarrow> trim_from ws n cs)"

definition trim :: "string \<Rightarrow> string" where
  "trim s = rev (trim_from (map rev white_space) 0 (rev (trim_from white_space 0 s)))"

lemma split_at_not_Nil [simp]: "split_at p s \<noteq> []"
  by (cases s) (auto split: list.splits)

lemma trim_from_suffix: "suffix (trim_from ws n s) s"
  by (induction ws n s rule: trim_from.induct) (auto intro: suffix_ConsI split: nat.split)

section \<open>Formatted numbers are read back\<close>

lemma digit_value_digit_char: "d < b \<Longrightarrow> b \<le> 16 \<Longrightarrow> digit_value b (digit_char upper d) = Some d"
  by (auto simp: digit_value_def digit_char_def Let_def)

lemma parse_digits_append:
  "parse_digits b limit acc (xs @ ys) =
     (case parse_digits b limit acc xs of None \<Rightarrow> None | Some a \<Rightarrow> parse_digits b limit a ys)"
  by (induction xs arbitrary: acc) (auto split: option.split)

lemma parse_radix_digits:
  assumes b: "2 \<le> b" "b \<le> 16"
  shows "n \<le> limit \<Longrightarrow> parse_digits b limit 0 (radix_digits b upper n) = Some n"
proof (induction n rule: less_induct)
  case (less n)
  show ?case
  proof (cases "n < b")
    case True
    from digit_value_digit_char [OF True b(2)] True less.prems show ?thesis
      by (subst radix_digits.simps) simp
  next
    case False
    have "n div b \<le> limit" "n div b < n" using less.prems False b by (auto intro: le_trans [OF div_le_dividend])
    from less.IH [OF this(2,1)] digit_value_digit_char [of "n mod b" b upper] False b less.prems
    show ?thesis by (subst radix_digits.simps) (simp add: parse_digits_append)
  qed
qed

lemma radix_digits_head:
  assumes b: "2 \<le> b" "b \<le> 16"
  shows "\<exists>d ds. d < b \<and> radix_digits b upper n = digit_char upper d # ds"
proof (induction n rule: less_induct)
  case (less n)
  show ?case
  proof (cases "n < b")
    case True
    then show ?thesis using b by (subst radix_digits.simps) auto
  next
    case False
    then have "n div b < n" using b by simp
    from less.IH [OF this] show ?thesis using False b by (subst radix_digits.simps) auto
  qed
qed

lemma digit_char_not_plus: "d < b \<Longrightarrow> b \<le> 16 \<Longrightarrow> digit_char upper d \<noteq> CHR ''+''"
  using digit_value_digit_char [of d b upper] by (auto simp: digit_value_def)

lemma parse_zeros: "2 \<le> b \<Longrightarrow> parse_digits b limit 0 (replicate n (CHR ''0'') @ s) = parse_digits b limit 0 s"
  by (induction n) (simp_all add: digit_value_def)

lemma from_str_radix_padded:
  assumes b: "2 \<le> b" "b \<le> 16"
  shows "from_str_radix b (pad_zeros k (radix_digits b upper (unat (w :: 'a::len word)))) = Some w"
proof -
  obtain d ds where d: "d < b" "radix_digits b upper (unat w) = digit_char upper d # ds"
    using radix_digits_head [OF b] by blast
  let ?s = "pad_zeros k (radix_digits b upper (unat w))"
  have "?s \<noteq> [] \<and> hd ?s \<noteq> CHR ''+''"
    using digit_char_not_plus [OF d(1) b(2)] d(2) by (cases "k - length (radix_digits b upper (unat w))") (simp_all add: pad_zeros_def)
  then have "(from_str_radix b ?s :: 'a word option) = map_option word_of_nat (parse_digits b (2 ^ LENGTH('a) - 1) 0 ?s)"
    by (auto simp: from_str_radix_def Let_def split: list.split)
  also have "parse_digits b (2 ^ LENGTH('a) - 1) 0 ?s = Some (unat w)"
  proof -
    have "unat w \<le> 2 ^ LENGTH('a) - 1" using unsigned_less [of w, where 'a = nat] by linarith
    from parse_radix_digits [OF b this] show ?thesis by (simp add: pad_zeros_def parse_zeros [OF b(1)])
  qed
  finally show ?thesis by simp
qed

lemma from_str_radix_fmt [simp]:
  "from_str_radix 10 (fmt_dec w) = Some w"
  "from_str_radix 16 (fmt_hex_upper k w) = Some w"
  "from_str_radix 16 (fmt_hex_lower k w) = Some w"
  using from_str_radix_padded [of 10 0 False w] from_str_radix_padded [of 16 k True w]
    from_str_radix_padded [of 16 k False w]
  by (simp_all add: fmt_dec_def fmt_hex_upper_def fmt_hex_lower_def pad_zeros_def)

text \<open>Nothing is trimmed from printable ASCII text without blanks.\<close>

definition graphic :: "char \<Rightarrow> bool" where
  "graphic c \<longleftrightarrow> 33 \<le> (of_char c :: nat) \<and> (of_char c :: nat) < 127"

lemma trim_from_graphic:
  assumes "list_all (\<lambda>w. w \<noteq> [] \<and> \<not> graphic (hd w)) ws" "list_all graphic s"
  shows "trim_from ws 0 s = s"
proof (cases s)
  case (Cons c cs)
  have "\<not> prefix w s" if "w \<in> set ws" for w
    using assms that Cons by (cases w) (auto simp: list_all_iff)
  then have "find (\<lambda>w. prefix w s) ws = None" by (auto simp: find_None_iff)
  then show ?thesis by (simp add: Cons white_at_def)
qed simp

lemma white_space_graphic:
  "list_all (\<lambda>w. w \<noteq> [] \<and> \<not> graphic (hd w)) white_space"
  "list_all (\<lambda>w. w \<noteq> [] \<and> \<not> graphic (hd w)) (map rev white_space)"
  by (simp_all add: white_space_def graphic_def upt_rec_numeral)

lemma trim_graphic: "list_all graphic s \<Longrightarrow> trim s = s"
  using trim_from_graphic [OF white_space_graphic(1), of s] trim_from_graphic [OF white_space_graphic(2), of "rev s"]
  by (simp add: trim_def list_all_iff)

lemma graphic_digits: "2 \<le> b \<Longrightarrow> b \<le> 16 \<Longrightarrow> list_all graphic (radix_digits b upper n)"
proof (induction n rule: less_induct)
  case (less n)
  have digit: "d < b \<Longrightarrow> graphic (digit_char upper d)" for d
    using less.prems by (auto simp: graphic_def digit_char_def)
  show ?case
  proof (cases "n < b")
    case False
    then have "n div b < n" using less.prems by simp
    with less False digit show ?thesis by (subst radix_digits.simps) simp
  qed (use less.prems digit in \<open>subst radix_digits.simps, simp\<close>)
qed

lemma graphic_fmt [simp]:
  "list_all graphic (fmt_dec w)" "list_all graphic (fmt_hex_upper k w)" "list_all graphic (fmt_hex_lower k w)"
  using graphic_digits [of 10] graphic_digits [of 16]
  by (auto simp: fmt_dec_def fmt_hex_upper_def fmt_hex_lower_def pad_zeros_def list_all_iff)
    (auto simp: graphic_def)

end
