(* ===== verification/I2c.thy ===== *)
theory I2c
  imports ClockChip RustText "HOL-Library.List_Lexorder"
begin

text \<open>
  The Linux I2C device (\<open>daphne-sc-server/src/i2c.rs\<close>) on which the server programs the clock
  chip: opening a bus, the SMBus word read, the bus search, and the \<open>ClockChipBus\<close> operations.
  The kernel is a parameter: a record of the system calls and file operations the code makes.
\<close>

section \<open>The kernel\<close>

text \<open>\<open>std::io::Error\<close> is its text.  The first component of \<open>kn_smbus\<close> is the return code of the
  ioctl, the second the data word afterwards; \<open>kn_last_error\<close> is \<open>std::io::Error::last_os_error\<close>.\<close>

type_synonym io_error = string

record 'k i2c_kernel =
  kn_open :: "string \<Rightarrow> ('k, nat, io_error) eff"
  kn_close :: "nat \<Rightarrow> 'k \<Rightarrow> 'k"
  kn_ioctl :: "nat \<Rightarrow> u64 \<Rightarrow> u64 \<Rightarrow> 'k \<Rightarrow> int \<times> 'k"
  kn_smbus :: "nat \<Rightarrow> u64 \<Rightarrow> u8 \<Rightarrow> u8 \<Rightarrow> u32 \<Rightarrow> u16 \<Rightarrow> 'k \<Rightarrow> (int \<times> u16) \<times> 'k"
  kn_last_error :: "'k \<Rightarrow> io_error"
  kn_write_all :: "nat \<Rightarrow> u8 list \<Rightarrow> ('k, unit, io_error) eff"
  kn_read_exact :: "nat \<Rightarrow> nat \<Rightarrow> ('k, u8 list, io_error) eff"
  kn_sleep_ms :: "nat \<Rightarrow> 'k \<Rightarrow> 'k"
  kn_dev_names :: "'k \<Rightarrow> string option list option"

definition I2C_SLAVE :: u64 where "I2C_SLAVE = 0x0703"
definition I2C_PEC :: u64 where "I2C_PEC = 0x0708"
definition I2C_SMBUS :: u64 where "I2C_SMBUS = 0x0720"
definition I2C_SMBUS_READ :: u8 where "I2C_SMBUS_READ = 1"
definition I2C_SMBUS_WORD_DATA :: u32 where "I2C_SMBUS_WORD_DATA = 3"

section \<open>The device\<close>

record linux_i2c_device =
  ld_file :: nat
  ld_bus :: u8
  ld_address :: u16

datatype linux_i2c_error =
  I2cOpen string io_error
| I2cSelectSlave u8 u16 io_error
| I2cPec u8 u16 io_error
| I2cRead u8 u16 u8 io_error
| I2cWrite u8 u16 u8 io_error
| I2cNoCandidateBus u16 "u8 list"

definition linux_i2c_error_to_string :: "linux_i2c_error \<Rightarrow> string" where
  "linux_i2c_error_to_string e = (case e of
     I2cOpen path source \<Rightarrow> ''could not open '' @ path @ '': '' @ source
   | I2cSelectSlave bus address source \<Rightarrow>
       ''could not select I2C slave 0x'' @ fmt_hex_upper 2 address @ '' on bus '' @ fmt_dec bus
       @ '': '' @ source
   | I2cPec bus address source \<Rightarrow>
       ''could not set PEC for I2C slave 0x'' @ fmt_hex_upper 2 address @ '' on bus ''
       @ fmt_dec bus @ '': '' @ source
   | I2cRead bus address r source \<Rightarrow>
       ''I2C read failed on bus '' @ fmt_dec bus @ '' addr 0x'' @ fmt_hex_upper 2 address
       @ '' reg 0x'' @ fmt_hex_upper 2 r @ '': '' @ source
   | I2cWrite bus address r source \<Rightarrow>
       ''I2C write failed on bus '' @ fmt_dec bus @ '' addr 0x'' @ fmt_hex_upper 2 address
       @ '' reg 0x'' @ fmt_hex_upper 2 r @ '': '' @ source
   | I2cNoCandidateBus address attempted \<Rightarrow>
       ''could not find I2C bus for addr 0x'' @ fmt_hex_upper 2 address @ ''; attempted [''
       @ join_with '', '' (map fmt_dec attempted) @ '']'')"

definition i2c_dev_path :: "u8 \<Rightarrow> string" where
  "i2c_dev_path bus = ''/dev/i2c-'' @ fmt_dec bus"

text \<open>\<open>if rc < 0 { return Err(.. last_os_error()) }\<close>\<close>

definition check_rc :: "'k i2c_kernel \<Rightarrow> ('k \<Rightarrow> int \<times> 'k) \<Rightarrow> ('k, unit, io_error) eff" where
  "check_rc kn call k =
     (let (rc, k') = call k in
      if rc < 0 then Some (Err (kn_last_error kn k'), k') else Some (Ok (), k'))"

definition device_open :: "'k i2c_kernel \<Rightarrow> u8 \<Rightarrow> u16 \<Rightarrow> ('k, linux_i2c_device, linux_i2c_error) eff" where
  "device_open kn bus address =
     (let path = i2c_dev_path bus in
      bindE (map_errE (I2cOpen path) (kn_open kn path)) (\<lambda>fd.
      \<lambda>k. case check_rc kn (kn_ioctl kn fd I2C_SLAVE (ucast address)) k of
        None \<Rightarrow> None
      | Some (Err source, k') \<Rightarrow> Some (Err (I2cSelectSlave bus address source), kn_close kn fd k')
      | Some (Ok _, k') \<Rightarrow> Some (Ok \<lparr>ld_file = fd, ld_bus = bus, ld_address = address\<rparr>, k')))"

definition set_pec :: "'k i2c_kernel \<Rightarrow> linux_i2c_device \<Rightarrow> bool \<Rightarrow> ('k, unit, linux_i2c_error) eff" where
  "set_pec kn d enabled =
     map_errE (I2cPec (ld_bus d) (ld_address d))
       (check_rc kn (kn_ioctl kn (ld_file d) I2C_PEC (of_flag enabled)))"

definition read_word_data ::
    "'k i2c_kernel \<Rightarrow> linux_i2c_device \<Rightarrow> u8 \<Rightarrow> ('k, u16, linux_i2c_error) eff" where
  "read_word_data kn d r k =
     (let ((rc, word), k') =
        kn_smbus kn (ld_file d) I2C_SMBUS I2C_SMBUS_READ r I2C_SMBUS_WORD_DATA 0 k in
      if rc < 0 then Some (Err (I2cRead (ld_bus d) (ld_address d) r (kn_last_error kn k')), k')
      else Some (Ok word, k'))"

definition device_write_register ::
    "'k i2c_kernel \<Rightarrow> linux_i2c_device \<Rightarrow> u8 \<Rightarrow> u8 \<Rightarrow> ('k, unit, linux_i2c_error) eff" where
  "device_write_register kn d r v =
     map_errE (I2cWrite (ld_bus d) (ld_address d) r) (kn_write_all kn (ld_file d) [r, v])"

definition device_read_register ::
    "'k i2c_kernel \<Rightarrow> linux_i2c_device \<Rightarrow> u8 \<Rightarrow> ('k, u8, linux_i2c_error) eff" where
  "device_read_register kn d r =
     thenE (map_errE (I2cWrite (ld_bus d) (ld_address d) r) (kn_write_all kn (ld_file d) [r]))
     (bindE (map_errE (I2cRead (ld_bus d) (ld_address d) r) (kn_read_exact kn (ld_file d) 1))
       (\<lambda>bytes. indexE bytes 0))"

definition linux_i2c_bus ::
    "'k i2c_kernel \<Rightarrow> linux_i2c_device \<Rightarrow> ('k, linux_i2c_error) clock_chip_bus" where
  "linux_i2c_bus kn d =
     \<lparr>cb_write_register = device_write_register kn d,
      cb_read_register = device_read_register kn d,
      cb_reset_delay = kn_sleep_ms kn 20\<rparr>"

section \<open>Looking for the bus\<close>

definition bus_of_name :: "string \<Rightarrow> u8 option" where
  "bus_of_name name = (case strip_prefix ''i2c-'' name of
     None \<Rightarrow> None | Some bus \<Rightarrow> from_str_radix 10 bus)"

definition i2c_bus_candidates :: "'k i2c_kernel \<Rightarrow> u8 option \<Rightarrow> 'k \<Rightarrow> u8 list" where
  "i2c_bus_candidates kn configured k = (case configured of
     Some bus \<Rightarrow> [bus]
   | None \<Rightarrow> (case kn_dev_names kn k of
       None \<Rightarrow> []
     | Some entries \<Rightarrow> sort (List.map_filter bus_of_name (List.map_filter id entries))))"

text \<open>One turn of the search: open the bus and read the probe register; a device that does not
  answer is dropped.\<close>

definition probe_bus ::
    "'k i2c_kernel \<Rightarrow> u16 \<Rightarrow> u8 \<Rightarrow> u8 \<Rightarrow> ('k, linux_i2c_device option, linux_i2c_error) eff" where
  "probe_bus kn address probe_register bus k = (case device_open kn bus address k of
     None \<Rightarrow> None
   | Some (Err _, k') \<Rightarrow> Some (Ok None, k')
   | Some (Ok d, k') \<Rightarrow> (case device_read_register kn d probe_register k' of
       None \<Rightarrow> None
     | Some (Err _, k'') \<Rightarrow> Some (Ok None, kn_close kn (ld_file d) k'')
     | Some (Ok _, k'') \<Rightarrow> Some (Ok (Some d), k'')))"

fun search_buses ::
    "'k i2c_kernel \<Rightarrow> u16 \<Rightarrow> u8 \<Rightarrow> u8 list \<Rightarrow> u8 list \<Rightarrow> ('k, linux_i2c_device, linux_i2c_error) eff" where
  "search_buses kn address probe_register attempted [] = raise (I2cNoCandidateBus address attempted)"
| "search_buses kn address probe_register attempted (bus # buses) =
     bindE (probe_bus kn address probe_register bus) (\<lambda>found. case found of
       Some d \<Rightarrow> ret d
     | None \<Rightarrow> search_buses kn address probe_register (attempted @ [bus]) buses)"

definition open_on_first_responsive_bus ::
    "'k i2c_kernel \<Rightarrow> u8 option \<Rightarrow> u16 \<Rightarrow> u8 \<Rightarrow> ('k, linux_i2c_device, linux_i2c_error) eff" where
  "open_on_first_responsive_bus kn configured address probe_register =
     bindE (gets (i2c_bus_candidates kn configured))
       (search_buses kn address probe_register [])"

section \<open>A chip behind the device\<close>

text \<open>
  What the file of an open device is taken to do when a register chip answers on the bus: a
  two-byte message that is accepted sets a register, a one-byte message selects the register that
  the next read returns, and a failed message changes nothing.
\<close>

definition chip_file_laws ::
    "'k i2c_kernel \<Rightarrow> nat \<Rightarrow> ('k \<Rightarrow> u8 \<Rightarrow> u8) \<Rightarrow> ('k \<Rightarrow> u8) \<Rightarrow> ('k \<Rightarrow> (u8 \<times> u8) list) \<Rightarrow> bool" where
  "chip_file_laws kn fd mem ptr log \<longleftrightarrow>
     (\<forall>k r v. wp (kn_write_all kn fd [r, v])
        (post_ok (\<lambda>_ k'. mem k' = (mem k)(r := v) \<and> log k' = log k @ [(r, v)])
                 (\<lambda>_ k'. mem k' = mem k \<and> log k' = log k)) k)
     \<and> (\<forall>k r. wp (kn_write_all kn fd [r])
        (\<lambda>res k'. mem k' = mem k \<and> log k' = log k \<and> (res = Ok () \<longrightarrow> ptr k' = r)) k)
     \<and> (\<forall>k. wp (kn_read_exact kn fd 1)
        (\<lambda>res k'. mem k' = mem k \<and> log k' = log k \<and>
           (\<forall>bs. res = Ok bs \<longrightarrow> bs = [mem k (ptr k)])) k)
     \<and> (\<forall>k n. mem (kn_sleep_ms kn n k) = mem k \<and> log (kn_sleep_ms kn n k) = log k)"

lemma linux_i2c_register_bus:
  assumes "chip_file_laws kn (ld_file d) mem ptr log"
  shows "register_bus (linux_i2c_bus kn d) mem log"
proof -
  have write_file: "wp (kn_write_all kn (ld_file d) [r, v])
      (post_ok (\<lambda>_ k'. mem k' = (mem k)(r := v) \<and> log k' = log k @ [(r, v)])
               (\<lambda>_ k'. mem k' = mem k \<and> log k' = log k)) k" for k r v
    using assms by (simp add: chip_file_laws_def)
  have select_register: "wp (kn_write_all kn (ld_file d) [r])
      (\<lambda>res k'. mem k' = mem k \<and> log k' = log k \<and> (res = Ok () \<longrightarrow> ptr k' = r)) k" for k r
    using assms by (simp add: chip_file_laws_def)
  have read_file: "wp (kn_read_exact kn (ld_file d) 1)
      (\<lambda>res k'. mem k' = mem k \<and> log k' = log k \<and> (\<forall>bs. res = Ok bs \<longrightarrow> bs = [mem k (ptr k)])) k" for k
    using assms by (simp add: chip_file_laws_def)
  show ?thesis
  proof
    fix r v s
    show "wp (cb_write_register (linux_i2c_bus kn d) r v)
      (post_ok (\<lambda>_ t. mem t = (mem s)(r := v) \<and> log t = log s @ [(r, v)])
               (\<lambda>_ t. mem t = mem s \<and> log t = log s)) s"
      unfolding linux_i2c_bus_def device_write_register_def
      by (simp add: wp_simps)
         (rule wp_mono [OF write_file], auto simp: post_ok_def map_err_def split: result.splits)
  next
    fix r s
    show "wp (cb_read_register (linux_i2c_bus kn d) r)
      (\<lambda>res t. mem t = mem s \<and> log t = log s \<and> (\<forall>v. res = Ok v \<longrightarrow> v = mem s r)) s"
      unfolding linux_i2c_bus_def device_read_register_def
      by (simp add: wp_simps del: One_nat_def)
        (rule wp_mono [OF select_register],
         auto simp: post_ok_def map_err_def wp_simps simp del: One_nat_def split: result.splits
           intro!: wp_mono [OF read_file])
  next
    show "mem (cb_reset_delay (linux_i2c_bus kn d) s) = mem s
        \<and> log (cb_reset_delay (linux_i2c_bus kn d) s) = log s" for s
      using assms by (simp add: chip_file_laws_def linux_i2c_bus_def)
  qed
qed

text \<open>A chip behind an open device: the device is a bus of the chip's registers.\<close>

locale linux_chip =
  fixes kn :: "'k i2c_kernel" and d :: linux_i2c_device
    and mem :: "'k \<Rightarrow> u8 \<Rightarrow> u8" and ptr :: "'k \<Rightarrow> u8" and log :: "'k \<Rightarrow> (u8 \<times> u8) list"
  assumes laws: "chip_file_laws kn (ld_file d) mem ptr log"

sublocale linux_chip \<subseteq> register_bus "linux_i2c_bus kn d" mem log
  by (rule linux_i2c_register_bus [OF laws])

context linux_chip
begin

lemmas chip_program = program_outcome
lemmas chip_verify = verify_outcome
lemmas chip_program_verify = program_verify_outcome

end

section \<open>The bus search\<close>

lemma probe_bus_no_error [simp]: "probe_bus kn address r bus k \<noteq> Some (Err e, k')"
  by (auto simp: probe_bus_def split: option.splits prod.splits result.splits)

text \<open>Probing the buses \<open>bs\<close> in turn finds nothing and goes from \<open>k\<close> to \<open>k'\<close>.\<close>

fun all_silent :: "'k i2c_kernel \<Rightarrow> u16 \<Rightarrow> u8 \<Rightarrow> u8 list \<Rightarrow> 'k \<Rightarrow> 'k \<Rightarrow> bool" where
  "all_silent kn address r [] k k' \<longleftrightarrow> k' = k"
| "all_silent kn address r (b # bs) k k' \<longleftrightarrow> (case probe_bus kn address r b k of
     Some (Ok None, k1) \<Rightarrow> all_silent kn address r bs k1 k'
   | _ \<Rightarrow> False)"

lemma search_buses_result:
  assumes "search_buses kn address r attempted buses k = Some (res, k')"
  shows "(\<exists>pre b suf k1 d. buses = pre @ b # suf \<and> all_silent kn address r pre k k1
      \<and> probe_bus kn address r b k1 = Some (Ok (Some d), k') \<and> res = Ok d)
    \<or> all_silent kn address r buses k k' \<and> res = Err (I2cNoCandidateBus address (attempted @ buses))"
  using assms
proof (induction buses arbitrary: attempted k)
  case Nil
  then show ?case by (simp add: raise_def)
next
  case (Cons b buses)
  from Cons.prems obtain found k1 where probe: "probe_bus kn address r b k = Some (Ok found, k1)"
    and rest: "(case found of Some d \<Rightarrow> ret d
       | None \<Rightarrow> search_buses kn address r (attempted @ [b]) buses) k1 = Some (res, k')"
    by (auto elim!: bindE_SomeE)
  show ?case
  proof (cases found)
    case (Some d)
    with probe rest have "probe_bus kn address r b k = Some (Ok (Some d), k')" "res = Ok d"
      by (simp_all add: ret_def)
    then show ?thesis by (intro disjI1 exI [of _ "[]"] exI [of _ b] exI [of _ buses]) simp
  next
    case None
    with rest have "search_buses kn address r (attempted @ [b]) buses k1 = Some (res, k')" by simp
    from Cons.IH [OF this] show ?thesis
    proof (elim disjE exE conjE)
      fix pre b' suf k2 d
      assume "buses = pre @ b' # suf" "all_silent kn address r pre k1 k2"
        "probe_bus kn address r b' k2 = Some (Ok (Some d), k')" "res = Ok d"
      with probe None show ?thesis
        by (intro disjI1 exI [of _ "b # pre"] exI [of _ b'] exI [of _ suf] exI [of _ k2] exI [of _ d]) simp
    qed (use probe None in simp)
  qed
qed

lemma probe_bus_found:
  assumes "probe_bus kn address r b k = Some (Ok (Some d), k')"
  shows "ld_bus d = b \<and> ld_address d = address
    \<and> (\<exists>k1 v. device_open kn b address k = Some (Ok d, k1)
        \<and> device_read_register kn d r k1 = Some (Ok v, k'))"
  using assms
  by (auto simp: probe_bus_def device_open_def Let_def bindE_def
      split: option.splits prod.splits result.splits)

section \<open>Properties\<close>


text \<open>A chip answering at address \<open>sc_address\<close> of bus \<open>sc_bus\<close>, on a machine with the device
  nodes \<open>sc_nodes\<close>; a transfer fails when the fault schedule says so.\<close>

record sim_chip =
  sc_nodes :: "u8 list"
  sc_bus :: u8
  sc_address :: u16
  sc_opened :: "u8 option"
  sc_selected :: bool
  sc_registers :: "u8 \<Rightarrow> u8"
  sc_pointer :: u8
  sc_log :: "(u8 \<times> u8) list"
  sc_faults :: "bool list"

definition sim_transfer :: "(sim_chip \<Rightarrow> 'a \<times> sim_chip) \<Rightarrow> (sim_chip, 'a, io_error) eff" where
  "sim_transfer f c =
     (let c' = c\<lparr>sc_faults := tl (sc_faults c)\<rparr> in
      if sc_selected c \<and> (sc_faults c = [] \<or> \<not> hd (sc_faults c))
      then (let (a, c'') = f c' in Some (Ok a, c''))
      else Some (Err ''Remote I/O error (os error 121)'', c'))"

definition sim_kernel :: "sim_chip i2c_kernel" where
  "sim_kernel =
     \<lparr>kn_open = (\<lambda>path c. if path \<in> i2c_dev_path ` set (sc_nodes c)
        then Some (Ok 3, c\<lparr>sc_opened := find (\<lambda>b. i2c_dev_path b = path) (sc_nodes c)\<rparr>)
        else Some (Err ''No such file or directory (os error 2)'', c)),
      kn_close = (\<lambda>fd c. c\<lparr>sc_opened := None, sc_selected := False\<rparr>),
      kn_ioctl = (\<lambda>fd request arg c.
        (0, if request = I2C_SLAVE
            then c\<lparr>sc_selected := sc_opened c = Some (sc_bus c) \<and> arg = ucast (sc_address c)\<rparr> else c)),
      kn_smbus = (\<lambda>fd request rw r size word c. ((0, ucast (sc_registers c r)), c)),
      kn_last_error = (\<lambda>c. ''Device or resource busy (os error 16)''),
      kn_write_all = (\<lambda>fd bytes. sim_transfer (\<lambda>c. case bytes of
          [r] \<Rightarrow> ((), c\<lparr>sc_pointer := r\<rparr>)
        | [r, v] \<Rightarrow> ((), c\<lparr>sc_registers := (sc_registers c)(r := v), sc_log := sc_log c @ [(r, v)]\<rparr>)
        | _ \<Rightarrow> ((), c))),
      kn_read_exact = (\<lambda>fd n. sim_transfer (\<lambda>c. (replicate n (sc_registers c (sc_pointer c)), c))),
      kn_sleep_ms = (\<lambda>n c. c),
      kn_dev_names = (\<lambda>c. Some (map (\<lambda>b. Some (''i2c-'' @ fmt_dec b)) (sc_nodes c)))\<rparr>"

lemma sim_chip_file_laws: "chip_file_laws sim_kernel fd sc_registers sc_pointer sc_log"
  by (auto simp: chip_file_laws_def sim_kernel_def sim_transfer_def wp_def post_ok_def Let_def)

interpretation sim_chip: linux_chip sim_kernel d sc_registers sc_pointer sc_log for d
  by unfold_locales (rule sim_chip_file_laws)


text \<open>C34: programming the clock chip through the I2C device: when it succeeds, the chip has received
  exactly the writes of the selected registers in table order followed by the reset sequence, the
  report counts them, and every selected register holds its table value; when it fails it is a bus
  error, and what the chip received is a prefix of those writes.\<close>

theorem i2c_program:
  assumes "chip_file_laws kn (ld_file d) mem ptr log"
  shows "\<exists>res k'. program_clock_chip (linux_i2c_bus kn d) opts k = Some (res, k') \<and> (case res of
     Ok rep \<Rightarrow> rep = full_report opts \<and> log k' = log k @ planned_writes opts
       \<and> (\<forall>e \<in> set CLOCKCHIP_REGISTERS. includes_register opts (cr_register e) \<longrightarrow>
             mem k' (cr_register e) = cr_value e)
   | Err err \<Rightarrow> (\<exists>r p src. err = BusError r p src) \<and> prefix (log k) (log k')
       \<and> prefix (log k') (log k @ planned_writes opts))"
  by (rule linux_chip.chip_program [OF linux_chip.intro [OF assms]])

definition idle_chip :: sim_chip where
  "idle_chip = \<lparr>sc_nodes = [2], sc_bus = 2, sc_address = 0x70, sc_opened = Some 2, sc_selected = True,
     sc_registers = (\<lambda>_. 0), sc_pointer = 0, sc_log = [], sc_faults = [False, False, True]\<rparr>"

definition idle_device :: linux_i2c_device where
  "idle_device = \<lparr>ld_file = 3, ld_bus = 2, ld_address = 0x70\<rparr>"

theorem i2c_program_witness:
  "\<exists>res k'. program_clock_chip (linux_i2c_bus sim_kernel idle_device) default_options idle_chip = Some (res, k')
     \<and> prefix (sc_log k') (planned_writes default_options)"
  using i2c_program [OF sim_chip_file_laws, of idle_device default_options idle_chip]
  unfolding result_ex by (auto simp: idle_chip_def)

text \<open>Verifying through the I2C device writes nothing; it succeeds only when every register in
  the ranges reads its table value, and an error names a register of the ranges: a failed read, or
  the value that differs.\<close>

theorem i2c_verify:
  assumes "chip_file_laws kn (ld_file d) mem ptr log"
  shows "\<exists>res k'. verify_clock_chip (linux_i2c_bus kn d) ranges k = Some (res, k')
    \<and> mem k' = mem k \<and> log k' = log k
    \<and> (let es = filter (\<lambda>e. ranges = [] \<or> (\<exists>g \<in> set ranges. range_contains g (cr_register e))) CLOCKCHIP_REGISTERS
      in case res of
        Ok rep \<Rightarrow> rep = \<lparr>cp_written = 0, cp_verified = length es, cp_reset_pulses = 0\<rparr>
          \<and> (\<forall>e \<in> set es. mem k (cr_register e) = cr_value e)
      | Err err \<Rightarrow> (\<exists>e \<in> set es. (\<exists>src. err = BusError (cr_register e) OperationRead src)
          \<or> mem k (cr_register e) \<noteq> cr_value e
            \<and> err = VerifyMismatch (cr_register e) (cr_value e) (mem k (cr_register e))))"
  by (rule linux_chip.chip_verify [OF linux_chip.intro [OF assms]])

theorem i2c_verify_witness:
  "\<exists>res k'. verify_clock_chip (linux_i2c_bus sim_kernel idle_device) [] idle_chip = Some (res, k')
     \<and> sc_log k' = []"
  using i2c_verify [OF sim_chip_file_laws, of idle_device "[]" idle_chip]
  by (auto simp: idle_chip_def)

text \<open>C35: a verification right after a successful programming run over the same ranges finds no
  mismatch: it can only fail on the bus.\<close>

theorem i2c_program_then_verify:
  assumes "chip_file_laws kn (ld_file d) mem ptr log"
    and "program_clock_chip (linux_i2c_bus kn d) opts k = Some (Ok rep, k')"
  shows "\<exists>res u. verify_clock_chip (linux_i2c_bus kn d) (co_ranges opts) k' = Some (res, u)
    \<and> log u = log k' \<and> (\<forall>err. res = Err err \<longrightarrow> (\<exists>r src. err = BusError r OperationRead src))"
  by (rule linux_chip.chip_program_verify [OF linux_chip.intro [OF assms(1)] assms(2)])

theorem i2c_program_then_verify_witness:
  "\<exists>rep k' res u. program_clock_chip (linux_i2c_bus sim_kernel idle_device)
        \<lparr>co_verify = True, co_reset = False, co_ranges = [range_new 0x06 0x1C]\<rparr> (idle_chip\<lparr>sc_faults := []\<rparr>) = Some (Ok rep, k')
     \<and> verify_clock_chip (linux_i2c_bus sim_kernel idle_device) [range_new 0x06 0x1C] k' = Some (res, u)"
proof -
  let ?opts = "\<lparr>co_verify = True, co_reset = False, co_ranges = [range_new 0x06 0x1C]\<rparr>"
  have "map_option (is_ok \<circ> fst) (program_clock_chip (linux_i2c_bus sim_kernel idle_device) ?opts
      (idle_chip\<lparr>sc_faults := []\<rparr>)) = Some True" by code_simp
  from evaluates_ok [OF this] obtain rep k' where p: "program_clock_chip
      (linux_i2c_bus sim_kernel idle_device) ?opts (idle_chip\<lparr>sc_faults := []\<rparr>) = Some (Ok rep, k')"
    by blast
  from i2c_program_then_verify [OF sim_chip_file_laws p] p show ?thesis by auto
qed

end
