(* ===== verification/RpuRuntime.thy ===== *)
theory RpuRuntime
  imports RpuWire
begin

text \<open>
  \<open>crates/daphne-sc-rpu/src/lib.rs\<close>: the firmware side of the link.  A runtime owns the AFE
  hardware (the trait \<open>AfeHardware\<close>, here a record of computations on the hardware's state), a
  heartbeat counter, the interlock and the state of a frontend configuration in progress, and
  turns each 64-byte command frame into a 64-byte reply frame.
\<close>

section \<open>Interlock\<close>

record interlock_state =
  il_clock_ready :: bool
  il_firmware_ready :: bool
  il_interfaces_ready :: bool
  il_temperatures_ok :: bool
  il_rails_ok :: bool
  il_host_heartbeat_ok :: bool
  il_fault_code :: u32

definition default_interlock :: interlock_state where
  "default_interlock =
     \<lparr>il_clock_ready = False, il_firmware_ready = False, il_interfaces_ready = False,
      il_temperatures_ok = False, il_rails_ok = False, il_host_heartbeat_ok = False,
      il_fault_code = 0\<rparr>"

definition ready_for_afe :: "interlock_state \<Rightarrow> bool" where
  "ready_for_afe i \<longleftrightarrow>
     il_clock_ready i \<and> il_firmware_ready i \<and> il_interfaces_ready i \<and> il_temperatures_ok i
     \<and> il_rails_ok i \<and> il_host_heartbeat_ok i \<and> il_fault_code i = 0"

definition interlock_code :: "interlock_state \<Rightarrow> u32" where
  "interlock_code i =
     (let code = 0;
          code = code OR of_flag (\<not> il_clock_ready i);
          code = code OR push_bit 1 (of_flag (\<not> il_firmware_ready i));
          code = code OR push_bit 2 (of_flag (\<not> il_interfaces_ready i));
          code = code OR push_bit 3 (of_flag (\<not> il_temperatures_ok i));
          code = code OR push_bit 4 (of_flag (\<not> il_rails_ok i));
          code = code OR push_bit 5 (of_flag (\<not> il_host_heartbeat_ok i));
          code = code OR push_bit 6 (of_flag (il_fault_code i \<noteq> 0))
      in code)"

section \<open>Hardware, errors, configuration state\<close>

record ('h, 'e) afe_hardware =
  hw_read_register :: "u8 \<Rightarrow> u16 \<Rightarrow> ('h, u32, 'e) eff"
  hw_write_register :: "u8 \<Rightarrow> u16 \<Rightarrow> u32 \<Rightarrow> ('h, u32, 'e) eff"
  hw_read_scalar :: "rpu_wire_op \<Rightarrow> u8 \<Rightarrow> ('h, u32, 'e) eff"
  hw_write_scalar :: "rpu_wire_op \<Rightarrow> u8 \<Rightarrow> u32 \<Rightarrow> ('h, u32, 'e) eff"
  hw_read_channel_scalar :: "rpu_wire_command \<Rightarrow> ('h, u32, 'e) eff"
  hw_write_channel_scalar :: "rpu_wire_command \<Rightarrow> ('h, u32, 'e) eff"
  hw_read_vbias_control :: "('h, u32, 'e) eff"
  hw_write_vbias_control :: "u32 \<Rightarrow> bool \<Rightarrow> ('h, u32, 'e) eff"
  hw_set_reset :: "bool \<Rightarrow> ('h, unit, 'e) eff"
  hw_do_reset :: "('h, unit, 'e) eff"
  hw_set_power_state :: "bool \<Rightarrow> ('h, unit, 'e) eff"
  hw_align :: "('h, unit, 'e) eff"
  hw_begin_configure_frontend :: "rpu_wire_config_counts \<Rightarrow> ('h, unit, 'e) eff"
  hw_configure_afe :: "rpu_wire_afe_config \<Rightarrow> ('h, unit, 'e) eff"
  hw_configure_channel :: "rpu_wire_channel_config \<Rightarrow> ('h, unit, 'e) eff"
  hw_apply_configure_frontend :: "('h, unit, 'e) eff"
  hw_write_function :: "u8 \<Rightarrow> string \<Rightarrow> u16 \<Rightarrow> ('h, u32, 'e) eff"

datatype apply_error = Rejected | HardwareFault

record config_state =
  cf_active :: bool
  cf_expected_afes :: u16
  cf_expected_channels :: u16
  cf_received_afes :: u16
  cf_received_channels :: u16

definition default_config_state :: config_state where
  "default_config_state =
     \<lparr>cf_active = False, cf_expected_afes = 0, cf_expected_channels = 0, cf_received_afes = 0,
      cf_received_channels = 0\<rparr>"

definition config_begin :: "rpu_wire_config_counts \<Rightarrow> config_state" where
  "config_begin counts =
     \<lparr>cf_active = True, cf_expected_afes = cc_afe_count counts,
      cf_expected_channels = cc_channel_count counts, cf_received_afes = 0,
      cf_received_channels = 0\<rparr>"

definition require_afe_slot :: "config_state \<Rightarrow> (unit, apply_error) result" where
  "require_afe_slot c =
     (if cf_active c \<and> cf_received_afes c < cf_expected_afes c then Ok () else Err Rejected)"

definition require_channel_slot :: "config_state \<Rightarrow> (unit, apply_error) result" where
  "require_channel_slot c =
     (if cf_active c \<and> cf_received_channels c < cf_expected_channels c then Ok ()
      else Err Rejected)"

definition require_complete :: "config_state \<Rightarrow> (unit, apply_error) result" where
  "require_complete c =
     (if cf_active c \<and> cf_received_afes c = cf_expected_afes c
         \<and> cf_received_channels c = cf_expected_channels c
      then Ok () else Err Rejected)"

definition require_afe :: "rpu_wire_command \<Rightarrow> (u8, apply_error) result" where
  "require_afe c = (if wc_target c = TgtAfe then Ok (wc_afe_pl c) else Err Rejected)"

section \<open>The runtime\<close>

record 'h rpu_runtime =
  rn_hardware :: 'h
  rn_heartbeat :: u64
  rn_interlock :: interlock_state
  rn_config_state :: config_state

definition runtime_new :: "'h \<Rightarrow> 'h rpu_runtime" where
  "runtime_new h =
     \<lparr>rn_hardware = h, rn_heartbeat = 0, rn_interlock = default_interlock,
      rn_config_state = default_config_state\<rparr>"

definition set_interlock :: "interlock_state \<Rightarrow> 'h rpu_runtime \<Rightarrow> 'h rpu_runtime" where
  "set_interlock i rt = rt\<lparr>rn_interlock := i\<rparr>"

text \<open>\<open>hw(self.hardware.method(...))\<close>\<close>

definition on_hw :: "('h, 'a, 'e) eff \<Rightarrow> ('h rpu_runtime, 'a, apply_error) eff" where
  "on_hw m =
     map_errE (\<lambda>_. HardwareFault) (zoom rn_hardware (\<lambda>h rt. rt\<lparr>rn_hardware := h\<rparr>) m)"

definition readback :: "('s, u32, 'e) eff \<Rightarrow> ('s, u32 option, 'e) eff" where
  "readback m = bindE m (\<lambda>v. ret (Some v))"

definition no_readback :: "('s, unit, 'e) eff \<Rightarrow> ('s, u32 option, 'e) eff" where
  "no_readback m = thenE m (ret None)"

text \<open>\<open>counter += 1\<close> on a \<open>u16\<close> overflows at the top.\<close>

definition succ_u16 :: "u16 \<Rightarrow> ('s, u16, 'e) eff" where
  "succ_u16 n = (if n = 0xFFFF then panic else ret (n + 1))"

definition with_config :: "(config_state \<Rightarrow> (unit, apply_error) result)
    \<Rightarrow> ('h rpu_runtime, unit, apply_error) eff" where
  "with_config check = (\<lambda>rt. Some (check (rn_config_state rt), rt))"

definition put_config :: "config_state \<Rightarrow> ('h rpu_runtime, unit, apply_error) eff" where
  "put_config c = modify (\<lambda>rt. rt\<lparr>rn_config_state := c\<rparr>)"

text \<open>
  The match of \<open>apply_command\<close> has no arm for \<open>ReadAlignment\<close>: the model gives that operation no
  behaviour.
\<close>

definition apply_command ::
    "('h, 'e) afe_hardware \<Rightarrow> rpu_wire_command \<Rightarrow> ('h rpu_runtime, u32 option, apply_error) eff" where
  "apply_command hw c = (case wc_op c of
     OpStatus \<Rightarrow> gets (\<lambda>rt. Some (interlock_code (rn_interlock rt)))
   | OpReadRegister \<Rightarrow>
       bindE (liftR (require_afe c)) (\<lambda>afe.
       readback (on_hw (hw_read_register hw afe (wc_register c))))
   | OpWriteRegister \<Rightarrow>
       bindE (liftR (require_afe c)) (\<lambda>afe.
       readback (on_hw (hw_write_register hw afe (wc_register c) (wc_value c))))
   | OpReadAttenuation \<Rightarrow>
       bindE (liftR (require_afe c)) (\<lambda>afe. readback (on_hw (hw_read_scalar hw (wc_op c) afe)))
   | OpReadBias \<Rightarrow>
       bindE (liftR (require_afe c)) (\<lambda>afe. readback (on_hw (hw_read_scalar hw (wc_op c) afe)))
   | OpSetAttenuation \<Rightarrow>
       bindE (liftR (require_afe c)) (\<lambda>afe.
       readback (on_hw (hw_write_scalar hw (wc_op c) afe (wc_value c))))
   | OpSetBias \<Rightarrow>
       bindE (liftR (require_afe c)) (\<lambda>afe.
       readback (on_hw (hw_write_scalar hw (wc_op c) afe (wc_value c))))
   | OpReadTrim \<Rightarrow> readback (on_hw (hw_read_channel_scalar hw c))
   | OpReadOffset \<Rightarrow> readback (on_hw (hw_read_channel_scalar hw c))
   | OpSetTrim \<Rightarrow> readback (on_hw (hw_write_channel_scalar hw c))
   | OpSetOffset \<Rightarrow> readback (on_hw (hw_write_channel_scalar hw c))
   | OpReadVbiasControl \<Rightarrow> readback (on_hw (hw_read_vbias_control hw))
   | OpSetVbiasControl \<Rightarrow>
       readback (on_hw (hw_write_vbias_control hw (wc_value c) (wc_flags c \<noteq> 0)))
   | OpSetReset \<Rightarrow> no_readback (on_hw (hw_set_reset hw (wc_flags c \<noteq> 0)))
   | OpDoReset \<Rightarrow> no_readback (on_hw (hw_do_reset hw))
   | OpSetPowerState \<Rightarrow> no_readback (on_hw (hw_set_power_state hw (wc_flags c \<noteq> 0)))
   | OpAlign \<Rightarrow> no_readback (on_hw (hw_align hw))
   | OpBeginConfigureFrontend \<Rightarrow>
       bindE (liftR (map_err (\<lambda>_. Rejected) (configure_counts c))) (\<lambda>counts.
       thenE (on_hw (hw_begin_configure_frontend hw counts))
       (thenE (put_config (config_begin counts)) (ret None)))
   | OpConfigureAfe \<Rightarrow>
       bindE (liftR (map_err (\<lambda>_. Rejected) (wire_afe_config c))) (\<lambda>config.
       thenE (with_config require_afe_slot)
       (thenE (on_hw (hw_configure_afe hw config))
       (bindE (gets rn_config_state) (\<lambda>cs.
        bindE (succ_u16 (cf_received_afes cs)) (\<lambda>n.
        thenE (put_config (cs\<lparr>cf_received_afes := n\<rparr>)) (ret None))))))
   | OpConfigureChannel \<Rightarrow>
       bindE (liftR (map_err (\<lambda>_. Rejected) (wire_channel_config c))) (\<lambda>config.
       thenE (with_config require_channel_slot)
       (thenE (on_hw (hw_configure_channel hw config))
       (bindE (gets rn_config_state) (\<lambda>cs.
        bindE (succ_u16 (cf_received_channels cs)) (\<lambda>n.
        thenE (put_config (cs\<lparr>cf_received_channels := n\<rparr>)) (ret None))))))
   | OpApplyConfigureFrontend \<Rightarrow>
       thenE (with_config require_complete)
       (thenE (on_hw (hw_apply_configure_frontend hw))
       (thenE (put_config default_config_state) (ret None)))
   | OpWriteFunction \<Rightarrow>
       bindE (liftR (require_afe c)) (\<lambda>afe.
       bindE (liftR (map_err (\<lambda>_. Rejected) (function_name c))) (\<lambda>name.
       bindE (liftR (if wc_value c \<le> 0xFFFF then Ok (ucast (wc_value c)) else Err Rejected))
         (\<lambda>v. readback (on_hw (hw_write_function hw afe name v)))))
   | OpReadAlignment \<Rightarrow> panic)"

definition error_reply :: "u64 \<Rightarrow> 'h rpu_runtime \<Rightarrow> rpu_wire_reply" where
  "error_reply sequence rt =
     \<lparr>wr_sequence = sequence, wr_status = StRejected, wr_readback = None,
      wr_heartbeat = rn_heartbeat rt, wr_fault_code = 0,
      wr_interlock_code = interlock_code (rn_interlock rt)\<rparr>"

definition handle_command ::
    "('h, 'e) afe_hardware \<Rightarrow> rpu_wire_command \<Rightarrow> 'h rpu_runtime
     \<Rightarrow> (rpu_wire_reply \<times> 'h rpu_runtime) option" where
  "handle_command hw c rt =
     (let i = rn_interlock rt in
      if wc_op c = OpStatus
      then Some (\<lparr>wr_sequence = wc_sequence c,
                  wr_status = (if il_fault_code i = 0 then StApplied else StFault),
                  wr_readback = Some (interlock_code i), wr_heartbeat = rn_heartbeat rt,
                  wr_fault_code = il_fault_code i, wr_interlock_code = interlock_code i\<rparr>, rt)
      else if \<not> ready_for_afe i
      then Some (\<lparr>wr_sequence = wc_sequence c, wr_status = StInterlocked, wr_readback = None,
                  wr_heartbeat = rn_heartbeat rt, wr_fault_code = il_fault_code i,
                  wr_interlock_code = interlock_code i\<rparr>, rt)
      else (case apply_command hw c rt of
        None \<Rightarrow> None
      | Some (Ok rb, rt') \<Rightarrow>
          Some (\<lparr>wr_sequence = wc_sequence c, wr_status = StApplied, wr_readback = rb,
                 wr_heartbeat = rn_heartbeat rt', wr_fault_code = 0, wr_interlock_code = 0\<rparr>, rt')
      | Some (Err Rejected, rt') \<Rightarrow>
          Some (\<lparr>wr_sequence = wc_sequence c, wr_status = StRejected, wr_readback = None,
                 wr_heartbeat = rn_heartbeat rt', wr_fault_code = 0, wr_interlock_code = 0\<rparr>, rt')
      | Some (Err HardwareFault, rt') \<Rightarrow>
          Some (\<lparr>wr_sequence = wc_sequence c, wr_status = StFault, wr_readback = None,
                 wr_heartbeat = rn_heartbeat rt', wr_fault_code = 1,
                 wr_interlock_code = interlock_code (rn_interlock rt')\<rparr>, rt')))"

definition handle_frame ::
    "('h, 'e) afe_hardware \<Rightarrow> u8 list \<Rightarrow> 'h rpu_runtime \<Rightarrow> (u8 list \<times> 'h rpu_runtime) option" where
  "handle_frame hw input rt =
     (let rt = rt\<lparr>rn_heartbeat := rn_heartbeat rt + 1\<rparr> in
      case decode_command input of
        Ok c \<Rightarrow> map_option (map_prod encode_reply id) (handle_command hw c rt)
      | Err _ \<Rightarrow> Some (encode_reply (error_reply 0 rt), rt))"

text \<open>Frames handled one after the other; the replies in order.\<close>

fun handle_frames ::
    "('h, 'e) afe_hardware \<Rightarrow> u8 list list \<Rightarrow> 'h rpu_runtime \<Rightarrow> (u8 list list \<times> 'h rpu_runtime) option" where
  "handle_frames hw [] rt = Some ([], rt)"
| "handle_frames hw (f # fs) rt = (case handle_frame hw f rt of
     None \<Rightarrow> None
   | Some (out, rt') \<Rightarrow> map_option (map_prod ((#) out) id) (handle_frames hw fs rt'))"

section \<open>The hardware of the unit tests\<close>

record fake_hardware =
  fh_writes :: "(u8 \<times> u16 \<times> u32) list"
  fh_reset :: bool
  fh_begins :: "rpu_wire_config_counts list"
  fh_afe_configs :: "rpu_wire_afe_config list"
  fh_channel_configs :: "rpu_wire_channel_config list"
  fh_apply_count :: u32

definition default_fake_hardware :: fake_hardware where
  "default_fake_hardware =
     \<lparr>fh_writes = [], fh_reset = False, fh_begins = [], fh_afe_configs = [],
      fh_channel_configs = [], fh_apply_count = 0\<rparr>"

definition fake_afe_hardware :: "(fake_hardware, unit) afe_hardware" where
  "fake_afe_hardware =
     \<lparr>hw_read_register = (\<lambda>afe_pl r. ret (push_bit 16 (ucast afe_pl) OR ucast r)),
      hw_write_register = (\<lambda>afe_pl r v.
        thenE (modify (\<lambda>h. h\<lparr>fh_writes := fh_writes h @ [(afe_pl, r, v)]\<rparr>)) (ret v)),
      hw_read_scalar = (\<lambda>_ afe_pl. ret (ucast afe_pl)),
      hw_write_scalar = (\<lambda>_ _ v. ret v),
      hw_read_channel_scalar = (\<lambda>c. ret (ucast (wc_channel c))),
      hw_write_channel_scalar = (\<lambda>c. ret (wc_value c)),
      hw_read_vbias_control = ret 0,
      hw_write_vbias_control = (\<lambda>v _. ret v),
      hw_set_reset = (\<lambda>b. modify (\<lambda>h. h\<lparr>fh_reset := b\<rparr>)),
      hw_do_reset = thenE (modify (\<lambda>h. h\<lparr>fh_reset := True\<rparr>)) (modify (\<lambda>h. h\<lparr>fh_reset := False\<rparr>)),
      hw_set_power_state = (\<lambda>_. ret ()),
      hw_align = ret (),
      hw_begin_configure_frontend = (\<lambda>k. modify (\<lambda>h. h\<lparr>fh_begins := fh_begins h @ [k]\<rparr>)),
      hw_configure_afe = (\<lambda>a. modify (\<lambda>h. h\<lparr>fh_afe_configs := fh_afe_configs h @ [a]\<rparr>)),
      hw_configure_channel =
        (\<lambda>c. modify (\<lambda>h. h\<lparr>fh_channel_configs := fh_channel_configs h @ [c]\<rparr>)),
      hw_apply_configure_frontend =
        bindE (gets fh_apply_count) (\<lambda>n. if n = 0xFFFFFFFF then panic
          else modify (\<lambda>h. h\<lparr>fh_apply_count := n + 1\<rparr>)),
      hw_write_function = (\<lambda>_ _ v. ret (ucast v))\<rparr>"

definition ready_interlock :: interlock_state where
  "ready_interlock =
     \<lparr>il_clock_ready = True, il_firmware_ready = True, il_interfaces_ready = True,
      il_temperatures_ok = True, il_rails_ok = True, il_host_heartbeat_ok = True,
      il_fault_code = 0\<rparr>"

end
