(* ===== verification/RpuRuntimeFacts.thy ===== *)
theory RpuRuntimeFacts
  imports RpuRuntime RpuWireFacts
begin

text \<open>
  What the RPU runtime guarantees whatever the hardware: the interlock word, interlock safety,
  the correspondence of replies with commands, the configuration protocol as a refinement of the
  log of applied frames, and that the frames of a configuration drive the hardware like direct
  calls.
\<close>

section \<open>Interlock\<close>

lemma flag_bit: "bit (of_flag b :: 'a::len word) n \<longleftrightarrow> n = 0 \<and> b"
  by (auto simp: of_flag_def bit_1_iff)

lemma bit_push_flag:
  "k < LENGTH('a) \<Longrightarrow> bit (push_bit k (of_flag b) :: 'a::len word) n \<longleftrightarrow> n = k \<and> b"
  by (auto simp: bit_push_bit_iff flag_bit)

lemma interlock_code_bit:
  "bit (interlock_code i) n \<longleftrightarrow>
     n = 0 \<and> \<not> il_clock_ready i \<or> n = 1 \<and> \<not> il_firmware_ready i
     \<or> n = 2 \<and> \<not> il_interfaces_ready i \<or> n = 3 \<and> \<not> il_temperatures_ok i
     \<or> n = 4 \<and> \<not> il_rails_ok i \<or> n = 5 \<and> \<not> il_host_heartbeat_ok i
     \<or> n = 6 \<and> il_fault_code i \<noteq> 0"
proof -
  have p: "bit (push_bit k (of_flag b) :: u32) n \<longleftrightarrow> n = k \<and> b" if "k \<in> {1, 2, 3, 4, 5, 6}" for k b
    using that by (intro bit_push_flag) auto
  show ?thesis
    unfolding interlock_code_def Let_def bit_or_iff flag_bit
    by (simp only: p insert_iff simp_thms bit_0_eq) (simp add: bot_fun_def)
qed

lemma interlock_code_zero: "interlock_code i = 0 \<longleftrightarrow> ready_for_afe i"
proof -
  have "interlock_code i = 0 \<longleftrightarrow> (\<forall>n. \<not> bit (interlock_code i) n)"
    by (metis bit_0_eq bit_eqI bot_apply bot_bool_def)
  then show ?thesis
    unfolding interlock_code_bit ready_for_afe_def by blast
qed

text \<open>The interlock word names each failed condition by its bit, and is zero exactly when the
  AFE commands are let through.\<close>

theorem interlock_code_meaning:
  "(interlock_code i = 0 \<longleftrightarrow> ready_for_afe i)
   \<and> map (bit (interlock_code i)) [0..<32] =
       [\<not> il_clock_ready i, \<not> il_firmware_ready i, \<not> il_interfaces_ready i,
        \<not> il_temperatures_ok i, \<not> il_rails_ok i, \<not> il_host_heartbeat_ok i,
        il_fault_code i \<noteq> 0] @ replicate 25 False"
proof -
  note interlock_code_zero [of i]
  moreover have "map (bit (interlock_code i)) [0..<32] =
       [\<not> il_clock_ready i, \<not> il_firmware_ready i, \<not> il_interfaces_ready i,
        \<not> il_temperatures_ok i, \<not> il_rails_ok i, \<not> il_host_heartbeat_ok i,
        il_fault_code i \<noteq> 0] @ replicate 25 False"
    by (simp add: upt_rec interlock_code_bit) (simp add: numeral_eq_Suc)
  ultimately show ?thesis by blast
qed

section \<open>Replies\<close>

named_theorems runtime_simps \<open>weakest preconditions of the runtime's steps\<close>

lemma wp_on_hw [runtime_simps]:
  "wp (on_hw m) Q rt =
     wp m (\<lambda>r h. Q (map_err (\<lambda>_. HardwareFault) r) (rt\<lparr>rn_hardware := h\<rparr>)) (rn_hardware rt)"
  by (simp add: on_hw_def wp_simps)

lemma wp_ret_fun: "wp (ret a) Q = Q (Ok a)"
  by (rule ext) (rule wp_ret)

lemma wp_readback [runtime_simps]:
  "wp (readback m) Q rt = wp m (post_ok (\<lambda>v. Q (Ok (Some v))) (\<lambda>e. Q (Err e))) rt"
  by (simp add: readback_def wp_bindE wp_ret_fun)

lemma wp_no_readback [runtime_simps]:
  "wp (no_readback m) Q rt = wp m (post_ok (\<lambda>_. Q (Ok None)) (\<lambda>e. Q (Err e))) rt"
  by (simp add: no_readback_def wp_thenE wp_ret_fun)

lemma wp_with_config [runtime_simps]:
  "wp (with_config f) Q rt = Q (f (rn_config_state rt)) rt"
  by (simp add: with_config_def wp_def)

lemma wp_put_config [runtime_simps]:
  "wp (put_config c) Q rt = Q (Ok ()) (rt\<lparr>rn_config_state := c\<rparr>)"
  by (simp add: put_config_def wp_simps)

lemma wp_succ_u16 [runtime_simps]:
  "wp (succ_u16 n) Q rt = (n \<noteq> 0xFFFF \<and> Q (Ok (n + 1)) rt)"
  by (simp add: succ_u16_def wp_simps)

lemma leaves_runtime [leaves_intros]:
  "leaves rn_heartbeat (on_hw m)" "leaves rn_interlock (on_hw m)" "leaves rn_config_state (on_hw m)"
  "leaves g (with_config k)" "leaves rn_heartbeat (put_config c)" "leaves rn_interlock (put_config c)"
  "leaves g (succ_u16 n)"
  "leaves g m' \<Longrightarrow> leaves g (readback m')" "leaves g m'' \<Longrightarrow> leaves g (no_readback m'')"
  by (auto simp: on_hw_def with_config_def put_config_def succ_u16_def readback_def no_readback_def
      leaves_def [of g "\<lambda>rt. Some (k (rn_config_state rt), rt)"]
      intro!: leaves_intros leaves_zoom leaves_modify)

lemma apply_command_leaves:
  "leaves rn_heartbeat (apply_command hw c)" "leaves rn_interlock (apply_command hw c)"
  unfolding apply_command_def
  by (simp_all split: rpu_wire_op.split) (intro conjI impI leaves_intros; simp)+

text \<open>A frame while the interlock is not ready.\<close>

lemma blocked_frame:
  assumes "\<not> ready_for_afe (rn_interlock rt)"
  shows "\<exists>r. handle_frame hw input rt = Some (encode_reply r, rt\<lparr>rn_heartbeat := rn_heartbeat rt + 1\<rparr>)
    \<and> (\<forall>c. decode_command input = Ok c \<longrightarrow> wc_op c \<noteq> OpStatus \<longrightarrow>
          wr_status r = StInterlocked \<and> wr_sequence r = wc_sequence c
          \<and> wr_interlock_code r = interlock_code (rn_interlock rt) \<and> wr_interlock_code r \<noteq> 0)"
proof (cases "decode_command input")
  case (Err e)
  then show ?thesis by (auto simp: handle_frame_def Let_def)
next
  case (Ok c)
  have "interlock_code (rn_interlock rt) \<noteq> 0"
    using assms interlock_code_zero by blast
  with assms Ok show ?thesis
    by (cases "wc_op c = OpStatus") (auto simp: handle_frame_def handle_command_def Let_def)
qed

text \<open>C7: interlock safety: while any interlock condition fails, no frame reaches the hardware or
  changes the configuration state; every operation but the status query is answered
  \<open>Interlocked\<close>, with the failed conditions in the reply.\<close>

theorem interlock_blocks_hardware:
  assumes "\<not> ready_for_afe (rn_interlock rt)"
  shows "\<exists>r. handle_frame hw input rt = Some (encode_reply r, rt\<lparr>rn_heartbeat := rn_heartbeat rt + 1\<rparr>)
    \<and> (\<forall>c. decode_command input = Ok c \<longrightarrow> wc_op c \<noteq> OpStatus \<longrightarrow>
          wr_status r = StInterlocked \<and> wr_sequence r = wc_sequence c
          \<and> wr_interlock_code r = interlock_code (rn_interlock rt) \<and> wr_interlock_code r \<noteq> 0)"
  by (rule blocked_frame [OF assms])

theorem interlock_blocks_hardware_witness:
  "\<exists>r. handle_frame fake_afe_hardware
        (encode_command ((wire_status 8)\<lparr>wc_op := OpDoReset\<rparr>)) (runtime_new default_fake_hardware)
      = Some (encode_reply r, (runtime_new default_fake_hardware)\<lparr>rn_heartbeat := 1\<rparr>) \<and> wr_status r = StInterlocked"
proof -
  have "\<not> ready_for_afe (rn_interlock (runtime_new default_fake_hardware))"
    by (simp add: runtime_new_def default_interlock_def ready_for_afe_def)
  from interlock_blocks_hardware [OF this, of fake_afe_hardware "encode_command ((wire_status 8)\<lparr>wc_op := OpDoReset\<rparr>)"]
  show ?thesis by (auto simp: command_decode_encode runtime_new_def)
qed

text \<open>The reply to a frame.\<close>

lemma frame_reply:
  assumes "handle_frame hw input rt = Some (out, rt')"
  shows "\<exists>r. decode_reply out = Ok r \<and> wr_heartbeat r = rn_heartbeat rt + 1
    \<and> rn_heartbeat rt' = rn_heartbeat rt + 1 \<and> rn_interlock rt' = rn_interlock rt
    \<and> (case decode_command input of
         Ok c \<Rightarrow> wr_sequence r = wc_sequence c
       | Err _ \<Rightarrow> wr_sequence r = 0 \<and> wr_status r = StRejected
           \<and> rt' = rt\<lparr>rn_heartbeat := rn_heartbeat rt + 1\<rparr>)"
proof (cases "decode_command input")
  case (Err e)
  with assms show ?thesis
    by (auto simp: handle_frame_def Let_def reply_decode_encode error_reply_def)
next
  case (Ok c)
  with assms obtain r where out: "out = encode_reply r"
    and r: "handle_command hw c (rt\<lparr>rn_heartbeat := rn_heartbeat rt + 1\<rparr>) = Some (r, rt')"
    by (auto simp: handle_frame_def Let_def)
  have "rn_heartbeat rt' = rn_heartbeat rt + 1 \<and> rn_interlock rt' = rn_interlock rt
      \<and> wr_heartbeat r = rn_heartbeat rt' \<and> wr_sequence r = wc_sequence c"
    using r leavesD [OF apply_command_leaves(1), of hw c] leavesD [OF apply_command_leaves(2), of hw c]
    by (auto simp: handle_command_def Let_def split: if_splits option.splits prod.splits
        result.splits apply_error.splits)
  then show ?thesis by (auto simp: Ok out reply_decode_encode)
qed

text \<open>C29: every reply answers its frame: it decodes, carries the heartbeat of the runtime, one more
  than before the frame, and the sequence number of the command; a malformed frame is rejected
  with sequence 0 and touches nothing else.\<close>

theorem reply_matches_frame:
  assumes "handle_frame hw input rt = Some (out, rt')"
  shows "\<exists>r. decode_reply out = Ok r \<and> wr_heartbeat r = rn_heartbeat rt + 1
    \<and> rn_heartbeat rt' = rn_heartbeat rt + 1 \<and> rn_interlock rt' = rn_interlock rt
    \<and> (case decode_command input of
         Ok c \<Rightarrow> wr_sequence r = wc_sequence c
       | Err _ \<Rightarrow> wr_sequence r = 0 \<and> wr_status r = StRejected
           \<and> rt' = rt\<lparr>rn_heartbeat := rn_heartbeat rt + 1\<rparr>)"
  by (rule frame_reply [OF assms])

theorem reply_matches_frame_witness:
  "\<exists>out rt' r. handle_frame fake_afe_hardware [] (runtime_new default_fake_hardware) = Some (out, rt')
     \<and> decode_reply out = Ok r \<and> wr_sequence r = 0 \<and> wr_status r = StRejected"
proof -
  obtain out rt' where h: "handle_frame fake_afe_hardware [] (runtime_new default_fake_hardware) = Some (out, rt')"
    by (simp add: handle_frame_def decode_command_def wire_const_defs Let_def)
  from reply_matches_frame [OF h] h show ?thesis
    by (auto simp: decode_command_def wire_const_defs)
qed

section \<open>The configuration protocol\<close>

text \<open>How an applied command changes the configuration state.\<close>

inductive config_step :: "rpu_wire_command \<Rightarrow> config_state \<Rightarrow> config_state \<Rightarrow> bool" where
  step_begin: "wc_op c = OpBeginConfigureFrontend \<Longrightarrow> configure_counts c = Ok k \<Longrightarrow>
    config_step c cs (config_begin k)"
| step_afe: "wc_op c = OpConfigureAfe \<Longrightarrow> cf_active cs \<Longrightarrow>
    cf_received_afes cs < cf_expected_afes cs \<Longrightarrow>
    config_step c cs (cs\<lparr>cf_received_afes := cf_received_afes cs + 1\<rparr>)"
| step_channel: "wc_op c = OpConfigureChannel \<Longrightarrow> cf_active cs \<Longrightarrow>
    cf_received_channels cs < cf_expected_channels cs \<Longrightarrow>
    config_step c cs (cs\<lparr>cf_received_channels := cf_received_channels cs + 1\<rparr>)"
| step_apply: "wc_op c = OpApplyConfigureFrontend \<Longrightarrow> cf_active cs \<Longrightarrow>
    cf_received_afes cs = cf_expected_afes cs \<Longrightarrow>
    cf_received_channels cs = cf_expected_channels cs \<Longrightarrow>
    config_step c cs default_config_state"
| step_other: "wc_op c \<notin> {OpBeginConfigureFrontend, OpConfigureAfe, OpConfigureChannel,
      OpApplyConfigureFrontend} \<Longrightarrow> config_step c cs cs"

inductive_cases config_stepE: "config_step c cs cs'"

lemma on_hw_config: "on_hw m rt = Some (r, rt') \<Longrightarrow> rn_config_state rt' = rn_config_state rt"
  by (rule leavesD [OF leaves_runtime(3)])

lemma apply_command_config:
  assumes "apply_command hw c rt = Some (res, rt')"
  shows "(\<forall>e. res = Err e \<longrightarrow> rn_config_state rt' = rn_config_state rt)
    \<and> (\<forall>rb. res = Ok rb \<longrightarrow> config_step c (rn_config_state rt) (rn_config_state rt'))"
proof (cases "wc_op c \<in> {OpBeginConfigureFrontend, OpConfigureAfe, OpConfigureChannel,
      OpApplyConfigureFrontend}")
  case False
  have "leaves rn_config_state (apply_command hw c)"
    using False unfolding apply_command_def
    by (simp split: rpu_wire_op.split) (intro conjI impI leaves_intros; simp)
  from leavesD [OF this assms] show ?thesis by (simp add: config_step.step_other [OF False])
next
  case True
  then show ?thesis
    using assms
    by (elim insertE emptyE)
       (auto simp: apply_command_def thenE_def liftR_def with_config_def gets_def put_config_def
          modify_def ret_def succ_u16_def panic_def require_afe_slot_def require_channel_slot_def
          require_complete_def
          elim!: bindE_SomeE dest!: on_hw_config intro: config_step.intros split: if_splits)
qed

text \<open>
  The abstract protocol: what the log of answered commands (newest first) says about the
  configuration in progress, as the announced counts and the numbers of AFE and channel records
  applied since.
\<close>

type_synonym log_entry = "rpu_wire_command \<times> rpu_wire_status"

fun session_of :: "log_entry list \<Rightarrow> (rpu_wire_config_counts \<times> nat \<times> nat) option" where
  "session_of [] = None"
| "session_of ((c, st) # log) =
     (if st \<noteq> StApplied then session_of log
      else if wc_op c = OpBeginConfigureFrontend
      then (case configure_counts c of Ok k \<Rightarrow> Some (k, 0, 0) | Err _ \<Rightarrow> session_of log)
      else if wc_op c = OpConfigureAfe
      then map_option (\<lambda>(k, a, h). (k, a + 1, h)) (session_of log)
      else if wc_op c = OpConfigureChannel
      then map_option (\<lambda>(k, a, h). (k, a, h + 1)) (session_of log)
      else if wc_op c = OpApplyConfigureFrontend then None
      else session_of log)"

definition config_refines ::
    "config_state \<Rightarrow> (rpu_wire_config_counts \<times> nat \<times> nat) option \<Rightarrow> bool" where
  "config_refines cs session = (case session of
     None \<Rightarrow> \<not> cf_active cs
   | Some (k, a, h) \<Rightarrow> cf_active cs \<and> cf_expected_afes cs = cc_afe_count k
       \<and> cf_expected_channels cs = cc_channel_count k
       \<and> unat (cf_received_afes cs) = a \<and> unat (cf_received_channels cs) = h)"

lemma unat_succ:
  assumes "n < (m :: u16)"
  shows "unat (n + 1) = unat n + 1"
proof -
  have "unat m < 65536" by (rule order_less_le_trans [OF unsigned_less]) simp
  then have "unat n + 1 < 65536" using assms by (simp add: word_less_nat_alt)
  then show ?thesis by (simp add: unat_word_ariths)
qed

lemma config_refines_step:
  assumes "config_step c cs cs'" and "config_refines cs (session_of log)"
  shows "config_refines cs' (session_of ((c, StApplied) # log))"
  using assms
  by (cases rule: config_step.cases)
     (auto simp: config_refines_def config_begin_def default_config_state_def unat_succ
       split: option.splits)

text \<open>
  The life of a runtime: frames are handled and the interlock is set from outside, in any
  order; the log collects the commands decoded, with the status each was answered with.
\<close>

inductive run :: "('h, 'e) afe_hardware \<Rightarrow> 'h \<Rightarrow> log_entry list \<Rightarrow> 'h rpu_runtime \<Rightarrow> bool"
  for hw :: "('h, 'e) afe_hardware" and h :: 'h where
  run_new: "run hw h [] (runtime_new h)"
| run_interlock: "run hw h log rt \<Longrightarrow> run hw h log (set_interlock i rt)"
| run_malformed: "run hw h log rt \<Longrightarrow> decode_command input = Err e \<Longrightarrow>
    handle_frame hw input rt = Some (out, rt') \<Longrightarrow> run hw h log rt'"
| run_command: "run hw h log rt \<Longrightarrow> decode_command input = Ok c \<Longrightarrow>
    handle_frame hw input rt = Some (out, rt') \<Longrightarrow> decode_reply out = Ok r \<Longrightarrow>
    run hw h ((c, wr_status r) # log) rt'"

lemma handle_frame_command:
  assumes "decode_command input = Ok c" and "handle_frame hw input rt = Some (out, rt')"
    and "decode_reply out = Ok r"
  shows "handle_command hw c (rt\<lparr>rn_heartbeat := rn_heartbeat rt + 1\<rparr>) = Some (r, rt')"
  using assms by (auto simp: handle_frame_def Let_def reply_decode_encode)

lemma handle_command_config:
  assumes "handle_command hw c rt = Some (r, rt')"
  shows "if wr_status r = StApplied \<and> wc_op c \<noteq> OpStatus
         then config_step c (rn_config_state rt) (rn_config_state rt')
         else rn_config_state rt' = rn_config_state rt"
proof (cases "wc_op c = OpStatus \<or> \<not> ready_for_afe (rn_interlock rt)")
  case True
  with assms show ?thesis by (auto simp: handle_command_def Let_def split: if_splits)
next
  case False
  with assms obtain res where res: "apply_command hw c rt = Some (res, rt')"
    and ok: "wr_status r = StApplied \<longleftrightarrow> is_ok res"
    by (auto simp: handle_command_def Let_def split: option.splits prod.splits result.splits
        apply_error.splits)
  from apply_command_config [OF res] ok False show ?thesis
    by (cases res) auto
qed

lemma run_refines: "run hw h log rt \<Longrightarrow> config_refines (rn_config_state rt) (session_of log)"
proof (induction rule: run.induct)
  case run_new
  then show ?case by (simp add: runtime_new_def config_refines_def default_config_state_def)
next
  case (run_interlock log rt i)
  then show ?case by (simp add: set_interlock_def)
next
  case (run_malformed log rt input e out rt')
  then show ?case by (auto simp: handle_frame_def Let_def)
next
  case (run_command log rt input c out rt' r)
  note hc = handle_command_config [OF handle_frame_command [OF run_command(2-4)], simplified]
  show ?case
  proof (cases "wr_status r = StApplied \<and> wc_op c \<noteq> OpStatus")
    case True
    with hc have "config_step c (rn_config_state rt) (rn_config_state rt')" by simp
    from config_refines_step [OF this run_command.IH] True show ?thesis by simp
  next
    case False
    with hc have "rn_config_state rt' = rn_config_state rt" by (simp split: if_splits)
    moreover have "session_of ((c, wr_status r) # log) = session_of log"
      using False by auto
    ultimately show ?thesis using run_command.IH by simp
  qed
qed

text \<open>C8: a staged configuration is applied only when it is complete: in any history of the runtime,
  if an apply frame is answered \<open>Applied\<close>, then the log shows a begin frame that announced as
  many AFE and channel records as have been applied since, with no apply in between.\<close>

theorem apply_only_when_complete:
  assumes "run hw h log rt" and "decode_command input = Ok c"
    and "wc_op c = OpApplyConfigureFrontend"
    and "handle_frame hw input rt = Some (out, rt')" and "decode_reply out = Ok r"
    and "wr_status r = StApplied"
  shows "\<exists>k. session_of log =
      Some (k, unat (cc_afe_count k), unat (cc_channel_count k))"
proof -
  have "config_step c (rn_config_state rt) (rn_config_state rt')"
    using handle_command_config [OF handle_frame_command [OF assms(2,4,5)]] assms(3,6) by simp
  then have "cf_active (rn_config_state rt)"
    "cf_received_afes (rn_config_state rt) = cf_expected_afes (rn_config_state rt)"
    "cf_received_channels (rn_config_state rt) = cf_expected_channels (rn_config_state rt)"
    using assms(3) by (auto elim: config_stepE)
  with run_refines [OF assms(1)] show ?thesis
    by (cases "session_of log") (auto simp: config_refines_def)
qed

text \<open>The configuration state of a running runtime never counts past what was announced.\<close>

definition wf_config_state :: "config_state \<Rightarrow> bool" where
  "wf_config_state cs \<longleftrightarrow>
     cf_received_afes cs \<le> cf_expected_afes cs \<and> cf_received_channels cs \<le> cf_expected_channels cs"

lemma config_step_wf: "config_step c cs cs' \<Longrightarrow> wf_config_state cs \<Longrightarrow> wf_config_state cs'"
  by (cases rule: config_step.cases)
     (auto simp: wf_config_state_def config_begin_def default_config_state_def word_le_nat_alt
       word_less_nat_alt unat_succ [unfolded word_less_nat_alt])

text \<open>C30: a running runtime never records more AFE or channel records than the begin frame
  announced, whatever frames it is sent.\<close>

theorem config_counts_bounded:
  assumes "run hw h log rt"
  shows "cf_received_afes (rn_config_state rt) \<le> cf_expected_afes (rn_config_state rt)
    \<and> cf_received_channels (rn_config_state rt) \<le> cf_expected_channels (rn_config_state rt)"
proof -
  have "wf_config_state (rn_config_state rt)"
    using assms
  proof (induction rule: run.induct)
    case run_new
    then show ?case by (simp add: runtime_new_def wf_config_state_def default_config_state_def)
  next
    case (run_interlock log rt i)
    then show ?case by (simp add: set_interlock_def)
  next
    case (run_malformed log rt input e out rt')
    then show ?case by (auto simp: handle_frame_def Let_def)
  next
    case (run_command log rt input c out rt' r)
    with handle_command_config [OF handle_frame_command [OF run_command(2-4)]] show ?case
      by (auto intro: config_step_wf split: if_splits)
  qed
  then show ?thesis by (simp add: wf_config_state_def)
qed

section \<open>Configuration end to end\<close>

definition applied :: "u8 list \<Rightarrow> bool" where
  "applied out \<longleftrightarrow> (\<exists>r. decode_reply out = Ok r \<and> wr_status r = StApplied)"

text \<open>The calls a configuration is to make on the hardware.\<close>

definition configure_directly ::
    "('h, 'e) afe_hardware \<Rightarrow> afe_frontend_config list \<Rightarrow> channel_frontend_config list \<Rightarrow> u16
     \<Rightarrow> ('h, unit, 'e) eff" where
  "configure_directly hw afes chs bias_control =
     thenE (hw_begin_configure_frontend hw
              \<lparr>cc_afe_count = word_of_nat (length afes), cc_channel_count = word_of_nat (length chs),
               cc_bias_control = bias_control\<rparr>)
     (thenE (for_each afes (\<lambda>a. hw_configure_afe hw (afe_record a)))
     (thenE (for_each chs (\<lambda>c. hw_configure_channel hw (channel_record c)))
     (hw_apply_configure_frontend hw)))"

lemma handle_frames_append:
  "handle_frames hw (fs @ gs) rt = (case handle_frames hw fs rt of
     None \<Rightarrow> None
   | Some (outs, rt') \<Rightarrow> map_option (map_prod ((@) outs) id) (handle_frames hw gs rt'))"
  by (induction fs arbitrary: rt)
     (auto simp: map_option_case split: option.splits prod.splits)

lemma handle_frame_applied:
  assumes "wf_wire_command c" and "ready_for_afe (rn_interlock rt)" and "wc_op c \<noteq> OpStatus"
    and "apply_command hw c (rt\<lparr>rn_heartbeat := rn_heartbeat rt + 1\<rparr>) = Some (Ok rb, rt')"
  shows "\<exists>out. handle_frame hw (encode_command c) rt = Some (out, rt') \<and> applied out"
  using assms
  by (auto simp: handle_frame_def Let_def command_decode_encode handle_command_def applied_def
      reply_decode_encode)

text \<open>The state of the runtime while a configuration of \<open>n\<close> and \<open>m\<close> records is received.\<close>

definition receiving :: "nat \<Rightarrow> nat \<Rightarrow> nat \<Rightarrow> nat \<Rightarrow> 'h \<Rightarrow> 'h rpu_runtime \<Rightarrow> bool" where
  "receiving n m a k h rt \<longleftrightarrow> ready_for_afe (rn_interlock rt) \<and> rn_hardware rt = h
     \<and> rn_config_state rt = \<lparr>cf_active = True, cf_expected_afes = word_of_nat n,
         cf_expected_channels = word_of_nat m, cf_received_afes = word_of_nat a,
         cf_received_channels = word_of_nat k\<rparr>"

lemma word16_less: "a < n \<Longrightarrow> n \<le> 65535 \<Longrightarrow> (word_of_nat a :: u16) < word_of_nat n"
  by (simp add: word_less_nat_alt unat_of_nat)

lemma word16_not_max:
  assumes "a < n" and "n \<le> 65535"
  shows "(word_of_nat a :: u16) \<noteq> 0xFFFF"
proof
  assume "(word_of_nat a :: u16) = 0xFFFF"
  then have "unat (word_of_nat a :: u16) = 65535" by simp
  with assms show False by (simp add: unat_of_nat)
qed

lemma handle_configure_afe:
  assumes "receiving n m a k h rt" and "a < n" and "n \<le> 65535"
    and "hw_configure_afe hw (afe_record x) h = Some (Ok (), h')"
  shows "\<exists>out rt'. handle_frame hw (encode_command (configure_afe_frame s x)) rt = Some (out, rt')
    \<and> applied out \<and> receiving n m (a + 1) k h' rt'"
proof -
  let ?rt = "rt\<lparr>rn_heartbeat := rn_heartbeat rt + 1\<rparr>"
  have "apply_command hw (configure_afe_frame s x) ?rt =
      Some (Ok None, ?rt\<lparr>rn_hardware := h', rn_config_state := (rn_config_state rt)
        \<lparr>cf_received_afes := word_of_nat a + 1\<rparr>\<rparr>)"
    using assms word16_less [OF assms(2,3)] word16_not_max [OF assms(2,3)]
    by (simp add: apply_command_def receiving_def bindE_def thenE_def liftR_def with_config_def
        require_afe_slot_def on_hw_def map_errE_def zoom_def gets_def succ_u16_def ret_def
        put_config_def modify_def)
  from handle_frame_applied [OF _ _ _ this] assms(1) show ?thesis
    by (fastforce simp: receiving_def add.commute)
qed

lemma handle_configure_channel:
  assumes "receiving n m a k h rt" and "k < m" and "m \<le> 65535"
    and "hw_configure_channel hw (channel_record x) h = Some (Ok (), h')"
  shows "\<exists>out rt'. handle_frame hw (encode_command (configure_channel_frame s x)) rt = Some (out, rt')
    \<and> applied out \<and> receiving n m a (k + 1) h' rt'"
proof -
  let ?rt = "rt\<lparr>rn_heartbeat := rn_heartbeat rt + 1\<rparr>"
  have "apply_command hw (configure_channel_frame s x) ?rt =
      Some (Ok None, ?rt\<lparr>rn_hardware := h', rn_config_state := (rn_config_state rt)
        \<lparr>cf_received_channels := word_of_nat k + 1\<rparr>\<rparr>)"
    using assms word16_less [OF assms(2,3)] word16_not_max [OF assms(2,3)]
    by (simp add: apply_command_def receiving_def bindE_def thenE_def liftR_def with_config_def
        require_channel_slot_def on_hw_def map_errE_def zoom_def gets_def succ_u16_def ret_def
        put_config_def modify_def)
  from handle_frame_applied [OF _ _ _ this] assms(1) show ?thesis
    by (fastforce simp: receiving_def add.commute)
qed

lemma for_each_Ok_Cons:
  assumes "for_each (x # xs) body h = Some (Ok (), h')"
  obtains u where "body x h = Some (Ok (), u)" and "for_each xs body u = Some (Ok (), h')"
  using assms by (auto simp: thenE_def elim!: bindE_SomeE)

lemma handle_frames_Cons_applied:
  assumes "handle_frame hw f rt = Some (out, rt1)" and "applied out"
    and "handle_frames hw fs rt1 = Some (outs, rt')" and "list_all applied outs"
    and "length outs = length fs"
  shows "\<exists>outs. handle_frames hw (f # fs) rt = Some (outs, rt') \<and> list_all applied outs
    \<and> length outs = length (f # fs)"
  using assms by auto

lemma handle_configure_afes:
  assumes "receiving n m a k h rt" and "a + length afes \<le> n" and "n \<le> 65535"
    and "for_each afes (\<lambda>x. hw_configure_afe hw (afe_record x)) h = Some (Ok (), h')"
    and "length sqs = length afes"
  shows "\<exists>outs rt'. handle_frames hw (map encode_command (map2 configure_afe_frame sqs afes)) rt
      = Some (outs, rt') \<and> list_all applied outs \<and> length outs = length afes
    \<and> receiving n m (a + length afes) k h' rt'"
  using assms
proof (induction afes arbitrary: a h rt sqs)
  case Nil
  then show ?case by (simp add: ret_def)
next
  case (Cons x xs)
  obtain q qs where sqs: "sqs = q # qs" using Cons.prems(5) by (cases sqs) auto
  from Cons.prems(4) obtain u where u: "hw_configure_afe hw (afe_record x) h = Some (Ok (), u)"
    and us: "for_each xs (\<lambda>x. hw_configure_afe hw (afe_record x)) u = Some (Ok (), h')"
    by (rule for_each_Ok_Cons)
  obtain out rt1 where o: "handle_frame hw (encode_command (configure_afe_frame q x)) rt = Some (out, rt1)"
    "applied out" "receiving n m (a + 1) k u rt1"
    using handle_configure_afe [OF Cons.prems(1) _ Cons.prems(3) u, where s = q] Cons.prems(2) by auto
  show ?case
    using Cons.IH [OF o(3) _ Cons.prems(3) us, of qs] Cons.prems(2,5) sqs
      handle_frames_Cons_applied [OF o(1,2)] by fastforce
qed

lemma handle_configure_channels:
  assumes "receiving n m a k h rt" and "k + length chs \<le> m" and "m \<le> 65535"
    and "for_each chs (\<lambda>x. hw_configure_channel hw (channel_record x)) h = Some (Ok (), h')"
    and "length sqs = length chs"
  shows "\<exists>outs rt'. handle_frames hw (map encode_command (map2 configure_channel_frame sqs chs)) rt
      = Some (outs, rt') \<and> list_all applied outs \<and> length outs = length chs
    \<and> receiving n m a (k + length chs) h' rt'"
  using assms
proof (induction chs arbitrary: k h rt sqs)
  case Nil
  then show ?case by (simp add: ret_def)
next
  case (Cons x xs)
  obtain q qs where sqs: "sqs = q # qs" using Cons.prems(5) by (cases sqs) auto
  from Cons.prems(4) obtain u where u: "hw_configure_channel hw (channel_record x) h = Some (Ok (), u)"
    and us: "for_each xs (\<lambda>x. hw_configure_channel hw (channel_record x)) u = Some (Ok (), h')"
    by (rule for_each_Ok_Cons)
  obtain out rt1 where o: "handle_frame hw (encode_command (configure_channel_frame q x)) rt = Some (out, rt1)"
    "applied out" "receiving n m a (k + 1) u rt1"
    using handle_configure_channel [OF Cons.prems(1) _ Cons.prems(3) u, where s = q] Cons.prems(2) by auto
  show ?case
    using Cons.IH [OF o(3) _ Cons.prems(3) us, of qs] Cons.prems(2,5) sqs
      handle_frames_Cons_applied [OF o(1,2)] by fastforce
qed

lemma handle_frames_append_applied:
  assumes "\<exists>outs. handle_frames hw fs rt = Some (outs, rt1) \<and> list_all applied outs \<and> length outs = length fs"
    and "\<exists>outs. handle_frames hw gs rt1 = Some (outs, rt2) \<and> list_all applied outs \<and> length outs = length gs"
  shows "\<exists>outs. handle_frames hw (fs @ gs) rt = Some (outs, rt2) \<and> list_all applied outs
    \<and> length outs = length (fs @ gs)"
  using assms by (auto simp: handle_frames_append)

lemma handle_frames_single_applied:
  "\<exists>out. handle_frame hw f rt = Some (out, rt') \<and> applied out \<Longrightarrow>
   \<exists>outs. handle_frames hw [f] rt = Some (outs, rt') \<and> list_all applied outs \<and> length outs = length [f]"
  by auto

lemma map_index_map2: "map (\<lambda>i. f (g i) (xs ! i)) [0..<length xs] = map2 f (map g [0..<length xs]) xs"
  by (rule nth_equalityI) simp_all

text \<open>The first and the last frame of a configuration.\<close>

definition begin_frame :: "u64 \<Rightarrow> nat \<Rightarrow> nat \<Rightarrow> u16 \<Rightarrow> rpu_wire_command" where
  "begin_frame q n m bias_control = (wire_status q)
     \<lparr>wc_op := OpBeginConfigureFrontend, wc_value := ucast bias_control,
      wc_flags := pack_u16_pair (word_of_nat n) (word_of_nat m)\<rparr>"

definition apply_frame :: "u64 \<Rightarrow> nat \<Rightarrow> nat \<Rightarrow> rpu_wire_command" where
  "apply_frame q n m = (wire_status q)
     \<lparr>wc_op := OpApplyConfigureFrontend,
      wc_flags := pack_u16_pair (word_of_nat n) (word_of_nat m)\<rparr>"

lemma configuration_layout:
  assumes "configure_frontend_sequence s afes chs bias_control = Ok fs"
  obtains q q' s1 s2 where "length s1 = length afes" "length s2 = length chs"
    "fs = [begin_frame q (length afes) (length chs) bias_control] @ map2 configure_afe_frame s1 afes
       @ map2 configure_channel_frame s2 chs @ [apply_frame q' (length afes) (length chs)]"
proof
  note le = configure_frontend_sequence_Ok [OF assms]
  let ?s1 = "map (\<lambda>i. sequence_for_frame s (1 + i)) [0..<length afes]"
  let ?s2 = "map (\<lambda>i. sequence_for_frame s (1 + length afes + i)) [0..<length chs]"
  show "length ?s1 = length afes" "length ?s2 = length chs" by simp_all
  show "fs = [begin_frame (sequence_for_frame s 0) (length afes) (length chs) bias_control]
      @ map2 configure_afe_frame ?s1 afes @ map2 configure_channel_frame ?s2 chs
      @ [apply_frame (sequence_for_frame s (1 + length afes + length chs)) (length afes) (length chs)]"
    using assms configure_frontend_sequence_eq [OF conjunct1 [OF le] conjunct2 [OF le], of s bias_control]
    unfolding begin_frame_def apply_frame_def
    unfolding map_index_map2 [of configure_afe_frame "\<lambda>i. sequence_for_frame s (1 + i)" afes]
      map_index_map2 [of configure_channel_frame "\<lambda>i. sequence_for_frame s (1 + length afes + i)" chs]
    by simp
qed

lemma handle_begin_frame:
  assumes "ready_for_afe (rn_interlock rt)"
    and "hw_begin_configure_frontend hw \<lparr>cc_afe_count = word_of_nat n, cc_channel_count = word_of_nat m,
      cc_bias_control = bias_control\<rparr> (rn_hardware rt) = Some (Ok (), h)"
  shows "\<exists>rt'. (\<exists>out. handle_frame hw (encode_command (begin_frame q n m bias_control)) rt = Some (out, rt')
      \<and> applied out) \<and> receiving n m 0 0 h rt'"
proof -
  let ?counts = "\<lparr>cc_afe_count = word_of_nat n, cc_channel_count = word_of_nat m,
    cc_bias_control = bias_control\<rparr>"
  let ?rt = "rt\<lparr>rn_heartbeat := rn_heartbeat rt + 1\<rparr>"
  define rt1 where "rt1 = ?rt\<lparr>rn_hardware := h, rn_config_state := config_begin ?counts\<rparr>"
  have "apply_command hw (begin_frame q n m bias_control) ?rt = Some (Ok None, rt1)"
    using assms(2) by (simp add: begin_frame_def rt1_def apply_command_def configure_counts_def
        require_op_def bindE_def thenE_def liftR_def on_hw_def map_errE_def zoom_def put_config_def
        modify_def ret_def)
  from handle_frame_applied [OF _ assms(1) _ this] assms(1) show ?thesis
    by (auto simp: begin_frame_def receiving_def rt1_def config_begin_def)
qed

lemma handle_apply_frame:
  assumes "receiving n m n m h rt" and "hw_apply_configure_frontend hw h = Some (Ok (), h')"
  shows "\<exists>rt'. (\<exists>out. handle_frame hw (encode_command (apply_frame q n m)) rt = Some (out, rt') \<and> applied out)
    \<and> rn_hardware rt' = h' \<and> rn_config_state rt' = default_config_state"
proof -
  let ?rt = "rt\<lparr>rn_heartbeat := rn_heartbeat rt + 1\<rparr>"
  let ?rt' = "?rt\<lparr>rn_hardware := h', rn_config_state := default_config_state\<rparr>"
  have "apply_command hw (apply_frame q n m) ?rt = Some (Ok None, ?rt')"
    using assms by (simp add: apply_frame_def apply_command_def receiving_def
        bindE_def thenE_def with_config_def require_complete_def on_hw_def map_errE_def zoom_def
        put_config_def modify_def ret_def)
  from handle_frame_applied [OF _ _ _ this] assms(1) show ?thesis
    by (auto simp: apply_frame_def receiving_def)
qed

text \<open>The frames of a configuration.\<close>

lemma configuration_frames:
  assumes "from_afe_command_sequence s (ConfigureFrontend afes chs bias_control) = Ok fs"
    and "ready_for_afe (rn_interlock rt)"
    and "configure_directly hw afes chs bias_control (rn_hardware rt) = Some (Ok (), h')"
  shows "\<exists>outs rt'. handle_frames hw (map encode_command fs) rt = Some (outs, rt')
    \<and> length outs = length fs \<and> list_all applied outs
    \<and> rn_hardware rt' = h' \<and> rn_config_state rt' = default_config_state"
proof -
  let ?n = "length afes" and ?m = "length chs"
  have seq: "configure_frontend_sequence s afes chs bias_control = Ok fs"
    using assms(1) by (simp add: from_afe_command_sequence_def)
  note le = configure_frontend_sequence_Ok [OF seq]
  obtain q q' s1 s2 where len: "length s1 = ?n" "length s2 = ?m"
    and fs: "fs = [begin_frame q ?n ?m bias_control] @ map2 configure_afe_frame s1 afes
       @ map2 configure_channel_frame s2 chs @ [apply_frame q' ?n ?m]"
    by (rule configuration_layout [OF seq])
  obtain h1 h2 h3 where h: "hw_begin_configure_frontend hw \<lparr>cc_afe_count = word_of_nat ?n,
        cc_channel_count = word_of_nat ?m, cc_bias_control = bias_control\<rparr> (rn_hardware rt) = Some (Ok (), h1)"
      "for_each afes (\<lambda>x. hw_configure_afe hw (afe_record x)) h1 = Some (Ok (), h2)"
      "for_each chs (\<lambda>x. hw_configure_channel hw (channel_record x)) h2 = Some (Ok (), h3)"
      "hw_apply_configure_frontend hw h3 = Some (Ok (), h')"
    using assms(3) by (auto simp: configure_directly_def thenE_def elim!: bindE_SomeE)
  obtain rt1 where f1: "\<exists>out. handle_frame hw (encode_command (begin_frame q ?n ?m bias_control)) rt
      = Some (out, rt1) \<and> applied out" and r1: "receiving ?n ?m 0 0 h1 rt1"
    using handle_begin_frame [OF assms(2) h(1)] by blast
  obtain outs2 rt2 where f2: "handle_frames hw (map encode_command (map2 configure_afe_frame s1 afes)) rt1
      = Some (outs2, rt2)" "list_all applied outs2" "length outs2 = ?n"
    and r2: "receiving ?n ?m ?n 0 h2 rt2"
    using handle_configure_afes [OF r1 _ _ h(2) len(1)] le by auto
  obtain outs3 rt3 where f3: "handle_frames hw (map encode_command (map2 configure_channel_frame s2 chs)) rt2
      = Some (outs3, rt3)" "list_all applied outs3" "length outs3 = ?m"
    and r3: "receiving ?n ?m ?n ?m h3 rt3"
    using handle_configure_channels [OF r2 _ _ h(3) len(2)] le by auto
  obtain rt4 where f4: "\<exists>out. handle_frame hw (encode_command (apply_frame q' ?n ?m)) rt3 = Some (out, rt4)
      \<and> applied out" and r4: "rn_hardware rt4 = h'" "rn_config_state rt4 = default_config_state"
    using handle_apply_frame [OF r3 h(4)] by blast
  have "\<exists>outs. handle_frames hw (map encode_command fs) rt = Some (outs, rt4)
      \<and> list_all applied outs \<and> length outs = length (map encode_command fs)"
    unfolding fs map_append list.map
    by (intro handle_frames_append_applied [OF handle_frames_single_applied [OF f1]]
        handle_frames_append_applied [OF _ handle_frames_append_applied
          [OF _ handle_frames_single_applied [OF f4]]])
      (use f2 f3 len in auto)
  with r4 show ?thesis by auto
qed

text \<open>C9: the frames of a configuration drive the hardware exactly like direct calls: if the calls
  (begin, one per AFE, one per channel, apply) succeed on the hardware, a ready runtime answers
  every frame of the encoded command \<open>Applied\<close> and leaves the hardware as the calls do.\<close>

theorem configuration_drives_hardware:
  assumes "from_afe_command_sequence s (ConfigureFrontend afes chs bias_control) = Ok fs"
    and "ready_for_afe (rn_interlock rt)"
    and "configure_directly hw afes chs bias_control (rn_hardware rt) = Some (Ok (), h')"
  shows "\<exists>outs rt'. handle_frames hw (map encode_command fs) rt = Some (outs, rt')
    \<and> length outs = length fs \<and> list_all applied outs
    \<and> rn_hardware rt' = h' \<and> rn_config_state rt' = default_config_state"
  by (rule configuration_frames [OF assms])

theorem configuration_drives_hardware_witness:
  "\<exists>fs outs rt'. from_afe_command_sequence 100 (ConfigureFrontend [] [] 600) = Ok fs
     \<and> handle_frames fake_afe_hardware (map encode_command fs)
         (set_interlock ready_interlock (runtime_new default_fake_hardware)) = Some (outs, rt')
     \<and> list_all applied outs \<and> fh_apply_count (rn_hardware rt') = 1"
proof -
  obtain fs where fs: "from_afe_command_sequence 100 (ConfigureFrontend [] [] 600) = Ok fs"
    by (auto simp: from_afe_command_sequence_def configure_frontend_sequence_eq)
  let ?rt = "set_interlock ready_interlock (runtime_new default_fake_hardware)"
  have ready: "ready_for_afe (rn_interlock ?rt)"
    by (simp add: set_interlock_def ready_interlock_def ready_for_afe_def)
  obtain h' where h': "configure_directly fake_afe_hardware [] [] 600 (rn_hardware ?rt) = Some (Ok (), h')"
    and "fh_apply_count h' = 1"
    by (simp add: configure_directly_def fake_afe_hardware_def thenE_def bindE_def modify_def ret_def
        gets_def set_interlock_def runtime_new_def default_fake_hardware_def)
  with configuration_drives_hardware [OF fs ready h'] fs show ?thesis by blast
qed

text \<open>A history that ends with an accepted begin frame.\<close>

lemma example_history:
  fixes hw defines "hw \<equiv> fake_afe_hardware"
  obtains b rt where "run hw default_fake_hardware [(b, StApplied)] rt"
    and "session_of [(b, StApplied)] = Some (\<lparr>cc_afe_count = 0, cc_channel_count = 0, cc_bias_control = 0\<rparr>, 0, 0)"
    and "ready_for_afe (rn_interlock rt)" and "rn_config_state rt = config_begin
      \<lparr>cc_afe_count = 0, cc_channel_count = 0, cc_bias_control = 0\<rparr>"
    and "fh_apply_count (rn_hardware rt) = 0"
proof -
  let ?k = "\<lparr>cc_afe_count = 0, cc_channel_count = 0, cc_bias_control = 0\<rparr>"
  define b where "b = (wire_status 1)\<lparr>wc_op := OpBeginConfigureFrontend\<rparr>"
  define rt0 where "rt0 = set_interlock ready_interlock (runtime_new default_fake_hardware)"
  have k: "configure_counts b = Ok ?k"
    by (simp add: b_def configure_counts_def wire_status_def require_op_def unpack_u16_pair_def
        require_u16_def)
  define rt1 where "rt1 = rt0\<lparr>rn_heartbeat := rn_heartbeat rt0 + 1,
    rn_hardware := (rn_hardware rt0)\<lparr>fh_begins := fh_begins (rn_hardware rt0) @ [?k]\<rparr>,
    rn_config_state := config_begin ?k\<rparr>"
  have r0: "run hw default_fake_hardware [] rt0"
    unfolding rt0_def by (intro run_interlock run_new)
  have "apply_command hw b (rt0\<lparr>rn_heartbeat := rn_heartbeat rt0 + 1\<rparr>) = Some (Ok None, rt1)"
    using k by (simp add: apply_command_def b_def hw_def fake_afe_hardware_def rt1_def bindE_def
        thenE_def liftR_def on_hw_def map_errE_def zoom_def put_config_def modify_def ret_def)
  moreover have "ready_for_afe (rn_interlock rt0)"
    by (simp add: rt0_def set_interlock_def ready_interlock_def ready_for_afe_def)
  moreover have wf: "wf_wire_command b" by (simp add: b_def)
  ultimately obtain out where out: "handle_frame hw (encode_command b) rt0 = Some (out, rt1)" "applied out"
    using handle_frame_applied [of b rt0 hw None rt1] by (auto simp: b_def)
  then obtain r where "decode_reply out = Ok r" and "wr_status r = StApplied"
    by (auto simp: applied_def)
  with run_command [OF r0 command_decode_encode [OF wf] out(1)]
  have 1: "run hw default_fake_hardware [(b, StApplied)] rt1" by simp
  have 2: "session_of [(b, StApplied)] = Some (?k, 0, 0)"
    using k by (simp add: b_def)
  have 3: "ready_for_afe (rn_interlock rt1)" "rn_config_state rt1 = config_begin ?k"
    "fh_apply_count (rn_hardware rt1) = 0"
    using \<open>ready_for_afe (rn_interlock rt0)\<close>
    by (simp_all add: rt1_def rt0_def set_interlock_def runtime_new_def default_fake_hardware_def)
  show ?thesis by (rule that [OF 1 2 3])
qed

theorem config_counts_bounded_witness:
  "\<exists>log rt. run fake_afe_hardware default_fake_hardware log rt \<and> log \<noteq> []
     \<and> cf_received_afes (rn_config_state rt) \<le> cf_expected_afes (rn_config_state rt)"
  using example_history config_counts_bounded by (metis not_Cons_self2)

theorem apply_only_when_complete_witness:
  "\<exists>log rt k. run fake_afe_hardware default_fake_hardware log rt \<and> log \<noteq> []
     \<and> session_of log = Some (k, unat (cc_afe_count k), unat (cc_channel_count k))"
proof -
  obtain b rt where run: "run fake_afe_hardware default_fake_hardware [(b, StApplied)] rt"
    and ready: "ready_for_afe (rn_interlock rt)"
    and cfg: "rn_config_state rt = config_begin
      \<lparr>cc_afe_count = 0, cc_channel_count = 0, cc_bias_control = 0\<rparr>"
    and count: "fh_apply_count (rn_hardware rt) = 0"
    using example_history by metis
  define c where "c = (wire_status 2)\<lparr>wc_op := OpApplyConfigureFrontend\<rparr>"
  have wf: "wf_wire_command c" by (simp add: c_def)
  obtain rt' where "apply_command fake_afe_hardware c (rt\<lparr>rn_heartbeat := rn_heartbeat rt + 1\<rparr>)
      = Some (Ok None, rt')"
    using cfg count
    by (simp add: apply_command_def c_def fake_afe_hardware_def bindE_def thenE_def with_config_def
        require_complete_def config_begin_def on_hw_def map_errE_def zoom_def gets_def put_config_def
        modify_def ret_def)
  from handle_frame_applied [OF wf ready _ this] obtain out r
    where out: "handle_frame fake_afe_hardware (encode_command c) rt = Some (out, rt')"
      "decode_reply out = Ok r" "wr_status r = StApplied"
    by (auto simp: c_def applied_def)
  from apply_only_when_complete [OF run command_decode_encode [OF wf] _ out] run
  show ?thesis by (auto simp: c_def)
qed

section \<open>No panic\<close>

text \<open>Every operation of the hardware keeps an invariant of its state, and returns from the states
  that satisfy it.\<close>

definition hardware_keeps :: "('h \<Rightarrow> bool) \<Rightarrow> ('h, 'e) afe_hardware \<Rightarrow> bool" where
  "hardware_keeps I hw \<longleftrightarrow>
     (\<forall>a r. keeps I (hw_read_register hw a r))
     \<and> (\<forall>a r v. keeps I (hw_write_register hw a r v))
     \<and> (\<forall>p a. keeps I (hw_read_scalar hw p a))
     \<and> (\<forall>p a v. keeps I (hw_write_scalar hw p a v))
     \<and> (\<forall>c. keeps I (hw_read_channel_scalar hw c))
     \<and> (\<forall>c. keeps I (hw_write_channel_scalar hw c))
     \<and> keeps I (hw_read_vbias_control hw)
     \<and> (\<forall>v b. keeps I (hw_write_vbias_control hw v b))
     \<and> (\<forall>b. keeps I (hw_set_reset hw b))
     \<and> keeps I (hw_do_reset hw)
     \<and> (\<forall>b. keeps I (hw_set_power_state hw b))
     \<and> keeps I (hw_align hw)
     \<and> (\<forall>k. keeps I (hw_begin_configure_frontend hw k))
     \<and> (\<forall>a. keeps I (hw_configure_afe hw a))
     \<and> (\<forall>c. keeps I (hw_configure_channel hw c))
     \<and> keeps I (hw_apply_configure_frontend hw)
     \<and> (\<forall>a n v. keeps I (hw_write_function hw a n v))"

lemma keeps_wp: "keeps I m \<Longrightarrow> I s \<Longrightarrow> (\<And>r t. I t \<Longrightarrow> Q r t) \<Longrightarrow> wp m Q s"
  using keepsD [of I m s] by (auto intro: wp_mono)

lemma not_max_less: "\<not> (0xFFFF :: u16) < m"
proof
  assume "(0xFFFF :: u16) < m"
  moreover have "unat m < 65536" by (rule order_less_le_trans [OF unsigned_less]) simp
  ultimately show False by (simp add: word_less_nat_alt)
qed

lemma apply_command_keeps:
  assumes "hardware_keeps I hw" and "I (rn_hardware rt)" and "wc_op c \<noteq> OpReadAlignment"
  shows "wp (apply_command hw c) (\<lambda>_ t. I (rn_hardware t)) rt"
  using assms(2,3) assms(1) [unfolded hardware_keeps_def]
  unfolding apply_command_def
  by (cases "wc_op c")
     (auto simp: wp_simps runtime_simps post_ok_def require_afe_slot_def require_channel_slot_def
       require_complete_def not_max_less split: result.splits intro!: keeps_wp [of I])

lemma handle_frame_answers:
  assumes "hardware_keeps I hw" and "I (rn_hardware rt)"
    and "\<not> (ready_for_afe (rn_interlock rt) \<and>
           (\<exists>c. decode_command input = Ok c \<and> wc_op c = OpReadAlignment))"
  shows "\<exists>r rt'. handle_frame hw input rt = Some (encode_reply r, rt') \<and> I (rn_hardware rt')"
proof (cases "decode_command input")
  case (Err e)
  then show ?thesis using assms(2) by (auto simp: handle_frame_def Let_def)
next
  case (Ok c)
  let ?rt = "rt\<lparr>rn_heartbeat := rn_heartbeat rt + 1\<rparr>"
  have "\<exists>r rt'. handle_command hw c ?rt = Some (r, rt') \<and> I (rn_hardware rt')"
  proof (cases "ready_for_afe (rn_interlock rt)")
    case True
    then have "wc_op c \<noteq> OpReadAlignment" using assms(3) Ok by auto
    from apply_command_keeps [OF assms(1) _ this, of ?rt] assms(2) show ?thesis
      by (auto simp: handle_command_def Let_def elim!: wpE split: result.split apply_error.split)
  qed (auto simp: handle_command_def Let_def assms(2))
  with Ok show ?thesis by (auto simp: handle_frame_def Let_def)
qed

lemma read_alignment_panics:
  assumes "ready_for_afe (rn_interlock rt)" and "decode_command input = Ok c" and "wc_op c = OpReadAlignment"
  shows "handle_frame hw input rt = None"
  using assms by (simp add: handle_frame_def handle_command_def apply_command_def panic_def Let_def)

end
