(* ===== verification/AfeFunctions.thy ===== *)
theory AfeFunctions
  imports Prelude
begin

text \<open>
  \<open>crates/daphne-sc-core/src/afe_functions.rs\<close>: the dictionary of the named functions of
  the front-end chip, each a bit field of one 16-bit register with its legal values, and
  the two operations on a field, \<open>replace_afe_function_bits\<close> and
  \<open>extract_afe_function_bits\<close>.  The locale \<open>field_lens\<close> states what a client may rely
  on (the get/put laws of a lens); it is interpreted on the two operations of the code.
\<close>

section \<open>Data\<close>

record afe_bit_field =
  fld_register :: u16
  fld_msb :: u8
  fld_lsb :: u8

datatype afe_function_values = Range u16 u16 | Options "u16 list"

record afe_function_spec =
  spec_name :: string
  spec_field :: afe_bit_field
  spec_values :: afe_function_values

datatype afe_function_error = UnknownName | InvalidValue | InvalidBitField

definition afe_function ::
    "string \<Rightarrow> u16 \<Rightarrow> u8 \<Rightarrow> u8 \<Rightarrow> afe_function_values \<Rightarrow> afe_function_spec" where
  "afe_function name register msb lsb vals =
     \<lparr>spec_name = name,
      spec_field = \<lparr>fld_register = register, fld_msb = msb, fld_lsb = lsb\<rparr>,
      spec_values = vals\<rparr>"

definition AFE_FUNCTIONS :: "afe_function_spec list" where
  "AFE_FUNCTIONS = [
     afe_function ''SOFTWARE_RESET'' 0 0 0 (Range 0 1),
     afe_function ''REGISTER_READOUT_ENABLE'' 0 1 1 (Range 0 1),
     afe_function ''ADC_COMPLETE_PDN'' 1 0 0 (Range 0 1),
     afe_function ''LVDS_OUTPUT_DISABLE'' 1 1 1 (Range 0 1),
     afe_function ''ADC_PDN_CH'' 1 9 2 (Range 0 255),
     afe_function ''PARTIAL_PDN'' 1 10 10 (Range 0 1),
     afe_function ''LOW_FREQUENCY_NOISE_SUPPRESSION'' 1 11 11 (Range 0 1),
     afe_function ''EXT_REF'' 1 13 13 (Range 0 1),
     afe_function ''LVDS_OUTPUT_RATE_2X'' 1 12 14 (Range 0 1),
     afe_function ''SINGLE-ENDED_CLK_MODE'' 1 15 15 (Range 0 1),
     afe_function ''POWER-DOWN_LVDS'' 2 10 3 (Range 0 1),
     afe_function ''AVERAGING_ENABLE'' 2 11 11 (Range 0 1),
     afe_function ''LOW_LATENCY'' 2 12 12 (Range 0 1),
     afe_function ''TEST_PATTERN_MODES'' 2 15 13 (Range 0 7),
     afe_function ''INVERT_CHANNELS'' 3 7 0 (Range 0 255),
     afe_function ''CHANNEL_OFFSET_SUBSTRACTION_ENABLE'' 3 8 8 (Range 0 1),
     afe_function ''DIGITAL_GAIN_ENABLE'' 3 12 12 (Range 0 1),
     afe_function ''SERIALIZED_DATA_RATE'' 3 14 13 (Range 0 3),
     afe_function ''ENABLE_EXTERNAL_REFERENCE_MODE'' 3 15 15 (Range 0 1),
     afe_function ''ADC_RESOLUTION_RESET'' 4 1 1 (Range 0 1),
     afe_function ''ADC_OUTPUT_FORMAT'' 4 3 3 (Range 0 1),
     afe_function ''LSB_MSB_FIRST'' 4 4 4 (Range 0 1),
     afe_function ''CUSTOM_PATTERN'' 5 13 0 (Range 0 16383),
     afe_function ''SYNC_PATTERN'' 10 8 8 (Range 0 1),
     afe_function ''OFFSET_CH1'' 13 9 0 (Range 0 1023),
     afe_function ''DIGITAL_GAIN_CH1'' 13 15 11 (Range 0 31),
     afe_function ''OFFSET_CH2'' 15 9 0 (Range 0 1023),
     afe_function ''DIGITAL_GAIN_CH2'' 15 15 11 (Range 0 31),
     afe_function ''OFFSET_CH3'' 17 9 0 (Range 0 1023),
     afe_function ''DIGITAL_GAIN_CH3'' 17 15 11 (Range 0 31),
     afe_function ''OFFSET_CH4'' 19 9 0 (Range 0 1023),
     afe_function ''DIGITAL_GAIN_CH4'' 19 15 11 (Range 0 31),
     afe_function ''DIGITAL_HPF_FILTER_ENABLE_CH1-4'' 21 0 0 (Range 0 1),
     afe_function ''DIGITAL_HPF_FILTER_K_CH1-4'' 21 4 1 (Range 2 10),
     afe_function ''OFFSET_CH8'' 25 9 0 (Range 0 1023),
     afe_function ''DIGITAL_GAIN_CH8'' 25 15 11 (Range 0 31),
     afe_function ''OFFSET_CH7'' 27 9 0 (Range 0 1023),
     afe_function ''DIGITAL_GAIN_CH7'' 27 15 11 (Range 0 31),
     afe_function ''OFFSET_CH6'' 29 9 0 (Range 0 1023),
     afe_function ''DIGITAL_GAIN_CH6'' 29 15 11 (Range 0 31),
     afe_function ''OFFSET_CH5'' 31 9 0 (Range 0 1023),
     afe_function ''DIGITAL_GAIN_CH5'' 31 15 11 (Range 0 31),
     afe_function ''DIGITAL_HPF_FILTER_ENABLE_CH5-8'' 33 0 0 (Range 0 1),
     afe_function ''DIGITAL_HPF_FILTER_K_CH5-8'' 33 4 1 (Range 2 10),
     afe_function ''DITHER'' 66 15 15 (Range 0 1),
     afe_function ''PGA_CLAMP_-6dB'' 50 10 10 (Range 0 1),
     afe_function ''LPF_PROGRAMMABILITY'' 51 3 1 (Options [0, 2, 3, 4]),
     afe_function ''PGA_INTEGRATOR_DISABLE'' 51 4 4 (Range 0 1),
     afe_function ''PGA_CLAMP_LEVEL'' 51 7 5 (Range 0 7),
     afe_function ''PGA_GAIN_CONTROL'' 51 13 13 (Range 0 1),
     afe_function ''ACTIVE_TERMINATION_INDIVIDUAL_RESISTOR_CNTL'' 52 4 0 (Range 0 31),
     afe_function ''ACTIVE_TERMINATION_INDIVIDUAL_RESISTOR_ENABLE'' 52 5 5 (Range 0 1),
     afe_function ''PRESET_ACTIVE_TERMINATIONS'' 52 7 6 (Range 0 3),
     afe_function ''ACTIVE_TERMINATION_ENABLE'' 52 8 8 (Range 0 1),
     afe_function ''LNA_INPUT_CLAMP_SETTING'' 52 10 9 (Range 0 3),
     afe_function ''LNA_INTEGRATOR_DISABLE'' 52 12 12 (Range 0 1),
     afe_function ''LNA_GAIN'' 52 14 13 (Range 0 3),
     afe_function ''LNA_INDIVIDUAL_CH_CNTL'' 52 15 15 (Range 0 1),
     afe_function ''PDN_CH'' 53 7 0 (Range 0 255),
     afe_function ''LOW_POWER'' 53 10 10 (Range 0 1),
     afe_function ''MED_POWER'' 53 11 11 (Range 0 1),
     afe_function ''PDN_VCAT_PGA'' 53 12 12 (Range 0 1),
     afe_function ''PDN_LNA'' 53 13 13 (Range 0 1),
     afe_function ''VCA_PARTIAL_PDN'' 53 14 14 (Range 0 1),
     afe_function ''VCA_COMPLETE_PDN'' 53 15 15 (Range 0 1),
     afe_function ''CW_SUM_AMP_GAIN_CNTL'' 54 4 0 (Options [0, 1, 2, 4, 8, 16]),
     afe_function ''CW_16X_CLK_SEL'' 54 5 5 (Range 0 1),
     afe_function ''CW_1X_CLK_SEL'' 54 6 6 (Range 0 1),
     afe_function ''CW_TGC_SEL'' 54 8 8 (Range 0 1),
     afe_function ''CW_SUM_AMP_ENABLE'' 54 9 9 (Range 0 1),
     afe_function ''CW_CLK_MODE_SEL'' 54 11 10 (Range 0 3),
     afe_function ''CH1_CW_MIXER_PHASE'' 55 3 0 (Range 0 15),
     afe_function ''CH2_CW_MIXER_PHASE'' 55 7 4 (Range 0 15),
     afe_function ''CH3_CW_MIXER_PHASE'' 55 11 8 (Range 0 15),
     afe_function ''CH4_CW_MIXER_PHASE'' 55 15 12 (Range 0 15),
     afe_function ''CH5_CW_MIXER_PHASE'' 56 3 0 (Range 0 15),
     afe_function ''CH6_CW_MIXER_PHASE'' 56 7 4 (Range 0 15),
     afe_function ''CH7_CW_MIXER_PHASE'' 56 11 8 (Range 0 15),
     afe_function ''CH8_CW_MIXER_PHASE'' 56 15 12 (Range 0 15),
     afe_function ''CH1_LNA_GAIN_CNTL'' 57 1 0 (Range 0 3),
     afe_function ''CH2_LNA_GAIN_CNTL'' 57 3 2 (Range 0 3),
     afe_function ''CH3_LNA_GAIN_CNTL'' 57 5 4 (Range 0 3),
     afe_function ''CH4_LNA_GAIN_CNTL'' 57 7 6 (Range 0 3),
     afe_function ''CH5_LNA_GAIN_CNTL'' 57 9 8 (Range 0 3),
     afe_function ''CH6_LNA_GAIN_CNTL'' 57 11 10 (Range 0 3),
     afe_function ''CH7_LNA_GAIN_CNTL'' 57 13 12 (Range 0 3),
     afe_function ''CH8_LNA_GAIN_CNTL'' 57 15 14 (Range 0 3),
     afe_function ''HPF_LNA'' 59 3 2 (Range 0 3),
     afe_function ''DIG_TGC_ATT_GAIN'' 59 6 4 (Range 0 7),
     afe_function ''DIG_TGC_ATT'' 59 7 7 (Range 0 1),
     afe_function ''CW_SUM_AMP_PDN'' 59 8 8 (Range 0 1),
     afe_function ''PGA_TEST_MODE'' 59 9 9 (Range 0 1)]"

section \<open>Operations\<close>

definition values_contains :: "afe_function_values \<Rightarrow> u16 \<Rightarrow> bool" where
  "values_contains vs value = (case vs of
     Range mn mx \<Rightarrow> mn \<le> value \<and> value \<le> mx
   | Options opts \<Rightarrow> List.member opts value)"

definition field_mask :: "afe_bit_field \<Rightarrow> (u16, afe_function_error) result" where
  "field_mask f =
     (if fld_msb f < fld_lsb f \<or> 16 \<le> fld_msb f then Err InvalidBitField
      else let width = fld_msb f - fld_lsb f + 1;
               m = push_bit (unat (fld_lsb f)) (push_bit (unat width) (1 :: u32) - 1)
           in Ok (ucast m))"

definition find_afe_function :: "string \<Rightarrow> afe_function_spec option" where
  "find_afe_function name = find (\<lambda>spec. spec_name spec = name) AFE_FUNCTIONS"

definition validate_afe_function_value ::
    "string \<Rightarrow> u16 \<Rightarrow> (afe_function_spec, afe_function_error) result" where
  "validate_afe_function_value name value =
     and_then (ok_or (find_afe_function name) UnknownName) (\<lambda>spec.
       if values_contains (spec_values spec) value then Ok spec else Err InvalidValue)"

definition replace_afe_function_bits ::
    "u16 \<Rightarrow> afe_bit_field \<Rightarrow> u16 \<Rightarrow> (u16, afe_function_error) result" where
  "replace_afe_function_bits register_value field value =
     and_then (field_mask field) (\<lambda>m.
       Ok ((register_value AND NOT m) OR (push_bit (unat (fld_lsb field)) value AND m)))"

definition extract_afe_function_bits ::
    "u16 \<Rightarrow> afe_bit_field \<Rightarrow> (u16, afe_function_error) result" where
  "extract_afe_function_bits register_value field =
     and_then (field_mask field) (\<lambda>m.
       Ok (drop_bit (unat (fld_lsb field)) (register_value AND m)))"

section \<open>Masks\<close>

definition valid_field :: "afe_bit_field \<Rightarrow> bool" where
  "valid_field f \<longleftrightarrow> fld_lsb f \<le> fld_msb f \<and> fld_msb f < 16"

definition field_width :: "afe_bit_field \<Rightarrow> nat" where
  "field_width f = unat (fld_msb f) - unat (fld_lsb f) + 1"

lemma valid_field_unat:
  assumes "valid_field f"
  shows "unat (fld_lsb f) \<le> unat (fld_msb f)" and "unat (fld_msb f) < 16"
    and "unat (fld_msb f - fld_lsb f + 1) = field_width f" and "field_width f \<le> 16"
proof -
  show lm: "unat (fld_lsb f) \<le> unat (fld_msb f)" and m: "unat (fld_msb f) < 16"
    using assms by (simp_all add: valid_field_def word_le_nat_alt word_less_nat_alt)
  show "field_width f \<le> 16" using lm m by (simp add: field_width_def)
  have "unat (fld_msb f - fld_lsb f) = unat (fld_msb f) - unat (fld_lsb f)"
    using assms by (simp add: valid_field_def unat_sub)
  then show "unat (fld_msb f - fld_lsb f + 1) = field_width f"
    using m by (simp add: field_width_def unat_word_ariths)
qed

lemma field_mask_Err_iff: "field_mask f = Err e \<longleftrightarrow> \<not> valid_field f \<and> e = InvalidBitField"
  by (auto simp: field_mask_def valid_field_def Let_def not_less not_le)

lemma field_mask_Ok_iff: "(\<exists>m. field_mask f = Ok m) \<longleftrightarrow> valid_field f"
  by (auto simp: field_mask_def valid_field_def Let_def not_less not_le)

lemma bit_field_mask:
  assumes "field_mask f = Ok m"
  shows "bit m k \<longleftrightarrow> unat (fld_lsb f) \<le> k \<and> k \<le> unat (fld_msb f)"
proof -
  from assms have v: "valid_field f" using field_mask_Ok_iff by blast
  note u = valid_field_unat [OF v]
  have m: "m = ucast (push_bit (unat (fld_lsb f)) (push_bit (field_width f) (1 :: u32) - 1))"
    using assms v by (simp add: field_mask_def valid_field_def Let_def u(3) split: if_splits)
  have "push_bit (field_width f) (1 :: u32) - 1 = mask (field_width f)"
    by (simp add: mask_eq_exp_minus_1 push_bit_eq_mult)
  then have "bit m k \<longleftrightarrow> k < 16 \<and> unat (fld_lsb f) \<le> k \<and> k - unat (fld_lsb f) < field_width f"
    using u by (auto simp: m bit_simps)
  also have "\<dots> \<longleftrightarrow> unat (fld_lsb f) \<le> k \<and> k \<le> unat (fld_msb f)"
    using u by (auto simp: field_width_def)
  finally show ?thesis .
qed

lemma bit_replace:
  assumes "replace_afe_function_bits r f v = Ok r'"
  shows "bit r' k \<longleftrightarrow> (if unat (fld_lsb f) \<le> k \<and> k \<le> unat (fld_msb f)
                      then bit v (k - unat (fld_lsb f)) \<and> k < 16 else bit r k)"
proof -
  from assms obtain m where m: "field_mask f = Ok m"
    and r': "r' = (r AND NOT m) OR (push_bit (unat (fld_lsb f)) v AND m)"
    by (auto simp: replace_afe_function_bits_def and_then_Ok_iff)
  show ?thesis
    using bit_imp_le_length [of r k]
    by (auto simp: r' bit_simps bit_field_mask [OF m])
qed

lemma bit_extract:
  assumes "extract_afe_function_bits r f = Ok v"
  shows "bit v k \<longleftrightarrow> k < field_width f \<and> bit r (k + unat (fld_lsb f))"
proof -
  from assms obtain m where m: "field_mask f = Ok m"
    and v: "v = drop_bit (unat (fld_lsb f)) (r AND m)"
    by (auto simp: extract_afe_function_bits_def and_then_Ok_iff)
  from m have "valid_field f" using field_mask_Ok_iff by blast
  note u = valid_field_unat [OF this]
  show ?thesis
    using u by (auto simp: v bit_simps bit_field_mask [OF m] field_width_def add.commute)
qed

lemma replace_Ok: "valid_field f \<Longrightarrow> \<exists>r'. replace_afe_function_bits r f v = Ok r'"
  using field_mask_Ok_iff [of f] by (auto simp: replace_afe_function_bits_def)

lemma extract_Ok: "valid_field f \<Longrightarrow> \<exists>v. extract_afe_function_bits r f = Ok v"
  using field_mask_Ok_iff [of f] by (auto simp: extract_afe_function_bits_def)

section \<open>Fields as lenses\<close>

locale field_lens =
  fixes get :: "'s \<Rightarrow> 'v" and put :: "'s \<Rightarrow> 'v \<Rightarrow> 's" and fits :: "'v \<Rightarrow> bool"
  assumes put_get: "fits v \<Longrightarrow> get (put s v) = v"
    and get_put: "put s (get s) = s"
    and put_put: "put (put s v) w = put s w"
    and get_fits: "fits (get s)"
begin

lemma put_inj: "fits v \<Longrightarrow> fits w \<Longrightarrow> put s v = put s w \<Longrightarrow> v = w"
  using put_get by metis

lemma put_same: "put (put s v) v = put s v"
  by (rule put_put)

lemma put_restores: "put (put s v) (get s) = s"
  by (simp add: put_put get_put)

end

text \<open>The two operations as total functions; a malformed field has no bits.\<close>

definition get_field :: "afe_bit_field \<Rightarrow> u16 \<Rightarrow> u16" where
  "get_field f r = (case extract_afe_function_bits r f of Ok v \<Rightarrow> v | Err _ \<Rightarrow> 0)"

definition put_field :: "afe_bit_field \<Rightarrow> u16 \<Rightarrow> u16 \<Rightarrow> u16" where
  "put_field f r v = (case replace_afe_function_bits r f v of Ok r' \<Rightarrow> r' | Err _ \<Rightarrow> r)"

definition fits_field :: "afe_bit_field \<Rightarrow> u16 \<Rightarrow> bool" where
  "fits_field f v \<longleftrightarrow> (if valid_field f then unat v < 2 ^ field_width f else v = 0)"

lemma extract_get_field: "valid_field f \<Longrightarrow> extract_afe_function_bits r f = Ok (get_field f r)"
  using extract_Ok [of f r] by (auto simp: get_field_def)

lemma replace_put_field: "valid_field f \<Longrightarrow> replace_afe_function_bits r f v = Ok (put_field f r v)"
  using replace_Ok [of f r v] by (auto simp: put_field_def)

lemma invalid_field_ops:
  assumes "\<not> valid_field f"
  shows "extract_afe_function_bits r f = Err InvalidBitField"
    and "replace_afe_function_bits r f v = Err InvalidBitField"
proof -
  have "field_mask f = Err InvalidBitField"
    using assms field_mask_Err_iff [of f InvalidBitField] by simp
  then show "extract_afe_function_bits r f = Err InvalidBitField"
    and "replace_afe_function_bits r f v = Err InvalidBitField"
    by (simp_all add: extract_afe_function_bits_def replace_afe_function_bits_def)
qed

lemma bit_get_field: "valid_field f \<Longrightarrow> bit (get_field f r) k \<longleftrightarrow> k < field_width f \<and> bit r (k + unat (fld_lsb f))"
  using bit_extract [OF extract_get_field] .

lemma bit_put_field: "valid_field f \<Longrightarrow> bit (put_field f r v) k \<longleftrightarrow>
    (if unat (fld_lsb f) \<le> k \<and> k \<le> unat (fld_msb f)
     then bit v (k - unat (fld_lsb f)) \<and> k < 16 else bit r k)"
  using bit_replace [OF replace_put_field] .

lemma fits_field_bits:
  assumes "valid_field f"
  shows "fits_field f v \<longleftrightarrow> (\<forall>k. bit v k \<longrightarrow> k < field_width f)"
proof -
  have "unat v < 2 ^ field_width f \<longleftrightarrow> take_bit (field_width f) v = v"
  proof -
    have "take_bit (field_width f) v = v \<longleftrightarrow> take_bit (field_width f) (unat v) = unat v"
      by (metis unsigned_take_bit_eq word_unat_eq_iff)
    then show ?thesis by (simp add: take_bit_nat_eq_self_iff)
  qed
  also have "\<dots> \<longleftrightarrow> (\<forall>k. bit v k \<longrightarrow> k < field_width f)"
    using bit_imp_le_length [of v] by (auto simp: bit_eq_iff bit_simps)
  finally show ?thesis using assms by (simp add: fits_field_def)
qed

interpretation reg_field: field_lens "get_field f" "put_field f" "fits_field f" for f
proof (unfold_locales, goal_cases)
  case (1 v s)
  show ?case
  proof (cases "valid_field f")
    case True
    note u = valid_field_unat [OF True]
    show ?thesis
      using 1 u by (auto simp: bit_eq_iff bit_get_field bit_put_field fits_field_bits True
          field_width_def)
  next
    case False
    with 1 show ?thesis by (simp add: get_field_def invalid_field_ops fits_field_def)
  qed
next
  case (2 s)
  show ?case
  proof (cases "valid_field f")
    case True
    note u = valid_field_unat [OF True]
    show ?thesis
      using u by (auto simp: bit_eq_iff bit_get_field bit_put_field True field_width_def)
  qed (simp add: put_field_def invalid_field_ops)
next
  case (3 s v w)
  show ?case
  proof (cases "valid_field f")
    case True
    then show ?thesis by (simp add: bit_eq_iff bit_put_field)
  qed (simp add: put_field_def invalid_field_ops)
next
  case (4 s)
  show ?case
    by (cases "valid_field f")
      (simp_all add: fits_field_bits bit_get_field, simp add: fits_field_def get_field_def invalid_field_ops)
qed

section \<open>The dictionary\<close>

definition values_max :: "afe_function_values \<Rightarrow> u16" where
  "values_max vs = (case vs of Range mn mx \<Rightarrow> mx | Options opts \<Rightarrow> foldr max opts 0)"

lemma values_contains_le_max: "values_contains vs v \<Longrightarrow> v \<le> values_max vs"
proof (cases vs)
  case (Options opts)
  have "v \<in> set opts \<Longrightarrow> v \<le> foldr max opts 0"
    by (induction opts) (auto simp: le_max_iff_disj)
  then show "values_contains vs v \<Longrightarrow> ?thesis"
    by (simp add: Options values_contains_def values_max_def)
qed (simp add: values_contains_def values_max_def)

lemma afe_function_sel [simp]:
  "spec_name (afe_function n r m l vs) = n"
  "spec_field (afe_function n r m l vs) = \<lparr>fld_register = r, fld_msb = m, fld_lsb = l\<rparr>"
  "spec_values (afe_function n r m l vs) = vs"
  by (simp_all add: afe_function_def)

definition spec_fits :: "afe_function_spec \<Rightarrow> bool" where
  "spec_fits spec \<longleftrightarrow>
     (if valid_field (spec_field spec)
      then unat (values_max (spec_values spec)) < 2 ^ field_width (spec_field spec)
      else spec_name spec = ''LVDS_OUTPUT_RATE_2X'')"

lemma list_all_intros: "list_all P []" "P x \<Longrightarrow> list_all P xs \<Longrightarrow> list_all P (x # xs)"
  by simp_all

lemma dictionary_fits: "list_all spec_fits AFE_FUNCTIONS"
  unfolding AFE_FUNCTIONS_def
  by (intro list_all_intros; simp add: spec_fits_def valid_field_def field_width_def values_max_def)

lemma dictionary_distinct: "distinct (map spec_name AFE_FUNCTIONS)"
  unfolding AFE_FUNCTIONS_def list.map afe_function_sel
  by (simp only: distinct.simps list.set insert_iff empty_iff list.inject list.distinct char.inject simp_thms)

lemma find_afe_function_mem:
  "find_afe_function name = Some spec \<Longrightarrow> spec \<in> set AFE_FUNCTIONS \<and> spec_name spec = name"
  by (auto simp: find_afe_function_def find_Some_iff)

lemma find_distinct_key:
  "distinct (map f xs) \<Longrightarrow> x \<in> set xs \<Longrightarrow> find (\<lambda>y. f y = f x) xs = Some x"
  by (induction xs) (auto dest: imageI [where f = f])

lemma spec_value_fits:
  assumes "spec \<in> set AFE_FUNCTIONS" and "values_contains (spec_values spec) v"
    and "valid_field (spec_field spec)"
  shows "fits_field (spec_field spec) v"
proof -
  have "spec_fits spec" using dictionary_fits assms(1) by (simp add: list_all_iff)
  then have "unat (values_max (spec_values spec)) < 2 ^ field_width (spec_field spec)"
    using assms(3) by (simp add: spec_fits_def)
  moreover have "unat v \<le> unat (values_max (spec_values spec))"
    using values_contains_le_max [OF assms(2)] by (simp add: word_le_nat_alt)
  ultimately show ?thesis using assms(3) by (simp add: fits_field_def)
qed

lemma validate_Ok_iff:
  "validate_afe_function_value name v = Ok spec \<longleftrightarrow>
     find_afe_function name = Some spec \<and> values_contains (spec_values spec) v"
  by (auto simp: validate_afe_function_value_def and_then_Ok_iff)

lemma malformed_field:
  "spec \<in> set AFE_FUNCTIONS \<Longrightarrow>
     field_mask (spec_field spec) = Err InvalidBitField \<longleftrightarrow> spec_name spec = ''LVDS_OUTPUT_RATE_2X''"
proof -
  have "list_all (\<lambda>s. spec_name s = ''LVDS_OUTPUT_RATE_2X'' \<longrightarrow> \<not> valid_field (spec_field s)) AFE_FUNCTIONS"
    unfolding AFE_FUNCTIONS_def
    by (intro list_all_intros; simp add: valid_field_def)
  moreover note dictionary_fits
  moreover assume "spec \<in> set AFE_FUNCTIONS"
  ultimately show "field_mask (spec_field spec) = Err InvalidBitField \<longleftrightarrow> spec_name spec = ''LVDS_OUTPUT_RATE_2X''"
    by (auto simp: list_all_iff field_mask_Err_iff spec_fits_def)
qed

section \<open>Properties\<close>

text \<open>C33: writing a legal value of a named function into any register content and reading the field
  back gives that value, and no bit outside the field changes; the only exception is
  \<open>LVDS_OUTPUT_RATE_2X\<close>, whose bit field is malformed: both are refused for it.\<close>

theorem afe_function_write_read:
  assumes "validate_afe_function_value name v = Ok spec"
  shows "if name = ''LVDS_OUTPUT_RATE_2X''
    then replace_afe_function_bits r (spec_field spec) v = Err InvalidBitField
      \<and> extract_afe_function_bits r (spec_field spec) = Err InvalidBitField
    else \<exists>m r'. field_mask (spec_field spec) = Ok m \<and> replace_afe_function_bits r (spec_field spec) v = Ok r'
      \<and> extract_afe_function_bits r' (spec_field spec) = Ok v \<and> r' AND NOT m = r AND NOT m"
proof -
  let ?f = "spec_field spec"
  have spec: "spec \<in> set AFE_FUNCTIONS" "spec_name spec = name" "values_contains (spec_values spec) v"
    using assms find_afe_function_mem by (auto simp: validate_Ok_iff)
  show ?thesis
  proof (cases "name = ''LVDS_OUTPUT_RATE_2X''")
    case True
    with spec(1,2) have "field_mask ?f = Err InvalidBitField" by (simp add: malformed_field)
    with True show ?thesis by (simp add: replace_afe_function_bits_def extract_afe_function_bits_def and_then_def)
  next
    case False
    with spec(1,2) have valid: "valid_field ?f"
      using malformed_field [of spec] by (simp add: field_mask_Err_iff)
    then obtain m where m: "field_mask ?f = Ok m" using field_mask_Ok_iff by blast
    have "fits_field ?f v" by (rule spec_value_fits [OF spec(1,3) valid])
    then have "get_field ?f (put_field ?f r v) = v" by (rule reg_field.put_get)
    moreover have "put_field ?f r v AND NOT m = r AND NOT m"
      by (rule bit_word_eqI) (auto simp: bit_simps bit_put_field [OF valid] bit_field_mask [OF m])
    ultimately show ?thesis
      using False m by (simp add: replace_put_field [OF valid] extract_get_field [OF valid])
  qed
qed

theorem afe_function_write_read_witness:
  "\<exists>r'. replace_afe_function_bits 0xFFFF \<lparr>fld_register = 51, fld_msb = 3, fld_lsb = 1\<rparr> 4 = Ok r'
     \<and> extract_afe_function_bits r' \<lparr>fld_register = 51, fld_msb = 3, fld_lsb = 1\<rparr> = Ok 4
     \<and> r' AND NOT 0x000E = 0xFFFF AND NOT 0x000E"
proof -
  let ?spec = "afe_function ''LPF_PROGRAMMABILITY'' 51 3 1 (Options [0, 2, 3, 4])"
  have "validate_afe_function_value ''LPF_PROGRAMMABILITY'' 4 = Ok ?spec"
    by (simp add: validate_Ok_iff find_afe_function_def AFE_FUNCTIONS_def values_contains_def)
  moreover have "field_mask (spec_field ?spec) = Ok 0x000E"
    by (simp add: field_mask_def Let_def)
  ultimately show ?thesis
    using afe_function_write_read [where r = "0xFFFF" and spec = ?spec and v = 4
        and name = "''LPF_PROGRAMMABILITY''"] by simp
qed

text \<open>The dictionary has no duplicate name: every entry is the one found under its name, and
  the lookup finds nothing else.  The only entry whose bit field is malformed, so that no
  operation on it succeeds, is \<open>LVDS_OUTPUT_RATE_2X\<close>.\<close>

theorem dictionary_lookup:
  "(find_afe_function name = Some spec \<longleftrightarrow> spec \<in> set AFE_FUNCTIONS \<and> spec_name spec = name)
   \<and> (spec \<in> set AFE_FUNCTIONS \<longrightarrow>
        (field_mask (spec_field spec) = Err InvalidBitField \<longleftrightarrow>
         spec_name spec = ''LVDS_OUTPUT_RATE_2X''))"
proof
  show "find_afe_function name = Some spec \<longleftrightarrow> spec \<in> set AFE_FUNCTIONS \<and> spec_name spec = name"
  proof
    assume "spec \<in> set AFE_FUNCTIONS \<and> spec_name spec = name"
    then show "find_afe_function name = Some spec"
      using find_distinct_key [OF dictionary_distinct, of spec]
      unfolding find_afe_function_def by simp
  qed (rule find_afe_function_mem)
qed (auto simp: malformed_field)

theorem dictionary_lookup_witness:
  "find_afe_function ''LNA_GAIN'' = Some (afe_function ''LNA_GAIN'' 52 14 13 (Range 0 3))"
  using dictionary_lookup [of "''LNA_GAIN''" "afe_function ''LNA_GAIN'' 52 14 13 (Range 0 3)"]
  by (simp add: AFE_FUNCTIONS_def)

end
