(* ===== verification/AfeHw.thy ===== *)
theory AfeHw
  imports Afe
begin

text \<open>
  \<open>crates/daphne-sc-core/src/afe_hw.rs\<close>: the register map of the FPGA window (offsets from
  the window base), the routing of the gain, bias and VBIAS outputs to the three DAC chips,
  and the packing of SPI and DAC words.  Section \<open>Registers\<close> names the set of offsets the
  backend may touch, \<open>afe_mmio_offsets\<close>.
\<close>

section \<open>Constants\<close>

definition FPGA_REGISTER_BASE :: u64 where "FPGA_REGISTER_BASE = 0x80000000"

definition AFE_GLOBAL_CONTROL_OFFSET :: u32 where "AFE_GLOBAL_CONTROL_OFFSET = 0x00000000"
definition AFE_CONTROL_BASE_OFFSET :: u32 where "AFE_CONTROL_BASE_OFFSET = 0x00000004"
definition AFE_DAC_TRIM_BASE_OFFSET :: u32 where "AFE_DAC_TRIM_BASE_OFFSET = 0x00000008"
definition AFE_DAC_OFFSET_BASE_OFFSET :: u32 where "AFE_DAC_OFFSET_BASE_OFFSET = 0x0000000C"
definition AFE_REGISTER_STRIDE :: u32 where "AFE_REGISTER_STRIDE = 0x0000000C"

definition DAC_GAIN_BIAS_CONTROL_OFFSET :: u32 where "DAC_GAIN_BIAS_CONTROL_OFFSET = 0x0C000000"
definition DAC_GAIN_BIAS_U50_OFFSET :: u32 where "DAC_GAIN_BIAS_U50_OFFSET = 0x0C000004"
definition DAC_GAIN_BIAS_U53_OFFSET :: u32 where "DAC_GAIN_BIAS_U53_OFFSET = 0x0C000008"
definition DAC_GAIN_BIAS_U5_OFFSET :: u32 where "DAC_GAIN_BIAS_U5_OFFSET = 0x0C00000C"
definition BIAS_ENABLE_OFFSET :: u32 where "BIAS_ENABLE_OFFSET = 0x1400000C"

definition FRONTEND_CONTROL_OFFSET :: u32 where "FRONTEND_CONTROL_OFFSET = 0x08000000"
definition FRONTEND_STATUS_OFFSET :: u32 where "FRONTEND_STATUS_OFFSET = 0x08000004"
definition FRONTEND_TRIGGER_OFFSET :: u32 where "FRONTEND_TRIGGER_OFFSET = 0x08000008"
definition FRONTEND_DELAY_BASE_OFFSET :: u32 where "FRONTEND_DELAY_BASE_OFFSET = 0x0800000C"
definition FRONTEND_BITSLIP_BASE_OFFSET :: u32 where "FRONTEND_BITSLIP_BASE_OFFSET = 0x08000020"
definition FRONTEND_AFE_STRIDE :: u32 where "FRONTEND_AFE_STRIDE = 0x00000004"

definition SPY_BUFFER_BASE_OFFSET :: u32 where "SPY_BUFFER_BASE_OFFSET = 0x10000000"
definition SPY_BUFFER_AFE_STRIDE :: u32 where "SPY_BUFFER_AFE_STRIDE = 0x00009000"
definition SPY_BUFFER_CHANNEL_STRIDE :: u32 where "SPY_BUFFER_CHANNEL_STRIDE = 0x00001000"
definition SPY_BUFFER_FRAME_CLOCK_CHANNEL :: u8 where "SPY_BUFFER_FRAME_CLOCK_CHANNEL = 8"

definition AFE_GLOBAL_RESET_BIT :: u8 where "AFE_GLOBAL_RESET_BIT = 0"
definition AFE_GLOBAL_POWERSTATE_BIT :: u8 where "AFE_GLOBAL_POWERSTATE_BIT = 1"
definition AFE_GLOBAL_BUSY_BITS :: "u8 \<times> u8" where "AFE_GLOBAL_BUSY_BITS = (2, 4)"

definition FRONTEND_DELAYCTRL_RESET_BIT :: u8 where "FRONTEND_DELAYCTRL_RESET_BIT = 0"
definition FRONTEND_SERDES_RESET_BIT :: u8 where "FRONTEND_SERDES_RESET_BIT = 1"
definition FRONTEND_DELAY_EN_VTC_BIT :: u8 where "FRONTEND_DELAY_EN_VTC_BIT = 2"
definition FRONTEND_DELAYCTRL_READY_BIT :: u8 where "FRONTEND_DELAYCTRL_READY_BIT = 0"
definition FRONTEND_TRIGGER_WORD :: u32 where "FRONTEND_TRIGGER_WORD = 0x0000BABA"
definition FRONTEND_DELAY_TAPS :: u32 where "FRONTEND_DELAY_TAPS = 512"
definition FRONTEND_BITSLIP_TAPS :: u32 where "FRONTEND_BITSLIP_TAPS = 16"
definition FRONTEND_VERIFY_READS :: u32 where "FRONTEND_VERIFY_READS = 4"
definition FRONTEND_EXPECTED_FCLK_WORD :: u32 where "FRONTEND_EXPECTED_FCLK_WORD = 0x00FF00FF"

definition AFE_SPI_TRIGGER_WORD :: u32 where "AFE_SPI_TRIGGER_WORD = 0x00000002"
definition AFE_SPI_IDLE_WORD :: u32 where "AFE_SPI_IDLE_WORD = 0x00000000"

lemmas afe_hw_offset_defs =
  AFE_GLOBAL_CONTROL_OFFSET_def AFE_CONTROL_BASE_OFFSET_def AFE_DAC_TRIM_BASE_OFFSET_def
  AFE_DAC_OFFSET_BASE_OFFSET_def AFE_REGISTER_STRIDE_def DAC_GAIN_BIAS_CONTROL_OFFSET_def
  DAC_GAIN_BIAS_U50_OFFSET_def DAC_GAIN_BIAS_U53_OFFSET_def DAC_GAIN_BIAS_U5_OFFSET_def
  BIAS_ENABLE_OFFSET_def FRONTEND_CONTROL_OFFSET_def FRONTEND_STATUS_OFFSET_def
  FRONTEND_TRIGGER_OFFSET_def FRONTEND_DELAY_BASE_OFFSET_def FRONTEND_BITSLIP_BASE_OFFSET_def
  FRONTEND_AFE_STRIDE_def SPY_BUFFER_BASE_OFFSET_def SPY_BUFFER_AFE_STRIDE_def
  SPY_BUFFER_CHANNEL_STRIDE_def SPY_BUFFER_FRAME_CLOCK_CHANNEL_def

section \<open>DAC routes\<close>

datatype dac_chip = U50 | U53 | U5

record dac_route =
  route_chip :: dac_chip
  route_channel :: u8
  route_gain :: bool
  route_buffer :: bool

definition dac_route_new :: "dac_chip \<Rightarrow> u8 \<Rightarrow> dac_route" where
  "dac_route_new chip ch =
     \<lparr>route_chip = chip, route_channel = ch, route_gain = False, route_buffer = False\<rparr>"

definition AFE_GAIN_DAC_ROUTES :: "dac_route list" where
  "AFE_GAIN_DAC_ROUTES =
     [dac_route_new U50 0, dac_route_new U50 1, dac_route_new U50 2, dac_route_new U50 3,
      dac_route_new U5 1]"

definition AFE_BIAS_DAC_ROUTES :: "dac_route list" where
  "AFE_BIAS_DAC_ROUTES =
     [dac_route_new U53 0, dac_route_new U53 1, dac_route_new U53 2, dac_route_new U53 3,
      dac_route_new U5 0]"

definition VBIAS_DAC_ROUTE :: dac_route where
  "VBIAS_DAC_ROUTE = dac_route_new U5 2"

section \<open>Offsets\<close>

definition afe_register_offset :: "u32 \<Rightarrow> u8 \<Rightarrow> u32 option" where
  "afe_register_offset base afe =
     (if afe < AFE_COUNT then Some (base + AFE_REGISTER_STRIDE * ucast afe) else None)"

definition frontend_register_offset :: "u32 \<Rightarrow> u8 \<Rightarrow> u32 option" where
  "frontend_register_offset base afe =
     (if afe < AFE_COUNT then Some (base + FRONTEND_AFE_STRIDE * ucast afe) else None)"

definition afe_control_offset :: "u8 \<Rightarrow> u32 option" where
  "afe_control_offset afe = afe_register_offset AFE_CONTROL_BASE_OFFSET afe"

definition afe_dac_trim_offset :: "u8 \<Rightarrow> u32 option" where
  "afe_dac_trim_offset afe = afe_register_offset AFE_DAC_TRIM_BASE_OFFSET afe"

definition afe_dac_offset_offset :: "u8 \<Rightarrow> u32 option" where
  "afe_dac_offset_offset afe = afe_register_offset AFE_DAC_OFFSET_BASE_OFFSET afe"

definition frontend_delay_offset :: "u8 \<Rightarrow> u32 option" where
  "frontend_delay_offset afe = frontend_register_offset FRONTEND_DELAY_BASE_OFFSET afe"

definition frontend_bitslip_offset :: "u8 \<Rightarrow> u32 option" where
  "frontend_bitslip_offset afe = frontend_register_offset FRONTEND_BITSLIP_BASE_OFFSET afe"

definition spy_buffer_channel_offset :: "u8 \<Rightarrow> u8 \<Rightarrow> u32 \<Rightarrow> u32 option" where
  "spy_buffer_channel_offset afe ch sample =
     (if afe < AFE_COUNT \<and> ch \<le> SPY_BUFFER_FRAME_CLOCK_CHANNEL
      then Some (SPY_BUFFER_BASE_OFFSET + SPY_BUFFER_AFE_STRIDE * ucast afe
                 + SPY_BUFFER_CHANNEL_STRIDE * ucast ch + sample * 4)
      else None)"

definition spy_buffer_frame_clock_offset :: "u8 \<Rightarrow> u32 \<Rightarrow> u32 option" where
  "spy_buffer_frame_clock_offset afe sample =
     spy_buffer_channel_offset afe SPY_BUFFER_FRAME_CLOCK_CHANNEL sample"

definition dac_gain_bias_offset :: "dac_chip \<Rightarrow> u32" where
  "dac_gain_bias_offset chip = (case chip of
     U50 \<Rightarrow> DAC_GAIN_BIAS_U50_OFFSET
   | U53 \<Rightarrow> DAC_GAIN_BIAS_U53_OFFSET
   | U5 \<Rightarrow> DAC_GAIN_BIAS_U5_OFFSET)"

section \<open>Words\<close>

definition afe_register_word :: "u16 \<Rightarrow> u16 \<Rightarrow> u32" where
  "afe_register_word register value = push_bit 16 (ucast register AND 0xFF) OR ucast value"

definition afe_register_address_word :: "u16 \<Rightarrow> u32" where
  "afe_register_address_word register = push_bit 16 (ucast register AND 0xFF)"

definition dac_gain_bias_word :: "dac_route \<Rightarrow> u16 \<Rightarrow> u32" where
  "dac_gain_bias_word route value =
     push_bit 14 (ucast (route_channel route) AND 0x03)
     OR push_bit 13 (of_flag (route_gain route))
     OR push_bit 12 (of_flag (route_buffer route))
     OR (ucast value AND 0x0FFF)"

definition dac_trim_offset_half :: "u8 \<Rightarrow> u16 \<Rightarrow> bool \<Rightarrow> bool \<Rightarrow> u16" where
  "dac_trim_offset_half ch value gain buffer =
     push_bit 14 (ucast ch AND 0x03)
     OR push_bit 13 (of_flag gain)
     OR push_bit 12 (of_flag buffer)
     OR (value AND 0x0FFF)"

definition dac_pair_word :: "u16 \<Rightarrow> u16 \<Rightarrow> u32" where
  "dac_pair_word low_half high_half = push_bit 16 (ucast high_half) OR ucast low_half"

definition dac_companion_channel :: "u8 \<Rightarrow> u8 option" where
  "dac_companion_channel ch =
     (if ch < 4 then Some (ch + 4) else if ch < 8 then Some (ch - 4) else None)"

definition dac_channel_is_high_half :: "u8 \<Rightarrow> bool" where
  "dac_channel_is_high_half ch \<longleftrightarrow> 4 \<le> ch"

section \<open>Registers\<close>

text \<open>The front ends in the order \<open>for afe in 0..AFE_COUNT\<close> visits them.\<close>

definition afe_range :: "u8 list" where "afe_range = [0, 1, 2, 3, 4]"

lemma set_afe_range: "afe \<in> set afe_range \<longleftrightarrow> afe < AFE_COUNT"
proof
  assume "afe < AFE_COUNT"
  then have "unat afe < 5" by (simp add: AFE_COUNT_def word_less_iff_unat)
  from word_less_5_cases [OF this] show "afe \<in> set afe_range" by (auto simp: afe_range_def)
qed (auto simp: afe_range_def AFE_COUNT_def)

definition afe_mmio_offsets :: "u32 list" where
  "afe_mmio_offsets =
     [AFE_GLOBAL_CONTROL_OFFSET, DAC_GAIN_BIAS_CONTROL_OFFSET, DAC_GAIN_BIAS_U50_OFFSET,
      DAC_GAIN_BIAS_U53_OFFSET, DAC_GAIN_BIAS_U5_OFFSET, BIAS_ENABLE_OFFSET,
      FRONTEND_CONTROL_OFFSET, FRONTEND_STATUS_OFFSET, FRONTEND_TRIGGER_OFFSET]
     @ List.map_filter afe_control_offset afe_range
     @ List.map_filter afe_dac_trim_offset afe_range
     @ List.map_filter afe_dac_offset_offset afe_range
     @ List.map_filter frontend_delay_offset afe_range
     @ List.map_filter frontend_bitslip_offset afe_range
     @ List.map_filter (\<lambda>afe. spy_buffer_frame_clock_offset afe 0) afe_range"

lemmas offset_fun_defs =
  afe_register_offset_def frontend_register_offset_def afe_control_offset_def
  afe_dac_trim_offset_def afe_dac_offset_offset_def frontend_delay_offset_def
  frontend_bitslip_offset_def spy_buffer_channel_offset_def spy_buffer_frame_clock_offset_def

lemma offset_Some_iff:
  "(\<exists>x. afe_control_offset a = Some x) \<longleftrightarrow> a < AFE_COUNT"
  "(\<exists>x. afe_dac_trim_offset a = Some x) \<longleftrightarrow> a < AFE_COUNT"
  "(\<exists>x. afe_dac_offset_offset a = Some x) \<longleftrightarrow> a < AFE_COUNT"
  "(\<exists>x. frontend_delay_offset a = Some x) \<longleftrightarrow> a < AFE_COUNT"
  "(\<exists>x. frontend_bitslip_offset a = Some x) \<longleftrightarrow> a < AFE_COUNT"
  "(\<exists>x. spy_buffer_frame_clock_offset a 0 = Some x) \<longleftrightarrow> a < AFE_COUNT"
  by (simp_all add: offset_fun_defs)

lemma offset_Some_less:
  "afe_control_offset a = Some x \<Longrightarrow> a < AFE_COUNT"
  "afe_dac_trim_offset a = Some x \<Longrightarrow> a < AFE_COUNT"
  "afe_dac_offset_offset a = Some x \<Longrightarrow> a < AFE_COUNT"
  "frontend_delay_offset a = Some x \<Longrightarrow> a < AFE_COUNT"
  "frontend_bitslip_offset a = Some x \<Longrightarrow> a < AFE_COUNT"
  "spy_buffer_frame_clock_offset a 0 = Some x \<Longrightarrow> a < AFE_COUNT"
  by (simp_all add: offset_fun_defs split: if_splits)

lemma set_map_filter: "x \<in> set (List.map_filter f as) \<longleftrightarrow> (\<exists>a \<in> set as. f a = Some x)"
  by (induction as) (auto simp: List.map_filter_simps split: option.splits)

named_theorems mmio_offset_intros \<open>the offsets of the register map\<close>

lemma mmio_offset_consts [mmio_offset_intros]:
  "AFE_GLOBAL_CONTROL_OFFSET \<in> set afe_mmio_offsets"
  "DAC_GAIN_BIAS_CONTROL_OFFSET \<in> set afe_mmio_offsets"
  "BIAS_ENABLE_OFFSET \<in> set afe_mmio_offsets"
  "FRONTEND_CONTROL_OFFSET \<in> set afe_mmio_offsets"
  "FRONTEND_STATUS_OFFSET \<in> set afe_mmio_offsets"
  "FRONTEND_TRIGGER_OFFSET \<in> set afe_mmio_offsets"
  "dac_gain_bias_offset chip \<in> set afe_mmio_offsets"
  by (simp_all add: afe_mmio_offsets_def dac_gain_bias_offset_def split: dac_chip.split)

lemma mmio_offset_funs [mmio_offset_intros]:
  "afe_control_offset a = Some x \<Longrightarrow> x \<in> set afe_mmio_offsets"
  "afe_dac_trim_offset a = Some x \<Longrightarrow> x \<in> set afe_mmio_offsets"
  "afe_dac_offset_offset a = Some x \<Longrightarrow> x \<in> set afe_mmio_offsets"
  "frontend_delay_offset a = Some x \<Longrightarrow> x \<in> set afe_mmio_offsets"
  "frontend_bitslip_offset a = Some x \<Longrightarrow> x \<in> set afe_mmio_offsets"
  "spy_buffer_frame_clock_offset a 0 = Some x \<Longrightarrow> x \<in> set afe_mmio_offsets"
  by (auto 0 3 simp: afe_mmio_offsets_def set_map_filter set_afe_range dest: offset_Some_less)

section \<open>Fields of the packed words\<close>

lemma bit_of_flag: "bit (of_flag b :: 'a::len word) n \<longleftrightarrow> b \<and> n = 0"
  by (simp add: of_flag_def bit_1_iff)

lemma bit_numeral_masks:
  "bit (0x03 :: u32) n \<longleftrightarrow> n < 2" "bit (0x03 :: u16) n \<longleftrightarrow> n < 2"
  "bit (0x0FFF :: u32) n \<longleftrightarrow> n < 12" "bit (0x0FFF :: u16) n \<longleftrightarrow> n < 12"
  "bit (0xFF :: u32) n \<longleftrightarrow> n < 8" "bit (0xFFFF :: u32) n \<longleftrightarrow> n < 16"
proof -
  have m: "(0x03 :: 'a::len word) = mask 2" "(0x0FFF :: 'a word) = mask 12"
    "(0xFF :: 'a word) = mask 8" "(0xFFFF :: 'a word) = mask 16"
    by (simp_all add: mask_eq_exp_minus_1)
  show "bit (0x03 :: u32) n \<longleftrightarrow> n < 2" "bit (0x03 :: u16) n \<longleftrightarrow> n < 2"
    "bit (0x0FFF :: u32) n \<longleftrightarrow> n < 12" "bit (0x0FFF :: u16) n \<longleftrightarrow> n < 12"
    "bit (0xFF :: u32) n \<longleftrightarrow> n < 8" "bit (0xFFFF :: u32) n \<longleftrightarrow> n < 16"
    unfolding m bit_mask_iff by auto
qed

lemmas word_layout_bits =
  bit_or_iff bit_and_iff bit_push_bit_iff bit_unsigned_iff bit_of_flag bit_numeral_masks
  possible_bit_word

lemma bit_dac_gain_bias_word:
  "bit (dac_gain_bias_word route value) n \<longleftrightarrow>
     (n < 12 \<and> bit value n) \<or> (n = 12 \<and> route_buffer route) \<or> (n = 13 \<and> route_gain route)
     \<or> (14 \<le> n \<and> n < 16 \<and> bit (route_channel route) (n - 14))"
  unfolding dac_gain_bias_word_def word_layout_bits
  using bit_imp_le_length [of "value" n] bit_imp_le_length [of "route_channel route" "n - 14"]
  by auto

lemma bit_dac_trim_offset_half:
  "bit (dac_trim_offset_half ch value gain buffer) n \<longleftrightarrow>
     (n < 12 \<and> bit value n) \<or> (n = 12 \<and> buffer) \<or> (n = 13 \<and> gain)
     \<or> (14 \<le> n \<and> n < 16 \<and> bit ch (n - 14))"
  unfolding dac_trim_offset_half_def word_layout_bits
  using bit_imp_le_length [of "value" n] bit_imp_le_length [of ch "n - 14"]
  by auto

lemma bit_dac_pair_word:
  "bit (dac_pair_word lo hi) n \<longleftrightarrow> (if n < 16 then bit lo n else bit hi (n - 16))"
  using bit_imp_le_length [of lo n] bit_imp_le_length [of hi "n - 16"]
  by (auto simp: dac_pair_word_def bit_simps)

lemma pair_word_halves:
  "ucast (dac_pair_word lo hi) = lo" "ucast (drop_bit 16 (dac_pair_word lo hi)) = hi"
  by (rule bit_word_eqI; simp add: bit_simps bit_dac_pair_word)+

lemma half_low12: "dac_trim_offset_half ch value gain buffer AND 0x0FFF = value AND 0x0FFF"
  by (rule bit_word_eqI) (auto simp: bit_simps bit_dac_trim_offset_half bit_numeral_masks
      simp del: bit_numeral_word_iff)

lemma and_12bit_self:
  assumes "unat (v :: u16) \<le> 4095"
  shows "v AND 0x0FFF = v"
proof -
  have "v AND mask 12 = take_bit 12 v" by (simp add: take_bit_eq_mask)
  also have "\<dots> = v"
    using assms by (simp add: word_unat_eq_iff unsigned_take_bit_eq take_bit_nat_eq_self)
  finally show ?thesis by (simp add: mask_eq_exp_minus_1)
qed

lemma companion_cases:
  "dac_companion_channel ch = Some c \<longleftrightarrow> (ch < 4 \<and> c = ch + 4) \<or> (4 \<le> ch \<and> ch < 8 \<and> c = ch - 4)"
  by (auto simp: dac_companion_channel_def not_less)

lemma word_less_8_cases:
  assumes "(x :: u8) < 8"
  shows "x = 0 \<or> x = 1 \<or> x = 2 \<or> x = 3 \<or> x = 4 \<or> x = 5 \<or> x = 6 \<or> x = 7"
proof -
  have "unat x < 8" using assms by (simp add: word_less_iff_unat)
  then have "unat x = 0 \<or> unat x = 1 \<or> unat x = 2 \<or> unat x = 3 \<or> unat x = 4 \<or> unat x = 5
      \<or> unat x = 6 \<or> unat x = 7" by auto
  moreover have w: "x = word_of_nat n" if "unat x = n" for n using that by auto
  ultimately show ?thesis
    using w [of 0] w [of 1] w [of 2] w [of 3] w [of 4] w [of 5] w [of 6] w [of 7] by auto
qed

text \<open>A channel and its companion.\<close>

lemma companion_pairs:
  assumes "dac_companion_channel ch = Some c"
  shows "dac_companion_channel c = Some ch
     \<and> dac_channel_is_high_half c \<noteq> dac_channel_is_high_half ch
     \<and> c AND 3 = ch AND 3 \<and> ch < CHANNELS_PER_AFE"
proof -
  from assms have "ch < 8" by (auto simp: companion_cases word_less_nat_alt)
  from word_less_8_cases [OF this] show ?thesis
    using assms
    by (elim disjE) (simp_all add: dac_companion_channel_def dac_channel_is_high_half_def
        CHANNELS_PER_AFE_def word_le_nat_alt)
qed

section \<open>Properties\<close>

text \<open>No two registers of the map share an offset, every offset is 4-byte aligned, and the
  map lies inside the 512 MB window above \<open>FPGA_REGISTER_BASE\<close>, so that the physical
  addresses do not wrap in 32 bits.\<close>

theorem register_map_disjoint:
  "distinct afe_mmio_offsets \<and> length afe_mmio_offsets = 39
   \<and> (\<forall>x \<in> set afe_mmio_offsets.
        x AND 3 = 0 \<and> uint FPGA_REGISTER_BASE + uint x + 3 < 2 ^ 32)"
  by (simp add: afe_mmio_offsets_def List.map_filter_simps afe_range_def offset_fun_defs
      afe_hw_offset_defs afe_const_defs FPGA_REGISTER_BASE_def)

theorem register_map_disjoint_witness:
  "(0x10008000 :: u32) \<in> set afe_mmio_offsets \<and> uint FPGA_REGISTER_BASE + 0x10008003 < 2 ^ 32
   \<and> distinct afe_mmio_offsets"
proof -
  have "0x10008000 \<in> set afe_mmio_offsets" by code_simp
  with register_map_disjoint show ?thesis by fastforce
qed

text \<open>The eleven analogue outputs (five gains, five biases, VBIAS) use eleven different DAC
  outputs: no two of them share a chip and a two-bit channel.\<close>

theorem dac_routes_disjoint:
  "distinct (map (\<lambda>r. (route_chip r, route_channel r AND 3))
     (AFE_GAIN_DAC_ROUTES @ AFE_BIAS_DAC_ROUTES @ [VBIAS_DAC_ROUTE]))"
  by (simp add: AFE_GAIN_DAC_ROUTES_def AFE_BIAS_DAC_ROUTES_def VBIAS_DAC_ROUTE_def
      dac_route_new_def)

text \<open>A gain/bias DAC word carries its route's channel, gain and buffer bits and the 12-bit
  value in separate fields, so the word determines all four; a paired trim/offset word carries
  both halves unchanged.\<close>

theorem dac_words_decode:
  "drop_bit 14 (dac_gain_bias_word route value) = ucast (route_channel route) AND 3
   \<and> bit (dac_gain_bias_word route value) 13 = route_gain route
   \<and> bit (dac_gain_bias_word route value) 12 = route_buffer route
   \<and> dac_gain_bias_word route value AND 0x0FFF = ucast value AND 0x0FFF
   \<and> ucast (dac_pair_word lo hi) = lo \<and> ucast (drop_bit 16 (dac_pair_word lo hi)) = hi"
proof (intro conjI)
  show "drop_bit 14 (dac_gain_bias_word route value) = ucast (route_channel route) AND 3"
    by (rule bit_word_eqI) (auto simp: bit_simps bit_dac_gain_bias_word bit_numeral_masks
      simp del: bit_numeral_word_iff)
  show "dac_gain_bias_word route value AND 0x0FFF = ucast value AND 0x0FFF"
    by (rule bit_word_eqI) (auto simp: bit_simps bit_dac_gain_bias_word bit_numeral_masks
      simp del: bit_numeral_word_iff)
qed (simp_all add: bit_dac_gain_bias_word pair_word_halves)

text \<open>The companion channels pair the low halves 0..3 with the high halves 4..7: the companion
  of a companion is the channel itself, exactly one of the two is a high half, and both carry
  the same DAC output number.\<close>

theorem companion_involution:
  assumes "dac_companion_channel ch = Some c"
  shows "dac_companion_channel c = Some ch
     \<and> dac_channel_is_high_half c \<noteq> dac_channel_is_high_half ch
     \<and> c AND 3 = ch AND 3 \<and> ch < CHANNELS_PER_AFE"
  using companion_pairs [OF assms] .

theorem companion_involution_witness: "dac_companion_channel 6 = Some (2 :: u8)"
proof -
  have "dac_companion_channel 2 = Some 6" by (simp add: dac_companion_channel_def)
  from companion_involution [OF this] show ?thesis by simp
qed

end
