(* ===== verification/Mmio.thy ===== *)
theory Mmio
  imports RpuRuntime AfeFunctions AfeHw
begin

text \<open>
  \<open>crates/daphne-sc-rpu/src/mmio.rs\<close>: the AFE hardware behind memory-mapped registers.  The
  register window is the trait \<open>RegisterIo\<close>, here a record of computations on the window's
  state; the backend adds the caches of the write-only DACs and the staged configuration.  Every
  method is translated to a computation on the backend's state; \<open>mmio_afe_hardware\<close> collects
  them as the \<open>AfeHardware\<close> of the runtime.
\<close>

section \<open>Window, errors, state\<close>

definition DEFAULT_SPIN_LIMIT :: u32 where "DEFAULT_SPIN_LIMIT = 100000"
definition DAC_GO_BIT :: u8 where "DAC_GO_BIT = 1"
definition DAC_BUSY_BIT :: u8 where "DAC_BUSY_BIT = 0"
definition MMIO_DAC_12BIT_MAX :: u32 where "MMIO_DAC_12BIT_MAX = 0x0FFF"

record ('i, 'e) register_io =
  io_read32 :: "u32 \<Rightarrow> ('i, u32, 'e) eff"
  io_write32 :: "u32 \<Rightarrow> u32 \<Rightarrow> ('i, unit, 'e) eff"

record mmio_afe_config =
  mc_spin_limit :: u32

definition default_mmio_afe_config :: mmio_afe_config where
  "default_mmio_afe_config = \<lparr>mc_spin_limit = DEFAULT_SPIN_LIMIT\<rparr>"

datatype 'e mmio_afe_error =
    MmioIo 'e
  | MmioInvalidAfe u8
  | MmioInvalidChannel u8
  | MmioInvalidValue u32
  | MmioInvalidFunction
  | MmioInvalidFunctionField
  | MmioAlignmentFailed
  | MmioTimeout
  | MmioUnsupported

record staged_config =
  sg_active :: bool
  sg_counts :: rpu_wire_config_counts
  sg_afes :: "rpu_wire_afe_config option list"
  sg_channels :: "rpu_wire_channel_config option list"

definition staged_new :: "rpu_wire_config_counts \<Rightarrow> staged_config" where
  "staged_new counts =
     \<lparr>sg_active = True, sg_counts = counts, sg_afes = replicate (unat AFE_COUNT) None,
      sg_channels = replicate (unat CHANNEL_COUNT) None\<rparr>"

definition default_staged_config :: staged_config where
  "default_staged_config =
     \<lparr>sg_active = False,
      sg_counts = \<lparr>cc_afe_count = 0, cc_channel_count = 0, cc_bias_control = 0\<rparr>,
      sg_afes = replicate (unat AFE_COUNT) None,
      sg_channels = replicate (unat CHANNEL_COUNT) None\<rparr>"

definition received_afes :: "staged_config \<Rightarrow> u16" where
  "received_afes sg = word_of_nat (length (List.map_filter id (sg_afes sg)))"

definition received_channels :: "staged_config \<Rightarrow> u16" where
  "received_channels sg = word_of_nat (length (List.map_filter id (sg_channels sg)))"

definition validate_counts :: "staged_config \<Rightarrow> (unit, 'e mmio_afe_error) result" where
  "validate_counts sg =
     (if received_afes sg = cc_afe_count (sg_counts sg)
         \<and> received_channels sg = cc_channel_count (sg_counts sg)
      then Ok () else Err MmioUnsupported)"

record 'i afe_mmio_backend =
  mb_io :: 'i
  mb_config :: mmio_afe_config
  mb_attenuation :: "u16 list"
  mb_bias :: "u16 list"
  mb_trim_halves :: "u16 list list"
  mb_offset_halves :: "u16 list list"
  mb_vbias_control :: u16
  mb_vbias_enabled :: bool
  mb_staged_config :: staged_config

definition backend_with_config :: "'i \<Rightarrow> mmio_afe_config \<Rightarrow> 'i afe_mmio_backend" where
  "backend_with_config i config =
     \<lparr>mb_io = i, mb_config = config,
      mb_attenuation = replicate (unat AFE_COUNT) 0,
      mb_bias = replicate (unat AFE_COUNT) 0,
      mb_trim_halves = replicate (unat AFE_COUNT) (replicate (unat CHANNELS_PER_AFE) 0),
      mb_offset_halves = replicate (unat AFE_COUNT) (replicate (unat CHANNELS_PER_AFE) 0),
      mb_vbias_control = 0, mb_vbias_enabled = False,
      mb_staged_config = default_staged_config\<rparr>"

definition backend_new :: "'i \<Rightarrow> 'i afe_mmio_backend" where
  "backend_new i = backend_with_config i default_mmio_afe_config"

type_synonym ('i, 'a, 'e) mmio = "('i afe_mmio_backend, 'a, 'e mmio_afe_error) eff"

section \<open>Values\<close>

definition validate_afe :: "u8 \<Rightarrow> (unit, 'e mmio_afe_error) result" where
  "validate_afe afe_pl = (if afe_pl < AFE_COUNT then Ok () else Err (MmioInvalidAfe afe_pl))"

definition mmio_require_u16 :: "u32 \<Rightarrow> (u16, 'e mmio_afe_error) result" where
  "mmio_require_u16 v = (if v \<le> 0xFFFF then Ok (ucast v) else Err (MmioInvalidValue v))"

definition require_12bit :: "u32 \<Rightarrow> (u16, 'e mmio_afe_error) result" where
  "require_12bit v = (if v \<le> MMIO_DAC_12BIT_MAX then Ok (ucast v) else Err (MmioInvalidValue v))"

definition function_error :: "afe_function_error \<Rightarrow> u16 \<Rightarrow> 'e mmio_afe_error" where
  "function_error err v = (case err of
     UnknownName \<Rightarrow> MmioInvalidFunction
   | InvalidValue \<Rightarrow> MmioInvalidValue (ucast v)
   | InvalidBitField \<Rightarrow> MmioInvalidFunctionField)"

definition reg_bit :: "u32 \<Rightarrow> u8 \<Rightarrow> u32" where
  "reg_bit v bit_index = drop_bit (unat bit_index) v AND 1"

definition reg_bits :: "u32 \<Rightarrow> u8 \<Rightarrow> u8 \<Rightarrow> u32" where
  "reg_bits v start end_bit =
     (let width = end_bit - start + 1 in drop_bit (unat start) v AND (push_bit (unat width) 1 - 1))"

text \<open>\<open>array[i] = v\<close> on an array of the backend panics out of bounds.\<close>

definition put_at ::
    "('s \<Rightarrow> 'x list) \<Rightarrow> ('x list \<Rightarrow> 's \<Rightarrow> 's) \<Rightarrow> nat \<Rightarrow> 'x \<Rightarrow> ('s, unit, 'e) eff" where
  "put_at get put i v =
     (\<lambda>s. if i < length (get s) then Some (Ok (), put ((get s)[i := v]) s) else None)"

definition put_attenuation :: "u8 \<Rightarrow> u16 \<Rightarrow> ('i, unit, 'e) mmio" where
  "put_attenuation afe v =
     put_at mb_attenuation (\<lambda>xs b. b\<lparr>mb_attenuation := xs\<rparr>) (unat afe) v"

definition put_bias :: "u8 \<Rightarrow> u16 \<Rightarrow> ('i, unit, 'e) mmio" where
  "put_bias afe v = put_at mb_bias (\<lambda>xs b. b\<lparr>mb_bias := xs\<rparr>) (unat afe) v"

section \<open>Register access\<close>

definition mmio_read :: "('i, 'e) register_io \<Rightarrow> u32 \<Rightarrow> ('i, u32, 'e) mmio" where
  "mmio_read io offset = map_errE MmioIo (zoom mb_io (\<lambda>i b. b\<lparr>mb_io := i\<rparr>) (io_read32 io offset))"

definition mmio_write :: "('i, 'e) register_io \<Rightarrow> u32 \<Rightarrow> u32 \<Rightarrow> ('i, unit, 'e) mmio" where
  "mmio_write io offset v =
     map_errE MmioIo (zoom mb_io (\<lambda>i b. b\<lparr>mb_io := i\<rparr>) (io_write32 io offset v))"

text \<open>\<open>for _ in 0..spin_limit { let value = self.read(..)?; if ready(value) { return Ok(()) } }\<close>
  followed by the timeout.\<close>

fun spin :: "('i, 'e) register_io \<Rightarrow> u32 \<Rightarrow> (u32 \<Rightarrow> bool) \<Rightarrow> nat \<Rightarrow> ('i, unit, 'e) mmio" where
  "spin io offset ready 0 = raise MmioTimeout"
| "spin io offset ready (Suc n) =
     bindE (mmio_read io offset) (\<lambda>v. if ready v then ret () else spin io offset ready n)"

definition spin_on :: "('i, 'e) register_io \<Rightarrow> u32 \<Rightarrow> (u32 \<Rightarrow> bool) \<Rightarrow> ('i, unit, 'e) mmio" where
  "spin_on io offset ready =
     bindE (gets (\<lambda>b. unat (mc_spin_limit (mb_config b)))) (\<lambda>n. spin io offset ready n)"

definition wait_afe_ready :: "('i, 'e) register_io \<Rightarrow> ('i, unit, 'e) mmio" where
  "wait_afe_ready io =
     spin_on io AFE_GLOBAL_CONTROL_OFFSET
       (\<lambda>v. reg_bits v (fst AFE_GLOBAL_BUSY_BITS) (snd AFE_GLOBAL_BUSY_BITS) = 0)"

definition wait_dac_ready :: "('i, 'e) register_io \<Rightarrow> ('i, unit, 'e) mmio" where
  "wait_dac_ready io =
     spin_on io DAC_GAIN_BIAS_CONTROL_OFFSET (\<lambda>v. reg_bit v DAC_BUSY_BIT = 0)"

definition set_bit_at ::
    "('i, 'e) register_io \<Rightarrow> u32 \<Rightarrow> u8 \<Rightarrow> bool \<Rightarrow> ('i, unit, 'e) mmio" where
  "set_bit_at io offset bit_index asserted =
     bindE (mmio_read io offset) (\<lambda>v.
     let m = push_bit (unat bit_index) 1;
         v' = (if asserted then v OR m else v AND NOT m)
     in mmio_write io offset v')"

definition trigger_dac :: "('i, 'e) register_io \<Rightarrow> ('i, unit, 'e) mmio" where
  "trigger_dac io =
     thenE (wait_dac_ready io)
     (thenE (set_bit_at io DAC_GAIN_BIAS_CONTROL_OFFSET DAC_GO_BIT True)
     (thenE (wait_dac_ready io)
     (thenE (set_bit_at io DAC_GAIN_BIAS_CONTROL_OFFSET DAC_GO_BIT False)
     (wait_dac_ready io))))"

definition write_dac_route ::
    "('i, 'e) register_io \<Rightarrow> dac_route \<Rightarrow> u16 \<Rightarrow> ('i, unit, 'e) mmio" where
  "write_dac_route io route v =
     thenE (wait_dac_ready io)
     (thenE (mmio_write io (dac_gain_bias_offset (route_chip route)) (dac_gain_bias_word route v))
     (trigger_dac io))"

section \<open>Alignment\<close>

definition wait_frontend_delayctrl_ready :: "('i, 'e) register_io \<Rightarrow> ('i, unit, 'e) mmio" where
  "wait_frontend_delayctrl_ready io =
     spin_on io FRONTEND_STATUS_OFFSET (\<lambda>v. reg_bit v FRONTEND_DELAYCTRL_READY_BIT \<noteq> 0)"

definition pulse_frontend_control_bit :: "('i, 'e) register_io \<Rightarrow> u8 \<Rightarrow> ('i, unit, 'e) mmio" where
  "pulse_frontend_control_bit io bit_index =
     thenE (set_bit_at io FRONTEND_CONTROL_OFFSET bit_index True)
           (set_bit_at io FRONTEND_CONTROL_OFFSET bit_index False)"

definition set_frontend_delay_vtc :: "('i, 'e) register_io \<Rightarrow> bool \<Rightarrow> ('i, unit, 'e) mmio" where
  "set_frontend_delay_vtc io enabled =
     set_bit_at io FRONTEND_CONTROL_OFFSET FRONTEND_DELAY_EN_VTC_BIT enabled"

definition set_frontend_delay :: "('i, 'e) register_io \<Rightarrow> u8 \<Rightarrow> u32 \<Rightarrow> ('i, unit, 'e) mmio" where
  "set_frontend_delay io afe_board v =
     bindE (liftR (ok_or (frontend_delay_offset afe_board) (MmioInvalidAfe afe_board))) (\<lambda>offset.
     if FRONTEND_DELAY_TAPS \<le> v then raise (MmioInvalidValue v) else mmio_write io offset v)"

definition set_frontend_bitslip :: "('i, 'e) register_io \<Rightarrow> u8 \<Rightarrow> u32 \<Rightarrow> ('i, unit, 'e) mmio" where
  "set_frontend_bitslip io afe_board v =
     bindE (liftR (ok_or (frontend_bitslip_offset afe_board) (MmioInvalidAfe afe_board))) (\<lambda>offset.
     if FRONTEND_BITSLIP_TAPS \<le> v then raise (MmioInvalidValue v) else mmio_write io offset v)"

definition read_frontend_bitslip :: "('i, 'e) register_io \<Rightarrow> u8 \<Rightarrow> ('i, u32, 'e) mmio" where
  "read_frontend_bitslip io afe_board =
     bindE (liftR (ok_or (frontend_bitslip_offset afe_board) (MmioInvalidAfe afe_board))) (\<lambda>offset.
     bindE (mmio_read io offset) (\<lambda>v. ret (v AND 0x0F)))"

definition reset_frontend_delay_values :: "('i, 'e) register_io \<Rightarrow> ('i, unit, 'e) mmio" where
  "reset_frontend_delay_values io =
     for_each afe_range (\<lambda>afe_board.
       thenE (set_frontend_bitslip io afe_board 0) (set_frontend_delay io afe_board 0))"

definition trigger_frontend_snapshot :: "('i, 'e) register_io \<Rightarrow> ('i, unit, 'e) mmio" where
  "trigger_frontend_snapshot io = mmio_write io FRONTEND_TRIGGER_OFFSET FRONTEND_TRIGGER_WORD"

definition read_frame_clock :: "('i, 'e) register_io \<Rightarrow> u8 \<Rightarrow> ('i, u32, 'e) mmio" where
  "read_frame_clock io afe_board =
     bindE (liftR (ok_or (spy_buffer_frame_clock_offset afe_board 0) (MmioInvalidAfe afe_board)))
       (\<lambda>offset. mmio_read io offset)"

definition scan_frontend_word_after_write :: "('i, 'e) register_io \<Rightarrow> u8 \<Rightarrow> ('i, u32, 'e) mmio" where
  "scan_frontend_word_after_write io afe_board =
     thenE (trigger_frontend_snapshot io) (read_frame_clock io afe_board)"

text \<open>The variables of the delay scan, and one turn of its loop on the word read at a tap.\<close>

record delay_scan =
  ds_best_start :: u32
  ds_best_len :: u32
  ds_current_start :: u32
  ds_current_len :: u32
  ds_previous_word :: u32
  ds_have_previous :: bool

definition delay_scan_init :: delay_scan where
  "delay_scan_init =
     \<lparr>ds_best_start = 0, ds_best_len = 0, ds_current_start = 0, ds_current_len = 0,
      ds_previous_word = 0, ds_have_previous = False\<rparr>"

definition delay_scan_close :: "delay_scan \<Rightarrow> delay_scan" where
  "delay_scan_close d =
     (if ds_current_len d > ds_best_len d
      then d\<lparr>ds_best_start := ds_current_start d, ds_best_len := ds_current_len d\<rparr>
      else d)"

definition delay_scan_step :: "u32 \<Rightarrow> u32 \<Rightarrow> delay_scan \<Rightarrow> delay_scan" where
  "delay_scan_step tap word d =
     (if ds_have_previous d \<and> word = ds_previous_word d
      then d\<lparr>ds_current_len := ds_current_len d + 1\<rparr>
      else (delay_scan_close d)
             \<lparr>ds_current_start := tap, ds_current_len := 1, ds_previous_word := word,
              ds_have_previous := True\<rparr>)"

fun delay_scan_loop ::
    "('i, 'e) register_io \<Rightarrow> u8 \<Rightarrow> u32 list \<Rightarrow> delay_scan \<Rightarrow> ('i, delay_scan, 'e) mmio" where
  "delay_scan_loop io afe_board [] d = ret d"
| "delay_scan_loop io afe_board (tap # taps) d =
     thenE (set_frontend_delay io afe_board tap)
     (bindE (scan_frontend_word_after_write io afe_board) (\<lambda>word.
      delay_scan_loop io afe_board taps (delay_scan_step tap word d)))"

definition delay_taps :: "u32 list" where
  "delay_taps = map word_of_nat [0..<unat FRONTEND_DELAY_TAPS]"

definition bitslip_taps :: "u32 list" where
  "bitslip_taps = map word_of_nat [0..<unat FRONTEND_BITSLIP_TAPS]"

definition set_best_frontend_delay :: "('i, 'e) register_io \<Rightarrow> u8 \<Rightarrow> ('i, unit, 'e) mmio" where
  "set_best_frontend_delay io afe_board =
     bindE (delay_scan_loop io afe_board delay_taps delay_scan_init) (\<lambda>d.
     let d = delay_scan_close d in
     if ds_best_len d = 0 then raise MmioAlignmentFailed
     else set_frontend_delay io afe_board (ds_best_start d + (ds_best_len d - 1) div 2))"

fun bitslip_scan_loop ::
    "('i, 'e) register_io \<Rightarrow> u8 \<Rightarrow> u32 list \<Rightarrow> u32 option \<Rightarrow> ('i, u32 option, 'e) mmio" where
  "bitslip_scan_loop io afe_board [] matched = ret matched"
| "bitslip_scan_loop io afe_board (tap # taps) matched =
     thenE (set_frontend_bitslip io afe_board tap)
     (bindE (scan_frontend_word_after_write io afe_board) (\<lambda>word.
      bitslip_scan_loop io afe_board taps
        (if matched = None \<and> word = FRONTEND_EXPECTED_FCLK_WORD then Some tap else matched)))"

definition expect_frame_clock :: "('i, 'e) register_io \<Rightarrow> u8 \<Rightarrow> ('i, unit, 'e) mmio" where
  "expect_frame_clock io afe_board =
     bindE (scan_frontend_word_after_write io afe_board) (\<lambda>word.
     if word \<noteq> FRONTEND_EXPECTED_FCLK_WORD then raise MmioAlignmentFailed else ret ())"

definition set_best_frontend_bitslip :: "('i, 'e) register_io \<Rightarrow> u8 \<Rightarrow> ('i, unit, 'e) mmio" where
  "set_best_frontend_bitslip io afe_board =
     bindE (read_frontend_bitslip io afe_board) (\<lambda>initial_bitslip.
     bindE (bitslip_scan_loop io afe_board bitslip_taps None) (\<lambda>matched. case matched of
       None \<Rightarrow>
         thenE (set_frontend_bitslip io afe_board initial_bitslip) (raise MmioAlignmentFailed)
     | Some final_bitslip \<Rightarrow>
         thenE (set_frontend_bitslip io afe_board final_bitslip)
         (thenE (expect_frame_clock io afe_board)
         (for_each [0..<unat FRONTEND_VERIFY_READS] (\<lambda>_. expect_frame_clock io afe_board)))))"

text \<open>The loop over the front ends breaks at the first error, which it keeps; the control bit is
  then set again whatever the result, and the kept result is returned first.\<close>

definition attempt :: "('s, 'a, 'e) eff \<Rightarrow> ('s, ('a, 'e) result, 'f) eff" where
  "attempt m = (\<lambda>s. case m s of None \<Rightarrow> None | Some (r, s') \<Rightarrow> Some (Ok r, s'))"

definition align_frontend :: "('i, 'e) register_io \<Rightarrow> ('i, unit, 'e) mmio" where
  "align_frontend io =
     thenE (reset_frontend_delay_values io)
     (thenE (pulse_frontend_control_bit io FRONTEND_DELAYCTRL_RESET_BIT)
     (thenE (pulse_frontend_control_bit io FRONTEND_SERDES_RESET_BIT)
     (thenE (set_frontend_delay_vtc io False)
     (thenE (wait_frontend_delayctrl_ready io)
     (bindE (attempt (for_each afe_range (\<lambda>afe_board.
        thenE (set_best_frontend_delay io afe_board) (set_best_frontend_bitslip io afe_board))))
      (\<lambda>result.
      bindE (attempt (set_frontend_delay_vtc io True)) (\<lambda>vtc_result.
      thenE (liftR result) (liftR vtc_result))))))))"

end
