(* ===== verification/MmioBackend.thy ===== *)
theory MmioBackend
  imports Mmio
begin

text \<open>
  The rest of \<open>crates/daphne-sc-rpu/src/mmio.rs\<close>: the SPI transactions of the front-end chips,
  the named chip functions, the DAC channels with their caches, the staged configuration, and the
  implementation of the trait \<open>AfeHardware\<close>; also the two implementations of \<open>RegisterIo\<close>, the
  volatile window and the one of the unit tests.
\<close>

section \<open>Front-end chip registers\<close>

definition mmio_read_register ::
    "('i, 'e) register_io \<Rightarrow> u8 \<Rightarrow> u16 \<Rightarrow> ('i, u32, 'e) mmio" where
  "mmio_read_register io afe_pl register =
     bindE (liftR (ok_or (afe_control_offset afe_pl) (MmioInvalidAfe afe_pl))) (\<lambda>offset.
     thenE (wait_afe_ready io)
     (thenE (mmio_write io offset AFE_SPI_TRIGGER_WORD)
     (thenE (wait_afe_ready io)
     (thenE (mmio_write io offset (afe_register_address_word register))
     (thenE (wait_afe_ready io)
     (bindE (mmio_read io offset) (\<lambda>v.
     thenE (mmio_write io offset AFE_SPI_IDLE_WORD)
     (ret (v AND 0xFFFF)))))))))"

definition mmio_write_register ::
    "('i, 'e) register_io \<Rightarrow> u8 \<Rightarrow> u16 \<Rightarrow> u32 \<Rightarrow> ('i, u32, 'e) mmio" where
  "mmio_write_register io afe_pl register v =
     bindE (liftR (mmio_require_u16 v)) (\<lambda>v16.
     bindE (liftR (ok_or (afe_control_offset afe_pl) (MmioInvalidAfe afe_pl))) (\<lambda>offset.
     thenE (wait_afe_ready io)
     (thenE (mmio_write io offset (afe_register_word register v16))
     (thenE (wait_afe_ready io)
     (thenE (mmio_write io offset AFE_SPI_TRIGGER_WORD)
     (thenE (wait_afe_ready io)
     (thenE (mmio_write io offset (afe_register_address_word register))
     (thenE (wait_afe_ready io)
     (bindE (mmio_read io offset) (\<lambda>readback.
     thenE (mmio_write io offset AFE_SPI_IDLE_WORD)
     (ret (readback AND 0xFFFF))))))))))))"

definition write_afe_function ::
    "('i, 'e) register_io \<Rightarrow> u8 \<Rightarrow> string \<Rightarrow> u16 \<Rightarrow> ('i, u32, 'e) mmio" where
  "write_afe_function io afe_pl name v =
     thenE (liftR (validate_afe afe_pl))
     (bindE (liftR (map_err (\<lambda>err. function_error err v) (validate_afe_function_value name v)))
       (\<lambda>spec.
      bindE (liftR (map_err (\<lambda>err. function_error err v) (field_mask (spec_field spec)))) (\<lambda>_.
      bindE (mmio_read_register io afe_pl (fld_register (spec_field spec))) (\<lambda>current.
      bindE (liftR (map_err (\<lambda>err. function_error err v)
               (replace_afe_function_bits (ucast current) (spec_field spec) v))) (\<lambda>updated.
      bindE (mmio_write_register io afe_pl (fld_register (spec_field spec)) (ucast updated)) (\<lambda>_.
      bindE (mmio_read_register io afe_pl (fld_register (spec_field spec))) (\<lambda>readback.
      liftR (map_ok ucast (map_err (\<lambda>err. function_error err v)
               (extract_afe_function_bits (ucast readback) (spec_field spec)))))))))))"

section \<open>DAC channels\<close>

definition mmio_read_scalar :: "rpu_wire_op \<Rightarrow> u8 \<Rightarrow> ('i, u32, 'e) mmio" where
  "mmio_read_scalar op afe_pl =
     thenE (liftR (validate_afe afe_pl))
     (if op = OpReadAttenuation
      then bindE (gets mb_attenuation) (\<lambda>xs. bindE (indexE xs (unat afe_pl)) (\<lambda>v. ret (ucast v)))
      else if op = OpReadBias
      then bindE (gets mb_bias) (\<lambda>xs. bindE (indexE xs (unat afe_pl)) (\<lambda>v. ret (ucast v)))
      else raise MmioUnsupported)"

definition mmio_write_scalar ::
    "('i, 'e) register_io \<Rightarrow> rpu_wire_op \<Rightarrow> u8 \<Rightarrow> u32 \<Rightarrow> ('i, u32, 'e) mmio" where
  "mmio_write_scalar io op afe_pl v =
     thenE (liftR (validate_afe afe_pl))
     (bindE (liftR (require_12bit v)) (\<lambda>v12.
      if op = OpSetAttenuation
      then bindE (indexE AFE_GAIN_DAC_ROUTES (unat afe_pl)) (\<lambda>route.
           thenE (write_dac_route io route v12)
           (thenE (put_attenuation afe_pl v12) (ret (ucast v12))))
      else if op = OpSetBias
      then bindE (indexE AFE_BIAS_DAC_ROUTES (unat afe_pl)) (\<lambda>route.
           thenE (write_dac_route io route v12)
           (thenE (put_bias afe_pl v12) (ret (ucast v12))))
      else raise MmioUnsupported))"

text \<open>
  The halves of an AFE are updated in the cache before the word is written to the window.  The
  first argument pair stands for the mutable borrow of one of the two caches.
\<close>

definition update_half ::
    "('i afe_mmio_backend \<Rightarrow> u16 list list)
     \<Rightarrow> (u16 list list \<Rightarrow> 'i afe_mmio_backend \<Rightarrow> 'i afe_mmio_backend)
     \<Rightarrow> nat \<Rightarrow> nat \<Rightarrow> nat \<Rightarrow> u16 \<Rightarrow> ('i, u16, 'e) mmio" where
  "update_half get put afe_index channel_index companion_index half =
     bindE (gets get) (\<lambda>all.
     bindE (indexE all afe_index) (\<lambda>halves.
     if channel_index < length halves
     then (let halves = halves[channel_index := half] in
           thenE (modify (put (all[afe_index := halves]))) (indexE halves companion_index))
     else panic))"

definition write_trim_or_offset_channel ::
    "('i, 'e) register_io \<Rightarrow> rpu_wire_op \<Rightarrow> u8 \<Rightarrow> u8 \<Rightarrow> u16 \<Rightarrow> bool \<Rightarrow> ('i, unit, 'e) mmio" where
  "write_trim_or_offset_channel io op afe_pl afe_channel v gain =
     bindE (if op = OpSetTrim then liftR (ok_or (afe_dac_trim_offset afe_pl) (MmioInvalidAfe afe_pl))
            else if op = OpSetOffset
            then liftR (ok_or (afe_dac_offset_offset afe_pl) (MmioInvalidAfe afe_pl))
            else raise MmioUnsupported) (\<lambda>offset.
     bindE (liftR (ok_or (dac_companion_channel afe_channel) (MmioInvalidChannel afe_channel)))
       (\<lambda>companion.
     let half = dac_trim_offset_half afe_channel v gain False in
     bindE (if op = OpSetTrim
            then update_half mb_trim_halves (\<lambda>xs b. b\<lparr>mb_trim_halves := xs\<rparr>)
                   (unat afe_pl) (unat afe_channel) (unat companion) half
            else if op = OpSetOffset
            then update_half mb_offset_halves (\<lambda>xs b. b\<lparr>mb_offset_halves := xs\<rparr>)
                   (unat afe_pl) (unat afe_channel) (unat companion) half
            else panic) (\<lambda>companion_half.
     let word = (if dac_channel_is_high_half afe_channel then dac_pair_word companion_half half
                 else dac_pair_word half companion_half) in
     thenE (wait_afe_ready io)
     (thenE (mmio_write io offset word)
     (wait_afe_ready io)))))"

definition read_trim_or_offset_channel ::
    "rpu_wire_op \<Rightarrow> u8 \<Rightarrow> u8 \<Rightarrow> ('i, u32, 'e) mmio" where
  "read_trim_or_offset_channel op afe_pl afe_channel =
     thenE (liftR (validate_afe afe_pl))
     (if CHANNELS_PER_AFE \<le> afe_channel then raise (MmioInvalidChannel afe_channel)
      else if op = OpReadTrim
      then bindE (gets mb_trim_halves) (\<lambda>all.
           bindE (indexE all (unat afe_pl)) (\<lambda>halves.
           bindE (indexE halves (unat afe_channel)) (\<lambda>h. ret (ucast (h AND 0x0FFF)))))
      else if op = OpReadOffset
      then bindE (gets mb_offset_halves) (\<lambda>all.
           bindE (indexE all (unat afe_pl)) (\<lambda>halves.
           bindE (indexE halves (unat afe_channel)) (\<lambda>h. ret (ucast (h AND 0x0FFF)))))
      else raise MmioUnsupported)"

definition mmio_read_channel_scalar :: "rpu_wire_command \<Rightarrow> ('i, u32, 'e) mmio" where
  "mmio_read_channel_scalar c =
     (if wc_target c \<noteq> TgtChannel then raise MmioUnsupported
      else read_trim_or_offset_channel (wc_op c) (wc_afe_pl c) (wc_afe_channel c))"

text \<open>\<open>0..CHANNELS_PER_AFE\<close>\<close>

definition channel_range :: "u8 list" where "channel_range = [0, 1, 2, 3, 4, 5, 6, 7]"

definition mmio_write_channel_scalar ::
    "('i, 'e) register_io \<Rightarrow> rpu_wire_command \<Rightarrow> ('i, u32, 'e) mmio" where
  "mmio_write_channel_scalar io c =
     bindE (liftR (require_12bit (wc_value c))) (\<lambda>v.
     let gain = (wc_flags c \<noteq> 0) in
     thenE (case wc_target c of
         TgtChannel \<Rightarrow>
           write_trim_or_offset_channel io (wc_op c) (wc_afe_pl c) (wc_afe_channel c) v gain
       | TgtAfe \<Rightarrow>
           thenE (liftR (validate_afe (wc_afe_pl c)))
           (for_each channel_range (\<lambda>afe_channel.
              write_trim_or_offset_channel io (wc_op c) (wc_afe_pl c) afe_channel v gain))
       | TgtAll \<Rightarrow>
           for_each afe_range (\<lambda>afe_pl. for_each channel_range (\<lambda>afe_channel.
             write_trim_or_offset_channel io (wc_op c) afe_pl afe_channel v gain))
       | TgtNone \<Rightarrow> raise MmioUnsupported)
     (ret (ucast v)))"

definition mmio_read_vbias_control :: "('i, u32, 'e) mmio" where
  "mmio_read_vbias_control = gets (\<lambda>b. ucast (mb_vbias_control b))"

definition mmio_write_vbias_control ::
    "('i, 'e) register_io \<Rightarrow> u32 \<Rightarrow> bool \<Rightarrow> ('i, u32, 'e) mmio" where
  "mmio_write_vbias_control io v enable =
     bindE (liftR (require_12bit v)) (\<lambda>v12.
     thenE (write_dac_route io VBIAS_DAC_ROUTE v12)
     (thenE (mmio_write io BIAS_ENABLE_OFFSET (of_flag enable))
     (thenE (modify (\<lambda>b. b\<lparr>mb_vbias_control := v12, mb_vbias_enabled := enable\<rparr>))
     (ret (ucast v12)))))"

section \<open>Reset and power\<close>

definition mmio_set_reset :: "('i, 'e) register_io \<Rightarrow> bool \<Rightarrow> ('i, unit, 'e) mmio" where
  "mmio_set_reset io asserted =
     set_bit_at io AFE_GLOBAL_CONTROL_OFFSET AFE_GLOBAL_RESET_BIT asserted"

definition mmio_do_reset :: "('i, 'e) register_io \<Rightarrow> ('i, unit, 'e) mmio" where
  "mmio_do_reset io = thenE (mmio_set_reset io True) (mmio_set_reset io False)"

definition mmio_set_power_state :: "('i, 'e) register_io \<Rightarrow> bool \<Rightarrow> ('i, unit, 'e) mmio" where
  "mmio_set_power_state io enabled =
     set_bit_at io AFE_GLOBAL_CONTROL_OFFSET AFE_GLOBAL_POWERSTATE_BIT enabled"

section \<open>Staged configuration\<close>

definition apply_staged_channel ::
    "('i, 'e) register_io \<Rightarrow> rpu_wire_channel_config \<Rightarrow> ('i, unit, 'e) mmio" where
  "apply_staged_channel io config =
     bindE (liftR (require_12bit (ucast (hc_trim config)))) (\<lambda>trim.
     bindE (liftR (require_12bit (ucast (hc_offset config)))) (\<lambda>offset.
     thenE (write_trim_or_offset_channel io OpSetTrim (hc_afe_pl config) (hc_afe_channel config)
              trim False)
     (write_trim_or_offset_channel io OpSetOffset (hc_afe_pl config) (hc_afe_channel config)
        offset False)))"

definition staged_functions :: "rpu_wire_afe_config \<Rightarrow> (string \<times> u16) list" where
  "staged_functions config =
     [(''SERIALIZED_DATA_RATE'', 1),
      (''ADC_RESOLUTION_RESET'', of_flag (adc_resolution (ac_adc config))),
      (''ADC_OUTPUT_FORMAT'', of_flag (adc_output_format (ac_adc config))),
      (''LSB_MSB_FIRST'', of_flag (adc_msb_first (ac_adc config))),
      (''LPF_PROGRAMMABILITY'', ucast (pga_lpf_cut_frequency (ac_pga config))),
      (''PGA_INTEGRATOR_DISABLE'', of_flag (pga_integrator_disable (ac_pga config))),
      (''PGA_GAIN_CONTROL'', of_flag (pga_gain (ac_pga config))),
      (''PGA_CLAMP_LEVEL'', 2),
      (''ACTIVE_TERMINATION_ENABLE'', 0),
      (''LNA_INPUT_CLAMP_SETTING'', ucast (lna_clamp (ac_lna config))),
      (''LNA_GAIN'', ucast (lna_gain (ac_lna config))),
      (''LNA_INTEGRATOR_DISABLE'', of_flag (lna_integrator_disable (ac_lna config)))]"

definition apply_staged_afe ::
    "('i, 'e) register_io \<Rightarrow> rpu_wire_afe_config \<Rightarrow> ('i, unit, 'e) mmio" where
  "apply_staged_afe io config =
     bindE (liftR (require_12bit (ucast (ac_attenuation config)))) (\<lambda>attenuation.
     bindE (indexE AFE_GAIN_DAC_ROUTES (unat (ac_afe_pl config))) (\<lambda>attenuation_route.
     thenE (write_dac_route io attenuation_route attenuation)
     (thenE (put_attenuation (ac_afe_pl config) attenuation)
     (thenE
       (if ac_bias config \<noteq> 0
        then bindE (liftR (require_12bit (ucast (ac_bias config)))) (\<lambda>bias.
             bindE (indexE AFE_BIAS_DAC_ROUTES (unat (ac_afe_pl config))) (\<lambda>bias_route.
             thenE (write_dac_route io bias_route bias) (put_bias (ac_afe_pl config) bias)))
        else ret ())
     (for_each (staged_functions config) (\<lambda>(name, v).
        bindE (write_afe_function io (ac_afe_pl config) name v) (\<lambda>_. ret ())))))))"

definition mmio_begin_configure_frontend :: "rpu_wire_config_counts \<Rightarrow> ('i, unit, 'e) mmio" where
  "mmio_begin_configure_frontend counts =
     modify (\<lambda>b. b\<lparr>mb_staged_config := staged_new counts\<rparr>)"

definition mmio_configure_afe :: "rpu_wire_afe_config \<Rightarrow> ('i, unit, 'e) mmio" where
  "mmio_configure_afe config =
     thenE (liftR (validate_afe (ac_afe_pl config)))
     (bindE (gets mb_staged_config) (\<lambda>sg.
      if \<not> sg_active sg then raise MmioUnsupported
      else put_at (\<lambda>b. sg_afes (mb_staged_config b))
             (\<lambda>xs b. b\<lparr>mb_staged_config := (mb_staged_config b)\<lparr>sg_afes := xs\<rparr>\<rparr>)
             (unat (ac_afe_pl config)) (Some config)))"

definition mmio_configure_channel :: "rpu_wire_channel_config \<Rightarrow> ('i, unit, 'e) mmio" where
  "mmio_configure_channel config =
     thenE (liftR (validate_afe (hc_afe_pl config)))
     (if CHANNELS_PER_AFE \<le> hc_afe_channel config \<or> CHANNEL_COUNT \<le> hc_channel config
      then raise (MmioInvalidChannel (hc_channel config))
      else bindE (gets mb_staged_config) (\<lambda>sg.
        if \<not> sg_active sg then raise MmioUnsupported
        else put_at (\<lambda>b. sg_channels (mb_staged_config b))
               (\<lambda>xs b. b\<lparr>mb_staged_config := (mb_staged_config b)\<lparr>sg_channels := xs\<rparr>\<rparr>)
               (unat (hc_channel config)) (Some config)))"

definition mmio_apply_configure_frontend :: "('i, 'e) register_io \<Rightarrow> ('i, unit, 'e) mmio" where
  "mmio_apply_configure_frontend io =
     bindE (gets mb_staged_config) (\<lambda>staged.
     if \<not> sg_active staged then raise MmioUnsupported
     else thenE (liftR (validate_counts staged))
       (thenE (mmio_do_reset io)
       (thenE (mmio_set_power_state io True)
       (thenE (for_each (List.map_filter id (sg_channels staged)) (apply_staged_channel io))
       (bindE (mmio_write_vbias_control io (ucast (cc_bias_control (sg_counts staged))) True) (\<lambda>_.
        thenE (for_each (List.map_filter id (sg_afes staged)) (apply_staged_afe io))
        (thenE (mmio_set_power_state io True)
        (modify (\<lambda>b. b\<lparr>mb_staged_config := default_staged_config\<rparr>)))))))))"

section \<open>The hardware of the runtime\<close>

definition mmio_afe_hardware ::
    "('i, 'e) register_io \<Rightarrow> ('i afe_mmio_backend, 'e mmio_afe_error) afe_hardware" where
  "mmio_afe_hardware io =
     \<lparr>hw_read_register = mmio_read_register io,
      hw_write_register = mmio_write_register io,
      hw_read_scalar = mmio_read_scalar,
      hw_write_scalar = mmio_write_scalar io,
      hw_read_channel_scalar = mmio_read_channel_scalar,
      hw_write_channel_scalar = mmio_write_channel_scalar io,
      hw_read_vbias_control = mmio_read_vbias_control,
      hw_write_vbias_control = mmio_write_vbias_control io,
      hw_set_reset = mmio_set_reset io,
      hw_do_reset = mmio_do_reset io,
      hw_set_power_state = mmio_set_power_state io,
      hw_align = align_frontend io,
      hw_begin_configure_frontend = mmio_begin_configure_frontend,
      hw_configure_afe = mmio_configure_afe,
      hw_configure_channel = mmio_configure_channel,
      hw_apply_configure_frontend = mmio_apply_configure_frontend io,
      hw_write_function = write_afe_function io\<rparr>"

section \<open>Register windows\<close>

text \<open>
  The volatile window: \<open>base\<close> is the address of the mapping, loads and stores go to the address
  \<open>base + offset\<close>.  What a load returns and what loads and stores do to the device is not in the
  source: \<open>load\<close> and \<open>store\<close> are arguments.
\<close>

record 'd volatile_register_io =
  vr_base :: u64
  vr_device :: 'd

definition volatile_io ::
    "('d \<Rightarrow> u64 \<Rightarrow> u32 \<times> 'd) \<Rightarrow> ('d \<Rightarrow> u64 \<Rightarrow> u32 \<Rightarrow> 'd)
     \<Rightarrow> ('d volatile_register_io, unit) register_io" where
  "volatile_io load store =
     \<lparr>io_read32 = (\<lambda>offset w.
        let (v, d) = load (vr_device w) (vr_base w + ucast offset)
        in Some (Ok v, w\<lparr>vr_device := d\<rparr>)),
      io_write32 = (\<lambda>offset v w.
        Some (Ok (), w\<lparr>vr_device := store (vr_device w) (vr_base w + ucast offset) v\<rparr>))\<rparr>"

text \<open>The window of the unit tests: scripted reads first, then the last value written.\<close>

record fake_io =
  fi_registers :: "u32 \<rightharpoonup> u32"
  fi_reads :: "(u32 \<times> u32) list"
  fi_read_index :: nat
  fi_writes :: "(u32 \<times> u32) list"

definition default_fake_io :: fake_io where
  "default_fake_io =
     \<lparr>fi_registers = (\<lambda>_. None), fi_reads = [], fi_read_index = 0, fi_writes = []\<rparr>"

definition fake_register_io :: "(fake_io, unit) register_io" where
  "fake_register_io =
     \<lparr>io_read32 = (\<lambda>offset f.
        if fi_read_index f < length (fi_reads f) \<and> fst (fi_reads f ! fi_read_index f) = offset
        then Some (Ok (snd (fi_reads f ! fi_read_index f)),
                   f\<lparr>fi_read_index := fi_read_index f + 1\<rparr>)
        else Some (Ok (case fi_registers f offset of Some v \<Rightarrow> v | None \<Rightarrow> 0), f)),
      io_write32 = (\<lambda>offset v f.
        Some (Ok (), f\<lparr>fi_registers := (fi_registers f)(offset \<mapsto> v),
                      fi_writes := fi_writes f @ [(offset, v)]\<rparr>))\<rparr>"

end
