(* ===== verification/MmioSafety.thy ===== *)
theory MmioSafety
  imports MmioBackend RpuRuntimeFacts
begin

text \<open>
  Safety of the memory-mapped backend on any register window: it touches the offsets of the
  register map only, and it keeps its state well formed and never panics as long as the window
  does not.
\<close>

section \<open>Confinement to the register map\<close>

text \<open>The window with every access outside \<open>offsets\<close> forbidden.\<close>

definition confine :: "u32 list \<Rightarrow> ('i, 'e) register_io \<Rightarrow> ('i, 'e) register_io" where
  "confine offsets io =
     \<lparr>io_read32 = (\<lambda>offset. if offset \<in> set offsets then io_read32 io offset else panic),
      io_write32 = (\<lambda>offset v. if offset \<in> set offsets then io_write32 io offset v else panic)\<rparr>"

abbreviation confined :: "('i, 'e) register_io \<Rightarrow> ('i, 'e) register_io" where
  "confined io \<equiv> confine afe_mmio_offsets io"

named_theorems confined_simps \<open>operations that stay inside the register map\<close>

lemma read_confined [confined_simps]:
  "offset \<in> set afe_mmio_offsets \<Longrightarrow> mmio_read (confined io) offset = mmio_read io offset"
  by (simp add: mmio_read_def confine_def)

lemma write_confined [confined_simps]:
  "offset \<in> set afe_mmio_offsets \<Longrightarrow> mmio_write (confined io) offset v = mmio_write io offset v"
  by (simp add: mmio_write_def confine_def)

lemma bindE_offset_cong:
  assumes "\<And>offset. x = Some offset \<Longrightarrow> f offset = g offset"
  shows "bindE (liftR (ok_or x e)) f = bindE (liftR (ok_or x e)) g"
  using assms by (cases x) (simp_all add: bindE_def liftR_def fun_eq_iff)

lemma bindE_same: "(\<And>a. f a = g a) \<Longrightarrow> bindE m f = bindE m g"
  by presburger

lemma spin_confined:
  "offset \<in> set afe_mmio_offsets \<Longrightarrow> spin (confined io) offset ready n = spin io offset ready n"
  by (induction n) (simp_all add: confined_simps cong: if_cong)

lemma spin_on_confined [confined_simps]:
  "offset \<in> set afe_mmio_offsets \<Longrightarrow> spin_on (confined io) offset ready = spin_on io offset ready"
  by (simp add: spin_on_def spin_confined)

lemma waits_confined [confined_simps]:
  "wait_afe_ready (confined io) = wait_afe_ready io"
  "wait_dac_ready (confined io) = wait_dac_ready io"
  "wait_frontend_delayctrl_ready (confined io) = wait_frontend_delayctrl_ready io"
  by (simp_all add: wait_afe_ready_def wait_dac_ready_def wait_frontend_delayctrl_ready_def
      confined_simps mmio_offset_intros)

lemma set_bit_at_confined [confined_simps]:
  "offset \<in> set afe_mmio_offsets \<Longrightarrow> set_bit_at (confined io) offset k b = set_bit_at io offset k b"
  by (simp add: set_bit_at_def confined_simps Let_def)

lemma dac_confined [confined_simps]:
  "write_dac_route (confined io) route v = write_dac_route io route v"
  by (simp add: write_dac_route_def trigger_dac_def confined_simps mmio_offset_intros)

lemma frontend_confined [confined_simps]:
  "pulse_frontend_control_bit (confined io) k = pulse_frontend_control_bit io k"
  "set_frontend_delay_vtc (confined io) b = set_frontend_delay_vtc io b"
  "set_frontend_delay (confined io) a v = set_frontend_delay io a v"
  "set_frontend_bitslip (confined io) a v = set_frontend_bitslip io a v"
  "read_frontend_bitslip (confined io) a = read_frontend_bitslip io a"
  "trigger_frontend_snapshot (confined io) = trigger_frontend_snapshot io"
  "read_frame_clock (confined io) a = read_frame_clock io a"
  unfolding set_frontend_delay_def set_frontend_bitslip_def read_frontend_bitslip_def
    read_frame_clock_def
  by (simp_all add: pulse_frontend_control_bit_def set_frontend_delay_vtc_def
      trigger_frontend_snapshot_def confined_simps mmio_offset_intros)
     (rule bindE_offset_cong, simp add: confined_simps mmio_offset_intros)+

lemma scan_confined [confined_simps]:
  "scan_frontend_word_after_write (confined io) a = scan_frontend_word_after_write io a"
  "reset_frontend_delay_values (confined io) = reset_frontend_delay_values io"
  by (simp_all add: scan_frontend_word_after_write_def reset_frontend_delay_values_def confined_simps)

lemma delay_scan_loop_confined [confined_simps]:
  "delay_scan_loop (confined io) a taps d = delay_scan_loop io a taps d"
  by (induction taps arbitrary: d) (simp_all add: confined_simps)

lemma bitslip_scan_loop_confined [confined_simps]:
  "bitslip_scan_loop (confined io) a taps m = bitslip_scan_loop io a taps m"
  by (induction taps arbitrary: m) (simp_all add: confined_simps)

lemma align_frontend_confined [confined_simps]:
  "align_frontend (confined io) = align_frontend io"
  by (simp add: align_frontend_def set_best_frontend_delay_def set_best_frontend_bitslip_def
      expect_frame_clock_def confined_simps cong: if_cong option.case_cong)

lemma registers_confined [confined_simps]:
  "mmio_read_register (confined io) a r = mmio_read_register io a r"
  "mmio_write_register (confined io) a r v = mmio_write_register io a r v"
  unfolding mmio_read_register_def mmio_write_register_def
  by (intro bindE_same bindE_offset_cong; simp add: confined_simps mmio_offset_intros)+

lemma write_afe_function_confined [confined_simps]:
  "write_afe_function (confined io) a name v = write_afe_function io a name v"
  by (simp add: write_afe_function_def confined_simps)

lemma write_scalar_confined [confined_simps]:
  "mmio_write_scalar (confined io) op a v = mmio_write_scalar io op a v"
  "mmio_write_vbias_control (confined io) w b = mmio_write_vbias_control io w b"
  by (simp_all add: mmio_write_scalar_def mmio_write_vbias_control_def confined_simps
      mmio_offset_intros cong: if_cong)

lemma write_trim_or_offset_confined [confined_simps]:
  "write_trim_or_offset_channel (confined io) op a c v g = write_trim_or_offset_channel io op a c v g"
proof -
  show ?thesis
  proof (cases "op = OpSetTrim \<or> op = OpSetOffset")
    case True
    then show ?thesis
      unfolding write_trim_or_offset_channel_def Let_def
      by (elim disjE; simp only: if_True if_False simp_thms rpu_wire_op.distinct)
         (rule bindE_offset_cong, intro bindE_same, simp add: confined_simps mmio_offset_intros cong: if_cong)+
  next
    case False
    then show ?thesis
      by (simp add: write_trim_or_offset_channel_def bindE_def raise_def)
  qed
qed

lemma control_confined [confined_simps]:
  "mmio_set_reset (confined io) b = mmio_set_reset io b"
  "mmio_do_reset (confined io) = mmio_do_reset io"
  "mmio_set_power_state (confined io) b = mmio_set_power_state io b"
  by (simp_all add: mmio_set_reset_def mmio_do_reset_def mmio_set_power_state_def confined_simps
      mmio_offset_intros)

lemma staged_confined [confined_simps]:
  "mmio_write_channel_scalar (confined io) c = mmio_write_channel_scalar io c"
  "apply_staged_channel (confined io) = apply_staged_channel io"
  "apply_staged_afe (confined io) = apply_staged_afe io"
  by (simp_all add: mmio_write_channel_scalar_def apply_staged_channel_def apply_staged_afe_def
      confined_simps fun_eq_iff cong: rpu_wire_target.case_cong if_cong)

text \<open>C11: the backend reads and writes the 39 offsets of the register map and nothing else: every
  operation is the same on the window in which any other access panics.\<close>

theorem backend_stays_in_register_map:
  "mmio_afe_hardware (confine afe_mmio_offsets io) = mmio_afe_hardware io"
  by (simp add: mmio_afe_hardware_def confined_simps mmio_apply_configure_frontend_def fun_eq_iff
      cong: if_cong)

section \<open>Well-formed backends\<close>

definition wf_staged :: "staged_config \<Rightarrow> bool" where
  "wf_staged sg \<longleftrightarrow> length (sg_afes sg) = 5 \<and> length (sg_channels sg) = 40
     \<and> (\<forall>i < 5. \<forall>c. sg_afes sg ! i = Some c \<longrightarrow> unat (ac_afe_pl c) = i)
     \<and> (\<forall>i < 40. \<forall>c. sg_channels sg ! i = Some c \<longrightarrow> unat (hc_channel c) = i
          \<and> hc_afe_pl c < AFE_COUNT \<and> hc_afe_channel c < CHANNELS_PER_AFE)"

definition wf_halves :: "u16 list list \<Rightarrow> bool" where
  "wf_halves hs \<longleftrightarrow> length hs = 5 \<and> (\<forall>h \<in> set hs. length h = 8)"

definition wf_backend :: "'i afe_mmio_backend \<Rightarrow> bool" where
  "wf_backend b \<longleftrightarrow>
     length (mb_attenuation b) = 5 \<and> (\<forall>v \<in> set (mb_attenuation b). v \<le> 0x0FFF)
     \<and> length (mb_bias b) = 5 \<and> (\<forall>v \<in> set (mb_bias b). v \<le> 0x0FFF)
     \<and> wf_halves (mb_trim_halves b) \<and> wf_halves (mb_offset_halves b)
     \<and> mb_vbias_control b \<le> 0x0FFF \<and> wf_staged (mb_staged_config b)"

lemma less_count_unat: "a < AFE_COUNT \<longleftrightarrow> unat a < 5" "c < CHANNELS_PER_AFE \<longleftrightarrow> unat c < 8"
  by (simp_all add: AFE_COUNT_def CHANNELS_PER_AFE_def word_less_nat_alt)

lemma wp_put_at:
  "wp (put_at get put i v) Q s = (i < length (get s) \<and> Q (Ok ()) (put ((get s)[i := v]) s))"
  by (simp add: put_at_def wp_def)

lemma validate_afe_Ok [simp]: "validate_afe a = Ok u \<longleftrightarrow> a < AFE_COUNT"
  by (simp add: validate_afe_def)

lemma require_12bit_Ok:
  assumes "require_12bit v = Ok w"
  shows "w \<le> 0x0FFF" and "ucast w = v"
proof -
  from assms have le: "unat v \<le> 4095" and w: "w = ucast v"
    by (simp_all add: require_12bit_def MMIO_DAC_12BIT_MAX_def word_le_nat_alt split: if_splits)
  have u: "unat w = unat v"
    using le by (simp add: w unsigned_ucast_eq take_bit_nat_eq_self)
  then show "w \<le> 0x0FFF" using le by (simp add: word_le_nat_alt)
  show "ucast w = v" unfolding w using le by (intro ucast_down_up) simp_all
qed

lemma dac_routes_length [simp]: "length AFE_GAIN_DAC_ROUTES = 5" "length AFE_BIAS_DAC_ROUTES = 5"
  by (simp_all add: AFE_GAIN_DAC_ROUTES_def AFE_BIAS_DAC_ROUTES_def)

text \<open>A window whose accesses return and keep an invariant of the device.\<close>

locale returning_window =
  fixes io :: "('i, 'e) register_io" and J :: "'i \<Rightarrow> bool"
  assumes read_keeps: "keeps J (io_read32 io offset)"
    and write_keeps: "keeps J (io_write32 io offset v)"
begin

definition inv :: "'i afe_mmio_backend \<Rightarrow> bool" where
  "inv b \<longleftrightarrow> wf_backend b \<and> J (mb_io b)"

lemma inv_simps [simp]:
  "wf_backend (b\<lparr>mb_io := i\<rparr>) = wf_backend b"
  by (simp add: wf_backend_def)

lemma mmio_read_keeps [keeps_intros]: "keeps inv (mmio_read io offset)"
  using read_keeps [of offset]
  by (auto simp: keeps_def mmio_read_def wp_simps inv_def elim!: wp_mono)

lemma mmio_write_keeps [keeps_intros]: "keeps inv (mmio_write io offset v)"
  using write_keeps [of offset v]
  by (auto simp: keeps_def mmio_write_def wp_simps inv_def elim!: wp_mono)

lemma spin_keeps [keeps_intros]: "keeps inv (spin io offset ready n)"
  by (induction n) (auto intro!: keeps_intros)

lemma spin_on_keeps [keeps_intros]: "keeps inv (spin_on io offset ready)"
  unfolding spin_on_def by (intro keeps_intros)

lemma waits_keep [keeps_intros]:
  "keeps inv (wait_afe_ready io)" "keeps inv (wait_dac_ready io)"
  "keeps inv (wait_frontend_delayctrl_ready io)"
  unfolding wait_afe_ready_def wait_dac_ready_def wait_frontend_delayctrl_ready_def
  by (intro keeps_intros)+

lemma set_bit_at_keeps [keeps_intros]: "keeps inv (set_bit_at io offset k b)"
  unfolding set_bit_at_def Let_def by (intro keeps_intros)

lemma write_dac_route_keeps [keeps_intros]: "keeps inv (write_dac_route io route v)"
  unfolding write_dac_route_def trigger_dac_def by (intro keeps_intros)

lemma frontend_keeps [keeps_intros]:
  "keeps inv (pulse_frontend_control_bit io k)" "keeps inv (set_frontend_delay_vtc io b)"
  "keeps inv (set_frontend_delay io a v)" "keeps inv (set_frontend_bitslip io a v)"
  "keeps inv (read_frontend_bitslip io a)" "keeps inv (scan_frontend_word_after_write io a)"
  unfolding pulse_frontend_control_bit_def set_frontend_delay_vtc_def set_frontend_delay_def
    set_frontend_bitslip_def read_frontend_bitslip_def scan_frontend_word_after_write_def
    trigger_frontend_snapshot_def read_frame_clock_def
  by (intro keeps_intros)+

lemma scan_loops_keep [keeps_intros]:
  "keeps inv (delay_scan_loop io a taps d)" "keeps inv (bitslip_scan_loop io a taps m)"
  by (induction taps arbitrary: d m) (auto intro!: keeps_intros)

lemma attempt_keeps [keeps_intros]: "keeps I m \<Longrightarrow> keeps I (attempt m)"
  by (auto simp: keeps_def attempt_def wp_def split: option.splits)

lemma set_best_keeps [keeps_intros]:
  "keeps inv (set_best_frontend_delay io a)" "keeps inv (set_best_frontend_bitslip io a)"
  unfolding set_best_frontend_delay_def set_best_frontend_bitslip_def expect_frame_clock_def Let_def
  by (intro keeps_intros)+

lemma align_frontend_keeps [keeps_intros]: "keeps inv (align_frontend io)"
  unfolding align_frontend_def reset_frontend_delay_values_def by (intro keeps_intros)

lemma registers_keep [keeps_intros]:
  "keeps inv (mmio_read_register io a r)" "keeps inv (mmio_write_register io a r v)"
  unfolding mmio_read_register_def mmio_write_register_def by (intro keeps_intros)+

lemma write_afe_function_keeps [keeps_intros]: "keeps inv (write_afe_function io a name v)"
  unfolding write_afe_function_def by (intro keeps_intros)

lemma control_keeps [keeps_intros]:
  "keeps inv (mmio_set_reset io b)" "keeps inv (mmio_do_reset io)"
  "keeps inv (mmio_set_power_state io b)"
  unfolding mmio_set_reset_def mmio_do_reset_def mmio_set_power_state_def by (intro keeps_intros)+

text \<open>The DAC caches.\<close>

lemma keeps_put_attenuation [keeps_intros]:
  "a < AFE_COUNT \<Longrightarrow> v \<le> 0x0FFF \<Longrightarrow> keeps inv (put_attenuation a v)"
  using set_update_subset_insert
  by (fastforce simp: keeps_def wp_def put_attenuation_def put_at_def inv_def wf_backend_def
      less_count_unat)

lemma keeps_put_bias [keeps_intros]:
  "a < AFE_COUNT \<Longrightarrow> v \<le> 0x0FFF \<Longrightarrow> keeps inv (put_bias a v)"
  using set_update_subset_insert
  by (fastforce simp: keeps_def wp_def put_bias_def put_at_def inv_def wf_backend_def
      less_count_unat)

lemma read_scalar_keeps [keeps_intros]: "keeps inv (mmio_read_scalar op a)"
  unfolding mmio_read_scalar_def
  by (intro keeps_thenE_liftR keeps_if keeps_raise keeps_bindE_gets)
     (auto simp: wp_simps inv_def wf_backend_def validate_afe_Ok less_count_unat)

lemma write_scalar_keeps [keeps_intros]: "keeps inv (mmio_write_scalar io op a v)"
  unfolding mmio_write_scalar_def
  by (intro keeps_thenE_liftR keeps_bindE_liftR keeps_if keeps_bindE_indexE keeps_thenE keeps_intros)
     (auto simp: validate_afe_Ok require_12bit_Ok less_count_unat dac_routes_length)

lemma vbias_keeps [keeps_intros]:
  "keeps inv (mmio_read_vbias_control)" "keeps inv (mmio_write_vbias_control io v b)"
  unfolding mmio_read_vbias_control_def mmio_write_vbias_control_def
  by (intro keeps_intros keeps_modify;
      auto simp: inv_def wf_backend_def dest: require_12bit_Ok)+

text \<open>The halves.\<close>

lemma wf_halves_update:
  "wf_halves hs \<Longrightarrow> a < 5 \<Longrightarrow> wf_halves (hs[a := (hs ! a)[c := h]])"
  by (auto simp: wf_halves_def dest!: set_update_subset_insert [THEN subsetD])

lemma update_half_keeps:
  assumes "a < 5" and "c < 8" and "k < 8"
  shows "keeps inv (update_half mb_trim_halves (\<lambda>xs b. b\<lparr>mb_trim_halves := xs\<rparr>) a c k h)"
    and "keeps inv (update_half mb_offset_halves (\<lambda>xs b. b\<lparr>mb_offset_halves := xs\<rparr>) a c k h)"
proof -
  have len: "length hs = 5 \<and> length (hs ! a) = 8" if "wf_halves hs" for hs
    using that assms(1) by (simp add: wf_halves_def)
  have "wp (update_half mb_trim_halves (\<lambda>xs b. b\<lparr>mb_trim_halves := xs\<rparr>) a c k h) (\<lambda>_. inv) b"
    "wp (update_half mb_offset_halves (\<lambda>xs b. b\<lparr>mb_offset_halves := xs\<rparr>) a c k h) (\<lambda>_. inv) b"
    if "inv b" for b
    using that assms len [of "mb_trim_halves b"] len [of "mb_offset_halves b"]
    by (simp_all add: update_half_def wp_simps Let_def inv_def wf_backend_def wf_halves_update)
  then show "keeps inv (update_half mb_trim_halves (\<lambda>xs b. b\<lparr>mb_trim_halves := xs\<rparr>) a c k h)"
    "keeps inv (update_half mb_offset_halves (\<lambda>xs b. b\<lparr>mb_offset_halves := xs\<rparr>) a c k h)"
    by (auto intro!: keepsI)
qed

lemma write_trim_or_offset_keeps [keeps_intros]:
  "keeps inv (write_trim_or_offset_channel io op a c v g)"
proof (cases "op = OpSetTrim \<or> op = OpSetOffset")
  case True
  have k: "unat c < 8 \<and> unat k < 8" if "dac_companion_channel c = Some k" for k
    using companion_pairs [OF that] companion_pairs [of k c] by (simp add: less_count_unat)
  have a: "unat a < 5" if "afe_dac_trim_offset a = Some x \<or> afe_dac_offset_offset a = Some x" for x
    using that offset_Some_less(2,3) less_count_unat(1) by blast
  from True show ?thesis
    unfolding write_trim_or_offset_channel_def Let_def
    by (elim disjE; simp only: if_True if_False simp_thms rpu_wire_op.distinct)
       (intro keeps_bindE_liftR keeps_bindE [OF update_half_keeps(1)]
          keeps_bindE [OF update_half_keeps(2)] keeps_thenE keeps_intros; use k a in auto)+
next
  case False
  then show ?thesis
    by (simp add: write_trim_or_offset_channel_def keeps_def wp_simps)
qed

lemma read_trim_or_offset_keeps [keeps_intros]:
  "keeps inv (read_trim_or_offset_channel op a c)"
  unfolding read_trim_or_offset_channel_def
  by (intro keeps_thenE_liftR keeps_if keeps_raise keeps_bindE_gets)
     (auto simp: wp_simps inv_def wf_backend_def wf_halves_def less_count_unat not_le)

lemma for_each_pairs_keeps [keeps_intros]:
  "(\<And>x. x \<in> set xs \<Longrightarrow> keeps I (body x)) \<Longrightarrow> keeps I (for_each xs body)"
  by (rule keeps_for_each)

lemma channel_scalars_keep [keeps_intros]:
  "keeps inv (mmio_read_channel_scalar c)" "keeps inv (mmio_write_channel_scalar io c)"
  unfolding mmio_read_channel_scalar_def mmio_write_channel_scalar_def Let_def
  by (cases "wc_target c"; simp; intro keeps_intros)+

lemma apply_staged_keeps:
  "keeps inv (apply_staged_channel io ch)"
  "ac_afe_pl af < AFE_COUNT \<Longrightarrow> keeps inv (apply_staged_afe io af)"
  unfolding apply_staged_channel_def apply_staged_afe_def
  by (intro keeps_bindE_liftR keeps_bindE_indexE keeps_thenE keeps_if keeps_intros;
      auto simp: less_count_unat dest: require_12bit_Ok intro!: keeps_intros split: prod.splits)+

lemma unat_counts: "unat AFE_COUNT = 5" "unat CHANNEL_COUNT = 40"
  by (simp_all add: AFE_COUNT_def CHANNEL_COUNT_def CHANNELS_PER_AFE_def)

lemma wf_staged_new [simp]: "wf_staged (staged_new k)" "wf_staged default_staged_config"
  by (simp_all add: wf_staged_def staged_new_def default_staged_config_def unat_counts)

lemma staging_keeps [keeps_intros]:
  "keeps inv (mmio_begin_configure_frontend k)" "keeps inv (mmio_configure_afe af)"
  "keeps inv (mmio_configure_channel ch)"
proof -
  show "keeps inv (mmio_begin_configure_frontend k)"
    unfolding mmio_begin_configure_frontend_def
    by (rule keeps_modify) (simp add: inv_def wf_backend_def)
  show "keeps inv (mmio_configure_afe af)"
    unfolding mmio_configure_afe_def
    by (intro keeps_thenE_liftR keeps_bindE_gets)
       (auto simp: wp_simps wp_put_at inv_def wf_backend_def wf_staged_def less_count_unat
         nth_list_update split: if_splits)
  have "unat (hc_channel ch) < 40" if "\<not> CHANNEL_COUNT \<le> hc_channel ch"
    using that by (simp add: CHANNEL_COUNT_def AFE_COUNT_def CHANNELS_PER_AFE_def word_le_nat_alt)
  then show "keeps inv (mmio_configure_channel ch)"
    unfolding mmio_configure_channel_def
    by (intro keeps_thenE_liftR keeps_if keeps_raise keeps_bindE_gets)
       (auto simp: wp_simps wp_put_at inv_def wf_backend_def wf_staged_def
         nth_list_update split: if_splits)
qed

lemma staged_members:
  assumes "wf_staged sg"
  shows "af \<in> set (List.map_filter id (sg_afes sg)) \<Longrightarrow> ac_afe_pl af < AFE_COUNT"
proof -
  assume "af \<in> set (List.map_filter id (sg_afes sg))"
  then have "Some af \<in> set (sg_afes sg)" by (auto simp: set_map_filter)
  then obtain i where "i < 5" and "sg_afes sg ! i = Some af"
    using assms by (auto simp: in_set_conv_nth wf_staged_def)
  then have "unat (ac_afe_pl af) = i" using assms by (simp add: wf_staged_def)
  with \<open>i < 5\<close> show "ac_afe_pl af < AFE_COUNT" by (simp add: less_count_unat)
qed

lemma apply_configure_keeps [keeps_intros]: "keeps inv (mmio_apply_configure_frontend io)"
  unfolding mmio_apply_configure_frontend_def
proof (rule keeps_bindE_gets)
  fix b assume b: "inv b"
  let ?sg = "mb_staged_config b"
  have wf: "wf_staged ?sg" using b by (simp add: inv_def wf_backend_def)
  have reset: "keeps inv (modify (\<lambda>b. b\<lparr>mb_staged_config := default_staged_config\<rparr>))"
    by (rule keeps_modify) (simp add: inv_def wf_backend_def)
  have "keeps inv (if \<not> sg_active ?sg then raise MmioUnsupported
     else thenE (liftR (validate_counts ?sg))
       (thenE (mmio_do_reset io)
       (thenE (mmio_set_power_state io True)
       (thenE (for_each (List.map_filter id (sg_channels ?sg)) (apply_staged_channel io))
       (bindE (mmio_write_vbias_control io (ucast (cc_bias_control (sg_counts ?sg))) True) (\<lambda>_.
        thenE (for_each (List.map_filter id (sg_afes ?sg)) (apply_staged_afe io))
        (thenE (mmio_set_power_state io True)
        (modify (\<lambda>b. b\<lparr>mb_staged_config := default_staged_config\<rparr>)))))))))"
    by (intro keeps_intros apply_staged_keeps reset staged_members [OF wf])
  from keepsD [OF this b]
  show "wp (if \<not> sg_active ?sg then raise MmioUnsupported
     else thenE (liftR (validate_counts ?sg))
       (thenE (mmio_do_reset io)
       (thenE (mmio_set_power_state io True)
       (thenE (for_each (List.map_filter id (sg_channels ?sg)) (apply_staged_channel io))
       (bindE (mmio_write_vbias_control io (ucast (cc_bias_control (sg_counts ?sg))) True) (\<lambda>_.
        thenE (for_each (List.map_filter id (sg_afes ?sg)) (apply_staged_afe io))
        (thenE (mmio_set_power_state io True)
        (modify (\<lambda>b. b\<lparr>mb_staged_config := default_staged_config\<rparr>))))))))) (\<lambda>_. inv) b" .
qed

lemma hardware_keeps_inv: "hardware_keeps inv (mmio_afe_hardware io)"
  unfolding hardware_keeps_def mmio_afe_hardware_def by (auto intro!: keeps_intros)

lemma inv_with_config: "J i \<Longrightarrow> inv (backend_with_config i config)"
  by (simp add: inv_def wf_backend_def backend_with_config_def wf_halves_def
      unat_counts CHANNELS_PER_AFE_def)

lemma inv_new: "J i \<Longrightarrow> inv (backend_new i)"
  unfolding backend_new_def by (rule inv_with_config)

end

section \<open>The windows of the program\<close>

interpretation volatile: returning_window "volatile_io load store" "\<lambda>_. True" for load store
  by unfold_locales (simp_all add: volatile_io_def keeps_def wp_def split: prod.split)

interpretation fake: returning_window fake_register_io "\<lambda>_. True"
  by unfold_locales (simp_all add: fake_register_io_def keeps_def wp_def)

lemma inv_wf [simp]:
  "volatile.inv b \<longleftrightarrow> wf_backend b" "fake.inv b' \<longleftrightarrow> wf_backend b'"
  by (simp_all add: volatile.inv_def fake.inv_def)

text \<open>C10: on memory-mapped hardware, whatever loads return, a runtime whose backend is well formed
  (cached DAC values within 12 bits, arrays of the right lengths, staged records filed under their
  own index) answers every frame and stays well formed, with one exception: it panics on a frame
  that asks for \<open>ReadAlignment\<close> while the interlock is open, for which the match has no arm.\<close>

theorem firmware_answers_every_frame:
  assumes "wf_backend (rn_hardware rt)"
  shows "if ready_for_afe (rn_interlock rt) \<and> (\<exists>c. decode_command input = Ok c \<and> wc_op c = OpReadAlignment)
    then handle_frame (mmio_afe_hardware (volatile_io load store)) input rt = None
    else \<exists>r rt'. handle_frame (mmio_afe_hardware (volatile_io load store)) input rt
           = Some (encode_reply r, rt') \<and> wf_backend (rn_hardware rt')"
proof (cases "ready_for_afe (rn_interlock rt) \<and> (\<exists>c. decode_command input = Ok c \<and> wc_op c = OpReadAlignment)")
  case True
  then show ?thesis by (auto simp: read_alignment_panics)
next
  case False
  with handle_frame_answers [OF volatile.hardware_keeps_inv, of rt input load store] assms
  show ?thesis unfolding if_not_P [OF False] by simp
qed

theorem firmware_answers_every_frame_witness:
  "\<exists>r rt'. handle_frame (mmio_afe_hardware (volatile_io (\<lambda>d a. (0, d)) (\<lambda>d a v. d)))
      (encode_command (wire_status 3\<lparr>wc_op := OpAlign\<rparr>))
      (set_interlock ready_interlock (runtime_new (backend_new \<lparr>vr_base = 0x80000000, vr_device = ()\<rparr>)))
    = Some (encode_reply r, rt') \<and> wf_backend (rn_hardware rt')"
proof -
  let ?rt = "set_interlock ready_interlock (runtime_new (backend_new \<lparr>vr_base = 0x80000000, vr_device = ()\<rparr>))"
  have "wf_backend (rn_hardware ?rt)"
    using volatile.inv_new [of "\<lparr>vr_base = 0x80000000, vr_device = ()\<rparr>"] by (simp add: set_interlock_def runtime_new_def)
  from firmware_answers_every_frame [OF this, where input = "encode_command (wire_status 3\<lparr>wc_op := OpAlign\<rparr>)"
      and load = "\<lambda>d a. (0, d)" and store = "\<lambda>d a v. d"]
  show ?thesis by (simp add: command_decode_encode)
qed

end
