(* ===== verification/MmioChannels.thy ===== *)
theory MmioChannels
  imports MmioSafety
begin

text \<open>
  What the DAC operations of the memory-mapped backend do: a value accepted is the value read
  back, and nothing else changes in the caches; the words put on the window carry both halves of
  the pair as cached; a chip register transaction puts exactly its words on the window.
\<close>

section \<open>Frames of the window operations\<close>

text \<open>A computation that changes nothing but the device.\<close>

definition device_only :: "('i afe_mmio_backend, 'a, 'f) eff \<Rightarrow> bool" where
  "device_only m = (\<forall>b r b'. m b = Some (r, b') \<longrightarrow> b' = b\<lparr>mb_io := mb_io b'\<rparr>)"

named_theorems device_only_intros \<open>computations that change the device only\<close>

lemma device_onlyD: "device_only m \<Longrightarrow> m b = Some (r, b') \<Longrightarrow> b' = b\<lparr>mb_io := mb_io b'\<rparr>"
  unfolding device_only_def by blast

lemma device_only_ex: "device_only m \<Longrightarrow> m b = Some (r, b') \<Longrightarrow> \<exists>i. b' = b\<lparr>mb_io := i\<rparr>"
  by (drule (1) device_onlyD) blast

lemma device_only_basic [device_only_intros]:
  "device_only (ret a)" "device_only (raise e)" "device_only (liftR r)" "device_only (gets g)"
  "device_only panic" "device_only (indexE xs i)"
  by (auto simp: device_only_def ret_def raise_def liftR_def gets_def panic_def indexE_def)

lemma device_only_bindE [device_only_intros]:
  assumes "device_only m" and "\<And>a. device_only (f a)"
  shows "device_only (bindE m f)"
  unfolding device_only_def
proof (intro allI impI)
  fix b r b' assume "bindE m f b = Some (r, b')"
  then show "b' = b\<lparr>mb_io := mb_io b'\<rparr>"
  proof (cases rule: bindE_SomeE)
    case (err e)
    then show ?thesis using device_onlyD [OF assms(1)] by blast
  next
    case (ok a u)
    from device_onlyD [OF assms(1) ok(1)] device_onlyD [OF assms(2) ok(2)] show ?thesis
      by (metis afe_mmio_backend.surjective afe_mmio_backend.update_convs(1))
  qed
qed

lemma device_only_thenE [device_only_intros]:
  "device_only m \<Longrightarrow> device_only k \<Longrightarrow> device_only (thenE m k)"
  unfolding thenE_def by (rule device_only_bindE)

lemma device_only_if [device_only_intros]:
  "device_only m \<Longrightarrow> device_only k \<Longrightarrow> device_only (if c then m else k)"
  by simp

lemma device_only_access [device_only_intros]:
  "device_only (mmio_read io offset)" "device_only (mmio_write io offset v)"
  by (auto simp: device_only_def mmio_read_def mmio_write_def map_errE_def zoom_def
      split: option.splits)

lemma device_only_spin [device_only_intros]: "device_only (spin io offset ready n)"
  by (induction n) (auto intro!: device_only_intros)

lemma device_only_waits [device_only_intros]:
  "device_only (wait_afe_ready io)" "device_only (wait_dac_ready io)"
  unfolding wait_afe_ready_def wait_dac_ready_def spin_on_def by (intro device_only_intros)+

lemma device_only_set_bit [device_only_intros]: "device_only (set_bit_at io offset k b)"
  unfolding set_bit_at_def Let_def by (intro device_only_intros)

lemma device_only_route [device_only_intros]: "device_only (write_dac_route io route v)"
  unfolding write_dac_route_def trigger_dac_def by (intro device_only_intros)

lemma device_only_registers [device_only_intros]:
  "device_only (mmio_read_register io a r)" "device_only (mmio_write_register io a r v)"
  unfolding mmio_read_register_def mmio_write_register_def by (intro device_only_intros)+

lemma device_only_function [device_only_intros]: "device_only (write_afe_function io a name v)"
  unfolding write_afe_function_def by (intro device_only_intros)

section \<open>Gain and bias\<close>

lemma validate_afe_eq: "a < AFE_COUNT \<Longrightarrow> validate_afe a = Ok ()"
  by simp

definition scalar_value :: "rpu_wire_op \<Rightarrow> 'i afe_mmio_backend \<Rightarrow> u8 \<Rightarrow> u16" where
  "scalar_value op b a =
     (if op = OpReadAttenuation then mb_attenuation b ! unat a else mb_bias b ! unat a)"

lemma read_scalar_value:
  assumes "wf_backend b" and "a < AFE_COUNT" and "op \<in> {OpReadAttenuation, OpReadBias}"
  shows "mmio_read_scalar op a b = Some (Ok (ucast (scalar_value op b a)), b)"
  using assms
  by (auto simp: mmio_read_scalar_def thenE_def bindE_def liftR_def gets_def indexE_def ret_def
      scalar_value_def wf_backend_def validate_afe_eq less_count_unat)

text \<open>A gain or bias value accepted by the backend is the value requested and the one read back
  afterwards, and no other gain or bias readback changes.\<close>

theorem scalar_write_read:
  assumes "mmio_write_scalar io op a v b = Some (Ok x, b')" and "wf_backend b"
    and "(op, rd) \<in> {(OpSetAttenuation, OpReadAttenuation), (OpSetBias, OpReadBias)}"
  shows "x = v \<and> mmio_read_scalar rd a b' = Some (Ok v, b')
    \<and> (\<forall>rd' a'. rd' \<in> {OpReadAttenuation, OpReadBias} \<longrightarrow> a' < AFE_COUNT \<longrightarrow> (rd', a') \<noteq> (rd, a) \<longrightarrow>
         scalar_value rd' b' a' = scalar_value rd' b a')"
proof -
  obtain v12 i where a: "a < AFE_COUNT" and w: "ucast v12 = v" and x: "x = v"
    and b': "b' = (if op = OpSetAttenuation
                   then b\<lparr>mb_io := i, mb_attenuation := (mb_attenuation b)[unat a := v12]\<rparr>
                   else b\<lparr>mb_io := i, mb_bias := (mb_bias b)[unat a := v12]\<rparr>)"
    using assms(1,3)
    by (auto simp: mmio_write_scalar_def thenE_def liftR_def indexE_def ret_def panic_def
        put_attenuation_def put_bias_def put_at_def
        elim!: bindE_SomeE dest!: device_only_ex [OF device_only_route] require_12bit_Ok(2)
        split: if_splits)
  have i: "unat a < 5" using a by (simp add: less_count_unat)
  have len: "length (mb_attenuation b) = 5" "length (mb_bias b) = 5"
    using assms(2) by (simp_all add: wf_backend_def)
  have other: "unat a = unat a' \<longleftrightarrow> a = a'" for a' by (simp add: word_unat_eq_iff)
  have read: "mmio_read_scalar rd a b' = Some (Ok (ucast (scalar_value rd b' a)), b')"
    using assms(3) a len i
    by (auto simp: mmio_read_scalar_def thenE_def bindE_def liftR_def gets_def indexE_def ret_def
        scalar_value_def validate_afe_eq b')
  show ?thesis
    using assms(3) w x read len i other
    by (auto simp: b' scalar_value_def nth_list_update)
qed

theorem scalar_write_read_witness:
  "\<exists>x b'. mmio_write_scalar fake_register_io OpSetBias 4 0x0555
        (backend_with_config default_fake_io \<lparr>mc_spin_limit = 1\<rparr>) = Some (Ok x, b')
     \<and> mmio_read_scalar OpReadBias 4 b' = Some (Ok 0x0555 :: (u32, unit mmio_afe_error) result, b')"
proof -
  let ?b = "backend_with_config default_fake_io \<lparr>mc_spin_limit = 1\<rparr>"
  have wf: "wf_backend ?b"
    using fake.inv_with_config [of default_fake_io] by simp
  have "map_option (is_ok \<circ> fst) (mmio_write_scalar fake_register_io OpSetBias 4 0x0555 ?b) = Some True"
    by code_simp
  then obtain x b' where w: "mmio_write_scalar fake_register_io OpSetBias 4 0x0555 ?b = Some (Ok x, b')"
    by (rule evaluates_ok)
  from scalar_write_read [OF w wf, of OpReadBias] w show ?thesis by auto
qed

section \<open>Trims and offsets\<close>

text \<open>The channels a frame selects.\<close>

definition selected_channels :: "rpu_wire_command \<Rightarrow> (u8 \<times> u8) list" where
  "selected_channels c = (case wc_target c of
     TgtChannel \<Rightarrow> [(wc_afe_pl c, wc_afe_channel c)]
   | TgtAfe \<Rightarrow> map (Pair (wc_afe_pl c)) channel_range
   | TgtAll \<Rightarrow> List.product afe_range channel_range
   | TgtNone \<Rightarrow> [])"

definition halves_of :: "rpu_wire_op \<Rightarrow> 'i afe_mmio_backend \<Rightarrow> u16 list list" where
  "halves_of op b = (if op \<in> {OpSetTrim, OpReadTrim} then mb_trim_halves b else mb_offset_halves b)"

definition half_value :: "rpu_wire_op \<Rightarrow> 'i afe_mmio_backend \<Rightarrow> u8 \<times> u8 \<Rightarrow> u16" where
  "half_value op b ac = halves_of op b ! unat (fst ac) ! unat (snd ac) AND 0x0FFF"

lemma update_half_Some:
  assumes "update_half get put a c k h b = Some (r, b')" and "r = Ok w"
  shows "b' = put ((get b)[a := (get b ! a)[c := h]]) b \<and> a < length (get b) \<and> c < length (get b ! a)
    \<and> w = (get b ! a)[c := h] ! k"
  using assms by (auto simp: update_half_def gets_def indexE_def panic_def ret_def modify_def thenE_def
      Let_def elim!: bindE_SomeE split: if_splits)

text \<open>What a channel write leaves in the caches.\<close>

lemma write_trim_effect:
  assumes "write_trim_or_offset_channel io OpSetTrim a c v g b = Some (Ok u, b')"
  shows "\<exists>i. b' = b\<lparr>mb_trim_halves := (mb_trim_halves b)
      [unat a := (mb_trim_halves b ! unat a)[unat c := dac_trim_offset_half c v g False]], mb_io := i\<rparr>
    \<and> a < AFE_COUNT \<and> unat c < length (mb_trim_halves b ! unat a) \<and> unat a < length (mb_trim_halves b)"
  using assms
  by (auto simp: write_trim_or_offset_channel_def thenE_def liftR_def Let_def
      elim!: bindE_SomeE dest!: device_only_ex [OF device_only_waits(1)] device_only_ex [OF device_only_access(2)]
        update_half_Some offset_Some_less intro!: exI split: if_splits)

lemma write_offset_effect:
  assumes "write_trim_or_offset_channel io OpSetOffset a c v g b = Some (Ok u, b')"
  shows "\<exists>i. b' = b\<lparr>mb_offset_halves := (mb_offset_halves b)
      [unat a := (mb_offset_halves b ! unat a)[unat c := dac_trim_offset_half c v g False]], mb_io := i\<rparr>
    \<and> a < AFE_COUNT \<and> unat c < length (mb_offset_halves b ! unat a) \<and> unat a < length (mb_offset_halves b)"
  using assms
  by (auto simp: write_trim_or_offset_channel_def thenE_def liftR_def Let_def
      elim!: bindE_SomeE dest!: device_only_ex [OF device_only_waits(1)] device_only_ex [OF device_only_access(2)]
        update_half_Some offset_Some_less intro!: exI split: if_splits)

definition trim_op :: "rpu_wire_op \<Rightarrow> bool" where
  "trim_op op \<longleftrightarrow> op \<in> {OpSetTrim, OpReadTrim}"

lemma write_half_effect:
  assumes "write_trim_or_offset_channel io op a c v g b = Some (Ok u, b')"
    and "op \<in> {OpSetTrim, OpSetOffset}"
  shows "halves_of q b' = (if trim_op q = trim_op op
      then (halves_of q b)[unat a := (halves_of q b ! unat a)[unat c := dac_trim_offset_half c v g False]]
      else halves_of q b)"
    and "unat a < length (halves_of op b)" and "unat c < length (halves_of op b ! unat a)"
  using assms
  by (auto simp: halves_of_def trim_op_def dest!: write_trim_effect write_offset_effect)

lemma half_value_written:
  assumes "write_trim_or_offset_channel io op a c v g b = Some (Ok u, b')"
    and "op \<in> {OpSetTrim, OpSetOffset}" and "v \<le> 0x0FFF"
  shows "half_value q b' ac = (if trim_op q = trim_op op \<and> ac = (a, c) then v else half_value q b ac)"
proof -
  note eff = write_half_effect [OF assms(1,2)]
  have "v AND 0x0FFF = v" using assms(3) by (intro and_12bit_self) (simp add: word_le_nat_alt)
  then have v: "dac_trim_offset_half c v g False AND 0x0FFF = v" by (simp add: half_low12)
  have same: "halves_of q b = halves_of op b" if "trim_op q = trim_op op"
    using that assms(2) by (auto simp: halves_of_def trim_op_def)
  obtain x y where ac: "ac = (x, y)" by (cases ac)
  have ne: "unat p = unat q \<longleftrightarrow> p = q" for p q :: u8 by (simp add: word_unat_eq_iff)
  show ?thesis
    using eff(2,3) v same unfolding half_value_def eff(1) [of q] ac
    by (auto simp: nth_list_update ne)
qed

lemma for_each_append: "for_each (xs @ ys) f = thenE (for_each xs f) (for_each ys f)"
  by (induction xs) (simp_all add: thenE_def bindE_def ret_def fun_eq_iff split: option.split prod.split result.split)

lemma for_each_map: "for_each (map g xs) f = for_each xs (\<lambda>x. f (g x))"
  by (induction xs) simp_all

lemma for_each_product:
  "for_each xs (\<lambda>x. for_each ys (f x)) = for_each (List.product xs ys) (\<lambda>(x, y). f x y)"
  by (induction xs) (simp_all add: for_each_append for_each_map)

lemma thenE_Some_Ok:
  assumes "thenE m k s = Some (Ok b, t)"
  obtains u where "m s = Some (Ok (), u)" and "k u = Some (Ok b, t)"
  using assms by (auto simp: thenE_def elim!: bindE_SomeE)

lemma half_values_written:
  assumes "for_each ps (\<lambda>(a, c). write_trim_or_offset_channel io op a c v g) b = Some (Ok u, b')"
    and "op \<in> {OpSetTrim, OpSetOffset}" and "v \<le> 0x0FFF"
  shows "half_value q b' ac = (if trim_op q = trim_op op \<and> ac \<in> set ps then v else half_value q b ac)"
  using assms(1)
proof (induction ps arbitrary: b)
  case Nil
  then show ?case by (simp add: ret_def)
next
  case (Cons p ps)
  obtain a c where p: "p = (a, c)" by (cases p)
  from Cons.prems obtain m where m: "write_trim_or_offset_channel io op a c v g b = Some (Ok (), m)"
    and rest: "for_each ps (\<lambda>(a, c). write_trim_or_offset_channel io op a c v g) m = Some (Ok u, b')"
    by (auto simp: p elim: thenE_Some_Ok)
  show ?case
    using Cons.IH [OF rest] half_value_written [OF m assms(2,3), of q ac] by (auto simp: p)
qed

lemma thenE_ret: "thenE m (ret ()) = m"
  by (rule ext) (simp add: thenE_def bindE_def ret_def split: option.split prod.split result.split)

lemma halves_stay_wf:
  assumes "for_each ps (\<lambda>(a, c). write_trim_or_offset_channel io op a c v g) b = Some (Ok u, b')"
    and "op \<in> {OpSetTrim, OpSetOffset}" and "wf_halves (halves_of q b)"
  shows "wf_halves (halves_of q b')"
  using assms(1,3)
proof (induction ps arbitrary: b)
  case Nil
  then show ?case by (simp add: ret_def)
next
  case (Cons p ps)
  obtain a c where p: "p = (a, c)" by (cases p)
  from Cons.prems(1) obtain m where m: "write_trim_or_offset_channel io op a c v g b = Some (Ok (), m)"
    and rest: "for_each ps (\<lambda>(a, c). write_trim_or_offset_channel io op a c v g) m = Some (Ok u, b')"
    by (auto simp: p elim: thenE_Some_Ok)
  note eff = write_half_effect [OF m assms(2)]
  have "halves_of q b = halves_of op b" if "trim_op q = trim_op op"
    using that assms(2) by (auto simp: halves_of_def trim_op_def)
  then have "wf_halves (halves_of q m)"
    using eff(2) Cons.prems(2) unfolding eff(1) [of q]
    by (auto intro!: fake.wf_halves_update simp: wf_halves_def [of "halves_of op b"])
  with rest show ?case by (rule Cons.IH)
qed

lemma read_half_value:
  assumes "wf_halves (halves_of rd b)" and "rd \<in> {OpReadTrim, OpReadOffset}"
    and "a < AFE_COUNT" and "k < CHANNELS_PER_AFE"
  shows "read_trim_or_offset_channel rd a k b = Some (Ok (ucast (half_value rd b (a, k))), b)"
proof -
  have "unat a < 5" and "unat k < 8" using assms(3,4) by (simp_all add: less_count_unat)
  moreover have "\<not> CHANNELS_PER_AFE \<le> k" using assms(4) by simp
  ultimately show ?thesis
    using assms(1-3)
    by (auto simp: validate_afe_eq read_trim_or_offset_channel_def thenE_def bindE_def liftR_def gets_def indexE_def
        ret_def half_value_def halves_of_def wf_halves_def)
qed

lemma write_channel_scalar_Ok:
  assumes "mmio_write_channel_scalar io c b = Some (Ok x, b')"
  obtains v where "ucast v = wc_value c" and "v \<le> 0x0FFF" and "x = wc_value c"
    and "for_each (selected_channels c)
           (\<lambda>(a, k). write_trim_or_offset_channel io (wc_op c) a k v (wc_flags c \<noteq> 0)) b = Some (Ok (), b')"
proof -
  from assms obtain v where v: "v \<le> 0x0FFF" "ucast v = wc_value c" and x: "x = wc_value c"
    and body: "(case wc_target c of
         TgtChannel \<Rightarrow> write_trim_or_offset_channel io (wc_op c) (wc_afe_pl c) (wc_afe_channel c) v (wc_flags c \<noteq> 0)
       | TgtAfe \<Rightarrow>
           thenE (liftR (validate_afe (wc_afe_pl c)))
           (for_each channel_range (\<lambda>afe_channel.
              write_trim_or_offset_channel io (wc_op c) (wc_afe_pl c) afe_channel v (wc_flags c \<noteq> 0)))
       | TgtAll \<Rightarrow>
           for_each afe_range (\<lambda>afe_pl. for_each channel_range (\<lambda>afe_channel.
             write_trim_or_offset_channel io (wc_op c) afe_pl afe_channel v (wc_flags c \<noteq> 0)))
       | TgtNone \<Rightarrow> raise MmioUnsupported) b = Some (Ok (), b')"
    by (auto simp: mmio_write_channel_scalar_def Let_def liftR_def ret_def
        elim!: bindE_SomeE thenE_Some_Ok dest: require_12bit_Ok)
  have "for_each (selected_channels c)
      (\<lambda>(a, k). write_trim_or_offset_channel io (wc_op c) a k v (wc_flags c \<noteq> 0)) b = Some (Ok (), b')"
    using body
    by (cases "wc_target c")
       (auto simp: selected_channels_def for_each_map for_each_product raise_def liftR_def
         thenE_ret elim!: thenE_Some_Ok)
  with v x that show ?thesis by simp
qed

text \<open>C25: setting trims or offsets of one channel, of an AFE or of the whole board and reading them
  back: every selected channel reads the value written, every other channel, and the other of the
  two kinds on all channels, reads what it read before.\<close>

theorem channel_write_read:
  assumes "mmio_write_channel_scalar io c b = Some (Ok x, b')" and "wf_backend b"
    and "wc_op c \<in> {OpSetTrim, OpSetOffset}" and "rd \<in> {OpReadTrim, OpReadOffset}"
    and "a < AFE_COUNT" and "k < CHANNELS_PER_AFE"
  shows "x = wc_value c
    \<and> read_trim_or_offset_channel rd a k b' =
        (if trim_op rd = trim_op (wc_op c) \<and> (a, k) \<in> set (selected_channels c)
         then Some (Ok (wc_value c), b')
         else map_option (map_prod id (\<lambda>_. b')) (read_trim_or_offset_channel rd a k b))"
proof -
  obtain v where v: "ucast v = wc_value c" "v \<le> 0x0FFF" and x: "x = wc_value c"
    and run: "for_each (selected_channels c)
           (\<lambda>(a, k). write_trim_or_offset_channel io (wc_op c) a k v (wc_flags c \<noteq> 0)) b = Some (Ok (), b')"
    by (rule write_channel_scalar_Ok [OF assms(1)])
  have wf: "wf_halves (halves_of rd b)"
    using assms(2) by (simp add: halves_of_def wf_backend_def)
  note wf' = halves_stay_wf [OF run assms(3) wf]
  show ?thesis
    using half_values_written [OF run assms(3) v(2), of rd "(a, k)"] v(1) x
    by (simp add: read_half_value [OF wf assms(4-6)] read_half_value [OF wf' assms(4-6)])
qed

theorem channel_write_read_witness:
  "\<exists>x b'. mmio_write_channel_scalar fake_register_io
        ((wire_status 1)\<lparr>wc_op := OpSetTrim, wc_target := TgtAfe, wc_afe_pl := 3, wc_value := 0x123\<rparr>)
        (backend_with_config default_fake_io \<lparr>mc_spin_limit = 1\<rparr>) = Some (Ok x, b')
     \<and> read_trim_or_offset_channel OpReadTrim 3 6 b' = Some (Ok 0x123 :: (u32, unit mmio_afe_error) result, b')"
proof -
  let ?b = "backend_with_config default_fake_io \<lparr>mc_spin_limit = 1\<rparr>"
  let ?c = "(wire_status 1)\<lparr>wc_op := OpSetTrim, wc_target := TgtAfe, wc_afe_pl := 3, wc_value := 0x123\<rparr>"
  have wf: "wf_backend ?b"
    using fake.inv_with_config [of default_fake_io] by simp
  have "map_option (is_ok \<circ> fst) (mmio_write_channel_scalar fake_register_io ?c ?b) = Some True"
    by code_simp
  then obtain x b' where w: "mmio_write_channel_scalar fake_register_io ?c ?b = Some (Ok x, b')"
    by (rule evaluates_ok)
  have "(3, 6) \<in> set (selected_channels ?c)" by (simp add: selected_channels_def channel_range_def)
  with channel_write_read [OF w wf, of OpReadTrim 3 6] w show ?thesis
    by (auto simp: AFE_COUNT_def CHANNELS_PER_AFE_def trim_op_def)
qed

end
