(* ===== verification/MmioWindow.thy ===== *)
theory MmioWindow
  imports MmioChannels
begin

text \<open>
  What the memory-mapped backend puts on the window, in order: the words of a chip register
  transaction, the pair word of a trim or offset, the words of a DAC route, and the control bit
  that the alignment restores.  The locale \<open>logging_window\<close> states what a log of the writes
  is; it is interpreted on the window of the unit tests and on any window with a log added.
\<close>

section \<open>Windows with a log\<close>

text \<open>Any window with a log of the writes that succeeded.\<close>

definition traced :: "('i, 'e) register_io \<Rightarrow> ('i \<times> (u32 \<times> u32) list, 'e) register_io" where
  "traced io =
     \<lparr>io_read32 = (\<lambda>offset (i, log). case io_read32 io offset i of
        None \<Rightarrow> None | Some (r, i') \<Rightarrow> Some (r, (i', log))),
      io_write32 = (\<lambda>offset v (i, log). case io_write32 io offset v i of
        None \<Rightarrow> None
      | Some (r, i') \<Rightarrow> Some (r, (i', if is_ok r then log @ [(offset, v)] else log)))\<rparr>"

text \<open>The word of a trim or offset carries both halves of the pair as they are cached afterwards.\<close>

definition cached_pair :: "u16 list \<Rightarrow> u8 \<Rightarrow> u32" where
  "cached_pair hs c = dac_pair_word (hs ! (unat c mod 4)) (hs ! (unat c mod 4 + 4))"

lemma companion_index:
  assumes "dac_companion_channel c = Some k"
  shows "if dac_channel_is_high_half c then unat k = unat c mod 4 \<and> unat c = unat c mod 4 + 4
    else unat c = unat c mod 4 \<and> unat k = unat c mod 4 + 4"
proof -
  from companion_pairs [OF assms] have "c < 8" by (simp add: CHANNELS_PER_AFE_def)
  from word_less_8_cases [OF this] show ?thesis
    using assms
    by (elim disjE) (simp_all add: dac_companion_channel_def dac_channel_is_high_half_def
        word_le_nat_alt word_less_nat_alt)
qed

locale logging_window =
  fixes io :: "('i, 'e) register_io" and log :: "'i \<Rightarrow> (u32 \<times> u32) list"
  assumes read_silent: "io_read32 io offset i = Some (r, i') \<Longrightarrow> log i' = log i"
    and write_logged: "io_write32 io offset v i = Some (u, i') \<Longrightarrow>
      log i' = log i @ (if is_ok u then [(offset, v)] else [])"
begin

abbreviation wlog :: "'i afe_mmio_backend \<Rightarrow> (u32 \<times> u32) list" where
  "wlog b \<equiv> log (mb_io b)"

lemma mmio_read_log: "mmio_read io offset b = Some (r, b') \<Longrightarrow> wlog b' = wlog b"
  by (auto simp: mmio_read_def map_errE_def zoom_def dest: read_silent split: option.splits)

lemma mmio_write_log:
  "mmio_write io offset v b = Some (r, b') \<Longrightarrow>
   wlog b' = wlog b @ (if is_ok r then [(offset, v)] else [])"
  by (auto simp: mmio_write_def map_errE_def zoom_def is_ok_def map_err_def dest!: write_logged
      split: option.splits result.splits)

lemma spin_log: "spin io offset ready n b = Some (r, b') \<Longrightarrow> wlog b' = wlog b"
proof (induction n arbitrary: b)
  case (Suc n)
  from Suc.prems show ?case
    by (auto simp: ret_def elim!: bindE_SomeE dest!: mmio_read_log Suc.IH split: if_splits)
qed (simp add: raise_def)

lemma spin_on_log: "spin_on io offset ready b = Some (r, b') \<Longrightarrow> wlog b' = wlog b"
  by (auto simp: spin_on_def gets_def elim!: bindE_SomeE dest: spin_log)

lemma afe_wait_log: "wait_afe_ready io b = Some (r, b') \<Longrightarrow> wlog b' = wlog b"
  unfolding wait_afe_ready_def by (rule spin_on_log)

lemma dac_wait_log: "wait_dac_ready io b = Some (r, b') \<Longrightarrow> wlog b' = wlog b"
  unfolding wait_dac_ready_def by (rule spin_on_log)

lemma set_bit_log:
  assumes "set_bit_at io offset k on b = Some (r, b')"
  shows "\<exists>v. wlog b' = wlog b @
    (if is_ok r then [(offset, if on then v OR push_bit (unat k) 1 else v AND NOT (push_bit (unat k) 1))]
     else [])"
  using assms
  by (auto simp: set_bit_at_def Let_def elim!: bindE_SomeE dest!: mmio_read_log mmio_write_log
      split: if_splits)

text \<open>The words of a chip register transaction.\<close>

lemma write_register_log:
  assumes "mmio_write_register io a reg v b = Some (r, b')"
    and "afe_control_offset a = Some offset" and "v \<le> 0xFFFF"
  shows "\<exists>n. wlog b' = wlog b @ take n
      [(offset, afe_register_word reg (ucast v)), (offset, AFE_SPI_TRIGGER_WORD),
       (offset, afe_register_address_word reg), (offset, AFE_SPI_IDLE_WORD)]
    \<and> (is_ok r \<longrightarrow> n = 4)"
  using assms
  by (auto simp: mmio_write_register_def mmio_require_u16_def liftR_def thenE_def ret_def
      elim!: bindE_SomeE dest!: afe_wait_log mmio_read_log mmio_write_log
      intro: exI [of _ 0] exI [of _ 1] exI [of _ 2] exI [of _ 3] exI [of _ 4])

lemma read_register_log:
  assumes "mmio_read_register io a reg b = Some (r, b')" and "afe_control_offset a = Some offset"
  shows "\<exists>n. wlog b' = wlog b @ take n
      [(offset, AFE_SPI_TRIGGER_WORD), (offset, afe_register_address_word reg),
       (offset, AFE_SPI_IDLE_WORD)]
    \<and> (is_ok r \<longrightarrow> n = 3)"
  using assms
  by (auto simp: mmio_read_register_def liftR_def thenE_def ret_def
      elim!: bindE_SomeE dest!: afe_wait_log mmio_read_log mmio_write_log
      intro: exI [of _ 0] exI [of _ 1] exI [of _ 2] exI [of _ 3])

text \<open>The words of a DAC route: the value, then the start bit raised and lowered.\<close>

lemma write_dac_route_log:
  assumes "write_dac_route io route v b = Some (Ok u, b')"
  shows "\<exists>x y. wlog b' = wlog b @
      [(dac_gain_bias_offset (route_chip route), dac_gain_bias_word route v),
       (DAC_GAIN_BIAS_CONTROL_OFFSET, x OR push_bit (unat DAC_GO_BIT) 1),
       (DAC_GAIN_BIAS_CONTROL_OFFSET, y AND NOT (push_bit (unat DAC_GO_BIT) 1))]"
  using assms
  by (auto simp: write_dac_route_def trigger_dac_def thenE_def
      elim!: bindE_SomeE dest!: dac_wait_log mmio_write_log set_bit_log)

lemma afe_wait_effect:
  assumes "wait_afe_ready io b = Some (r, b')"
  shows "\<exists>i. b' = b\<lparr>mb_io := i\<rparr> \<and> log i = wlog b"
  using device_only_ex [OF device_only_waits(1) assms] afe_wait_log [OF assms] by auto

lemma mmio_write_effect:
  assumes "mmio_write io offset v b = Some (r, b')"
  shows "\<exists>i. b' = b\<lparr>mb_io := i\<rparr> \<and> log i = wlog b @ (if is_ok r then [(offset, v)] else [])"
  using device_only_ex [OF device_only_access(2) assms] mmio_write_log [OF assms] by auto

lemma pair_write_log:
  assumes "write_trim_or_offset_channel io op a c v g b = Some (Ok u, b')"
    and "op \<in> {OpSetTrim, OpSetOffset}"
  shows "\<exists>offset. (if op = OpSetTrim then afe_dac_trim_offset a else afe_dac_offset_offset a) = Some offset
    \<and> wlog b' = wlog b @ [(offset, cached_pair (halves_of op b' ! unat a) c)]"
proof -
  have idx: "unat k \<noteq> unat c" if "dac_companion_channel c = Some k" for k
    using companion_index [OF that] by (auto split: if_splits)
  have pair: "(if dac_channel_is_high_half c then dac_pair_word (hs[unat c := h] ! unat k) h
      else dac_pair_word h (hs[unat c := h] ! unat k)) = cached_pair (hs[unat c := h]) c"
    if "dac_companion_channel c = Some k" "unat c < length hs" for k hs h
    using companion_index [OF that(1)] that(2)
    by (auto simp: cached_pair_def split: if_splits)
  have half: "b' = put ((get b)[j := (get b ! j)[n := h]]) b \<and> j < length (get b) \<and> n < length (get b ! j)
      \<and> w = (get b ! j)[n := h] ! m"
    if "update_half get put j n m h b = Some (Ok w, b')" for get put j n m h b b' and w
    using update_half_Some [OF that refl] .
  show ?thesis
    using assms
    by (auto simp: write_trim_or_offset_channel_def thenE_def liftR_def Let_def halves_of_def pair [symmetric]
        elim!: bindE_SomeE dest!: afe_wait_effect mmio_write_effect half split: if_splits)
qed

end

interpretation tr: logging_window "traced io" snd for io
  by unfold_locales (auto simp: traced_def split: prod.splits option.splits)

interpretation fake_log: logging_window fake_register_io fi_writes
  by unfold_locales (auto simp: fake_register_io_def split: if_splits)

definition trace :: "('i \<times> (u32 \<times> u32) list) afe_mmio_backend \<Rightarrow> (u32 \<times> u32) list" where
  "trace b = snd (mb_io b)"

section \<open>Words on the window\<close>

text \<open>C27: a chip register write puts its four words on the AFE's control offset in order (data,
  trigger, address, idle) and nothing else; when it fails, it has put a prefix of them.\<close>

theorem register_write_words:
  assumes "mmio_write_register (traced io) a reg v b = Some (r, b')"
    and "afe_control_offset a = Some offset" and "v \<le> 0xFFFF"
  shows "\<exists>n. trace b' = trace b @ take n
      [(offset, afe_register_word reg (ucast v)), (offset, AFE_SPI_TRIGGER_WORD),
       (offset, afe_register_address_word reg), (offset, AFE_SPI_IDLE_WORD)]
    \<and> (is_ok r \<longrightarrow> n = 4)"
  unfolding trace_def by (rule tr.write_register_log [OF assms])

theorem register_write_words_witness:
  "\<exists>x b'. mmio_write_register (traced fake_register_io) 4 3 0x1234
        (backend_with_config (default_fake_io, []) \<lparr>mc_spin_limit = 1\<rparr>) = Some (Ok x, b')
     \<and> trace b' = [(0x34, 0x00031234), (0x34, 2), (0x34, 0x00030000), (0x34, 0)]"
proof -
  let ?b = "backend_with_config (default_fake_io, []) \<lparr>mc_spin_limit = 1\<rparr>"
  have "map_option (is_ok \<circ> fst) (mmio_write_register (traced fake_register_io) 4 3 0x1234 ?b) = Some True"
    by code_simp
  then obtain x b' where w: "mmio_write_register (traced fake_register_io) 4 3 0x1234 ?b = Some (Ok x, b')"
    by (rule evaluates_ok)
  have "afe_control_offset 4 = Some 0x34" by code_simp
  from register_write_words [OF w this] w show ?thesis
    by (auto simp: trace_def backend_with_config_def afe_register_word_def afe_register_address_word_def
        AFE_SPI_TRIGGER_WORD_def AFE_SPI_IDLE_WORD_def)
qed

text \<open>C28: an accepted gain or bias value goes to the DAC chip and output of the front end's route,
  followed by raising and lowering the start bit of the DAC control, and nothing else.\<close>

theorem scalar_write_words:
  assumes "mmio_write_scalar (traced io) op a v b = Some (Ok w, b')"
    and "op \<in> {OpSetAttenuation, OpSetBias}"
  shows "\<exists>x y. let route = (if op = OpSetAttenuation then AFE_GAIN_DAC_ROUTES else AFE_BIAS_DAC_ROUTES) ! unat a
    in trace b' = trace b @
      [(dac_gain_bias_offset (route_chip route), dac_gain_bias_word route (ucast v)),
       (DAC_GAIN_BIAS_CONTROL_OFFSET, x OR 2), (DAC_GAIN_BIAS_CONTROL_OFFSET, y AND NOT 2)]"
proof -
  have r12: "w12 = ucast v" if "require_12bit v = Ok w12" for w12
    using that by (simp add: require_12bit_def split: if_splits)
  show ?thesis
    using assms
    by (auto simp: trace_def Let_def mmio_write_scalar_def thenE_def liftR_def indexE_def ret_def panic_def
        put_attenuation_def put_bias_def put_at_def DAC_GO_BIT_def
        elim!: bindE_SomeE dest!: tr.write_dac_route_log r12 split: if_splits)
       blast+
qed

theorem scalar_write_words_witness:
  "\<exists>w b' x y. mmio_write_scalar (traced fake_register_io) OpSetAttenuation 4 0x0555
        (backend_with_config (default_fake_io, []) \<lparr>mc_spin_limit = 1\<rparr>) = Some (Ok w, b')
     \<and> trace b' = [(0x0C00000C, 0x4555), (0x0C000000, x OR 2), (0x0C000000, y AND NOT 2)]"
proof -
  let ?b = "backend_with_config (default_fake_io, []) \<lparr>mc_spin_limit = 1\<rparr>"
  have "map_option (is_ok \<circ> fst) (mmio_write_scalar (traced fake_register_io) OpSetAttenuation 4 0x0555 ?b) = Some True"
    by code_simp
  then obtain w b' where w: "mmio_write_scalar (traced fake_register_io) OpSetAttenuation 4 0x0555 ?b = Some (Ok w, b')"
    by (rule evaluates_ok)
  have "dac_gain_bias_offset (route_chip (AFE_GAIN_DAC_ROUTES ! unat (4 :: u8))) = 0x0C00000C"
    "dac_gain_bias_word (AFE_GAIN_DAC_ROUTES ! unat (4 :: u8)) (ucast (0x0555 :: u32)) = 0x4555"
    by code_simp+
  with scalar_write_words [OF w] w show ?thesis
    by (auto simp: trace_def backend_with_config_def DAC_GAIN_BIAS_CONTROL_OFFSET_def)
qed

text \<open>C26: an accepted trim or offset puts one word on the AFE's trim or offset register, and that word
  carries both halves of the channel's pair as they are cached afterwards, so the companion keeps
  its setting.\<close>

theorem trim_write_word:
  assumes "write_trim_or_offset_channel (traced io) op a c v g b = Some (Ok u, b')"
    and "op \<in> {OpSetTrim, OpSetOffset}"
  shows "\<exists>offset. (if op = OpSetTrim then afe_dac_trim_offset a else afe_dac_offset_offset a) = Some offset
    \<and> trace b' = trace b @ [(offset, cached_pair (halves_of op b' ! unat a) c)]"
  unfolding trace_def by (rule tr.pair_write_log [OF assms])

theorem trim_write_word_witness:
  "\<exists>b' w. write_trim_or_offset_channel (traced fake_register_io) OpSetTrim 4 6 0x123 True
        (backend_with_config (default_fake_io, []) \<lparr>mc_spin_limit = 1\<rparr>) = Some (Ok (), b')
     \<and> trace b' = [(0x38, w)]"
proof -
  let ?b = "backend_with_config (default_fake_io, []) \<lparr>mc_spin_limit = 1\<rparr>"
  have "map_option (is_ok \<circ> fst)
      (write_trim_or_offset_channel (traced fake_register_io) OpSetTrim 4 6 0x123 True ?b) = Some True"
    by code_simp
  then obtain u b' where w: "write_trim_or_offset_channel (traced fake_register_io) OpSetTrim 4 6 0x123 True ?b
      = Some (Ok u, b')"
    by (rule evaluates_ok)
  have "afe_dac_trim_offset 4 = Some 0x38" by code_simp
  with trim_write_word [OF w] w show ?thesis
    by (auto simp: trace_def backend_with_config_def)
qed

end
