(* ===== verification/MmioAlign.thy ===== *)
theory MmioAlign
  imports MmioWindow
begin

text \<open>
  The alignment of the front ends (\<open>align_frontend\<close> in \<open>mmio.rs\<close>): the delay scan picks the
  centre of a longest run of equal frame-clock words, the bitslip scan the first tap that shows
  the expected word, and the delay control is enabled again unless its reset times out.
\<close>

section \<open>Longest runs\<close>

text \<open>The \<open>n\<close> words from position \<open>i\<close> on are all the same.\<close>

definition constant_run :: "u32 list \<Rightarrow> nat \<Rightarrow> nat \<Rightarrow> bool" where
  "constant_run ws i n \<longleftrightarrow> i + n \<le> length ws \<and> (\<forall>m < n. ws ! (i + m) = ws ! i)"

definition longest_run :: "u32 list \<Rightarrow> nat \<Rightarrow> nat \<Rightarrow> bool" where
  "longest_run ws i n \<longleftrightarrow>
     0 < n \<and> constant_run ws i n \<and> (\<forall>j k. constant_run ws j k \<longrightarrow> k \<le> n)"

text \<open>The loop of the scan on the words it reads.\<close>

definition scan_words :: "(u32 \<times> u32) list \<Rightarrow> delay_scan \<Rightarrow> delay_scan" where
  "scan_words tws d = foldl (\<lambda>d (tap, word). delay_scan_step tap word d) d tws"

text \<open>What the scan knows after \<open>k\<close> words.\<close>

definition scan_inv :: "u32 list \<Rightarrow> nat \<Rightarrow> delay_scan \<Rightarrow> bool" where
  "scan_inv ws k d \<longleftrightarrow>
     (let cs = unat (ds_current_start d); cl = unat (ds_current_len d);
          bs = unat (ds_best_start d); bl = unat (ds_best_len d) in
      ds_have_previous d \<and> cs + cl = k \<and> 0 < cl
      \<and> (\<forall>m. cs \<le> m \<longrightarrow> m < k \<longrightarrow> ws ! m = ds_previous_word d)
      \<and> (0 < cs \<longrightarrow> ws ! (cs - 1) \<noteq> ds_previous_word d)
      \<and> (0 < bl \<longrightarrow> constant_run ws bs bl)
      \<and> (\<forall>i n. constant_run ws i n \<longrightarrow> i + n \<le> k \<longrightarrow> n \<le> bl \<or> cs \<le> i))"

lemma scan_inv_close:
  assumes "scan_inv ws k d" and "k \<le> length ws"
  shows "0 < unat (ds_best_len (delay_scan_close d))"
    and "constant_run ws (unat (ds_best_start (delay_scan_close d))) (unat (ds_best_len (delay_scan_close d)))"
    and "constant_run ws i n \<Longrightarrow> i + n \<le> k \<Longrightarrow> n \<le> unat (ds_best_len (delay_scan_close d))"
proof -
  have run: "constant_run ws (unat (ds_current_start d)) (unat (ds_current_len d))"
    using assms by (auto simp: scan_inv_def Let_def constant_run_def)
  show "0 < unat (ds_best_len (delay_scan_close d))"
    using assms by (auto simp: scan_inv_def Let_def delay_scan_close_def word_less_nat_alt)
  show "constant_run ws (unat (ds_best_start (delay_scan_close d))) (unat (ds_best_len (delay_scan_close d)))"
    using assms run by (auto simp: scan_inv_def Let_def delay_scan_close_def word_less_nat_alt)
  show "n \<le> unat (ds_best_len (delay_scan_close d))" if "constant_run ws i n" "i + n \<le> k"
  proof -
    have "n \<le> unat (ds_best_len d) \<or> unat (ds_current_start d) \<le> i"
      using assms(1) that by (auto simp: scan_inv_def Let_def)
    then have "n \<le> unat (ds_best_len d) \<or> n \<le> unat (ds_current_len d)"
      using assms(1) that(2) by (auto simp: scan_inv_def Let_def)
    then show ?thesis by (auto simp: delay_scan_close_def word_less_nat_alt)
  qed
qed

lemma constant_run_mono: "constant_run ws i n \<Longrightarrow> m \<le> n \<Longrightarrow> constant_run ws i m"
  by (auto simp: constant_run_def)

lemma constant_run_adjacent:
  assumes "constant_run ws i n" and "i \<le> m" and "Suc m < i + n"
  shows "ws ! m = ws ! Suc m"
proof -
  have eq: "ws ! (i + j) = ws ! i" if "j < n" for j
    using assms(1) that by (simp add: constant_run_def)
  have "ws ! (i + (m - i)) = ws ! i" by (rule eq) (use assms in linarith)
  moreover have "ws ! (i + (Suc m - i)) = ws ! i" by (rule eq) (use assms in linarith)
  ultimately show ?thesis using assms(2) by simp
qed

lemma scan_inv_first:
  "0 < length ws \<Longrightarrow> scan_inv ws 1 (delay_scan_step 0 (ws ! 0) delay_scan_init)"
  by (auto simp: scan_inv_def Let_def delay_scan_step_def delay_scan_init_def delay_scan_close_def
      constant_run_def)

lemma scan_inv_step:
  assumes inv: "scan_inv ws k d" and k: "k < length ws" "k < 512"
  shows "scan_inv ws (Suc k) (delay_scan_step (word_of_nat k) (ws ! k) d)"
proof (cases "ws ! k = ds_previous_word d")
  case True
  let ?cs = "unat (ds_current_start d)" and ?bl = "unat (ds_best_len d)"
  have "unat (ds_current_len d) \<le> k" using inv by (simp add: scan_inv_def Let_def)
  then have len: "unat (ds_current_len d + 1) = unat (ds_current_len d) + 1"
    using k by (simp add: unat_word_ariths)
  have run: "n \<le> ?bl \<or> ?cs \<le> i" if r: "constant_run ws i n" and "i + n \<le> Suc k" for i n
  proof (cases "i + n \<le> k")
    case True
    with r inv show ?thesis by (auto simp: scan_inv_def Let_def)
  next
    case False
    show ?thesis
    proof (rule ccontr)
      assume *: "\<not> (n \<le> ?bl \<or> ?cs \<le> i)"
      then have "ws ! (?cs - 1) = ws ! Suc (?cs - 1)"
        using False inv by (intro constant_run_adjacent [OF r]) (auto simp: scan_inv_def Let_def)
      moreover have "ws ! Suc (?cs - 1) = ds_previous_word d" and "ws ! (?cs - 1) \<noteq> ds_previous_word d"
        using * inv by (auto simp: scan_inv_def Let_def)
      ultimately show False by simp
    qed
  qed
  from True inv run show ?thesis
    by (auto simp: scan_inv_def Let_def delay_scan_step_def len less_Suc_eq)
next
  case False
  let ?d = "delay_scan_close d"
  note close = scan_inv_close [OF inv less_imp_le [OF k(1)]]
  have kk: "unat (word_of_nat k :: u32) = k" using k(2) by (simp add: unat_of_nat)
  have last: "ws ! (k - 1) = ds_previous_word d" and "0 < k"
    using inv by (auto simp: scan_inv_def Let_def)
  have run: "n \<le> unat (ds_best_len ?d) \<or> k \<le> i" if r: "constant_run ws i n" and "i + n \<le> Suc k" for i n
  proof (cases "i + n \<le> k")
    case True
    with r close(3) show ?thesis by blast
  next
    case False': False
    show ?thesis
    proof (rule ccontr)
      assume "\<not> (n \<le> unat (ds_best_len ?d) \<or> k \<le> i)"
      then have "ws ! (k - 1) = ws ! Suc (k - 1)"
        using False' \<open>0 < k\<close> by (intro constant_run_adjacent [OF r]) auto
      with last \<open>0 < k\<close> False show False by simp
    qed
  qed
  have step: "delay_scan_step (word_of_nat k) (ws ! k) d = ?d\<lparr>ds_current_start := word_of_nat k,
      ds_current_len := 1, ds_previous_word := ws ! k, ds_have_previous := True\<rparr>"
    using False by (simp add: delay_scan_step_def)
  show ?thesis
    unfolding step using close(2) run last False \<open>0 < k\<close>
    by (auto simp: scan_inv_def Let_def kk less_Suc_eq)
qed

lemma scan_words_snoc: "scan_words (tws @ [tw]) d = delay_scan_step (fst tw) (snd tw) (scan_words tws d)"
  by (simp add: scan_words_def split: prod.split)

lemma scan_inv_words:
  assumes "0 < k" and "k \<le> length ws" and "k \<le> 512"
  shows "scan_inv ws k (scan_words (map (\<lambda>i. (word_of_nat i, ws ! i)) [0..<k]) delay_scan_init)"
  using assms
proof (induction k)
  case (Suc k)
  show ?case
  proof (cases "k = 0")
    case True
    then show ?thesis using Suc.prems scan_inv_first [of ws] by (cases ws) (simp_all add: scan_words_def)
  next
    case False
    with Suc have "scan_inv ws k (scan_words (map (\<lambda>i. (word_of_nat i, ws ! i)) [0..<k]) delay_scan_init)"
      by simp
    from scan_inv_step [OF this] Suc.prems show ?thesis
      by (simp add: scan_words_snoc)
  qed
qed simp

text \<open>The tap chosen from the words of a whole scan.\<close>

definition chosen_tap :: "u32 list \<Rightarrow> u32" where
  "chosen_tap ws =
     (let d = delay_scan_close (scan_words (zip delay_taps ws) delay_scan_init)
      in ds_best_start d + (ds_best_len d - 1) div 2)"

lemma delay_taps_512: "delay_taps = map word_of_nat [0..<512]"
  by (simp add: delay_taps_def FRONTEND_DELAY_TAPS_def)

lemma chosen_tap_centre:
  assumes "length ws = 512"
  shows "\<exists>i n. longest_run ws i n \<and> unat (chosen_tap ws) = i + (n - 1) div 2 \<and> i + n \<le> 512"
    and "ds_best_len (delay_scan_close (scan_words (zip delay_taps ws) delay_scan_init)) \<noteq> 0"
proof -
  let ?d = "scan_words (zip delay_taps ws) delay_scan_init"
  let ?i = "unat (ds_best_start (delay_scan_close ?d))" and ?n = "unat (ds_best_len (delay_scan_close ?d))"
  have zip: "zip delay_taps ws = map (\<lambda>i. (word_of_nat i, ws ! i)) [0..<512]"
    using assms by (intro nth_equalityI) (simp_all add: delay_taps_512)
  have inv: "scan_inv ws 512 ?d"
    unfolding zip using assms by (intro scan_inv_words) simp_all
  note close = scan_inv_close [OF inv, unfolded assms, OF order_refl]
  have run: "longest_run ws ?i ?n"
    using close assms by (auto simp: longest_run_def constant_run_def)
  then have le: "?i + ?n \<le> 512" using assms by (simp add: longest_run_def constant_run_def)
  show pos: "ds_best_len (delay_scan_close ?d) \<noteq> 0" using close(1) by auto
  have "1 \<le> ds_best_len (delay_scan_close ?d)" using close(1) by (simp add: word_le_nat_alt)
  then have "unat ((ds_best_len (delay_scan_close ?d) - 1) div 2) = (?n - 1) div 2"
    by (simp add: unat_div unat_sub)
  then have "unat (chosen_tap ws) = ?i + (?n - 1) div 2"
    using le by (simp add: chosen_tap_def Let_def unat_word_ariths)
  with run le show "\<exists>i n. longest_run ws i n \<and> unat (chosen_tap ws) = i + (n - 1) div 2 \<and> i + n \<le> 512"
    by blast
qed

section \<open>The accesses of a scan\<close>

datatype access = Rd u32 u32 | Wr u32 u32

text \<open>Any window with a log of the accesses that succeeded, reads with the value returned.\<close>

definition recorded :: "('i, 'e) register_io \<Rightarrow> ('i \<times> access list, 'e) register_io" where
  "recorded io =
     \<lparr>io_read32 = (\<lambda>offset (i, log). case io_read32 io offset i of
        None \<Rightarrow> None
      | Some (Ok v, i') \<Rightarrow> Some (Ok v, (i', log @ [Rd offset v]))
      | Some (Err e, i') \<Rightarrow> Some (Err e, (i', log))),
      io_write32 = (\<lambda>offset v (i, log). case io_write32 io offset v i of
        None \<Rightarrow> None
      | Some (Ok u, i') \<Rightarrow> Some (Ok u, (i', log @ [Wr offset v]))
      | Some (Err e, i') \<Rightarrow> Some (Err e, (i', log)))\<rparr>"

definition record_of :: "('i \<times> access list) afe_mmio_backend \<Rightarrow> access list" where
  "record_of b = snd (mb_io b)"

lemma recorded_read:
  "mmio_read (recorded io) offset b = Some (r, b') \<Longrightarrow>
   (\<exists>v. r = Ok v \<and> record_of b' = record_of b @ [Rd offset v])
   \<or> (\<exists>e. r = Err (MmioIo e) \<and> record_of b' = record_of b)"
  by (auto simp: mmio_read_def map_errE_def zoom_def recorded_def record_of_def
      split: option.splits prod.splits result.splits)

lemma recorded_write:
  "mmio_write (recorded io) offset v b = Some (r, b') \<Longrightarrow>
   r = Ok () \<and> record_of b' = record_of b @ [Wr offset v]
   \<or> (\<exists>e. r = Err (MmioIo e) \<and> record_of b' = record_of b)"
  by (auto simp: mmio_write_def map_errE_def zoom_def recorded_def record_of_def
      split: option.splits prod.splits result.splits)

text \<open>The offsets of a front end.\<close>

lemma frontend_offsets:
  assumes "a < AFE_COUNT"
  obtains delay slip clock where "frontend_delay_offset a = Some delay"
    and "frontend_bitslip_offset a = Some slip" and "spy_buffer_frame_clock_offset a 0 = Some clock"
  using assms offset_Some_iff(4-6) [of a] by auto

lemma recorded_set_delay:
  assumes "set_frontend_delay (recorded io) a v b = Some (r, b')"
    and "frontend_delay_offset a = Some delay" and "v < 512"
  shows "r = Ok () \<and> record_of b' = record_of b @ [Wr delay v]
    \<or> (\<exists>e. r = Err (MmioIo e))"
  using assms
  by (auto simp: set_frontend_delay_def liftR_def FRONTEND_DELAY_TAPS_def raise_def
      elim!: bindE_SomeE dest!: recorded_write split: if_splits)

lemma recorded_set_bitslip:
  assumes "set_frontend_bitslip (recorded io) a v b = Some (r, b')"
    and "frontend_bitslip_offset a = Some slip" and "v < 16"
  shows "r = Ok () \<and> record_of b' = record_of b @ [Wr slip v]
    \<or> (\<exists>e. r = Err (MmioIo e))"
  using assms
  by (auto simp: set_frontend_bitslip_def liftR_def FRONTEND_BITSLIP_TAPS_def raise_def
      elim!: bindE_SomeE dest!: recorded_write split: if_splits)

lemma recorded_scan:
  assumes "scan_frontend_word_after_write (recorded io) a b = Some (r, b')"
    and "spy_buffer_frame_clock_offset a 0 = Some clock"
  shows "(\<exists>w. r = Ok w \<and> record_of b' = record_of b
        @ [Wr FRONTEND_TRIGGER_OFFSET FRONTEND_TRIGGER_WORD, Rd clock w])
    \<or> (\<exists>e. r = Err (MmioIo e))"
  using assms
  by (auto simp: scan_frontend_word_after_write_def trigger_frontend_snapshot_def read_frame_clock_def
      thenE_def liftR_def elim!: bindE_SomeE dest!: recorded_write recorded_read)

text \<open>Set a tap, take a snapshot, read the frame clock; once per tap.\<close>

definition scan_accesses :: "u32 \<Rightarrow> u32 \<Rightarrow> u32 list \<Rightarrow> u32 list \<Rightarrow> access list" where
  "scan_accesses tap_reg clock taps ws =
     concat (map (\<lambda>(t, w). [Wr tap_reg t, Wr FRONTEND_TRIGGER_OFFSET FRONTEND_TRIGGER_WORD, Rd clock w])
       (zip taps ws))"

lemma delay_scan_loop_record:
  assumes "delay_scan_loop (recorded io) a taps d b = Some (r, b')"
    and "frontend_delay_offset a = Some delay" and "spy_buffer_frame_clock_offset a 0 = Some clock"
    and "\<forall>t \<in> set taps. t < 512"
  shows "(\<exists>ws. length ws = length taps \<and> r = Ok (scan_words (zip taps ws) d)
      \<and> record_of b' = record_of b @ scan_accesses delay clock taps ws) \<or> (\<exists>e. r = Err (MmioIo e))"
  using assms(1,4)
proof (induction taps arbitrary: d b)
  case Nil
  then show ?case by (simp add: ret_def scan_words_def scan_accesses_def)
next
  case (Cons t taps)
  from Cons.prems show ?case
    unfolding delay_scan_loop.simps thenE_def
  proof (elim bindE_SomeE)
    fix e assume "set_frontend_delay (recorded io) a t b = Some (Err e, b')" and "r = Err e"
    with recorded_set_delay [OF _ assms(2)] Cons.prems(2) show ?thesis by fastforce
  next
    fix u b1 e assume "scan_frontend_word_after_write (recorded io) a b1 = Some (Err e, b')" and "r = Err e"
    with recorded_scan [OF _ assms(3)] show ?thesis by fastforce
  next
    fix u b1 w b2
    assume 1: "set_frontend_delay (recorded io) a t b = Some (Ok u, b1)"
      and 2: "scan_frontend_word_after_write (recorded io) a b1 = Some (Ok w, b2)"
      and 3: "delay_scan_loop (recorded io) a taps (delay_scan_step t w d) b2 = Some (r, b')"
    have r1: "record_of b1 = record_of b @ [Wr delay t]"
      using recorded_set_delay [OF 1 assms(2)] Cons.prems(2) by simp
    have r2: "record_of b2 = record_of b1 @ [Wr FRONTEND_TRIGGER_OFFSET FRONTEND_TRIGGER_WORD, Rd clock w]"
      using recorded_scan [OF 2 assms(3)] by auto
    have "\<forall>t \<in> set taps. t < 512" using Cons.prems(2) by simp
    from Cons.IH [OF 3 this] show ?thesis
    proof (elim disjE exE conjE, goal_cases)
      case (1 ws)
      then show ?case
        by (intro disjI1 exI [of _ "w # ws"]) (simp add: r1 r2 scan_words_def scan_accesses_def)
    qed blast
  qed
qed

lemma bitslip_scan_loop_record:
  assumes "bitslip_scan_loop (recorded io) a taps m b = Some (r, b')"
    and "frontend_bitslip_offset a = Some slip" and "spy_buffer_frame_clock_offset a 0 = Some clock"
    and "\<forall>t \<in> set taps. t < 16"
  shows "(\<exists>ws. length ws = length taps
      \<and> r = Ok (if m = None then map_option fst (find (\<lambda>(t, w). w = FRONTEND_EXPECTED_FCLK_WORD) (zip taps ws)) else m)
      \<and> record_of b' = record_of b @ scan_accesses slip clock taps ws) \<or> (\<exists>e. r = Err (MmioIo e))"
  using assms(1,4)
proof (induction taps arbitrary: m b)
  case Nil
  then show ?case by (auto simp: ret_def scan_accesses_def)
next
  case (Cons t taps)
  from Cons.prems show ?case
    unfolding bitslip_scan_loop.simps thenE_def
  proof (elim bindE_SomeE)
    fix e assume "set_frontend_bitslip (recorded io) a t b = Some (Err e, b')" and "r = Err e"
    with recorded_set_bitslip [OF _ assms(2)] Cons.prems(2) show ?thesis by fastforce
  next
    fix u b1 e assume "scan_frontend_word_after_write (recorded io) a b1 = Some (Err e, b')" and "r = Err e"
    with recorded_scan [OF _ assms(3)] show ?thesis by fastforce
  next
    fix u b1 w b2
    assume 1: "set_frontend_bitslip (recorded io) a t b = Some (Ok u, b1)"
      and 2: "scan_frontend_word_after_write (recorded io) a b1 = Some (Ok w, b2)"
      and 3: "bitslip_scan_loop (recorded io) a taps
          (if m = None \<and> w = FRONTEND_EXPECTED_FCLK_WORD then Some t else m) b2 = Some (r, b')"
    have r1: "record_of b1 = record_of b @ [Wr slip t]"
      using recorded_set_bitslip [OF 1 assms(2)] Cons.prems(2) by simp
    have r2: "record_of b2 = record_of b1 @ [Wr FRONTEND_TRIGGER_OFFSET FRONTEND_TRIGGER_WORD, Rd clock w]"
      using recorded_scan [OF 2 assms(3)] by auto
    have "\<forall>t \<in> set taps. t < 16" using Cons.prems(2) by simp
    from Cons.IH [OF 3 this] show ?thesis
    proof (elim disjE exE conjE, goal_cases)
      case (1 ws)
      then show ?case
        by (intro disjI1 exI [of _ "w # ws"]) (auto simp: r1 r2 scan_accesses_def)
    qed blast
  qed
qed

text \<open>C23: the delay scan of a front end sets each of the 512 taps in turn, reads the frame clock at
  each, and leaves the tap at the centre of a longest run of equal words; it fails only when an
  access does.\<close>

theorem delay_scan_picks_centre:
  assumes "set_best_frontend_delay (recorded io) a b = Some (r, b')"
    and "frontend_delay_offset a = Some delay" and "spy_buffer_frame_clock_offset a 0 = Some clock"
  shows "(\<exists>ws i n c. length ws = 512 \<and> r = Ok ()
      \<and> record_of b' = record_of b @ scan_accesses delay clock (map word_of_nat [0..<512]) ws @ [Wr delay c]
      \<and> longest_run ws i n \<and> unat c = i + (n - 1) div 2)
    \<or> (\<exists>e. r = Err (MmioIo e))"
proof -
  have taps: "\<forall>t \<in> set delay_taps. t < 512"
    by (auto simp: delay_taps_512 word_less_nat_alt unat_of_nat)
  from assms(1) show ?thesis
    unfolding set_best_frontend_delay_def Let_def
  proof (elim bindE_SomeE)
    fix e assume "delay_scan_loop (recorded io) a delay_taps delay_scan_init b = Some (Err e, b')" "r = Err e"
    with delay_scan_loop_record [OF _ assms(2,3) taps] show ?thesis by fastforce
  next
    fix d b1
    assume 1: "delay_scan_loop (recorded io) a delay_taps delay_scan_init b = Some (Ok d, b1)"
      and 2: "(if ds_best_len (delay_scan_close d) = 0 then raise MmioAlignmentFailed
          else set_frontend_delay (recorded io) a
            (ds_best_start (delay_scan_close d) + (ds_best_len (delay_scan_close d) - 1) div 2)) b1 = Some (r, b')"
    from delay_scan_loop_record [OF 1 assms(2,3) taps] obtain ws where
      ws: "length ws = 512" "d = scan_words (zip delay_taps ws) delay_scan_init"
        "record_of b1 = record_of b @ scan_accesses delay clock delay_taps ws"
      by (auto simp: delay_taps_512)
    from chosen_tap_centre [OF ws(1)] obtain i n where run: "longest_run ws i n"
      and tap: "unat (chosen_tap ws) = i + (n - 1) div 2" and le: "i + n \<le> 512" by blast
    have "chosen_tap ws < 512" using run le unfolding word_less_nat_alt tap longest_run_def by simp linarith
    with 2 chosen_tap_centre(2) [OF ws(1)] recorded_set_delay [OF _ assms(2)]
    have "r = Ok () \<and> record_of b' = record_of b1 @ [Wr delay (chosen_tap ws)] \<or> (\<exists>e. r = Err (MmioIo e))"
      by (simp add: chosen_tap_def Let_def ws(2))
    with ws run tap show ?thesis by (auto simp: delay_taps_512)
  qed
qed

section \<open>Errors of the alignment\<close>

lemma access_errors:
  "raises_only (\<lambda>e. \<exists>x. e = MmioIo x) (mmio_read io offset)"
  "raises_only (\<lambda>e. \<exists>x. e = MmioIo x) (mmio_write io offset v)"
  by (auto simp: raises_only_def mmio_read_def mmio_write_def map_errE_def map_err_def
      split: option.splits result.splits)

lemma raises_only_mono: "raises_only P m \<Longrightarrow> (\<And>e. P e \<Longrightarrow> Q e) \<Longrightarrow> raises_only Q m"
  unfolding raises_only_def by blast

lemma access_errors' [raises_intros]:
  "(\<And>x. P (MmioIo x)) \<Longrightarrow> raises_only P (mmio_read io offset)"
  "(\<And>x. P (MmioIo x)) \<Longrightarrow> raises_only P (mmio_write io offset v)"
  by (rule raises_only_mono [OF access_errors(1)] raises_only_mono [OF access_errors(2)], blast)+

lemma scan_loops_errors:
  assumes "\<And>e. e \<noteq> MmioTimeout \<Longrightarrow> P e"
  shows "raises_only P (delay_scan_loop io a taps d)" "raises_only P (bitslip_scan_loop io a taps m)"
  using assms
  by (induction taps arbitrary: d m)
     (auto simp: set_frontend_delay_def set_frontend_bitslip_def scan_frontend_word_after_write_def
       trigger_frontend_snapshot_def read_frame_clock_def ok_or_def split: option.splits
       intro!: raises_intros)

lemma scans_never_time_out:
  "raises_only (\<lambda>e. e \<noteq> MmioTimeout) (set_best_frontend_delay io a)"
  "raises_only (\<lambda>e. e \<noteq> MmioTimeout) (set_best_frontend_bitslip io a)"
  unfolding set_best_frontend_delay_def set_best_frontend_bitslip_def expect_frame_clock_def
    set_frontend_delay_def set_frontend_bitslip_def scan_frontend_word_after_write_def
    trigger_frontend_snapshot_def read_frame_clock_def read_frontend_bitslip_def Let_def
  by (intro raises_intros scan_loops_errors; auto simp: ok_or_def split: option.splits)+

section \<open>Windows that never fail\<close>

definition infallible :: "('i, 'e) register_io \<Rightarrow> bool" where
  "infallible io \<longleftrightarrow> (\<forall>offset i e i'. io_read32 io offset i \<noteq> Some (Err e, i'))
     \<and> (\<forall>offset v i e i'. io_write32 io offset v i \<noteq> Some (Err e, i'))"

lemma infallible_windows [simp]:
  "infallible (volatile_io load store)" "infallible fake_register_io"
  "infallible io \<Longrightarrow> infallible (traced io)" "infallible io \<Longrightarrow> infallible (recorded io)"
  by (auto simp: infallible_def volatile_io_def fake_register_io_def traced_def recorded_def
      split: prod.splits option.splits result.splits if_splits)

lemma infallible_access:
  assumes "infallible io"
  shows "mmio_read io offset b = Some (r, b') \<Longrightarrow> is_ok r"
    and "mmio_write io offset v b = Some (u, b') \<Longrightarrow> is_ok u"
  using assms
  by (auto simp: mmio_read_def mmio_write_def map_errE_def zoom_def infallible_def map_err_def is_ok_def
      split: option.splits result.splits)

lemma infallible_never_io:
  assumes "infallible io"
  shows "raises_only (\<lambda>e. False) (mmio_read io offset)" "raises_only (\<lambda>e. False) (mmio_write io offset v)"
  using infallible_access [OF assms] by (fastforce simp: raises_only_def)+

lemma infallible_set_bit:
  assumes "infallible io" and "set_bit_at io offset k on b = Some (r, b')"
  shows "r = Ok ()"
  using assms(2)
  by (auto simp: set_bit_at_def Let_def elim!: bindE_SomeE dest!: infallible_access [OF assms(1)]
      split: if_splits) (cases r; simp)+

lemma infallible_scan:
  assumes "infallible io"
  shows "raises_only (\<lambda>e. \<forall>x. e \<noteq> MmioIo x) (set_best_frontend_delay io a)"
proof -
  have acc [raises_intros]: "raises_only P (mmio_read io offset)" "raises_only P (mmio_write io offset v)" for P offset v
    by (rule raises_only_mono [OF infallible_never_io(1) [OF assms]], simp)
       (rule raises_only_mono [OF infallible_never_io(2) [OF assms]], simp)
  have "raises_only (\<lambda>e. \<forall>x. e \<noteq> MmioIo x) (delay_scan_loop io a taps d)" for taps d
    by (induction taps arbitrary: d)
       (auto simp: set_frontend_delay_def scan_frontend_word_after_write_def
         trigger_frontend_snapshot_def read_frame_clock_def ok_or_def split: option.splits
         intro!: raises_intros acc)
  then show ?thesis
    unfolding set_best_frontend_delay_def set_frontend_delay_def Let_def
    by (intro raises_intros acc; auto simp: ok_or_def split: option.splits)
qed

interpretation recorded_fake: returning_window "recorded fake_register_io" "\<lambda>_. True"
  by unfold_locales (auto simp: recorded_def fake_register_io_def keeps_def wp_def split: if_splits)

theorem delay_scan_picks_centre_witness:
  "\<exists>b' ws i n c. set_best_frontend_delay (recorded fake_register_io) 0 (backend_new (default_fake_io, []))
       = Some (Ok (), b') \<and> length ws = 512 \<and> longest_run ws i n \<and> unat c = i + (n - 1) div 2
     \<and> last (record_of b') = Wr 0x0800000C c"
proof -
  let ?b = "backend_new (default_fake_io, [])"
  have "recorded_fake.inv ?b" by (rule recorded_fake.inv_new) simp
  from keepsD [OF recorded_fake.set_best_keeps(1) this] obtain r b'
    where s: "set_best_frontend_delay (recorded fake_register_io) 0 ?b = Some (r, b')"
    by (rule wpE)
  have "\<forall>x. r \<noteq> Err (MmioIo x)"
    using raises_onlyD [OF infallible_scan [of "recorded fake_register_io" 0]] s by fastforce
  moreover have "frontend_delay_offset 0 = Some 0x0800000C"
    "spy_buffer_frame_clock_offset 0 0 = Some 0x10008000"
    by code_simp+
  ultimately show ?thesis
    using delay_scan_picks_centre [OF s] s by fastforce
qed

section \<open>The delay control after an alignment\<close>

lemma reset_values_errors:
  "raises_only (\<lambda>e. e \<noteq> MmioTimeout \<and> e \<noteq> MmioAlignmentFailed) (reset_frontend_delay_values io)"
  "raises_only (\<lambda>e. e \<noteq> MmioTimeout \<and> e \<noteq> MmioAlignmentFailed) (set_bit_at io offset k on)"
  unfolding reset_frontend_delay_values_def set_frontend_delay_def set_frontend_bitslip_def
    set_bit_at_def Let_def
  by (intro raises_intros; auto simp: ok_or_def split: option.splits)+

lemma pulse_errors:
  "raises_only (\<lambda>e. e \<noteq> MmioTimeout \<and> e \<noteq> MmioAlignmentFailed) (pulse_frontend_control_bit io k)"
  "raises_only (\<lambda>e. e \<noteq> MmioTimeout \<and> e \<noteq> MmioAlignmentFailed) (set_frontend_delay_vtc io on)"
  unfolding pulse_frontend_control_bit_def set_frontend_delay_vtc_def
  by (intro raises_intros reset_values_errors)+

lemma wait_errors:
  "raises_only (\<lambda>e. e \<noteq> MmioAlignmentFailed) (wait_frontend_delayctrl_ready io)"
proof -
  have "raises_only (\<lambda>e. e \<noteq> MmioAlignmentFailed) (spin io offset ready n)" for offset ready n
    by (induction n) (auto intro!: raises_intros)
  then show ?thesis
    unfolding wait_frontend_delayctrl_ready_def spin_on_def by (intro raises_intros)
qed

lemma thenE_assoc: "thenE (thenE m k) l = thenE m (thenE k l)"
  by (rule ext) (simp add: thenE_def bindE_def split: option.splits prod.splits result.splits)

lemma thenE_stops: "m s = Some (Err e, t) \<Longrightarrow> thenE m k s = Some (Err e, t)"
  by (simp add: thenE_def bindE_def)

lemma evaluates_timeout:
  "map_option (\<lambda>(r, _). case r of Err MmioTimeout \<Rightarrow> True | _ \<Rightarrow> False) x = Some True \<Longrightarrow>
   \<exists>t. x = Some (Err MmioTimeout, t)"
  by (cases x) (auto split: result.split_asm mmio_afe_error.split_asm)

lemma attempt_Some: "attempt m b = Some (r, b') \<Longrightarrow> \<exists>x. r = Ok x \<and> m b = Some (x, b')"
  by (auto simp: attempt_def split: option.splits)

text \<open>How an alignment ends: before delay compensation is touched, in the wait for the delay
  control, or with delay compensation enabled again.\<close>

lemma align_ends:
  assumes "align_frontend io b = Some (r, b')"
  obtains (early) e where "r = Err e" "e \<noteq> MmioTimeout" "e \<noteq> MmioAlignmentFailed"
  | (waiting) e c d where "r = Err e" "set_frontend_delay_vtc io False c = Some (Ok (), d)"
      "wait_frontend_delayctrl_ready io d = Some (Err e, b')"
  | (aligned) res c d u where
      "for_each afe_range (\<lambda>a. thenE (set_best_frontend_delay io a) (set_best_frontend_bitslip io a)) c
         = Some (res, d)"
      "set_frontend_delay_vtc io True d = Some (u, b')" "r = (case res of Ok _ \<Rightarrow> u | Err e \<Rightarrow> Err e)"
proof -
  note early_errors = raises_onlyD [OF reset_values_errors(1)] raises_onlyD [OF pulse_errors(1)]
    raises_onlyD [OF pulse_errors(2)]
  from assms show thesis
    unfolding align_frontend_def thenE_def
    by (elim bindE_SomeE)
      (auto simp: liftR_def dest!: attempt_Some dest: early_errors early waiting
        aligned [unfolded thenE_def])
qed

text \<open>C24: after an alignment on a window that never fails, the last word written is the front-end
  control with delay compensation (VTC) enabled, also when the scan found no alignment; but when
  the wait for the delay control times out, the last word has it disabled.\<close>

theorem align_leaves_vtc:
  assumes "align_frontend (traced (volatile_io load store)) b = Some (r, b')"
    and "r \<in> {Ok (), Err MmioAlignmentFailed, Err MmioTimeout}"
  shows "\<exists>before v. trace b' = before @ [(FRONTEND_CONTROL_OFFSET,
      if r = Err MmioTimeout then v AND NOT 4 else v OR 4)]"
proof -
  let ?io = "traced (volatile_io load store)"
  have vtc: "u = Ok () \<and> (\<exists>before v. trace c' = before @
      [(FRONTEND_CONTROL_OFFSET, if on then v OR 4 else v AND NOT 4)])"
    if "set_frontend_delay_vtc ?io on c = Some (u, c')" for on c u c'
    using that tr.set_bit_log [OF that [unfolded set_frontend_delay_vtc_def]]
      infallible_set_bit [OF _ that [unfolded set_frontend_delay_vtc_def]]
    by (cases on) (fastforce simp: trace_def FRONTEND_DELAY_EN_VTC_BIT_def)+
  have wait: "trace c' = trace c" if "wait_frontend_delayctrl_ready ?io c = Some (u, c')" for c u c'
    using that unfolding wait_frontend_delayctrl_ready_def trace_def by (rule tr.spin_on_log)
  have scans: "raises_only (\<lambda>e. e \<noteq> MmioTimeout) (for_each afe_range
      (\<lambda>a. thenE (set_best_frontend_delay ?io a) (set_best_frontend_bitslip ?io a)))"
    by (intro raises_intros scans_never_time_out)
  from assms(1) show ?thesis
  proof (cases rule: align_ends)
    case (early e)
    with assms(2) show ?thesis by auto
  next
    case (waiting e c d)
    with raises_onlyD [OF wait_errors waiting(3)] assms(2) have "r = Err MmioTimeout" by auto
    with vtc [OF waiting(2)] wait [OF waiting(3)] show ?thesis by auto
  next
    case (aligned res c d u)
    have "r \<noteq> Err MmioTimeout"
      using aligned(3) vtc [OF aligned(2)] raises_onlyD [OF scans] aligned(1)
      by (auto split: result.splits)
    with vtc [OF aligned(2)] show ?thesis by auto
  qed
qed

theorem align_leaves_vtc_witness:
  "\<exists>b' before v. align_frontend (traced (volatile_io (\<lambda>d _. (0, d)) (\<lambda>d _ _. d)))
       (backend_with_config (\<lparr>vr_base = 0, vr_device = ()\<rparr>, []) \<lparr>mc_spin_limit = 3\<rparr>)
     = Some (Err MmioTimeout, b')
     \<and> trace b' = before @ [(FRONTEND_CONTROL_OFFSET, v AND NOT 4)]"
proof -
  let ?io = "traced (volatile_io (\<lambda>d _. (0, d)) (\<lambda>d _ _. d))"
  let ?b = "backend_with_config (\<lparr>vr_base = 0, vr_device = ()\<rparr>, []) \<lparr>mc_spin_limit = 3\<rparr>"
  let ?start = "thenE (reset_frontend_delay_values ?io)
      (thenE (pulse_frontend_control_bit ?io FRONTEND_DELAYCTRL_RESET_BIT)
      (thenE (pulse_frontend_control_bit ?io FRONTEND_SERDES_RESET_BIT)
      (thenE (set_frontend_delay_vtc ?io False) (wait_frontend_delayctrl_ready ?io))))"
  have "map_option (\<lambda>(r, _). case r of Err MmioTimeout \<Rightarrow> True | _ \<Rightarrow> False) (?start ?b) = Some True"
    by code_simp
  from evaluates_timeout [OF this] obtain b' where "?start ?b = Some (Err MmioTimeout, b')" ..
  from thenE_stops [where s = ?b and m = ?start, OF this] have "align_frontend ?io ?b = Some (Err MmioTimeout, b')"
    unfolding align_frontend_def by (simp only: thenE_assoc)
  with align_leaves_vtc [OF this] show ?thesis by auto
qed

end
