(* ===== verification/Rpmsg.thy ===== *)
theory Rpmsg
  imports RpuWireFacts Rpu
begin

text \<open>
  The transport of the server to the RPU over an RPMsg character device
  (\<open>daphne-sc-server/src/rpmsg.rs\<close>): one frame out, one frame back, in lock step; sequence numbers
  reserved in blocks; the translation of the final reply.  The kernel is a parameter: a record of
  the file operations and of \<open>poll\<close>.
\<close>

section \<open>The kernel and the transport\<close>

text \<open>\<open>rk_poll fd timeout_ms\<close> is the return code and the returned events of \<open>poll\<close> for input on one
  descriptor; \<open>std::io::Error\<close> is its text.\<close>

record 'k rpmsg_kernel =
  rk_open :: "string \<Rightarrow> ('k, nat, string) eff"
  rk_sleep_ms :: "nat \<Rightarrow> 'k \<Rightarrow> 'k"
  rk_write_all :: "nat \<Rightarrow> u8 list \<Rightarrow> ('k, unit, string) eff"
  rk_flush :: "nat \<Rightarrow> ('k, unit, string) eff"
  rk_poll :: "nat \<Rightarrow> int \<Rightarrow> 'k \<Rightarrow> (int \<times> u16) \<times> 'k"
  rk_last_error :: "'k \<Rightarrow> string"
  rk_read_exact :: "nat \<Rightarrow> nat \<Rightarrow> ('k, u8 list, string) eff"

text \<open>A duration is its number of nanoseconds.\<close>

type_synonym duration = nat

definition as_millis :: "duration \<Rightarrow> nat" where "as_millis d = d div 1000000"

definition RPMSG_FRAME_PACING_MS :: nat where "RPMSG_FRAME_PACING_MS = 50"

definition POLLIN :: u16 where "POLLIN = 1"

text \<open>The transport, with the state of the kernel it talks to.\<close>

record 'k rpmsg_transport =
  rp_kernel :: 'k
  rp_file :: nat
  rp_next_sequence :: u64
  rp_timeout :: duration
  rp_last_heartbeat :: "u64 option"
  rp_last_fault :: "string option"

type_synonym ('k, 'a) rpmsg = "('k rpmsg_transport, 'a, rpu_error) eff"

definition rpmsg_open ::
    "'k rpmsg_kernel \<Rightarrow> string \<Rightarrow> duration \<Rightarrow> 'k \<Rightarrow> (('k rpmsg_transport, rpu_error) result \<times> 'k) option" where
  "rpmsg_open kn path timeout k = (case rk_open kn path k of
     None \<Rightarrow> None
   | Some (Err err, k') \<Rightarrow> Some (Err (TransportError (''opening '' @ path @ '': '' @ err)), k')
   | Some (Ok fd, k') \<Rightarrow>
       Some (Ok \<lparr>rp_kernel = k', rp_file = fd, rp_next_sequence = 1, rp_timeout = timeout,
                 rp_last_heartbeat = None, rp_last_fault = None\<rparr>, k'))"

text \<open>A call on the kernel with the transport's descriptor.\<close>

definition on_file :: "(nat \<Rightarrow> ('k, 'a, string) eff) \<Rightarrow> string \<Rightarrow> ('k, 'a) rpmsg" where
  "on_file call what =
     bindE (gets rp_file) (\<lambda>fd.
       map_errE (\<lambda>err. TransportError (what @ '': '' @ err))
         (zoom rp_kernel (\<lambda>k t. t\<lparr>rp_kernel := k\<rparr>) (call fd)))"

definition pace :: "'k rpmsg_kernel \<Rightarrow> ('k, unit) rpmsg" where
  "pace kn = modify (\<lambda>t. t\<lparr>rp_kernel := rk_sleep_ms kn RPMSG_FRAME_PACING_MS (rp_kernel t)\<rparr>)"

definition wait_readable :: "'k rpmsg_kernel \<Rightarrow> ('k, unit) rpmsg" where
  "wait_readable kn t =
     (let ms = as_millis (rp_timeout t);
          timeout_ms = (if ms < 2 ^ 31 then int ms else 2 ^ 31 - 1);
          ((rc, revents), k) = rk_poll kn (rp_file t) timeout_ms (rp_kernel t);
          t' = t\<lparr>rp_kernel := k\<rparr>
      in if rc < 0
         then Some (Err (TransportError (''polling RPU transport: '' @ rk_last_error kn k)), t')
         else if rc = 0 then Some (Err TimeoutError, t')
         else if revents AND POLLIN = 0
         then Some (Err (TransportError
                (''RPU transport not readable after poll: revents=0x'' @ fmt_hex_upper 0 revents)), t')
         else Some (Ok (), t'))"

section \<open>One frame out, one frame back\<close>

definition accept_reply ::
    "'k rpmsg_kernel \<Rightarrow> rpu_wire_command \<Rightarrow> u8 list \<Rightarrow> ('k, rpu_wire_reply) rpmsg" where
  "accept_reply kn command bytes =
     bindE (liftR (map_err (\<lambda>err. TransportError (''decoding RPU reply: '' @ rpu_wire_error_to_string err))
              (decode_reply bytes))) (\<lambda>reply.
     if wr_sequence reply \<noteq> wc_sequence command
     then raise (TransportError (''RPU reply sequence mismatch: sent '' @ fmt_dec (wc_sequence command)
            @ '', got '' @ fmt_dec (wr_sequence reply)))
     else thenE (modify (\<lambda>t. t\<lparr>rp_last_heartbeat := Some (wr_heartbeat reply)\<rparr>))
       (thenE (if wr_fault_code reply \<noteq> 0
               then modify (\<lambda>t. t\<lparr>rp_last_fault :=
                      Some (''RPU fault code '' @ fmt_dec (wr_fault_code reply))\<rparr>)
               else ret ())
       (thenE (pace kn) (ret reply))))"

definition transact :: "'k rpmsg_kernel \<Rightarrow> rpu_wire_command \<Rightarrow> ('k, rpu_wire_reply) rpmsg" where
  "transact kn command =
     thenE (pace kn)
     (thenE (on_file (\<lambda>fd. rk_write_all kn fd (encode_command command)) ''writing RPU command'')
     (thenE (on_file (rk_flush kn) ''flushing RPU command'')
     (thenE (wait_readable kn)
     (bindE (on_file (\<lambda>fd. rk_read_exact kn fd RPU_WIRE_REPLY_LEN) ''reading RPU reply'')
       (accept_reply kn command)))))"

section \<open>Sequence numbers\<close>

text \<open>\<open>wrapping_add(1).max(1)\<close>\<close>

definition next_sequence :: "('k, u64) rpmsg" where
  "next_sequence t =
     Some (Ok (rp_next_sequence t), t\<lparr>rp_next_sequence := max (rp_next_sequence t + 1) 1\<rparr>)"

definition saturating_sub :: "u64 \<Rightarrow> u64 \<Rightarrow> u64" where
  "saturating_sub a b = (if b \<le> a then a - b else 0)"

definition saturating_add :: "u64 \<Rightarrow> u64 \<Rightarrow> u64" where
  "saturating_add a b = (if unat a + unat b < 2 ^ 64 then a + b else -1)"

definition reserve_sequences :: "nat \<Rightarrow> ('k, u64) rpmsg" where
  "reserve_sequences n t =
     (let count = (if n < 2 ^ 64 then word_of_nat n else -1) :: u64 in
      if count = 0 then Some (Ok (rp_next_sequence t), t)
      else (let first = (if saturating_sub (-1) count < rp_next_sequence t then 1
                         else rp_next_sequence t)
            in Some (Ok first, t\<lparr>rp_next_sequence := max (saturating_add first count) 1\<rparr>)))"

section \<open>Commands\<close>

text \<open>\<open>{:?}\<close> of an operation.\<close>

definition op_debug_name :: "rpu_wire_op \<Rightarrow> string" where
  "op_debug_name op = (case op of
     OpStatus \<Rightarrow> ''Status'' | OpReadRegister \<Rightarrow> ''ReadRegister'' | OpWriteRegister \<Rightarrow> ''WriteRegister''
   | OpReadAttenuation \<Rightarrow> ''ReadAttenuation'' | OpSetAttenuation \<Rightarrow> ''SetAttenuation''
   | OpReadBias \<Rightarrow> ''ReadBias'' | OpSetBias \<Rightarrow> ''SetBias'' | OpReadTrim \<Rightarrow> ''ReadTrim''
   | OpSetTrim \<Rightarrow> ''SetTrim'' | OpReadOffset \<Rightarrow> ''ReadOffset'' | OpSetOffset \<Rightarrow> ''SetOffset''
   | OpReadVbiasControl \<Rightarrow> ''ReadVbiasControl'' | OpSetVbiasControl \<Rightarrow> ''SetVbiasControl''
   | OpSetReset \<Rightarrow> ''SetReset'' | OpDoReset \<Rightarrow> ''DoReset'' | OpSetPowerState \<Rightarrow> ''SetPowerState''
   | OpAlign \<Rightarrow> ''Align'' | OpBeginConfigureFrontend \<Rightarrow> ''BeginConfigureFrontend''
   | OpConfigureAfe \<Rightarrow> ''ConfigureAfe'' | OpConfigureChannel \<Rightarrow> ''ConfigureChannel''
   | OpApplyConfigureFrontend \<Rightarrow> ''ApplyConfigureFrontend'' | OpWriteFunction \<Rightarrow> ''WriteFunction''
   | OpReadAlignment \<Rightarrow> ''ReadAlignment'')"

definition format_reply_detail :: "string \<Rightarrow> rpu_wire_reply \<Rightarrow> string" where
  "format_reply_detail prefix r =
     prefix @ '': code '' @ fmt_dec (wr_fault_code r)
     @ (case wr_readback r of Some v \<Rightarrow> '' readback=0x'' @ fmt_hex_lower 8 v | None \<Rightarrow> [])
     @ (if wr_interlock_code r \<noteq> 0 then '' context=0x'' @ fmt_hex_lower 8 (wr_interlock_code r) else [])"

definition reply_outcome :: "rpu_wire_reply \<Rightarrow> bool \<times> bool \<times> string" where
  "reply_outcome r = (case wr_status r of
     StAccepted \<Rightarrow> (True, False, ''RPU accepted command'')
   | StApplied \<Rightarrow> (True, True, ''RPU applied command'')
   | StRejected \<Rightarrow> (False, False, ''RPU rejected command'')
   | StInterlocked \<Rightarrow> (False, False, ''RPU interlock active: code '' @ fmt_dec (wr_interlock_code r))
   | StFault \<Rightarrow> (False, False, format_reply_detail ''RPU fault active'' r)
   | StTimeout \<Rightarrow> (True, False, ''RPU command timed out''))"

text \<open>The frames are sent in order; the last reply is kept and an error names its frame.\<close>

fun send_frames ::
    "'k rpmsg_kernel \<Rightarrow> nat \<Rightarrow> nat \<Rightarrow> rpu_wire_command list \<Rightarrow> rpu_wire_reply option
     \<Rightarrow> ('k, rpu_wire_reply option) rpmsg" where
  "send_frames kn frame_count idx [] final_reply = ret final_reply"
| "send_frames kn frame_count idx (frame # frames) final_reply =
     bindE (map_errE (\<lambda>err. TransportError (''frame '' @ fmt_nat (idx + 1) @ ''/'' @ fmt_nat frame_count
              @ '' op '' @ op_debug_name (wc_op frame) @ '' seq '' @ fmt_dec (wc_sequence frame)
              @ '': '' @ rpu_error_to_string err)) (transact kn frame)) (\<lambda>reply.
     send_frames kn frame_count (idx + 1) frames (Some reply))"

definition wire_rejected :: "('a, rpu_wire_error) result \<Rightarrow> ('a, rpu_error) result" where
  "wire_rejected = map_err (\<lambda>err. RejectedError (rpu_wire_error_to_string err))"

definition rpmsg_submit :: "'k rpmsg_kernel \<Rightarrow> afe_command \<Rightarrow> ('k, afe_command_reply) rpmsg" where
  "rpmsg_submit kn command =
     thenE (liftR (map_err (\<lambda>err. RejectedError (afe_validation_error_to_string err)) (validate command)))
     (bindE (liftR (wire_rejected (frame_count_for_afe_command command))) (\<lambda>frame_count.
     bindE (reserve_sequences frame_count) (\<lambda>first_sequence.
     bindE (liftR (wire_rejected (from_afe_command_sequence first_sequence command))) (\<lambda>frames.
     bindE (send_frames kn frame_count 0 frames None) (\<lambda>final_reply.
     bindE (liftR (ok_or final_reply (TransportError ''RPU command produced no frames''))) (\<lambda>reply.
     let (accepted, applied, message) = reply_outcome reply
     in ret \<lparr>ar_accepted = accepted, ar_applied = applied, ar_readback = wr_readback reply,
             ar_fault_code = wr_fault_code reply, ar_context_code = wr_interlock_code reply,
             ar_message = message\<rparr>))))))"

definition rpmsg_status :: "'k rpmsg_kernel \<Rightarrow> ('k, rpu_link_status) rpmsg" where
  "rpmsg_status kn =
     bindE next_sequence (\<lambda>sequence.
     bindE (transact kn (wire_status sequence)) (\<lambda>reply.
     bindE (gets rp_last_fault) (\<lambda>last_fault.
     ret \<lparr>ls_available = True, ls_running = wr_status reply \<notin> {StFault, StTimeout},
          ls_firmware = Some ''rpmsg-rpu-wire-abi-v2'', ls_heartbeat = Some (wr_heartbeat reply),
          ls_last_fault = last_fault\<rparr>)))"

definition rpmsg_afe_transport :: "'k rpmsg_kernel \<Rightarrow> 'k rpmsg_transport rpu_afe_transport" where
  "rpmsg_afe_transport kn =
     \<lparr>rt_status = rpmsg_status kn, rt_submit_afe_command = rpmsg_submit kn\<rparr>"

end
