(* ===== verification/RpmsgFacts.thy ===== *)
theory RpmsgFacts
  imports Rpmsg "HOL-Library.Sublist"
begin

text \<open>
  The RPMsg transport: the numbers it reserves, and the exchange of a command, frame by frame, on a
  kernel that records what is written to and read from the device.
\<close>

section \<open>Sequence numbers\<close>

lemma reserve_sequences_block:
  assumes "reserve_sequences n t = Some (r, t')" and "0 < n" and "n < 2 ^ 64 - 1"
    and "1 \<le> rp_next_sequence t"
  shows "\<exists>first. r = Ok first \<and> 1 \<le> first \<and> unat first + n < 2 ^ 64
    \<and> (first = rp_next_sequence t \<or> first = 1 \<and> 2 ^ 64 \<le> unat (rp_next_sequence t) + n)
    \<and> t' = t\<lparr>rp_next_sequence := first + word_of_nat n\<rparr> \<and> unat (first + word_of_nat n) = unat first + n"
proof -
  let ?s = "rp_next_sequence t" and ?c = "word_of_nat n :: u64"
  have c: "unat ?c = n" using assms(3) by (simp add: unat_of_nat)
  have max: "unat (- 1 :: u64) = 2 ^ 64 - 1" by (simp add: unsigned_minus_1_eq_mask mask_eq_exp_minus_1)
  have sub: "unat (saturating_sub (- 1) ?c) = 2 ^ 64 - 1 - n"
    using assms(3) c max by (simp add: saturating_sub_def word_le_nat_alt unat_sub)
  define first where "first = (if saturating_sub (- 1) ?c < ?s then 1 else ?s)"
  have first: "1 \<le> first" "unat first + n < 2 ^ 64"
    "first = ?s \<or> first = 1 \<and> 2 ^ 64 \<le> unat ?s + n"
    using assms(2-4) sub by (auto simp: first_def word_less_nat_alt word_le_nat_alt)
  have sum: "unat (first + ?c) = unat first + n"
    using first(2) c by (simp add: unat_word_ariths)
  have "max (saturating_add first ?c) 1 = first + ?c"
    using first c sum assms(2) by (simp add: saturating_add_def max_def word_le_nat_alt)
  then have "r = Ok first \<and> t' = t\<lparr>rp_next_sequence := first + ?c\<rparr>"
    using assms(1,2,3) c
    by (auto simp: reserve_sequences_def Let_def first_def unat_eq_zero [symmetric])
  with first sum show ?thesis by blast
qed

lemma frame_count_bounds: "frame_count_for_afe_command c = Ok n \<Longrightarrow> 0 < n \<and> n \<le> 131072"
  by (auto simp: frame_count_for_afe_command_def ensure_record_count_def split: afe_command.splits if_splits)

section \<open>A kernel that records the device\<close>

datatype rpmsg_event = Sent "u8 list" | Received "u8 list"

text \<open>Only what succeeds is recorded.\<close>

definition watched :: "'k rpmsg_kernel \<Rightarrow> ('k \<times> rpmsg_event list) rpmsg_kernel" where
  "watched kn =
     \<lparr>rk_open = (\<lambda>path. zoom fst (\<lambda>k (_, log). (k, log)) (rk_open kn path)),
      rk_sleep_ms = (\<lambda>n (k, log). (rk_sleep_ms kn n k, log)),
      rk_write_all = (\<lambda>fd bytes (k, log). case rk_write_all kn fd bytes k of
        None \<Rightarrow> None
      | Some (r, k') \<Rightarrow> Some (r, (k', if is_ok r then log @ [Sent bytes] else log))),
      rk_flush = (\<lambda>fd. zoom fst (\<lambda>k (_, log). (k, log)) (rk_flush kn fd)),
      rk_poll = (\<lambda>fd ms (k, log). (case rk_poll kn fd ms k of (r, k') \<Rightarrow> (r, (k', log)))),
      rk_last_error = (\<lambda>(k, log). rk_last_error kn k),
      rk_read_exact = (\<lambda>fd n (k, log). case rk_read_exact kn fd n k of
        None \<Rightarrow> None
      | Some (r, k') \<Rightarrow> Some (r, (k', case r of Ok bytes \<Rightarrow> log @ [Received bytes] | Err _ \<Rightarrow> log)))\<rparr>"

definition events :: "('k \<times> rpmsg_event list) rpmsg_transport \<Rightarrow> rpmsg_event list" where
  "events t = snd (rp_kernel t)"

lemma pace_events: "pace (watched kn) t = Some (r, t') \<Longrightarrow> events t' = events t"
  by (auto simp: pace_def modify_def events_def watched_def split: prod.splits)

lemma wait_events: "wait_readable (watched kn) t = Some (r, t') \<Longrightarrow> events t' = events t"
  by (auto simp: wait_readable_def events_def watched_def Let_def split: prod.splits if_splits)

lemma flush_events: "on_file (rk_flush (watched kn)) what t = Some (r, t') \<Longrightarrow> events t' = events t"
  by (auto simp: on_file_def gets_def bindE_def map_errE_def zoom_def events_def watched_def
      split: option.splits prod.splits)

lemma write_events:
  assumes "on_file (\<lambda>fd. rk_write_all (watched kn) fd bytes) what t = Some (r, t')"
  shows "events t' = events t @ (if is_ok r then [Sent bytes] else [])"
  using assms
  by (auto simp: on_file_def gets_def bindE_def map_errE_def zoom_def events_def watched_def map_err_def
      is_ok_def split: option.splits prod.splits result.splits)

lemma read_events:
  assumes "on_file (\<lambda>fd. rk_read_exact (watched kn) fd n) what t = Some (r, t')"
  shows "events t' = events t @ (case r of Ok bytes \<Rightarrow> [Received bytes] | Err _ \<Rightarrow> [])"
  using assms
  by (auto simp: on_file_def gets_def bindE_def map_errE_def zoom_def events_def watched_def map_err_def
      is_ok_def split: option.splits prod.splits result.splits)

lemma accept_reply_events:
  assumes "accept_reply (watched kn) c bytes t = Some (r, t')"
  shows "events t' = events t
    \<and> (\<forall>reply. r = Ok reply \<longrightarrow> decode_reply bytes = Ok reply \<and> wr_sequence reply = wc_sequence c
        \<and> rp_last_heartbeat t' = Some (wr_heartbeat reply))"
  using assms
  by (auto simp: accept_reply_def thenE_def liftR_def raise_def modify_def ret_def map_err_def pace_def
      events_def watched_def elim!: bindE_SomeE split: result.splits if_splits prod.splits)

text \<open>One exchange: the frame, then its reply; a failed exchange leaves a prefix of that.\<close>

definition exchange :: "rpu_wire_command \<Rightarrow> u8 list \<Rightarrow> rpmsg_event list" where
  "exchange c bytes = [Sent (encode_command c), Received bytes]"

definition answers :: "rpu_wire_command \<Rightarrow> u8 list \<Rightarrow> rpu_wire_reply \<Rightarrow> bool" where
  "answers c bytes reply \<longleftrightarrow> decode_reply bytes = Ok reply \<and> wr_sequence reply = wc_sequence c"

lemma transact_events:
  assumes "transact (watched kn) c t = Some (r, t')"
  shows "case r of
      Ok reply \<Rightarrow> \<exists>bytes. answers c bytes reply \<and> events t' = events t @ exchange c bytes
        \<and> rp_last_heartbeat t' = Some (wr_heartbeat reply)
    | Err _ \<Rightarrow> \<exists>bytes es. events t' = events t @ es \<and> prefix es (exchange c bytes)"
  using assms
  by (auto simp: transact_def thenE_def exchange_def answers_def elim!: bindE_SomeE
      dest!: pace_events wait_events flush_events write_events read_events accept_reply_events
      split: result.splits)

text \<open>The frames of a command: one answered exchange after the other; when one fails, the answered
  exchanges of the frames before it and a prefix of its own.\<close>

definition answered :: "(rpu_wire_command \<times> u8 list \<times> rpu_wire_reply) list \<Rightarrow> bool" where
  "answered xs \<longleftrightarrow> (\<forall>(f, bytes, reply) \<in> set xs. answers f bytes reply)"

definition exchanges :: "(rpu_wire_command \<times> u8 list \<times> rpu_wire_reply) list \<Rightarrow> rpmsg_event list" where
  "exchanges xs = concat (map (\<lambda>(f, bytes, _). exchange f bytes) xs)"

lemma answered_simps [simp]:
  "answered []" "answered ((f, b, r) # xs) \<longleftrightarrow> answers f b r \<and> answered xs"
  "exchanges [] = []" "exchanges ((f, b, r) # xs) = exchange f b @ exchanges xs"
  by (simp_all add: answered_def exchanges_def)

lemma send_frames_events:
  assumes "send_frames (watched kn) m idx fs last_reply t = Some (res, t')"
  shows "case res of
      Ok final \<Rightarrow> \<exists>xs. map fst xs = fs \<and> answered xs \<and> events t' = events t @ exchanges xs
        \<and> final = (if xs = [] then last_reply else Some (snd (snd (last xs))))
    | Err _ \<Rightarrow> \<exists>xs f bytes es. prefix (map fst xs @ [f]) fs \<and> answered xs
        \<and> prefix es (exchange f bytes) \<and> events t' = events t @ exchanges xs @ es"
  using assms
proof (induction fs arbitrary: idx last_reply t)
  case Nil
  then show ?case by (auto simp: ret_def)
next
  case (Cons f fs)
  from Cons.prems show ?case
    unfolding send_frames.simps
  proof (cases rule: bindE_SomeE)
    case (err e)
    then obtain e' where "transact (watched kn) f t = Some (Err e', t')"
      by (auto simp: map_errE_def map_err_def split: option.splits result.splits)
    from transact_events [OF this] obtain bytes es
      where "events t' = events t @ es" "prefix es (exchange f bytes)" by auto
    with err(2) have "prefix (map fst [] @ [f]) (f # fs) \<and> answered []
        \<and> prefix es (exchange f bytes) \<and> events t' = events t @ exchanges [] @ es" by simp
    with err(2) show ?thesis by (auto simp only: result.case)
  next
    case (ok reply u)
    then have "transact (watched kn) f t = Some (Ok reply, u)"
      by (auto simp: map_errE_def map_err_def split: option.splits result.splits)
    from transact_events [OF this] obtain bytes
      where b: "answers f bytes reply" "events u = events t @ exchange f bytes" by auto
    from Cons.IH [OF ok(2)] show ?thesis
    proof (cases res)
      case (Ok final)
      with Cons.IH [OF ok(2)] obtain xs where "map fst xs = fs" "answered xs"
        "events t' = events u @ exchanges xs"
        "final = (if xs = [] then Some reply else Some (snd (snd (last xs))))" by auto
      with b Ok show ?thesis by (auto intro!: exI [of _ "(f, bytes, reply) # xs"])
    next
      case (Err e)
      with Cons.IH [OF ok(2)] obtain xs g bytes' es where "prefix (map fst xs @ [g]) fs" "answered xs"
        "prefix es (exchange g bytes')" "events t' = events u @ exchanges xs @ es" by auto
      with b Err show ?thesis
        by (auto intro!: exI [of _ "(f, bytes, reply) # xs"] exI [of _ g] exI [of _ bytes'])
    qed
  qed
qed

lemma transact_leaves_sequence: "leaves rp_next_sequence (transact kn c)"
  unfolding transact_def accept_reply_def on_file_def pace_def
  by (intro leaves_intros leaves_modify)
     (auto simp: leaves_def wait_readable_def Let_def zoom_def split: prod.splits if_splits option.splits)

lemma send_frames_leaves_sequence: "leaves rp_next_sequence (send_frames kn m idx fs r)"
  by (induction fs arbitrary: idx r) (auto intro!: leaves_intros transact_leaves_sequence)

definition reply_of :: "rpu_wire_reply \<Rightarrow> afe_command_reply" where
  "reply_of r = \<lparr>ar_accepted = fst (reply_outcome r), ar_applied = fst (snd (reply_outcome r)),
     ar_readback = wr_readback r, ar_fault_code = wr_fault_code r,
     ar_context_code = wr_interlock_code r, ar_message = snd (snd (reply_outcome r))\<rparr>"

lemma rpmsg_submit_steps:
  "rpmsg_submit kn command = thenE (liftR (map_err (\<lambda>err. RejectedError (afe_validation_error_to_string err))
        (validate command)))
     (bindE (liftR (wire_rejected (frame_count_for_afe_command command))) (\<lambda>n.
     bindE (reserve_sequences n) (\<lambda>first.
     bindE (liftR (wire_rejected (from_afe_command_sequence first command))) (\<lambda>fs.
     bindE (send_frames kn n 0 fs None) (\<lambda>final.
     bindE (liftR (ok_or final (TransportError ''RPU command produced no frames'')))
       (\<lambda>reply. ret (reply_of reply)))))))"
  by (simp add: rpmsg_submit_def reply_of_def Let_def case_prod_unfold)

lemma reserve_sequences_kernel:
  "reserve_sequences n t = Some (r, t') \<Longrightarrow> rp_kernel t' = rp_kernel t \<and> (\<exists>first. r = Ok first)"
  by (auto simp: reserve_sequences_def Let_def split: if_splits)

text \<open>How a submission ends: before anything is sent, in the exchange of a frame, or with the reply
  to the last frame.\<close>

lemma submit_ends:
  assumes "rpmsg_submit kn command t = Some (res, t')"
  obtains (early) e where "res = Err e" "rp_kernel t' = rp_kernel t"
  | (sending) n first u fs e where "frame_count_for_afe_command command = Ok n"
      "reserve_sequences n t = Some (Ok first, u)" "from_afe_command_sequence first command = Ok fs"
      "send_frames kn n 0 fs None u = Some (Err e, t')" "res = Err e"
  | (answered) n first u fs final where "frame_count_for_afe_command command = Ok n"
      "reserve_sequences n t = Some (Ok first, u)" "from_afe_command_sequence first command = Ok fs"
      "send_frames kn n 0 fs None u = Some (Ok final, t')"
      "final = None \<longrightarrow> res = Err (TransportError ''RPU command produced no frames'')"
      "\<forall>reply. final = Some reply \<longrightarrow> res = Ok (reply_of reply)"
  using assms unfolding rpmsg_submit_steps thenE_def
  by (elim bindE_SomeE)
     (auto simp: liftR_def wire_rejected_def map_err_def ok_or_def ret_def
        dest: early reserve_sequences_kernel sending answered split: result.splits option.splits)

section \<open>Submissions\<close>

end
