(* ===== verification/RpuLink.thy ===== *)
theory RpuLink
  imports RpmsgFacts RpuRuntimeFacts
begin

text \<open>
  The server and the firmware together: what the RPMsg transport achieves on a link to the RPU
  runtime.  The locale \<open>rpu_link\<close> states what a reliable link does: a written frame is handled by
  the runtime, and its reply is what the next read returns.  It is interpreted on the link that
  joins the two modelled programs directly.
\<close>

section \<open>Links\<close>

text \<open>\<open>firm\<close> is the runtime at the other end, \<open>out\<close> the bytes of a reply not read yet.\<close>

definition link_reliable ::
    "('h, 'e) afe_hardware \<Rightarrow> 'k rpmsg_kernel \<Rightarrow> ('k \<Rightarrow> 'h rpu_runtime) \<Rightarrow> ('k \<Rightarrow> u8 list) \<Rightarrow> bool" where
  "link_reliable hw kn firm out \<longleftrightarrow>
     (\<forall>fd k frame reply rt. length frame = 64 \<longrightarrow> out k = [] \<longrightarrow>
        handle_frame hw frame (firm k) = Some (reply, rt) \<longrightarrow>
        (\<exists>k'. rk_write_all kn fd frame k = Some (Ok (), k') \<and> firm k' = rt \<and> out k' = reply))
     \<and> (\<forall>fd k. \<exists>k'. rk_flush kn fd k = Some (Ok (), k') \<and> firm k' = firm k \<and> out k' = out k)
     \<and> (\<forall>fd ms k. out k \<noteq> [] \<longrightarrow>
        (\<exists>k'. rk_poll kn fd ms k = ((1, POLLIN), k') \<and> firm k' = firm k \<and> out k' = out k))
     \<and> (\<forall>fd k. length (out k) = 64 \<longrightarrow>
        (\<exists>k'. rk_read_exact kn fd 64 k = Some (Ok (out k), k') \<and> firm k' = firm k \<and> out k' = []))
     \<and> (\<forall>n k. firm (rk_sleep_ms kn n k) = firm k \<and> out (rk_sleep_ms kn n k) = out k)"

section \<open>Frames while the interlock is not ready\<close>

lemma command_frames_not_status:
  assumes "from_afe_command_sequence s c = Ok fs"
  shows "list_all (\<lambda>f. wc_op f \<noteq> OpStatus) fs"
proof (cases "\<exists>afes chs bc. c = ConfigureFrontend afes chs bc")
  case True
  then obtain afes chs bc where "configure_frontend_sequence s afes chs bc = Ok fs"
    using assms by (auto simp: from_afe_command_sequence_def)
  then show ?thesis
    by (rule configuration_layout)
       (auto simp: list_all_iff begin_frame_def apply_frame_def in_set_zip)
next
  case False
  with assms show ?thesis
    by (auto simp: from_afe_command_sequence_def from_afe_command_def Let_def set_afe_def and_then_Ok_iff
        split: afe_command.splits)
qed

text \<open>The runtime after \<open>n\<close> more frames that changed nothing.\<close>

definition beats :: "nat \<Rightarrow> 'h rpu_runtime \<Rightarrow> 'h rpu_runtime" where
  "beats n rt = rt\<lparr>rn_heartbeat := rn_heartbeat rt + word_of_nat n\<rparr>"

lemma beats_simps [simp]:
  "beats 0 rt = rt" "rn_interlock (beats n rt) = rn_interlock rt"
  "rn_hardware (beats n rt) = rn_hardware rt" "rn_config_state (beats n rt) = rn_config_state rt"
  "beats m (beats n rt) = beats (n + m) rt"
  "rt\<lparr>rn_heartbeat := rn_heartbeat rt + 1\<rparr> = beats 1 rt"
  by (simp_all add: beats_def ac_simps)

definition interlocked_reply :: "u32 \<Rightarrow> u8 list \<Rightarrow> bool" where
  "interlocked_reply code bytes \<longleftrightarrow>
     (\<exists>r. decode_reply bytes = Ok r \<and> wr_status r = StInterlocked \<and> wr_interlock_code r = code)"

lemma blocked_frames:
  assumes "\<not> ready_for_afe (rn_interlock rt)" and "list_all wf_wire_command fs"
    and "list_all (\<lambda>f. wc_op f \<noteq> OpStatus) fs"
  shows "\<exists>outs. handle_frames hw (map encode_command fs) rt = Some (outs, beats (length fs) rt)
    \<and> length outs = length fs \<and> list_all (interlocked_reply (interlock_code (rn_interlock rt))) outs"
  using assms
proof (induction fs arbitrary: rt)
  case (Cons f fs)
  then have f: "wf_wire_command f" "wc_op f \<noteq> OpStatus" by simp_all
  from blocked_frame [OF Cons.prems(1), of hw "encode_command f"] obtain r
    where r: "handle_frame hw (encode_command f) rt = Some (encode_reply r, beats 1 rt)"
      "wr_status r = StInterlocked" "wr_interlock_code r = interlock_code (rn_interlock rt)"
    using f by (auto simp: command_decode_encode)
  from Cons.IH [of "beats 1 rt"] Cons.prems obtain outs
    where "handle_frames hw (map encode_command fs) (beats 1 rt) = Some (outs, beats (length (f # fs)) rt)"
      "length outs = length fs" "list_all (interlocked_reply (interlock_code (rn_interlock rt))) outs"
    by auto
  moreover have "interlocked_reply (interlock_code (rn_interlock rt)) (encode_reply r)"
    using r by (simp add: interlocked_reply_def reply_decode_encode)
  ultimately show ?case using r(1) by simp
qed simp

section \<open>Submitting over a reliable link\<close>

locale rpu_link =
  fixes hw :: "('h, 'e) afe_hardware" and kn :: "'k rpmsg_kernel"
    and firm :: "'k \<Rightarrow> 'h rpu_runtime" and out :: "'k \<Rightarrow> u8 list"
  assumes reliable: "link_reliable hw kn firm out"
begin

abbreviation idle :: "'h rpu_runtime \<Rightarrow> 'k rpmsg_transport \<Rightarrow> bool" where
  "idle rt t \<equiv> firm (rp_kernel t) = rt \<and> out (rp_kernel t) = []"

lemma write_frame:
  assumes "out k = []" and "length frame = 64" and "handle_frame hw frame (firm k) = Some (reply, rt)"
  obtains k' where "rk_write_all kn fd frame k = Some (Ok (), k')" "firm k' = rt" "out k' = reply"
  using reliable assms unfolding link_reliable_def by blast

lemma flush_ok: obtains k' where "rk_flush kn fd k = Some (Ok (), k')" "firm k' = firm k" "out k' = out k"
  using reliable unfolding link_reliable_def by blast

lemma poll_ok:
  assumes "out k \<noteq> []"
  obtains k' where "rk_poll kn fd ms k = ((1, POLLIN), k')" "firm k' = firm k" "out k' = out k"
  using reliable assms unfolding link_reliable_def by blast

lemma read_ok:
  assumes "length (out k) = 64"
  obtains k' where "rk_read_exact kn fd 64 k = Some (Ok (out k), k')" "firm k' = firm k" "out k' = []"
  using reliable assms unfolding link_reliable_def by blast

lemma sleep_ok [simp]: "firm (rk_sleep_ms kn n k) = firm k" "out (rk_sleep_ms kn n k) = out k"
  using reliable unfolding link_reliable_def by blast+

lemma pace_idle: "\<exists>t'. pace kn t = Some (Ok (), t') \<and> firm (rp_kernel t') = firm (rp_kernel t)
    \<and> out (rp_kernel t') = out (rp_kernel t)"
  by (simp add: pace_def modify_def)

lemma on_file_ok:
  "call (rp_file t) (rp_kernel t) = Some (Ok a, k') \<Longrightarrow>
   on_file call what t = Some (Ok a, t\<lparr>rp_kernel := k'\<rparr>)"
  by (simp add: on_file_def gets_def bindE_def map_errE_def zoom_def)

lemma wait_ok:
  assumes "out (rp_kernel t) \<noteq> []"
  shows "\<exists>k'. wait_readable kn t = Some (Ok (), t\<lparr>rp_kernel := k'\<rparr>)
    \<and> firm k' = firm (rp_kernel t) \<and> out k' = out (rp_kernel t)"
proof -
  obtain k' where "rk_poll kn (rp_file t)
      (if as_millis (rp_timeout t) < 2 ^ 31 then int (as_millis (rp_timeout t)) else 2 ^ 31 - 1)
      (rp_kernel t) = ((1, POLLIN), k')" "firm k' = firm (rp_kernel t)" "out k' = out (rp_kernel t)"
    by (rule poll_ok [OF assms])
  then show ?thesis by (intro exI [of _ k']) (simp add: wait_readable_def Let_def POLLIN_def)
qed

lemma accept_ok:
  assumes "decode_reply bytes = Ok r" and "wr_sequence r = wc_sequence c"
  shows "\<exists>t'. accept_reply kn c bytes t = Some (Ok r, t') \<and> firm (rp_kernel t') = firm (rp_kernel t)
    \<and> out (rp_kernel t') = out (rp_kernel t)"
  using assms
  by (simp add: accept_reply_def liftR_def bindE_def thenE_def modify_def ret_def pace_def)

lemma transact_ok:
  assumes "idle rt t" and "wf_wire_command c"
    and "handle_frame hw (encode_command c) rt = Some (bytes, rt')" and "decode_reply bytes = Ok r"
    and "wr_sequence r = wc_sequence c" and "length bytes = 64"
  shows "\<exists>t'. transact kn c t = Some (Ok r, t') \<and> idle rt' t'"
proof -
  obtain t1 where t1: "pace kn t = Some (Ok (), t1)" "idle rt t1"
    using pace_idle [of t] assms(1) by auto
  have len: "length (encode_command c) = 64" using assms(2) by simp
  obtain k2 where k2: "rk_write_all kn (rp_file t1) (encode_command c) (rp_kernel t1) = Some (Ok (), k2)"
    "firm k2 = rt'" "out k2 = bytes"
    by (rule write_frame [of "rp_kernel t1" "encode_command c" bytes rt'])
       (use t1 len assms(3) in auto)
  let ?t2 = "t1\<lparr>rp_kernel := k2\<rparr>"
  obtain k3 where k3: "rk_flush kn (rp_file ?t2) (rp_kernel ?t2) = Some (Ok (), k3)" "firm k3 = rt'" "out k3 = bytes"
    by (rule flush_ok [of "rp_file ?t2" "rp_kernel ?t2"]) (use k2 in auto)
  let ?t3 = "?t2\<lparr>rp_kernel := k3\<rparr>"
  have "out (rp_kernel ?t3) \<noteq> []" using k3 assms(6) by auto
  from wait_ok [OF this] obtain k4 where k4: "wait_readable kn ?t3 = Some (Ok (), ?t3\<lparr>rp_kernel := k4\<rparr>)"
    "firm k4 = rt'" "out k4 = bytes" using k3 by auto
  let ?t4 = "?t3\<lparr>rp_kernel := k4\<rparr>"
  obtain k5 where k5: "rk_read_exact kn (rp_file ?t4) 64 (rp_kernel ?t4) = Some (Ok bytes, k5)"
    "firm k5 = rt'" "out k5 = []"
    by (rule read_ok [of "rp_kernel ?t4" "rp_file ?t4"]) (use k4 assms(6) in auto)
  obtain t6 where t6: "accept_reply kn c bytes (?t4\<lparr>rp_kernel := k5\<rparr>) = Some (Ok r, t6)" "idle rt' t6"
    using accept_ok [OF assms(4,5), of "?t4\<lparr>rp_kernel := k5\<rparr>"] k5 by auto
  note calls = on_file_ok [of "\<lambda>fd. rk_write_all kn fd (encode_command c)" t1, OF k2(1)]
    on_file_ok [of "rk_flush kn" ?t2, OF k3(1)] on_file_ok [of "\<lambda>fd. rk_read_exact kn fd 64" ?t4, OF k5(1)]
  have "transact kn c t = Some (Ok r, t6)"
    using calls t1(1) k4(1) t6(1)
    by (simp add: transact_def thenE_def bindE_def RPU_WIRE_REPLY_LEN_def)
  with t6(2) show ?thesis by blast
qed

lemma handle_frame_ok:
  assumes "handle_frame hw (encode_command c) rt = Some (bytes, rt')" and "wf_wire_command c"
  obtains r where "decode_reply bytes = Ok r" "wr_sequence r = wc_sequence c" "length bytes = 64"
  using frame_reply [OF assms(1)] command_decode_encode [OF assms(2)]
  by (auto simp: decode_reply_def Let_def RPU_WIRE_REPLY_LEN_def split: if_splits)

lemma send_frames_ok:
  assumes "idle rt t" and "list_all wf_wire_command fs"
    and "handle_frames hw (map encode_command fs) rt = Some (outs, rt')"
  shows "\<exists>t' final. send_frames kn m idx fs last_reply t = Some (Ok final, t') \<and> idle rt' t'
    \<and> (if fs = [] then final = last_reply else \<exists>r. final = Some r \<and> decode_reply (last outs) = Ok r)"
  using assms
proof (induction fs arbitrary: rt t idx last_reply outs)
  case Nil
  then show ?case by (simp add: ret_def)
next
  case (Cons f fs)
  from Cons.prems(3) obtain bytes rt1 outs' where h: "handle_frame hw (encode_command f) rt = Some (bytes, rt1)"
    "handle_frames hw (map encode_command fs) rt1 = Some (outs', rt')" "outs = bytes # outs'"
    by (auto split: option.splits)
  from Cons.prems(2) have wf: "wf_wire_command f" "list_all wf_wire_command fs" by simp_all
  obtain r where r: "decode_reply bytes = Ok r" "wr_sequence r = wc_sequence f" "length bytes = 64"
    by (rule handle_frame_ok [OF h(1) wf(1)])
  obtain t1 where t1: "transact kn f t = Some (Ok r, t1)" "idle rt1 t1"
    using transact_ok [OF Cons.prems(1) wf(1) h(1) r] by blast
  obtain t' final where t': "send_frames kn m (idx + 1) fs (Some r) t1 = Some (Ok final, t')" "idle rt' t'"
    "if fs = [] then final = Some r else \<exists>r. final = Some r \<and> decode_reply (last outs') = Ok r"
    using Cons.IH [OF t1(2) wf(2) h(2)] by blast
  have "send_frames kn m idx (f # fs) last_reply t = Some (Ok final, t')"
    using t1(1) t'(1) by (simp add: bindE_def map_errE_def)
  moreover have "outs' = [] \<longleftrightarrow> fs = []"
    using h(2) by (cases fs) (auto split: option.splits)
  ultimately show ?case
    using t'(2,3) h(3) r(1) by (auto split: if_splits)
qed

lemma submit_runs:
  assumes "idle rt t" and "validate c = Ok ()" and "frame_count_for_afe_command c = Ok n"
    and "reserve_sequences n t = Some (Ok first, u)" and "from_afe_command_sequence first c = Ok fs"
    and "handle_frames hw (map encode_command fs) rt = Some (outs, rt')"
  shows "\<exists>t' r. rpmsg_submit kn c t = Some (Ok (reply_of r), t') \<and> decode_reply (last outs) = Ok r
    \<and> idle rt' t'"
proof -
  note nums = from_afe_command_sequence_numbers [OF assms(5)]
  have "fs \<noteq> []" using nums(1) assms(3) frame_count_bounds [OF assms(3)] by auto
  moreover have "idle rt u" using assms(1) reserve_sequences_kernel [OF assms(4)] by simp
  ultimately obtain t' r where "send_frames kn n 0 fs None u = Some (Ok (Some r), t')"
    "idle rt' t'" "decode_reply (last outs) = Ok r"
    using send_frames_ok [OF _ nums(3) assms(6), of u n 0 None] by auto
  then show ?thesis
    using assms(2-5)
    by (intro exI [of _ t'] exI [of _ r])
       (simp add: rpmsg_submit_steps thenE_def bindE_def liftR_def wire_rejected_def ok_or_def ret_def)
qed

lemma reserve_sequences_total: "\<exists>first u. reserve_sequences n t = Some (Ok first, u)"
  by (simp add: reserve_sequences_def Let_def)

lemma frames_need_count:
  "from_afe_command_sequence s c = Ok fs \<Longrightarrow> frame_count_for_afe_command c = Ok (length fs)"
  by (rule from_afe_command_sequence_numbers(1))

lemma configure_runs:
  assumes "idle rt t" and "validate (ConfigureFrontend afes chs bias_control) = Ok ()"
    and "length afes \<le> 65535" and "length chs \<le> 65535"
    and "ready_for_afe (rn_interlock rt)"
    and "configure_directly hw afes chs bias_control (rn_hardware rt) = Some (Ok (), h')"
  shows "\<exists>t' reply. rpmsg_submit kn (ConfigureFrontend afes chs bias_control) t = Some (Ok reply, t')
    \<and> ar_accepted reply \<and> ar_applied reply \<and> rn_hardware (firm (rp_kernel t')) = h'"
proof -
  let ?c = "ConfigureFrontend afes chs bias_control"
  obtain first u where res: "reserve_sequences (2 + length afes + length chs) t = Some (Ok first, u)"
    using reserve_sequences_total by blast
  obtain fs where fs: "from_afe_command_sequence first ?c = Ok fs"
    using configure_frontend_sequence_eq [OF assms(3,4)] by (simp add: from_afe_command_sequence_def)
  have count: "frame_count_for_afe_command ?c = Ok (2 + length afes + length chs)"
    using assms(3,4) by (simp add: frame_count_for_afe_command_def ensure_record_count_def)
  obtain outs rt' where outs: "handle_frames hw (map encode_command fs) rt = Some (outs, rt')"
    "length outs = length fs" "list_all applied outs" "rn_hardware rt' = h'"
    using configuration_frames [OF fs assms(5,6)] by blast
  obtain t' r where sub: "rpmsg_submit kn ?c t = Some (Ok (reply_of r), t')"
    "decode_reply (last outs) = Ok r" "idle rt' t'"
    using submit_runs [OF assms(1,2) count res fs outs(1)] by blast
  have "length fs \<noteq> 0" using frames_need_count [OF fs] count by auto
  with outs(2) have "last outs \<in> set outs" by (intro last_in_set) auto
  with outs(3) sub(2) have "wr_status r = StApplied"
    by (auto simp: list_all_iff applied_def)
  with sub(1,3) outs(4) show ?thesis by (auto simp: reply_of_def reply_outcome_def)
qed

lemma submit_interlocked:
  assumes "idle rt t" and "\<not> ready_for_afe (rn_interlock rt)"
  shows "\<exists>res t' n. rpmsg_submit kn c t = Some (res, t') \<and> idle (beats n rt) t'
    \<and> (\<forall>reply. res = Ok reply \<longrightarrow> \<not> ar_accepted reply \<and> \<not> ar_applied reply
         \<and> ar_context_code reply = interlock_code (rn_interlock rt))
    \<and> (validate c = Ok () \<and> (\<forall>s. is_ok (from_afe_command_sequence s c)) \<longrightarrow> is_ok res)"
proof -
  have stop: ?thesis if "rpmsg_submit kn c t = Some (Err e, u)" "rp_kernel u = rp_kernel t"
    "validate c \<noteq> Ok () \<or> \<not> (\<forall>s. is_ok (from_afe_command_sequence s c))" for e u
    using that assms(1) by (auto intro!: exI [of _ 0])
  show ?thesis
  proof (cases "validate c")
    case (Err e)
    then show ?thesis
      by (intro stop) (auto simp: rpmsg_submit_steps thenE_def bindE_def liftR_def)
  next
    case valid: (Ok v)
    show ?thesis
    proof (cases "frame_count_for_afe_command c")
      case (Err e)
      have "\<not> is_ok (from_afe_command_sequence s c)" for s
        using frames_need_count [of s c] Err by (cases "from_afe_command_sequence s c") auto
      with Err valid show ?thesis
        by (intro stop) (auto simp: rpmsg_submit_steps thenE_def bindE_def liftR_def wire_rejected_def)
    next
      case count: (Ok n)
      obtain first u where res: "reserve_sequences n t = Some (Ok first, u)"
        using reserve_sequences_total by blast
      show ?thesis
      proof (cases "from_afe_command_sequence first c")
        case (Err e)
        then have "\<not> is_ok (from_afe_command_sequence first c)" by simp
        with Err valid count res show ?thesis
          by (intro stop [of _ u])
             (auto simp: rpmsg_submit_steps thenE_def bindE_def liftR_def wire_rejected_def
               dest: reserve_sequences_kernel intro!: exI [of _ first])
      next
        case fs: (Ok fs)
        obtain outs where outs: "handle_frames hw (map encode_command fs) rt = Some (outs, beats (length fs) rt)"
          "length outs = length fs" "list_all (interlocked_reply (interlock_code (rn_interlock rt))) outs"
          using blocked_frames [OF assms(2) from_afe_command_sequence_numbers(3) [OF fs]
              command_frames_not_status [OF fs]] by blast
        have "validate c = Ok ()" using valid by simp
        from submit_runs [OF assms(1) this count res fs outs(1)] obtain t' r
          where sub: "rpmsg_submit kn c t = Some (Ok (reply_of r), t')"
            "decode_reply (last outs) = Ok r" "idle (beats (length fs) rt) t'" by blast
        have "length fs \<noteq> 0" using frames_need_count [OF fs] count frame_count_bounds [OF count] by auto
        with outs(2) have "last outs \<in> set outs" by (intro last_in_set) auto
        with outs(3) sub(2) have "wr_status r = StInterlocked"
          "wr_interlock_code r = interlock_code (rn_interlock rt)"
          by (auto simp: list_all_iff interlocked_reply_def)
        with sub(1,3) show ?thesis by (auto simp: reply_of_def reply_outcome_def)
      qed
    qed
  qed
qed

end

section \<open>The direct link\<close>

text \<open>The two programs joined: a written frame is handled at once, its reply waits to be read.
  A frame that the runtime panics on is never answered.\<close>

record 'h direct_link =
  dl_runtime :: "'h rpu_runtime"
  dl_reply :: "u8 list"

definition direct_kernel :: "('h, 'e) afe_hardware \<Rightarrow> 'h direct_link rpmsg_kernel" where
  "direct_kernel hw =
     \<lparr>rk_open = (\<lambda>path. ret 3),
      rk_sleep_ms = (\<lambda>n k. k),
      rk_write_all = (\<lambda>fd frame k. case handle_frame hw frame (dl_runtime k) of
        None \<Rightarrow> Some (Ok (), k)
      | Some (reply, rt) \<Rightarrow> Some (Ok (), \<lparr>dl_runtime = rt, dl_reply = reply\<rparr>)),
      rk_flush = (\<lambda>fd. ret ()),
      rk_poll = (\<lambda>fd ms k. (if dl_reply k = [] then (0, 0) else (1, POLLIN), k)),
      rk_last_error = (\<lambda>k. []),
      rk_read_exact = (\<lambda>fd n k. Some (Ok (take n (dl_reply k)), k\<lparr>dl_reply := drop n (dl_reply k)\<rparr>))\<rparr>"

lemma direct_link_reliable: "link_reliable hw (direct_kernel hw) dl_runtime dl_reply"
  by (simp add: link_reliable_def direct_kernel_def ret_def)

lemma watched_reliable:
  assumes "link_reliable hw kn firm out"
  shows "link_reliable hw (watched kn) (firm \<circ> fst) (out \<circ> fst)"
  unfolding link_reliable_def
proof (intro conjI allI impI; (elim conjE)?)
  note link = rpu_link.intro [OF assms]
  fix fd ms n and k :: "'c \<times> rpmsg_event list"
  obtain k0 log where k: "k = (k0, log)" by (cases k)
  show "\<exists>k'. rk_flush (watched kn) fd k = Some (Ok (), k') \<and> (firm \<circ> fst) k' = (firm \<circ> fst) k
      \<and> (out \<circ> fst) k' = (out \<circ> fst) k"
    by (rule rpu_link.flush_ok [OF link, of fd k0]) (simp add: watched_def zoom_def k)
  show "\<exists>k'. rk_poll (watched kn) fd ms k = ((1, POLLIN), k') \<and> (firm \<circ> fst) k' = (firm \<circ> fst) k
      \<and> (out \<circ> fst) k' = (out \<circ> fst) k" if "(out \<circ> fst) k \<noteq> []"
    by (rule rpu_link.poll_ok [OF link, of k0 fd ms]) (use that in \<open>simp_all add: watched_def k\<close>)
  show "\<exists>k'. rk_read_exact (watched kn) fd 64 k = Some (Ok ((out \<circ> fst) k), k')
      \<and> (firm \<circ> fst) k' = (firm \<circ> fst) k \<and> (out \<circ> fst) k' = []" if "length ((out \<circ> fst) k) = 64"
    by (rule rpu_link.read_ok [OF link, of k0 fd]) (use that in \<open>simp_all add: watched_def k\<close>)
  show "(firm \<circ> fst) (rk_sleep_ms (watched kn) n k) = (firm \<circ> fst) k"
    "(out \<circ> fst) (rk_sleep_ms (watched kn) n k) = (out \<circ> fst) k"
    using rpu_link.sleep_ok [OF link] by (simp_all add: watched_def k)
next
  fix fd frame reply rt and k :: "'c \<times> rpmsg_event list"
  obtain k0 log where k: "k = (k0, log)" by (cases k)
  assume frame: "length frame = 64" "(out \<circ> fst) k = []"
    "handle_frame hw frame ((firm \<circ> fst) k) = Some (reply, rt)"
  show "\<exists>k'. rk_write_all (watched kn) fd frame k = Some (Ok (), k') \<and> (firm \<circ> fst) k' = rt
      \<and> (out \<circ> fst) k' = reply"
    by (rule rpu_link.write_frame [OF rpu_link.intro [OF assms], of k0 frame reply rt fd])
       (use frame in \<open>simp_all add: watched_def k\<close>)
qed

text \<open>The block of numbers that a command takes.\<close>

lemma reserved_block:
  assumes "frame_count_for_afe_command c = Ok n" and "reserve_sequences n t = Some (Ok first, u)"
    and "from_afe_command_sequence first c = Ok fs" and "1 \<le> rp_next_sequence t"
  shows "first = (if unat (rp_next_sequence t) + length fs < 2 ^ 64 then rp_next_sequence t else 1)"
    and "fs \<noteq> []" and "rp_kernel u = rp_kernel t"
    and "map (\<lambda>f. unat (wc_sequence f)) fs = [unat first..<unat first + length fs]"
    and "unat (rp_next_sequence u) = unat first + length fs"
proof -
  note n = frame_count_bounds [OF assms(1)]
  have len: "length fs = n" using from_afe_command_sequence_numbers(1) [OF assms(3)] assms(1) by simp
  from reserve_sequences_block [OF assms(2) _ _ assms(4)] n
  have first: "1 \<le> first" "unat first + n < 2 ^ 64"
      "first = rp_next_sequence t \<or> first = 1 \<and> 2 ^ 64 \<le> unat (rp_next_sequence t) + n"
    and u: "u = t\<lparr>rp_next_sequence := first + word_of_nat n\<rparr>" "unat (first + word_of_nat n) = unat first + n"
    by auto
  show "first = (if unat (rp_next_sequence t) + length fs < 2 ^ 64 then rp_next_sequence t else 1)"
    using first(2,3) len by auto
  show "fs \<noteq> []" using len n by auto
  show "rp_kernel u = rp_kernel t" "unat (rp_next_sequence u) = unat first + length fs" using u len by simp_all
  show "map (\<lambda>f. unat (wc_sequence f)) fs = [unat first..<unat first + length fs]"
    using reserved_numbers [OF assms(3) first(1)] first(2) len by simp
qed

interpretation direct: rpu_link hw "direct_kernel hw" dl_runtime dl_reply for hw
  by unfold_locales (rule direct_link_reliable)

section \<open>Properties\<close>

text \<open>C14: a submitted command is exchanged in lock step: when the transport returns a reply, the
  device saw exactly the frames of the command, each followed by the bytes of a reply with its own
  sequence number, and the result translates the last reply.  The frames are numbered consecutively
  from the next number of the transport, or from 1 when they do not fit below 2 ^ 64, so without
  zero and without wrap-around, and the next number is then the one after the last of them.  When
  the submission fails, nothing was sent, or the frames before the failing one were answered.\<close>

theorem submit_exchanges:
  assumes "rpmsg_submit (watched kn) command t = Some (res, t')" and "1 \<le> rp_next_sequence t"
  shows "case res of
      Ok reply \<Rightarrow> \<exists>first fs xs final. from_afe_command_sequence first command = Ok fs
        \<and> first = (if unat (rp_next_sequence t) + length fs < 2 ^ 64 then rp_next_sequence t else 1)
        \<and> map (\<lambda>f. unat (wc_sequence f)) fs = [unat first..<unat first + length fs]
        \<and> unat (rp_next_sequence t') = unat first + length fs
        \<and> map fst xs = fs \<and> answered xs \<and> events t' = events t @ exchanges xs
        \<and> final = snd (snd (last xs)) \<and> (ar_accepted reply, ar_applied reply, ar_message reply) = reply_outcome final
        \<and> ar_readback reply = wr_readback final
    | Err _ \<Rightarrow> events t' = events t
        \<or> (\<exists>first fs xs f bytes es. from_afe_command_sequence first command = Ok fs
          \<and> first = (if unat (rp_next_sequence t) + length fs < 2 ^ 64 then rp_next_sequence t else 1)
          \<and> prefix (map fst xs @ [f]) fs \<and> answered xs \<and> prefix es (exchange f bytes)
          \<and> events t' = events t @ exchanges xs @ es)"
proof -
  from assms(1) show ?thesis
  proof (cases rule: submit_ends)
    case (early e)
    then show ?thesis by (simp add: events_def)
  next
    case (sending n first u fs e)
    note block = reserved_block [OF sending(1-3) assms(2)]
    from send_frames_events [OF sending(4)] obtain xs f bytes es where "prefix (map fst xs @ [f]) fs" "answered xs"
      "prefix es (exchange f bytes)" "events t' = events u @ exchanges xs @ es" by auto
    moreover have "events u = events t" using block(3) by (simp add: events_def)
    ultimately have "from_afe_command_sequence first command = Ok fs
      \<and> first = (if unat (rp_next_sequence t) + length fs < 2 ^ 64 then rp_next_sequence t else 1)
      \<and> prefix (map fst xs @ [f]) fs \<and> answered xs \<and> prefix es (exchange f bytes)
      \<and> events t' = events t @ exchanges xs @ es"
      using sending(3) block(1) by simp
    then show ?thesis unfolding sending(5) result.case
      by (intro disjI2 exI [of _ first] exI [of _ fs] exI [of _ xs] exI [of _ f] exI [of _ bytes] exI [of _ es])
  next
    case (answered n first u fs final)
    note block = reserved_block [OF answered(1-3) assms(2)]
    from send_frames_events [OF answered(4)] obtain xs
      where xs: "map fst xs = fs" "answered xs" "events t' = events u @ exchanges xs"
        "final = (if xs = [] then None else Some (snd (snd (last xs))))" by auto
    have "xs \<noteq> []" using xs(1) block(2) by auto
    with xs(4) answered(6) have res: "res = Ok (reply_of (snd (snd (last xs))))" by simp
    have "rp_next_sequence t' = rp_next_sequence u"
      by (rule leavesD [OF send_frames_leaves_sequence answered(4)])
    with answered(3) xs(1-3) block have "from_afe_command_sequence first command = Ok fs
        \<and> first = (if unat (rp_next_sequence t) + length fs < 2 ^ 64 then rp_next_sequence t else 1)
        \<and> map (\<lambda>f. unat (wc_sequence f)) fs = [unat first..<unat first + length fs]
        \<and> unat (rp_next_sequence t') = unat first + length fs
        \<and> map fst xs = fs \<and> answered xs \<and> events t' = events t @ exchanges xs"
      by (simp add: events_def)
    then show ?thesis
      unfolding res result.case
      by (intro exI [of _ first] exI [of _ fs] exI [of _ xs] exI [of _ "snd (snd (last xs))"] conjI; (elim conjE)?)
         (assumption | simp add: reply_of_def)+
  qed
qed

definition fresh_transport :: "'k \<Rightarrow> 'k rpmsg_transport" where
  "fresh_transport k = \<lparr>rp_kernel = k, rp_file = 3, rp_next_sequence = 1, rp_timeout = 2000000000,
     rp_last_heartbeat = None, rp_last_fault = None\<rparr>"

definition ready_link :: "fake_hardware direct_link" where
  "ready_link = \<lparr>dl_runtime = set_interlock ready_interlock (runtime_new default_fake_hardware), dl_reply = []\<rparr>"

definition new_link :: "fake_hardware direct_link" where
  "new_link = \<lparr>dl_runtime = runtime_new default_fake_hardware, dl_reply = []\<rparr>"

lemma new_link_facts:
  "dl_runtime new_link = runtime_new default_fake_hardware" "dl_reply new_link = []"
  "rp_kernel (fresh_transport k) = k" "rp_next_sequence (fresh_transport k) = 1"
  "rn_interlock (runtime_new h) = default_interlock" "\<not> ready_for_afe default_interlock"
  "interlock_code default_interlock = 0x3F"
  by (simp_all add: new_link_def fresh_transport_def runtime_new_def default_interlock_def
      ready_for_afe_def interlock_code_def of_flag_def)

lemma is_ok_iff: "is_ok r \<longleftrightarrow> (\<exists>a. r = Ok a)"
  by (simp add: is_ok_def split: result.splits)

lemma do_reset_frames: "validate DoReset = Ok ()" "is_ok (from_afe_command_sequence s DoReset)"
  by (simp_all add: validate_def from_afe_command_sequence_def from_afe_command_def Let_def)

theorem submit_exchanges_witness:
  "\<exists>reply t' fs xs. rpmsg_submit (watched (direct_kernel fake_afe_hardware)) DoReset
       (fresh_transport (new_link, [])) = Some (Ok reply, t')
     \<and> from_afe_command_sequence 1 DoReset = Ok fs \<and> map fst xs = fs \<and> answered xs
     \<and> events t' = exchanges xs \<and> unat (rp_next_sequence t') = 1 + length fs"
proof -
  let ?t = "fresh_transport (new_link, [])"
  have out: "(dl_reply \<circ> fst) (rp_kernel ?t) = []"
    and blocked: "\<not> ready_for_afe (rn_interlock ((dl_runtime \<circ> fst) (rp_kernel ?t)))"
    by (simp_all add: new_link_facts)
  note link = rpu_link.intro [OF watched_reliable [OF direct_link_reliable [of fake_afe_hardware]]]
  from rpu_link.submit_interlocked [OF link _ blocked, where c = DoReset and t = ?t] out do_reset_frames
  obtain reply t' where s: "rpmsg_submit (watched (direct_kernel fake_afe_hardware)) DoReset ?t = Some (Ok reply, t')"
    by (auto simp: is_ok_iff)
  have one: "1 \<le> rp_next_sequence ?t" "rp_next_sequence ?t = 1" "events ?t = []"
    by (simp_all add: new_link_facts events_def)
  from submit_exchanges [OF s one(1)] obtain fs xs where "from_afe_command_sequence 1 DoReset = Ok fs"
    "map fst xs = fs" "answered xs" "events t' = exchanges xs" "unat (rp_next_sequence t') = 1 + length fs"
    by (auto simp: one(2,3) cong: if_cong)
  with s show ?thesis by blast
qed

text \<open>C12: a frontend configuration submitted over a reliable link to a firmware whose interlock is
  ready does on the hardware exactly the direct calls of the configuration, and is reported as
  accepted and applied.\<close>

theorem configure_over_link:
  assumes "link_reliable hw kn firm out" and "out (rp_kernel t) = []"
    and "validate (ConfigureFrontend afes chs bias_control) = Ok ()"
    and "length afes \<le> 65535" and "length chs \<le> 65535"
    and "ready_for_afe (rn_interlock (firm (rp_kernel t)))"
    and "configure_directly hw afes chs bias_control (rn_hardware (firm (rp_kernel t))) = Some (Ok (), h')"
  shows "\<exists>t' reply. rpmsg_submit kn (ConfigureFrontend afes chs bias_control) t = Some (Ok reply, t')
    \<and> ar_accepted reply \<and> ar_applied reply \<and> rn_hardware (firm (rp_kernel t')) = h'"
  using rpu_link.configure_runs [OF rpu_link.intro [OF assms(1)] _ assms(3-7)] assms(2) by blast

theorem configure_over_link_witness:
  "\<exists>t' reply. rpmsg_submit (direct_kernel fake_afe_hardware) (ConfigureFrontend [] [] 600)
       (fresh_transport ready_link) = Some (Ok reply, t') \<and> ar_applied reply
     \<and> fh_apply_count (rn_hardware (dl_runtime (rp_kernel t'))) = 1"
proof -
  let ?t = "fresh_transport ready_link"
  have ready: "ready_for_afe (rn_interlock (dl_runtime (rp_kernel ?t)))" and out: "dl_reply (rp_kernel ?t) = []"
    by (simp_all add: fresh_transport_def ready_link_def set_interlock_def ready_interlock_def ready_for_afe_def)
  have valid: "validate (ConfigureFrontend [] [] 600) = Ok ()" by code_simp
  obtain h' where h': "configure_directly fake_afe_hardware [] [] 600
      (rn_hardware (dl_runtime (rp_kernel ?t))) = Some (Ok (), h')" "fh_apply_count h' = 1"
    by (simp add: configure_directly_def fake_afe_hardware_def thenE_def bindE_def modify_def ret_def
        gets_def fresh_transport_def ready_link_def set_interlock_def runtime_new_def default_fake_hardware_def)
  from configure_over_link [OF direct_link_reliable out valid _ _ ready h'(1)] h'(2) show ?thesis by auto
qed

text \<open>Over a reliable link to a firmware whose interlock is not ready, submitting any command
  returns, leaves hardware, configuration session and interlock as they were, and a reply says
  neither accepted nor applied and carries the failed conditions; a valid command is answered.\<close>

theorem interlocked_over_link:
  assumes "link_reliable hw kn firm out" and "out (rp_kernel t) = []"
    and "\<not> ready_for_afe (rn_interlock (firm (rp_kernel t)))"
  shows "\<exists>res t'. rpmsg_submit kn c t = Some (res, t')
    \<and> rn_hardware (firm (rp_kernel t')) = rn_hardware (firm (rp_kernel t))
    \<and> rn_config_state (firm (rp_kernel t')) = rn_config_state (firm (rp_kernel t))
    \<and> (\<forall>reply. res = Ok reply \<longrightarrow> \<not> ar_accepted reply \<and> \<not> ar_applied reply
         \<and> ar_context_code reply = interlock_code (rn_interlock (firm (rp_kernel t))))
    \<and> (validate c = Ok () \<and> (\<forall>s. is_ok (from_afe_command_sequence s c)) \<longrightarrow> is_ok res)"
  using rpu_link.submit_interlocked [OF rpu_link.intro [OF assms(1)] _ assms(3), of t c] assms(2)
  by fastforce

theorem interlocked_over_link_witness:
  "\<exists>reply t'. rpmsg_submit (direct_kernel fake_afe_hardware) DoReset (fresh_transport new_link) = Some (Ok reply, t')
     \<and> \<not> ar_accepted reply \<and> ar_context_code reply = 0x3F"
proof -
  let ?t = "fresh_transport new_link"
  have blocked: "\<not> ready_for_afe (rn_interlock (dl_runtime (rp_kernel ?t)))"
    and code: "interlock_code (rn_interlock (dl_runtime (rp_kernel ?t))) = 0x3F"
    and out: "dl_reply (rp_kernel ?t) = []"
    by (simp_all add: new_link_facts)
  from interlocked_over_link [OF direct_link_reliable [of fake_afe_hardware] out blocked, where c = DoReset]
    code do_reset_frames show ?thesis by (auto simp: is_ok_iff)
qed

end
