(* ===== verification/Endpoint.thy ===== *)
theory Endpoint
  imports ByteCodec
begin

text \<open>
  The registers of the timing endpoint (\<open>daphne-sc-server/src/endpoint.rs\<close>): one page of physical
  memory is mapped read-only through \<open>/dev/mem\<close> for each register, four bytes are loaded and the
  page is unmapped.  The system calls are a parameter.
\<close>

section \<open>The kernel\<close>

text \<open>\<open>mm_mmap fd len offset\<close> returns the address of a mapping, \<open>mm_load\<close> is a volatile load of one
  byte, \<open>mm_page_size\<close> is \<open>sysconf(_SC_PAGESIZE)\<close> and \<open>mm_munmap\<close> returns a status.  \<open>usize\<close> has
  64 bits on the target.\<close>

record 'k mem_kernel =
  mm_open :: "string \<Rightarrow> ('k, nat, string) eff"
  mm_close :: "nat \<Rightarrow> 'k \<Rightarrow> 'k"
  mm_page_size :: "'k \<Rightarrow> int"
  mm_mmap :: "nat \<Rightarrow> u64 \<Rightarrow> u64 \<Rightarrow> 'k \<Rightarrow> u64 option \<times> 'k"
  mm_load :: "u64 \<Rightarrow> 'k \<Rightarrow> u8 \<times> 'k"
  mm_munmap :: "u64 \<Rightarrow> u64 \<Rightarrow> 'k \<Rightarrow> int \<times> 'k"
  mm_last_error :: "'k \<Rightarrow> string"

definition DEV_MEM :: string where "DEV_MEM = ''/dev/mem''"
definition EP_BASE :: u64 where "EP_BASE = 0x84000000"
definition EP_CLK_CTRL :: u64 where "EP_CLK_CTRL = EP_BASE"
definition EP_CLK_STAT :: u64 where "EP_CLK_STAT = EP_BASE + 0x4"
definition EP_STAT :: u64 where "EP_STAT = EP_BASE + 0xC"

section \<open>Fields\<close>

record endpoint_register_status =
  er_clock_control :: u32
  er_clock_status :: u32
  er_endpoint_status :: u32

definition bit_set :: "u32 \<Rightarrow> nat \<Rightarrow> bool" where
  "bit_set value n \<longleftrightarrow> value AND push_bit n 1 \<noteq> 0"

definition endpoint_clock_source :: "endpoint_register_status \<Rightarrow> bool" where
  "endpoint_clock_source s = bit_set (er_clock_control s) 2"

definition mmcm0_locked :: "endpoint_register_status \<Rightarrow> bool" where
  "mmcm0_locked s = bit_set (er_clock_status s) 0"

definition mmcm1_locked :: "endpoint_register_status \<Rightarrow> bool" where
  "mmcm1_locked s = bit_set (er_clock_status s) 1"

definition endpoint_state :: "endpoint_register_status \<Rightarrow> u8" where
  "endpoint_state s = ucast (er_endpoint_status s AND 0xF)"

definition timestamp_ok :: "endpoint_register_status \<Rightarrow> bool" where
  "timestamp_ok s = bit_set (er_endpoint_status s) 4"

section \<open>Reading\<close>

definition page_size :: "'k mem_kernel \<Rightarrow> ('k, u64, string) eff" where
  "page_size kn k =
     (let n = mm_page_size kn k in
      if n \<le> 0 then Some (Err (''sysconf(_SC_PAGESIZE): '' @ mm_last_error kn k), k)
      else Some (Ok (word_of_int n), k))"

definition load_byte :: "'k mem_kernel \<Rightarrow> u64 \<Rightarrow> ('k, u8, string) eff" where
  "load_byte kn p k = (let (b, k') = mm_load kn p k in Some (Ok b, k'))"

text \<open>The page an address is on and the offset of the address within it.\<close>

definition page_base_of :: "u64 \<Rightarrow> u64 \<Rightarrow> u64" where
  "page_base_of psize address = address AND NOT (psize - 1)"

definition load_mapped :: "'k mem_kernel \<Rightarrow> u64 \<Rightarrow> u64 \<Rightarrow> u64 \<Rightarrow> ('k, u32, string) eff" where
  "load_mapped kn psize mapping page_offset =
     (let base = mapping + page_offset in
      bindE (load_byte kn base) (\<lambda>b0.
      bindE (load_byte kn (base + 1)) (\<lambda>b1.
      bindE (load_byte kn (base + 2)) (\<lambda>b2.
      bindE (load_byte kn (base + 3)) (\<lambda>b3.
      \<lambda>k. let (rc, k') = mm_munmap kn mapping psize k in
          if rc \<noteq> 0 then Some (Err (''munmap: '' @ mm_last_error kn k'), k')
          else Some (Ok (from_le [b0, b1, b2, b3]), k'))))))"

definition read_page :: "'k mem_kernel \<Rightarrow> nat \<Rightarrow> u64 \<Rightarrow> u64 \<Rightarrow> ('k, u32, string) eff" where
  "read_page kn fd psize address =
     (let page_base = page_base_of psize address;
          page_offset = address - page_base
      in (\<lambda>k. case mm_mmap kn fd psize page_base k of
           (None, k') \<Rightarrow> Some (Err (''mmap 0x'' @ fmt_hex_upper 8 page_base @ '': '' @ mm_last_error kn k'), k')
         | (Some mapping, k') \<Rightarrow> load_mapped kn psize mapping page_offset k'))"

definition read_mapped :: "'k mem_kernel \<Rightarrow> nat \<Rightarrow> u64 \<Rightarrow> ('k, u32, string) eff" where
  "read_mapped kn fd address = bindE (page_size kn) (\<lambda>psize. read_page kn fd psize address)"

text \<open>The file is closed on every way out.\<close>

definition read_phys_u32 :: "'k mem_kernel \<Rightarrow> u64 \<Rightarrow> ('k, u32, string) eff" where
  "read_phys_u32 kn address =
     bindE (map_errE (\<lambda>err. DEV_MEM @ '': '' @ err) (mm_open kn DEV_MEM)) (\<lambda>fd k.
       case read_mapped kn fd address k of None \<Rightarrow> None | Some (r, k') \<Rightarrow> Some (r, mm_close kn fd k'))"

definition read_endpoint_register_status ::
    "'k mem_kernel \<Rightarrow> ('k, endpoint_register_status, string) eff" where
  "read_endpoint_register_status kn =
     bindE (read_phys_u32 kn EP_CLK_CTRL) (\<lambda>clock_control.
     bindE (read_phys_u32 kn EP_CLK_STAT) (\<lambda>clock_status.
     bindE (read_phys_u32 kn EP_STAT) (\<lambda>endpoint_status.
     ret \<lparr>er_clock_control = clock_control, er_clock_status = clock_status,
          er_endpoint_status = endpoint_status\<rparr>)))"

section \<open>The page arithmetic\<close>

lemma page_split:
  fixes address :: u64
  shows "page_base_of (2 ^ n) address = address - take_bit n address"
proof -
  have "(address AND NOT (mask n)) + take_bit n address = address"
    by (subst disjunctive_add) (auto simp: bit_simps intro!: bit_eqI)
  then show ?thesis
    by (simp add: page_base_of_def flip: mask_eq_decr_exp) (metis add_diff_cancel_right')
qed

lemma page_offset_room:
  fixes address :: u64
  assumes "2 \<le> n" "n < 64" "take_bit 2 address = 0"
  shows "unat (address - page_base_of (2 ^ n) address) + 3 < 2 ^ n"
proof -
  have 1: "unat (take_bit n address) = unat address mod 2 ^ n"
    by (metis unsigned_take_bit_eq take_bit_nat_def)
  have "unat (take_bit 2 address) = unat address mod 4"
    by (metis unsigned_take_bit_eq take_bit_nat_def num_double power2_eq_square numeral_times_numeral)
  with assms(3) have 0: "unat address mod 4 = 0" by simp
  have "(4::nat) dvd 2 ^ n" using le_imp_power_dvd [OF assms(1), of "2 :: nat"] by simp
  with 0 have "(unat address mod 2 ^ n) mod 4 = 0" by (simp add: mod_mod_cancel)
  then obtain r where r: "unat address mod 2 ^ n = 4 * r" by (metis mod_0_imp_dvd dvdE)
  from \<open>4 dvd 2 ^ n\<close> obtain q where q: "(2 :: nat) ^ n = 4 * q" by (metis dvdE)
  have "unat address mod 2 ^ n < 2 ^ n" by simp
  then have "unat address mod 2 ^ n + 3 < 2 ^ n" unfolding r unfolding q by simp
  then show ?thesis by (simp add: page_split 1)
qed
section \<open>What is read\<close>

text \<open>
  Physical memory behind the mappings: \<open>view k v\<close> is the physical address of a mapped address, and
  while the registers are read they hold \<open>phys\<close>.  Pages have \<open>2 ^ n\<close> bytes, and only a page-aligned
  offset can be mapped.
\<close>

definition maps_memory ::
    "'k mem_kernel \<Rightarrow> nat \<Rightarrow> ('k \<Rightarrow> u64 \<Rightarrow> u64 option) \<Rightarrow> (u64 \<Rightarrow> u8) \<Rightarrow> bool" where
  "maps_memory kn n view phys \<longleftrightarrow>
     (\<forall>k. mm_page_size kn k = 2 ^ n)
     \<and> (\<forall>fd offset k k' m i. mm_mmap kn fd (2 ^ n) offset k = (Some m, k') \<longrightarrow> take_bit n offset = 0 \<longrightarrow>
          unat i < 2 ^ n \<longrightarrow> view k' (m + i) = Some (offset + i))
     \<and> (\<forall>v p k b k'. view k v = Some p \<longrightarrow> mm_load kn v k = (b, k') \<longrightarrow> b = phys p \<and> view k' = view k)"

definition phys_word :: "(u64 \<Rightarrow> u8) \<Rightarrow> u64 \<Rightarrow> u32" where
  "phys_word phys a = from_le [phys a, phys (a + 1), phys (a + 2), phys (a + 3)]"

lemma page_base_aligned: "take_bit n (page_base_of (2 ^ n) address) = 0"
  by (auto simp: page_base_of_def bit_simps simp flip: mask_eq_decr_exp intro!: bit_eqI)

lemma offset_in_page:
  assumes "unat (off :: u64) + 3 < 2 ^ n" "n < 64" "i \<le> 3"
  shows "unat (off + word_of_nat i) < 2 ^ n"
proof -
  have "(2 :: nat) ^ n < 2 ^ 64" using assms(2) by (intro power_strict_increasing) auto
  then have "unat (off + word_of_nat i) = unat off + i"
    using assms(1,3) by (subst unat_add_lem [THEN iffD1]) (auto simp: unat_of_nat take_bit_nat_eq_self)
  then show ?thesis using assms by simp
qed

lemma read_page_word:
  assumes mem: "maps_memory kn n view phys" and n: "2 \<le> n" "n < 64" "take_bit 2 address = 0"
    and read: "read_page kn fd (2 ^ n) address k0 = Some (Ok v, k1)"
  shows "v = phys_word phys address"
proof -
  let ?base = "page_base_of (2 ^ n) address" and ?off = "address - page_base_of (2 ^ n) address"
  have load: "b = phys p" "view k1 = view k0" if "view k0 w = Some p" "mm_load kn w k0 = (b, k1)" for k0 w p b k1
    using mem that unfolding maps_memory_def by blast+
  from read obtain m k2 where m: "mm_mmap kn fd (2 ^ n) ?base k0 = (Some m, k2)"
    and loads: "load_mapped kn (2 ^ n) m ?off k2 = Some (Ok v, k1)"
    by (auto simp: read_page_def Let_def split: prod.splits option.splits)
  have view: "view k2 (m + (?off + word_of_nat i)) = Some (address + word_of_nat i)" if "i \<le> 3" for i
  proof -
    have "view k2 (m + (?off + word_of_nat i)) = Some (?base + (?off + word_of_nat i))"
      using mem m page_base_aligned [of n address]
        offset_in_page [OF page_offset_room [OF n(1,2,3)] n(2) that]
      unfolding maps_memory_def by blast
    moreover have "?base + (?off + word_of_nat i) = address + word_of_nat i" by simp
    ultimately show ?thesis by simp
  qed
  have "view k2 (m + ?off) = Some address" "view k2 (m + ?off + 1) = Some (address + 1)"
    "view k2 (m + ?off + 2) = Some (address + 2)" "view k2 (m + ?off + 3) = Some (address + 3)"
    using view [of 0] view [of 1] view [of 2] view [of 3] by (simp_all add: add.assoc)
  note views = this
  from loads obtain b0 c0 b1 c1 b2 c2 b3 c3
    where l: "mm_load kn (m + ?off) k2 = (b0, c0)" "mm_load kn (m + ?off + 1) c0 = (b1, c1)"
      "mm_load kn (m + ?off + 2) c1 = (b2, c2)" "mm_load kn (m + ?off + 3) c2 = (b3, c3)"
      and v: "v = from_le [b0, b1, b2, b3]"
    by (auto simp: load_mapped_def load_byte_def Let_def elim!: bindE_SomeE split: prod.splits if_splits)
  from load [OF views(1) l(1)] have 0: "b0 = phys address" "view c0 = view k2" by auto
  with load [OF _ l(2)] views have 1: "b1 = phys (address + 1)" "view c1 = view k2" by auto
  with load [OF _ l(3)] views have 2: "b2 = phys (address + 2)" "view c2 = view k2" by auto
  with load [OF _ l(4)] views have 3: "b3 = phys (address + 3)" by auto
  show ?thesis by (simp add: phys_word_def v 0 1 2 3)
qed

lemma read_phys_word:
  assumes mem: "maps_memory kn n view phys" and n: "2 \<le> n" "n < 64" "take_bit 2 address = 0"
    and read: "read_phys_u32 kn address k = Some (Ok v, k')"
  shows "v = phys_word phys address"
proof -
  have page: "mm_page_size kn k = 2 ^ n" for k using mem by (simp add: maps_memory_def)
  from read obtain fd k0 k1 where "read_mapped kn fd address k0 = Some (Ok v, k1)"
    by (auto simp: read_phys_u32_def elim!: bindE_SomeE split: option.splits)
  then have "read_page kn fd (2 ^ n) address k0 = Some (Ok v, k1)"
    by (auto simp: read_mapped_def page_size_def page Let_def bindE_def)
  from read_page_word [OF mem n this] show ?thesis .
qed

text \<open>A machine with pages of 4096 bytes and one mapping at a time.\<close>

record sim_memory =
  sm_mapping :: "u64 option"
  sm_open :: bool

definition sim_base :: u64 where "sim_base = 0x7F0000000000"

definition sim_view :: "sim_memory \<Rightarrow> u64 \<Rightarrow> u64 option" where
  "sim_view k v = (case sm_mapping k of
     Some offset \<Rightarrow> if unat (v - sim_base) < 4096 then Some (offset + (v - sim_base)) else None
   | None \<Rightarrow> None)"

definition sim_mem_kernel :: "(u64 \<Rightarrow> u8) \<Rightarrow> sim_memory mem_kernel" where
  "sim_mem_kernel phys =
     \<lparr>mm_open = (\<lambda>path k. if path = ''/dev/mem'' then Some (Ok 3, k\<lparr>sm_open := True\<rparr>)
        else Some (Err ''No such file or directory (os error 2)'', k)),
      mm_close = (\<lambda>fd k. k\<lparr>sm_open := False\<rparr>),
      mm_page_size = (\<lambda>k. 4096),
      mm_mmap = (\<lambda>fd len offset k.
        if sm_open k \<and> take_bit 12 offset = 0 then (Some sim_base, k\<lparr>sm_mapping := Some offset\<rparr>)
        else (None, k)),
      mm_load = (\<lambda>v k. (case sim_view k v of Some p \<Rightarrow> phys p | None \<Rightarrow> 0, k)),
      mm_munmap = (\<lambda>v len k. (0, k\<lparr>sm_mapping := None\<rparr>)),
      mm_last_error = (\<lambda>k. ''Invalid argument (os error 22)'')\<rparr>"

lemma sim_maps_memory: "maps_memory (sim_mem_kernel phys) 12 sim_view phys"
  by (auto simp: maps_memory_def sim_mem_kernel_def sim_view_def split: if_splits option.splits)

definition unmapped :: sim_memory where "unmapped = \<lparr>sm_mapping = None, sm_open = False\<rparr>"

section \<open>Properties\<close>

text \<open>With the pages of the machine mapped as documented, the status that is read holds the
  little-endian words at the three physical addresses of the endpoint's registers.\<close>

theorem endpoint_status_read:
  assumes "maps_memory kn n view phys" and "2 \<le> n" and "n < 64"
    and "read_endpoint_register_status kn k = Some (Ok s, k')"
  shows "er_clock_control s = phys_word phys 0x84000000
    \<and> er_clock_status s = phys_word phys 0x84000004
    \<and> er_endpoint_status s = phys_word phys 0x8400000C"
proof -
  have aligned: "take_bit 2 (0x84000000 :: u64) = 0" "take_bit 2 (0x84000004 :: u64) = 0"
    "take_bit 2 (0x8400000C :: u64) = 0" by code_simp+
  note word = read_phys_word [OF assms(1-3)]
  from assms(4) obtain k1 k2 k3 where
    "read_phys_u32 kn 0x84000000 k = Some (Ok (er_clock_control s), k1)"
    "read_phys_u32 kn 0x84000004 k1 = Some (Ok (er_clock_status s), k2)"
    "read_phys_u32 kn 0x8400000C k2 = Some (Ok (er_endpoint_status s), k3)"
    by (auto simp: read_endpoint_register_status_def EP_CLK_CTRL_def EP_CLK_STAT_def EP_STAT_def
        EP_BASE_def ret_def elim!: bindE_SomeE)
  then show ?thesis using word [OF aligned(1)] word [OF aligned(2)] word [OF aligned(3)] by blast
qed

theorem endpoint_status_read_witness:
  "\<exists>s k'. read_endpoint_register_status (sim_mem_kernel (\<lambda>a. if a = 0x8400000D then 2 else 1)) unmapped
     = Some (Ok s, k') \<and> er_endpoint_status s = 0x01010201"
proof -
  let ?kn = "sim_mem_kernel (\<lambda>a. if a = 0x8400000D then 2 else 1)"
  have "map_option (is_ok \<circ> fst) (read_endpoint_register_status ?kn unmapped) = Some True" by code_simp
  from evaluates_ok [OF this] obtain s k'
    where run: "read_endpoint_register_status ?kn unmapped = Some (Ok s, k')" by blast
  from endpoint_status_read [OF sim_maps_memory _ _ run] have "er_endpoint_status s
      = phys_word (\<lambda>a. if a = 0x8400000D then 2 else 1) 0x8400000C" by simp
  also have "\<dots> = 0x01010201" by code_simp
  finally show ?thesis using run by blast
qed

end
