(* ===== verification/Preflight.thy ===== *)
theory Preflight
  imports I2c Endpoint
begin

text \<open>
  The checks the server makes before it lets a hardware command through
  (\<open>daphne-sc-server/src/preflight.rs\<close>): services, files, device nodes, the clock chip on its I2C
  bus and the registers of the timing endpoint, and the cache of the last outcome.
\<close>

section \<open>The operating system\<close>

text \<open>
  What the server asks of the operating system, besides the I2C and memory devices: variables,
  files and directories are read from the state, \<open>os_is_active\<close> runs \<open>systemctl is-active\<close> (its
  texts are after \<open>from_utf8_lossy\<close>), \<open>os_now\<close> is the monotonic clock in nanoseconds and
  \<open>os_since_epoch\<close> the time since the epoch, none when the clock is before it.  The names
  in a directory are given with the errors of single entries.
\<close>

record process_output =
  po_success :: bool
  po_stdout :: string
  po_stderr :: string

record 'k server_os =
  os_env :: "string \<Rightarrow> 'k \<Rightarrow> string option"
  os_read_file :: "string \<Rightarrow> 'k \<Rightarrow> (string, string) result"
  os_exists :: "string \<Rightarrow> 'k \<Rightarrow> bool"
  os_read_dir :: "string \<Rightarrow> 'k \<Rightarrow> ((string, string) result list, string) result"
  os_is_active :: "string \<Rightarrow> 'k \<Rightarrow> (process_output, string) result \<times> 'k"
  os_now :: "'k \<Rightarrow> nat \<times> 'k"
  os_since_epoch :: "'k \<Rightarrow> nat option \<times> 'k"
  os_i2c :: "'k i2c_kernel"
  os_mem :: "'k mem_kernel"

text \<open>Operations that do not fail are computations that raise no error.\<close>

section \<open>Checks and their outcome\<close>

record preflight_check =
  pc_name :: string
  pc_ok :: bool
  pc_detail :: string

record preflight_status =
  ps_checks :: "preflight_check list"

definition check_ok :: "string \<Rightarrow> string \<Rightarrow> preflight_check" where
  "check_ok name detail = \<lparr>pc_name = name, pc_ok = True, pc_detail = detail\<rparr>"

definition check_fail :: "string \<Rightarrow> string \<Rightarrow> preflight_check" where
  "check_fail name detail = \<lparr>pc_name = name, pc_ok = False, pc_detail = detail\<rparr>"

definition preflight_ready :: preflight_status where
  "preflight_ready = \<lparr>ps_checks = []\<rparr>"

definition ready_for_hardware_commands :: "preflight_status \<Rightarrow> bool" where
  "ready_for_hardware_commands st \<longleftrightarrow> list_all pc_ok (ps_checks st)"

definition failure_message :: "preflight_status \<Rightarrow> string" where
  "failure_message st =
     (if ready_for_hardware_commands st then ''preflight ok''
      else ''preflight failed: ''
        @ join_with ''; '' (map (\<lambda>c. pc_name c @ '' ('' @ pc_detail c @ '')'')
            (filter (\<lambda>c. \<not> pc_ok c) (ps_checks st))))"

section \<open>The board configuration\<close>

type_synonym config = "string \<rightharpoonup> string"

text \<open>\<open>s[i..j]\<close>: slicing panics when the ends are not in order or not in the text.  (The only slice of
  the server is between two quotes, which are characters of one byte, so that its ends are always
  boundaries of characters.)\<close>

definition slice_str :: "string \<Rightarrow> nat \<Rightarrow> nat \<Rightarrow> ('k, string, string) eff" where
  "slice_str v i j = (if i \<le> j \<and> j \<le> length v then ret (take (j - i) (drop i v)) else panic)"

definition unquote :: "string \<Rightarrow> ('k, string, string) eff" where
  "unquote v =
     (let quoted = starts_with [CHR 0x22] v \<and> ends_with [CHR 0x22] v
                   \<or> starts_with [CHR 0x27] v \<and> ends_with [CHR 0x27] v
      in if quoted \<and> 2 \<le> length v then slice_str v 1 (length v - 1) else ret v)"

definition config_line :: "string \<Rightarrow> ('k, (string \<times> string) option, string) eff" where
  "config_line raw =
     (let line = trim raw in
      if line = [] \<or> starts_with ''#'' line then ret None
      else (case split_once ''='' line of
          None \<Rightarrow> ret None
        | Some (key, v) \<Rightarrow> bindE (unquote (trim v)) (\<lambda>u. ret (Some (trim key, u)))))"

fun config_lines :: "string list \<Rightarrow> config \<Rightarrow> ('k, config, string) eff" where
  "config_lines [] values = ret values"
| "config_lines (raw # rest) values =
     bindE (config_line raw) (\<lambda>entry.
     config_lines rest (case entry of None \<Rightarrow> values | Some (key, v) \<Rightarrow> values(key \<mapsto> v)))"

fun config_files :: "'k server_os \<Rightarrow> string list \<Rightarrow> config \<Rightarrow> ('k, config, string) eff" where
  "config_files os [] values = ret values"
| "config_files os (path # paths) values =
     bindE (gets (os_read_file os path)) (\<lambda>r. case r of
       Err _ \<Rightarrow> config_files os paths values
     | Ok content \<Rightarrow> bindE (config_lines (lines content) values) (config_files os paths))"

definition read_board_config :: "'k server_os \<Rightarrow> ('k, config, string) eff" where
  "read_board_config os =
     config_files os [''/etc/default/firmware'', ''/etc/daphne-board.env'', ''/etc/daphne-sc.env''] Map.empty"

definition env_value :: "'k server_os \<Rightarrow> config \<Rightarrow> string \<Rightarrow> string \<Rightarrow> 'k \<Rightarrow> string" where
  "env_value os config key dflt k =
     (case os_env os key k of
        Some v \<Rightarrow> if v \<noteq> [] then v
          else (case config key of Some c \<Rightarrow> if c \<noteq> [] then c else dflt | None \<Rightarrow> dflt)
      | None \<Rightarrow> (case config key of Some c \<Rightarrow> if c \<noteq> [] then c else dflt | None \<Rightarrow> dflt))"

definition parse_i2c_addr :: "string \<Rightarrow> u16 option" where
  "parse_i2c_addr addr =
     (let trimmed = trim addr in
      case (case strip_prefix ''0x'' trimmed of Some h \<Rightarrow> Some h | None \<Rightarrow> strip_prefix ''0X'' trimmed) of
        Some h \<Rightarrow> from_str_radix 16 h
      | None \<Rightarrow> from_str_radix 10 trimmed)"

definition parse_u8_integer :: "string \<Rightarrow> u8 option" where
  "parse_u8_integer v = (case parse_i2c_addr v of
     None \<Rightarrow> None | Some n \<Rightarrow> if unat n < 256 then Some (ucast n) else None)"

definition endpoint_success_states :: "'k server_os \<Rightarrow> config \<Rightarrow> 'k \<Rightarrow> u8 list" where
  "endpoint_success_states os config k =
     (let raw = env_value os config ''ENDPOINT_SUCCESS_STATES'' ''0x8'' k;
          states = List.map_filter parse_u8_integer
            (filter (\<lambda>token. trim token \<noteq> []) (split_at (\<lambda>c. c = CHR '','' \<or> c = CHR '' '') raw))
      in if states = [] then [8] else states)"

definition clockchip_bus_candidates :: "'k server_os \<Rightarrow> config \<Rightarrow> 'k \<Rightarrow> u8 list" where
  "clockchip_bus_candidates os config k =
     (let configured = env_value os config ''CLOCKCHIP_BUS'' ''auto'' k in
      if configured \<noteq> [] \<and> configured \<noteq> ''auto''
      then (case from_str_radix 10 configured of Some bus \<Rightarrow> [bus] | None \<Rightarrow> [])
      else i2c_bus_candidates (os_i2c os) None k)"

section \<open>The single checks\<close>

definition systemd_unit_active :: "'k server_os \<Rightarrow> string \<Rightarrow> ('k, preflight_check, string) eff" where
  "systemd_unit_active os unit =
     bindE (callE (os_is_active os unit)) (\<lambda>res. ret (case res of
       Ok output \<Rightarrow>
         (let stdout = trim (po_stdout output) in
          if po_success output \<and> stdout = ''active'' then check_ok unit ''active''
          else (let stderr = trim (po_stderr output);
                    detail = (if stderr = [] then ''state='' @ stdout
                              else ''state='' @ stdout @ '', stderr='' @ stderr)
                in check_fail unit detail))
     | Err err \<Rightarrow> check_fail unit (''systemctl failed: '' @ err)))"

definition file_equals :: "'k server_os \<Rightarrow> string \<Rightarrow> string \<Rightarrow> string \<Rightarrow> 'k \<Rightarrow> preflight_check" where
  "file_equals os name path expected k = (case os_read_file os path k of
     Ok content \<Rightarrow>
       (let actual = trim content in
        if actual = expected then check_ok name (path @ ''='' @ actual)
        else check_fail name (path @ ''='' @ actual @ '', expected '' @ expected))
   | Err err \<Rightarrow> check_fail name (path @ '': '' @ err))"

definition path_exists :: "'k server_os \<Rightarrow> string \<Rightarrow> string \<Rightarrow> 'k \<Rightarrow> preflight_check" where
  "path_exists os name path k =
     (if os_exists os path k then check_ok name path else check_fail name (path @ '' is missing''))"

definition bus_node :: "u8 \<Rightarrow> string" where "bus_node bus = ''/dev/i2c-'' @ fmt_dec bus"

definition any_i2c_device :: "'k server_os \<Rightarrow> config \<Rightarrow> 'k \<Rightarrow> preflight_check" where
  "any_i2c_device os config k =
     (let buses = clockchip_bus_candidates os config k in
      if buses = [] then check_fail ''i2c_device_node'' ''no /dev/i2c-* nodes found''
      else check_ok ''i2c_device_node'' (join_with '','' (map bus_node buses)))"

definition any_remoteproc_device :: "'k server_os \<Rightarrow> 'k \<Rightarrow> preflight_check" where
  "any_remoteproc_device os k = (case os_read_dir os ''/sys/class/remoteproc'' k of
     Ok entries \<Rightarrow> if list_ex is_ok entries then check_ok ''remoteproc'' ''/sys/class/remoteproc''
       else check_fail ''remoteproc'' ''/sys/class/remoteproc is empty''
   | Err err \<Rightarrow> check_fail ''remoteproc'' (''/sys/class/remoteproc: '' @ err))"

datatype probe_result = ProbeFound string | ProbeMissing | ProbeUnavailable string

definition probe_detail :: "u8 \<Rightarrow> u16 \<Rightarrow> string" where
  "probe_detail bus addr = bus_node bus @ '' addr 0x'' @ fmt_hex_upper 2 addr"

definition sanity_result :: "u8 \<Rightarrow> u16 \<Rightarrow> (u8, linux_i2c_error) result \<Rightarrow> probe_result" where
  "sanity_result bus addr r = (case r of
     Ok v \<Rightarrow>
       if v = CLOCKCHIP_SANITY_VALUE
       then ProbeFound (''0x'' @ fmt_hex_upper 2 addr @ '' present on '' @ bus_node bus @ ''; 0x''
          @ fmt_hex_upper 2 CLOCKCHIP_SANITY_REGISTER @ ''=0x'' @ fmt_hex_upper 2 v)
       else ProbeUnavailable (probe_detail bus addr @ '' read 0x''
          @ fmt_hex_upper 2 CLOCKCHIP_SANITY_REGISTER @ ''=0x'' @ fmt_hex_upper 2 v @ '', expected 0x''
          @ fmt_hex_upper 2 CLOCKCHIP_SANITY_VALUE)
   | Err err \<Rightarrow> ProbeUnavailable (probe_detail bus addr @ '' sanity read failed: ''
        @ linux_i2c_error_to_string err))"

definition probe_i2c_addr :: "'k server_os \<Rightarrow> u8 \<Rightarrow> u16 \<Rightarrow> ('k, probe_result, string) eff" where
  "probe_i2c_addr os bus addr =
     tryE (device_open (os_i2c os) bus addr) (\<lambda>opened. case opened of
       Ok device \<Rightarrow>
         tryE (device_read_register (os_i2c os) device CLOCKCHIP_SANITY_REGISTER) (\<lambda>r.
         thenE (modify (kn_close (os_i2c os) (ld_file device))) (ret (sanity_result bus addr r)))
     | Err err \<Rightarrow>
         (let detail = linux_i2c_error_to_string err in
          ret (if contains ''No such device'' detail \<or> contains ''Remote I/O'' detail then ProbeMissing
               else ProbeUnavailable (probe_detail bus addr @ '': '' @ detail))))"

text \<open>The loop over the candidate buses: the outcome of the check once a bus is found, the probe
  errors otherwise.\<close>

fun probe_buses ::
    "'k server_os \<Rightarrow> u16 \<Rightarrow> u8 list \<Rightarrow> string list \<Rightarrow> ('k, preflight_check + string list, string) eff" where
  "probe_buses os chip [] unavailable = ret (Inr unavailable)"
| "probe_buses os chip (bus # buses) unavailable =
     bindE (probe_i2c_addr os bus chip) (\<lambda>p. case p of
       ProbeFound detail \<Rightarrow> ret (Inl (check_ok ''clockchip_i2c'' detail))
     | ProbeMissing \<Rightarrow> probe_buses os chip buses unavailable
     | ProbeUnavailable detail \<Rightarrow> probe_buses os chip buses (unavailable @ [detail]))"

definition clockchip_address :: "'k server_os \<Rightarrow> config \<Rightarrow> 'k \<Rightarrow> u16" where
  "clockchip_address os config k =
     (case parse_i2c_addr (env_value os config ''CLOCKCHIP_ADDR''
             (''0x'' @ fmt_hex_upper 2 CLOCKCHIP_DEFAULT_ADDR) k) of
        Some chip \<Rightarrow> chip | None \<Rightarrow> CLOCKCHIP_DEFAULT_ADDR)"

definition clockchip_reachable :: "'k server_os \<Rightarrow> config \<Rightarrow> ('k, preflight_check, string) eff" where
  "clockchip_reachable os config =
     bindE (gets (clockchip_address os config)) (\<lambda>chip.
     bindE (gets (clockchip_bus_candidates os config)) (\<lambda>buses.
     if buses = [] then ret (check_fail ''clockchip_i2c'' ''no candidate I2C buses'')
     else bindE (probe_buses os chip buses []) (\<lambda>outcome. case outcome of
         Inl found \<Rightarrow> ret found
       | Inr unavailable \<Rightarrow>
           (let candidates = join_with '','' (map bus_node buses) in
            ret (check_fail ''clockchip_i2c''
              (if unavailable = [] then fmt_dec chip @ '' not detected on '' @ candidates
               else ''0x'' @ fmt_hex_upper 2 chip @ '' not reachable on '' @ candidates
                    @ ''; probe errors: '' @ join_with ''; '' unavailable))))))"

definition fmt_bool :: "bool \<Rightarrow> string" where
  "fmt_bool b = (if b then ''true'' else ''false'')"

definition fsm_detail :: "endpoint_register_status \<Rightarrow> string" where
  "fsm_detail st = ''endpoint_status=0x'' @ fmt_hex_upper 8 (er_endpoint_status st) @ '' state=0x''
     @ fmt_hex_upper 0 (endpoint_state st) @ '' timestamp_ok='' @ fmt_bool (timestamp_ok st)"

definition endpoint_register_checks ::
    "'k server_os \<Rightarrow> config \<Rightarrow> ('k, preflight_check list, string) eff" where
  "endpoint_register_checks os config =
     tryE (read_endpoint_register_status (os_mem os)) (\<lambda>res. case res of
       Ok st \<Rightarrow>
         (let clock = ''clock_status=0x'' @ fmt_hex_upper 8 (er_clock_status st);
              locks = (if mmcm0_locked st \<and> mmcm1_locked st then check_ok ''endpoint_mmcm_locks'' clock
                else check_fail ''endpoint_mmcm_locks'' (clock @ '' mmcm0='' @ fmt_bool (mmcm0_locked st)
                       @ '' mmcm1='' @ fmt_bool (mmcm1_locked st)))
          in bindE (gets (endpoint_success_states os config)) (\<lambda>success_states.
             let state = endpoint_state st;
                 state_ok = (state \<in> set success_states);
                 stamp_ok = (state \<noteq> 8 \<or> timestamp_ok st)
             in ret [locks,
                  if state_ok \<and> stamp_ok then check_ok ''endpoint_fsm'' (fsm_detail st)
                  else check_fail ''endpoint_fsm'' (fsm_detail st @ '' accepted_states=[''
                         @ join_with '', '' (map fmt_dec success_states) @ '']'')]))
     | Err err \<Rightarrow> ret [check_fail ''endpoint_registers'' (''endpoint register read failed: '' @ err)])"

section \<open>The whole preflight and its cache\<close>

definition preflight_collect :: "'k server_os \<Rightarrow> ('k, preflight_status, string) eff" where
  "preflight_collect os =
     bindE (read_board_config os) (\<lambda>config.
     bindE (systemd_unit_active os ''firmware.service'') (\<lambda>c1.
     bindE (systemd_unit_active os ''clockchip.service'') (\<lambda>c2.
     bindE (systemd_unit_active os ''endpoint.service'') (\<lambda>c3.
     bindE (gets (\<lambda>k.
       [file_equals os ''fpga_manager'' ''/sys/class/fpga_manager/fpga0/state'' ''operating'' k,
        path_exists os ''pl_i2c_device'' ''/sys/bus/platform/devices/9c000000.i2c'' k,
        path_exists os ''pl_spi_device'' ''/sys/bus/platform/devices/9c020000.axi_quad_spi'' k,
        any_i2c_device os config k,
        path_exists os ''spi_device_node'' ''/dev/spidev3.0'' k,
        any_remoteproc_device os k])) (\<lambda>cs.
     bindE (clockchip_reachable os config) (\<lambda>c4.
     bindE (endpoint_register_checks os config) (\<lambda>es.
     ret \<lparr>ps_checks = [c1, c2, c3] @ cs @ [c4] @ es\<rparr>)))))))"

record linux_preflight =
  lp_ttl :: nat
  lp_cached :: "(nat \<times> preflight_status) option"

definition default_linux_preflight :: linux_preflight where
  "default_linux_preflight = \<lparr>lp_ttl = 1000000000, lp_cached = None\<rparr>"

definition linux_preflight_with_ttl :: "nat \<Rightarrow> linux_preflight" where
  "linux_preflight_with_ttl ttl = \<lparr>lp_ttl = ttl, lp_cached = None\<rparr>"

text \<open>The state of \<open>check\<close> is the cache and the operating system; a duration is in nanoseconds and
  \<open>elapsed\<close> saturates at zero.\<close>

definition on_os :: "('k, 'a, string) eff \<Rightarrow> (linux_preflight \<times> 'k, 'a, string) eff" where
  "on_os = zoom snd (\<lambda>k s. (fst s, k))"

definition preflight_refresh :: "'k server_os \<Rightarrow> (linux_preflight \<times> 'k, preflight_status, string) eff" where
  "preflight_refresh os =
     bindE (on_os (preflight_collect os)) (\<lambda>st.
     bindE (on_os (callE (os_now os))) (\<lambda>now.
     thenE (modify (\<lambda>(p, k). (p\<lparr>lp_cached := Some (now, st)\<rparr>, k))) (ret st)))"

definition preflight_check_now :: "'k server_os \<Rightarrow> (linux_preflight \<times> 'k, preflight_status, string) eff" where
  "preflight_check_now os =
     bindE (gets fst) (\<lambda>p. case lp_cached p of
       Some (checked_at, st) \<Rightarrow>
         bindE (on_os (callE (os_now os))) (\<lambda>now.
         if now - checked_at < lp_ttl p then ret st else preflight_refresh os)
     | None \<Rightarrow> preflight_refresh os)"

end
