(* ===== verification/StatusCollector.thy ===== *)
theory StatusCollector
  imports Preflight Rpu RpuWire "HOL-Library.Char_ord" "HOL-Library.Product_Lexorder"
begin

text \<open>
  The collection of the slow-control status (\<open>daphne-sc-server/src/status_collector.rs\<close>): firmware,
  I2C devices, clocks, temperatures, rails and services, read from the file system, the PMBus
  regulators and \<open>systemctl\<close>.  Double-precision arithmetic is a parameter.
\<close>

record 'f f64_ops =
  f_zero :: 'f
  f_of_int :: "int \<Rightarrow> 'f"
  f_powi_2 :: "int \<Rightarrow> 'f"
  f_mul :: "'f \<Rightarrow> 'f \<Rightarrow> 'f"
  f_div :: "'f \<Rightarrow> 'f \<Rightarrow> 'f"
  f_parse :: "string \<Rightarrow> ('f, string) result"

definition FPGA_MANAGER_STATE :: string where
  "FPGA_MANAGER_STATE = ''/sys/class/fpga_manager/fpga0/state''"

definition SERVICES :: "string list" where
  "SERVICES = [''firmware.service'', ''clockchip.service'', ''endpoint.service'', ''hermes.service'', ''daphne.service'']"

definition PL_DEVICES :: "string list" where
  "PL_DEVICES = [''/sys/bus/platform/devices/9c000000.i2c'', ''/sys/bus/platform/devices/9c020000.axi_quad_spi'']"

definition PMBUS_BUS :: u8 where "PMBUS_BUS = 2"
definition PMBUS_READ_VOUT :: u8 where "PMBUS_READ_VOUT = 0x8B"
definition PMBUS_READ_IOUT :: u8 where "PMBUS_READ_IOUT = 0x8C"

record pmbus_regulator =
  pr_name :: string
  pr_address :: u16

definition PMBUS_REGULATORS :: "pmbus_regulator list" where
  "PMBUS_REGULATORS =
     [\<lparr>pr_name = ''3VD3'', pr_address = 0x12\<rparr>, \<lparr>pr_name = ''2VA1'', pr_address = 0x16\<rparr>,
      \<lparr>pr_name = ''3VA6'', pr_address = 0x32\<rparr>, \<lparr>pr_name = ''1VD8'', pr_address = 0x36\<rparr>]"

section \<open>Files and directories\<close>

text \<open>\<open>OsStr::to_str\<close>; the entries of a directory that could be read.\<close>

definition to_str :: "string \<Rightarrow> string option" where
  "to_str name = (if utf8_valid (as_bytes name) then Some name else None)"

definition flatten :: "('a, 'e) result list \<Rightarrow> 'a list" where
  "flatten rs = List.map_filter (\<lambda>r. case r of Ok a \<Rightarrow> Some a | Err _ \<Rightarrow> None) rs"

definition dir_names :: "'k server_os \<Rightarrow> string \<Rightarrow> 'k \<Rightarrow> string list" where
  "dir_names os dir k = (case os_read_dir os dir k of Err _ \<Rightarrow> [] | Ok entries \<Rightarrow> flatten entries)"

definition join_path :: "string \<Rightarrow> string \<Rightarrow> string" where
  "join_path dir name = dir @ ''/'' @ name"

definition read_trimmed :: "'k server_os \<Rightarrow> string \<Rightarrow> 'k \<Rightarrow> string option" where
  "read_trimmed os path k = (case os_read_file os path k of Ok content \<Rightarrow> Some (trim content) | Err _ \<Rightarrow> None)"

text \<open>The names of the paths that \<open>glob_paths\<close> returns, in their order.\<close>

definition glob_paths :: "'k server_os \<Rightarrow> string \<Rightarrow> string \<Rightarrow> 'k \<Rightarrow> string list" where
  "glob_paths os root pre k =
     sort (filter (\<lambda>name. case to_str name of Some n \<Rightarrow> starts_with pre n | None \<Rightarrow> False) (dir_names os root k))"

record indexed_input =
  ii_index :: u32
  ii_path :: string

definition input_number :: "string \<Rightarrow> string \<Rightarrow> u32 option" where
  "input_number pre name = (case to_str name of
     None \<Rightarrow> None
   | Some n \<Rightarrow> (case strip_prefix pre n of
       None \<Rightarrow> None
     | Some rest \<Rightarrow> (case strip_suffix ''_input'' rest of
         None \<Rightarrow> None
       | Some digits \<Rightarrow> from_str_radix 10 digits)))"

definition indexed_inputs :: "'k server_os \<Rightarrow> string \<Rightarrow> string \<Rightarrow> 'k \<Rightarrow> indexed_input list" where
  "indexed_inputs os dir pre k =
     sort_key ii_index (List.map_filter (\<lambda>name.
       map_option (\<lambda>n. \<lparr>ii_index = n, ii_path = join_path dir name\<rparr>) (input_number pre name)) (dir_names os dir k))"

definition read_scaled :: "'f f64_ops \<Rightarrow> 'k server_os \<Rightarrow> string \<Rightarrow> 'f \<Rightarrow> 'k \<Rightarrow> ('f, string) result" where
  "read_scaled fo os path divisor k = (case read_trimmed os path k of
     None \<Rightarrow> Err (path @ '': unreadable'')
   | Some raw \<Rightarrow> (case f_parse fo raw of
       Err err \<Rightarrow> Err (path @ '': '' @ err)
     | Ok v \<Rightarrow> Ok (f_div fo v divisor)))"

definition read_millidegrees :: "'f f64_ops \<Rightarrow> 'k server_os \<Rightarrow> string \<Rightarrow> 'k \<Rightarrow> ('f, string) result" where
  "read_millidegrees fo os path k = read_scaled fo os path (f_of_int fo 1000) k"

section \<open>Firmware\<close>

definition board_env :: "'k server_os \<Rightarrow> ('k, config, string) eff" where
  "board_env os = config_files os [''/etc/default/firmware'', ''/etc/daphne-board.env''] Map.empty"

definition collect_firmware_status :: "'k server_os \<Rightarrow> ('k, firmware_status, string) eff" where
  "collect_firmware_status os =
     bindE (gets (read_trimmed os FPGA_MANAGER_STATE)) (\<lambda>fpga_manager_state.
     bindE (board_env os) (\<lambda>env.
      let app = (case env ''FIRMWARE_APP'' of Some v \<Rightarrow> Some v | None \<Rightarrow> env ''APP'');
          overlay_name = (case app of Some v \<Rightarrow> if v \<noteq> [] then Some v else None | None \<Rightarrow> None);
          build_id = (case overlay_name of None \<Rightarrow> None
             | Some name \<Rightarrow> map_option snd (rsplit_once (CHR ''_'') name))
      in bindE (gets (\<lambda>k. filter (\<lambda>path. os_exists os path k) PL_DEVICES)) (\<lambda>present.
         ret \<lparr>fs_loaded = (fpga_manager_state = Some ''operating''), fs_fpga_manager_state = fpga_manager_state,
          fs_overlay_name = overlay_name, fs_build_id = build_id, fs_pl_devices_present = present\<rparr>)))"

section \<open>I2C\<close>

definition parse_i2c_bus_from_detail :: "string \<Rightarrow> u8 option" where
  "parse_i2c_bus_from_detail detail = (case split_once ''i2c-'' detail of
     None \<Rightarrow> None
   | Some (_, rest) \<Rightarrow> from_str_radix 10 (takeWhile (\<lambda>c. digit_value 10 c \<noteq> None) rest))"

definition clockchip_detail :: "preflight_status \<Rightarrow> (u8 \<times> string) option" where
  "clockchip_detail st = (case find (\<lambda>c. pc_name c = ''clockchip_i2c'' \<and> pc_ok c) (ps_checks st) of
     None \<Rightarrow> None
   | Some c \<Rightarrow> map_option (\<lambda>bus. (bus, pc_detail c)) (parse_i2c_bus_from_detail (pc_detail c)))"

definition sysfs_i2c_address :: "string \<Rightarrow> (u8 \<times> u8) option" where
  "sysfs_i2c_address file_name = (case to_str file_name of
     None \<Rightarrow> None
   | Some name \<Rightarrow> (case split_once ''-'' name of
       None \<Rightarrow> None
     | Some (bus, addr) \<Rightarrow> (case from_str_radix 10 bus of
         None \<Rightarrow> None
       | Some b \<Rightarrow> map_option (\<lambda>a. (b, a)) (from_str_radix 16 addr))))"

text \<open>A set in increasing order.\<close>

definition sysfs_i2c_devices :: "'k server_os \<Rightarrow> 'k \<Rightarrow> (u8 \<times> u8) list" where
  "sysfs_i2c_devices os k =
     sort (remdups (List.map_filter sysfs_i2c_address (dir_names os ''/sys/bus/i2c/devices'' k)))"

definition sysfs_i2c_device_name :: "'k server_os \<Rightarrow> u8 \<Rightarrow> u8 \<Rightarrow> 'k \<Rightarrow> string option" where
  "sysfs_i2c_device_name os bus address =
     read_trimmed os (''/sys/bus/i2c/devices/'' @ fmt_dec bus @ ''-'' @ fmt_hex_lower 4 address @ ''/name'')"

fun upsert_i2c_device :: "i2c_device_status list \<Rightarrow> i2c_device_status \<Rightarrow> i2c_device_status list" where
  "upsert_i2c_device [] device = [device]"
| "upsert_i2c_device (existing # devices) device =
     (if ids_address existing = ids_address device then device # devices
      else existing # upsert_i2c_device devices device)"

text \<open>The map of buses; \<open>entry(bus).or_insert_with(..)\<close> and a change of the devices.\<close>

type_synonym bus_map = "u8 \<rightharpoonup> i2c_bus_status"

definition empty_bus :: "u8 \<Rightarrow> i2c_bus_status" where
  "empty_bus bus = \<lparr>ibs_bus = bus, ibs_path = bus_node bus, ibs_devices = []\<rparr>"

definition update_bus ::
    "u8 \<Rightarrow> (i2c_device_status list \<Rightarrow> i2c_device_status list) \<Rightarrow> bus_map \<Rightarrow> bus_map" where
  "update_bus bus f m =
     (let entry = (case m bus of Some b \<Rightarrow> b | None \<Rightarrow> empty_bus bus)
      in m(bus \<mapsto> entry\<lparr>ibs_devices := f (ibs_devices entry)\<rparr>))"

definition registered_device :: "'k server_os \<Rightarrow> 'k \<Rightarrow> u8 \<times> u8 \<Rightarrow> i2c_device_status" where
  "registered_device os k = (\<lambda>(bus, address).
     \<lparr>ids_address = address,
      ids_name = (case sysfs_i2c_device_name os bus address k of Some n \<Rightarrow> n | None \<Rightarrow> ''0x'' @ fmt_hex_upper 2 address),
      ids_present = True, ids_status = Some ''registered''\<rparr>)"

definition clockchip_device :: "string \<Rightarrow> i2c_device_status" where
  "clockchip_device detail =
     \<lparr>ids_address = 0x70, ids_name = ''clockchip'', ids_present = True, ids_status = Some detail\<rparr>"

definition i2c_bus_map :: "'k server_os \<Rightarrow> preflight_status \<Rightarrow> 'k \<Rightarrow> bus_map" where
  "i2c_bus_map os preflight k =
     (let m0 = (\<lambda>bus. if bus \<in> set (i2c_bus_candidates (os_i2c os) None k) then Some (empty_bus bus) else None);
          m1 = fold (\<lambda>d. update_bus (fst d) (\<lambda>ds. ds @ [registered_device os k d])) (sysfs_i2c_devices os k) m0
      in case clockchip_detail preflight of
           Some (bus, detail) \<Rightarrow> update_bus bus (\<lambda>ds. upsert_i2c_device ds (clockchip_device detail)) m1
         | None \<Rightarrow> m1)"

text \<open>\<open>into_values\<close> of an ordered map goes through the keys in increasing order.\<close>

definition bus_keys :: "u8 list" where "bus_keys = map word_of_nat [0..<256]"

definition collect_i2c_status :: "'k server_os \<Rightarrow> preflight_status \<Rightarrow> 'k \<Rightarrow> i2c_bus_status list" where
  "collect_i2c_status os preflight k =
     map (\<lambda>b. b\<lparr>ibs_devices := sort_key ids_address (ibs_devices b)\<rparr>)
       (List.map_filter (i2c_bus_map os preflight k) bus_keys)"

section \<open>Clocks\<close>

definition collect_clock_status :: "'k server_os \<Rightarrow> string list \<Rightarrow> ('k, clock_status \<times> string list, string) eff" where
  "collect_clock_status os errors =
     tryE (read_endpoint_register_status (os_mem os)) (\<lambda>res. ret (case res of
       Ok st \<Rightarrow> (\<lparr>cs_endpoint_clock_source_controlled = Some (endpoint_clock_source st),
           cs_mmcm0_locked = Some (mmcm0_locked st), cs_mmcm1_locked = Some (mmcm1_locked st),
           cs_raw_endpoint_status = Some (er_endpoint_status st)\<rparr>, errors)
     | Err err \<Rightarrow> (\<lparr>cs_endpoint_clock_source_controlled = None, cs_mmcm0_locked = None, cs_mmcm1_locked = None,
           cs_raw_endpoint_status = None\<rparr>, errors @ [''endpoint register read failed: '' @ err])))"

section \<open>Temperatures and rails\<close>

text \<open>A loop that pushes a reading for each input that can be read and a message for each other.\<close>

definition split_results :: "('a, string) result list \<Rightarrow> 'a list \<times> string list" where
  "split_results rs = (flatten rs, List.map_filter (\<lambda>r. case r of Ok _ \<Rightarrow> None | Err e \<Rightarrow> Some e) rs)"

definition label_of :: "'k server_os \<Rightarrow> string \<Rightarrow> string \<Rightarrow> u32 \<Rightarrow> 'k \<Rightarrow> string" where
  "label_of os dir pre n k = (case read_trimmed os (join_path dir (pre @ fmt_dec n @ ''_label'')) k of
     Some l \<Rightarrow> l | None \<Rightarrow> pre @ fmt_dec n)"

definition name_of :: "'k server_os \<Rightarrow> string \<Rightarrow> string \<Rightarrow> string \<Rightarrow> 'k \<Rightarrow> string" where
  "name_of os dir file file_name k = (case read_trimmed os (join_path dir file) k of
     Some n \<Rightarrow> n | None \<Rightarrow> file_name)"

definition zone_temperature :: "'f f64_ops \<Rightarrow> 'k server_os \<Rightarrow> 'k \<Rightarrow> string \<Rightarrow> ('f temperature_reading, string) result" where
  "zone_temperature fo os k zone =
     (let dir = join_path ''/sys/class/thermal'' zone in
      case read_millidegrees fo os (join_path dir ''temp'') k of
        Ok celsius \<Rightarrow> Ok \<lparr>tr_name = name_of os dir ''type'' zone k, tr_celsius = celsius\<rparr>
      | Err err \<Rightarrow> Err (''thermal temperature read failed: '' @ err))"

definition hwmon_readings ::
    "'k server_os \<Rightarrow> 'k \<Rightarrow> string \<Rightarrow> string \<Rightarrow> (string \<Rightarrow> string \<Rightarrow> ('r, string) result) \<Rightarrow> ('r, string) result list" where
  "hwmon_readings os k hwmon pre reading =
     (let dir = join_path ''/sys/class/hwmon'' hwmon;
          hwmon_name = name_of os dir ''name'' hwmon k
      in map (\<lambda>i. reading (hwmon_name @ ''/'' @ label_of os dir pre (ii_index i) k) (ii_path i))
           (indexed_inputs os dir pre k))"

definition hwmon_temperatures ::
    "'f f64_ops \<Rightarrow> 'k server_os \<Rightarrow> 'k \<Rightarrow> string \<Rightarrow> ('f temperature_reading, string) result list" where
  "hwmon_temperatures fo os k hwmon = hwmon_readings os k hwmon ''temp'' (\<lambda>name path.
     case read_millidegrees fo os path k of
       Ok celsius \<Rightarrow> Ok \<lparr>tr_name = name, tr_celsius = celsius\<rparr>
     | Err err \<Rightarrow> Err (''hwmon temperature read failed: '' @ err))"

definition collect_temperatures ::
    "'f f64_ops \<Rightarrow> 'k server_os \<Rightarrow> string list \<Rightarrow> 'k \<Rightarrow> 'f temperature_reading list \<times> string list" where
  "collect_temperatures fo os errors k =
     (let (readings, errs) = split_results
        (map (zone_temperature fo os k) (glob_paths os ''/sys/class/thermal'' ''thermal_zone'' k)
         @ concat (map (hwmon_temperatures fo os k) (glob_paths os ''/sys/class/hwmon'' ''hwmon'' k)))
      in (readings, errors @ errs))"

definition hwmon_rails :: "'f f64_ops \<Rightarrow> 'k server_os \<Rightarrow> 'k \<Rightarrow> string \<Rightarrow> ('f rail_reading, string) result list" where
  "hwmon_rails fo os k hwmon =
     hwmon_readings os k hwmon ''in'' (\<lambda>name path. case read_scaled fo os path (f_of_int fo 1000) k of
       Ok v \<Rightarrow> Ok \<lparr>rr_name = name, rr_voltage_v = Some v, rr_current_a = None, rr_power_w = None,
                   rr_status = Some ''hwmon''\<rparr>
     | Err err \<Rightarrow> Err (''hwmon voltage read failed: '' @ err))
     @ hwmon_readings os k hwmon ''curr'' (\<lambda>name path. case read_scaled fo os path (f_of_int fo 1000) k of
       Ok v \<Rightarrow> Ok \<lparr>rr_name = name, rr_voltage_v = None, rr_current_a = Some v, rr_power_w = None,
                   rr_status = Some ''hwmon''\<rparr>
     | Err err \<Rightarrow> Err (''hwmon current read failed: '' @ err))
     @ hwmon_readings os k hwmon ''power'' (\<lambda>name path. case read_scaled fo os path (f_of_int fo 1000000) k of
       Ok v \<Rightarrow> Ok \<lparr>rr_name = name, rr_voltage_v = None, rr_current_a = None, rr_power_w = Some v,
                   rr_status = Some ''hwmon''\<rparr>
     | Err err \<Rightarrow> Err (''hwmon power read failed: '' @ err))"

definition sign_extend :: "u16 \<Rightarrow> nat \<Rightarrow> 32 word" where
  "sign_extend v bits = (let shift = 32 - bits in signed_drop_bit shift (push_bit shift (ucast v)))"

definition decode_linear16 :: "'f f64_ops \<Rightarrow> u16 \<Rightarrow> int \<Rightarrow> 'f" where
  "decode_linear16 fo raw exponent = f_mul fo (f_of_int fo (sint raw)) (f_powi_2 fo exponent)"

definition decode_linear11 :: "'f f64_ops \<Rightarrow> u16 \<Rightarrow> 'f" where
  "decode_linear11 fo raw =
     (let mantissa = sign_extend (raw AND 0x07FF) 11; exponent = sign_extend (drop_bit 11 raw) 5
      in f_mul fo (f_of_int fo (sint mantissa)) (f_powi_2 fo (sint exponent)))"

text \<open>The device is closed on every way out.\<close>

definition read_pmbus_regulator :: "'f f64_ops \<Rightarrow> 'k server_os \<Rightarrow> pmbus_regulator \<Rightarrow> ('k, 'f \<times> 'f, string) eff" where
  "read_pmbus_regulator fo os regulator =
     map_errE linux_i2c_error_to_string
       (bindE (device_open (os_i2c os) PMBUS_BUS (pr_address regulator)) (\<lambda>device.
        tryE (thenE (set_pec (os_i2c os) device True)
             (bindE (read_word_data (os_i2c os) device PMBUS_READ_VOUT) (\<lambda>raw_voltage.
              bindE (read_word_data (os_i2c os) device PMBUS_READ_IOUT) (\<lambda>raw_current.
              ret (decode_linear16 fo raw_voltage (-9), decode_linear11 fo raw_current)))))
          (\<lambda>res. thenE (modify (kn_close (os_i2c os) (ld_file device))) (liftR res))))"

definition pmbus_rail :: "'f f64_ops \<Rightarrow> 'k server_os \<Rightarrow> pmbus_regulator \<Rightarrow> ('k, ('f rail_reading, string) result, string) eff" where
  "pmbus_rail fo os regulator = tryE (read_pmbus_regulator fo os regulator) (\<lambda>res. ret (case res of
     Ok (v, c) \<Rightarrow> Ok \<lparr>rr_name = ''pmbus/'' @ pr_name regulator, rr_voltage_v = Some v, rr_current_a = Some c,
        rr_power_w = Some (f_mul fo v c),
        rr_status = Some (bus_node PMBUS_BUS @ '' addr 0x'' @ fmt_hex_upper 2 (pr_address regulator))\<rparr>
   | Err err \<Rightarrow> Err (''PMBus regulator '' @ pr_name regulator @ '' current read failed: '' @ err)))"

text \<open>A loop that collects one value per element.\<close>

fun collect_each :: "('x \<Rightarrow> ('s, 'y, 'e) eff) \<Rightarrow> 'x list \<Rightarrow> ('s, 'y list, 'e) eff" where
  "collect_each f [] = ret []"
| "collect_each f (x # xs) = bindE (f x) (\<lambda>y. bindE (collect_each f xs) (\<lambda>ys. ret (y # ys)))"

definition collect_rails ::
    "'f f64_ops \<Rightarrow> 'k server_os \<Rightarrow> string list \<Rightarrow> ('k, 'f rail_reading list \<times> string list, string) eff" where
  "collect_rails fo os errors =
     bindE (gets (\<lambda>k. concat (map (hwmon_rails fo os k) (glob_paths os ''/sys/class/hwmon'' ''hwmon'' k)))) (\<lambda>hwmon.
     bindE (collect_each (pmbus_rail fo os) PMBUS_REGULATORS) (\<lambda>pmbus.
     let (readings, errs) = split_results (hwmon @ pmbus) in ret (readings, errors @ errs)))"

section \<open>Services\<close>

definition service_status :: "'k server_os \<Rightarrow> string \<Rightarrow> ('k, service_status, string) eff" where
  "service_status os service = bindE (callE (os_is_active os service)) (\<lambda>res.
     let state = (case res of Ok output \<Rightarrow> trim (po_stdout output) | Err err \<Rightarrow> ''systemctl failed: '' @ err);
         active = (case res of Ok output \<Rightarrow> po_success output \<and> state = ''active'' | Err _ \<Rightarrow> False)
     in ret \<lparr>sv_name = service, sv_active = active, sv_state = state\<rparr>)"

definition remoteproc_state_detail :: "string \<Rightarrow> string option \<Rightarrow> string" where
  "remoteproc_state_detail state firmware = (case firmware of
     Some f \<Rightarrow> if f \<noteq> [] then state @ ''; firmware='' @ f else state | None \<Rightarrow> state)"

definition remoteproc_status :: "'k server_os \<Rightarrow> 'k \<Rightarrow> string \<Rightarrow> service_status option" where
  "remoteproc_status os k file_name = (case to_str file_name of
     None \<Rightarrow> None
   | Some name \<Rightarrow>
       (let dir = join_path ''/sys/class/remoteproc'' name;
            state = (case read_trimmed os (join_path dir ''state'') k of Some s \<Rightarrow> s | None \<Rightarrow> ''unknown'');
            firmware = read_trimmed os (join_path dir ''firmware'') k
        in Some \<lparr>sv_name = ''remoteproc/'' @ name, sv_active = (state = ''running''),
                 sv_state = remoteproc_state_detail state firmware\<rparr>))"

definition collect_remoteproc_statuses :: "'k server_os \<Rightarrow> 'k \<Rightarrow> service_status list" where
  "collect_remoteproc_statuses os k =
     List.map_filter (remoteproc_status os k) (sort (dir_names os ''/sys/class/remoteproc'' k))"

definition collect_service_statuses :: "'k server_os \<Rightarrow> ('k, service_status list, string) eff" where
  "collect_service_statuses os =
     bindE (collect_each (service_status os) SERVICES) (\<lambda>statuses.
     bindE (gets (collect_remoteproc_statuses os)) (\<lambda>remoteproc. ret (statuses @ remoteproc)))"

section \<open>The whole status\<close>

definition preflight_errors :: "preflight_status \<Rightarrow> string list" where
  "preflight_errors st = map (\<lambda>c. pc_name c @ '': '' @ pc_detail c) (filter (\<lambda>c. \<not> pc_ok c) (ps_checks st))"

definition collect_slow_control_status ::
    "'f f64_ops \<Rightarrow> 'k server_os \<Rightarrow> preflight_status \<Rightarrow> rpu_link_status \<Rightarrow> ('k, 'f slow_control_status, string) eff" where
  "collect_slow_control_status fo os preflight rpu =
     bindE (collect_clock_status os (preflight_errors preflight)) (\<lambda>(clocks, errors).
     bindE (collect_firmware_status os) (\<lambda>firmware.
     bindE (gets (collect_i2c_status os preflight)) (\<lambda>i2c.
     bindE (gets (collect_temperatures fo os errors)) (\<lambda>(temperatures, errors).
     bindE (collect_rails fo os errors) (\<lambda>(rails, errors).
     bindE (collect_service_statuses os) (\<lambda>services.
     ret \<lparr>sc_firmware = firmware, sc_rpu = rpu, sc_i2c = i2c, sc_clocks = clocks,
          sc_temperatures = temperatures, sc_rails = rails, sc_services = services, sc_errors = errors\<rparr>))))))"

end
