(* ===== verification/PreflightFacts.thy ===== *)
theory PreflightFacts
  imports Preflight
begin

text \<open>
  What a preflight status says (\<open>preflight.rs\<close>): a status that is ready was backed by the services,
  files, the clock chip and the endpoint registers; the cache never hands out a status older than
  its lifetime; addresses and states are read back as they are written.
\<close>

section \<open>The outcome of single checks\<close>

definition unit_active :: "'k server_os \<Rightarrow> string \<Rightarrow> 'k \<Rightarrow> bool" where
  "unit_active os unit k \<longleftrightarrow>
     (\<exists>output. fst (os_is_active os unit k) = Ok output \<and> po_success output
        \<and> trim (po_stdout output) = ''active'')"

lemma check_simps [simp]:
  "pc_ok (check_ok n d)" "\<not> pc_ok (check_fail n d)" "pc_name (check_ok n d) = n" "pc_name (check_fail n d) = n"
  "pc_detail (check_ok n d) = d" "pc_detail (check_fail n d) = d"
  by (simp_all add: check_ok_def check_fail_def)

lemma systemd_unit_active_result:
  "systemd_unit_active os unit k = Some (r, k') \<Longrightarrow>
     k' = snd (os_is_active os unit k) \<and> (\<exists>c. r = Ok c \<and> (pc_ok c \<longleftrightarrow> unit_active os unit k))"
  by (auto simp: systemd_unit_active_def callE_def bindE_def ret_def unit_active_def Let_def
      split: prod.splits result.splits)

lemma file_equals_ok: "pc_ok (file_equals os n path e k) \<longleftrightarrow> (\<exists>c. os_read_file os path k = Ok c \<and> trim c = e)"
  by (auto simp: file_equals_def Let_def split: result.splits)

lemma path_exists_ok: "pc_ok (path_exists os n path k) \<longleftrightarrow> os_exists os path k"
  by (simp add: path_exists_def)

text \<open>The chip answers the sanity read on a bus.\<close>

definition chip_answers :: "'k i2c_kernel \<Rightarrow> u8 \<Rightarrow> u16 \<Rightarrow> bool" where
  "chip_answers kn bus addr \<longleftrightarrow> (\<exists>k k1 k2 d. device_open kn bus addr k = Some (Ok d, k1)
     \<and> device_read_register kn d CLOCKCHIP_SANITY_REGISTER k1 = Some (Ok CLOCKCHIP_SANITY_VALUE, k2))"

definition found_detail :: "u8 \<Rightarrow> u16 \<Rightarrow> string" where
  "found_detail bus addr = ''0x'' @ fmt_hex_upper 2 addr @ '' present on /dev/i2c-'' @ fmt_dec bus @ ''; 0xE6=0x06''"

lemma sanity_texts: "fmt_hex_upper 2 CLOCKCHIP_SANITY_REGISTER = ''E6''" "fmt_hex_upper 2 CLOCKCHIP_SANITY_VALUE = ''06''"
  by (simp_all add: fmt_hex_upper_def pad_zeros_def radix_digits.simps digit_char_def char_of_def bit_0
      CLOCKCHIP_SANITY_REGISTER_def CLOCKCHIP_SANITY_VALUE_def)

lemma sanity_result_found:
  "sanity_result bus addr r = ProbeFound detail \<longleftrightarrow> r = Ok CLOCKCHIP_SANITY_VALUE \<and> detail = found_detail bus addr"
  using sanity_texts by (auto simp: sanity_result_def found_detail_def bus_node_def split: result.splits)

lemma probe_found:
  assumes "probe_i2c_addr os bus addr k = Some (Ok (ProbeFound detail), k')"
  shows "chip_answers (os_i2c os) bus addr" "detail = found_detail bus addr"
  using assms
  by (auto simp: probe_i2c_addr_def chip_answers_def tryE_def thenE_def bindE_def modify_def ret_def Let_def
      sanity_result_found split: option.splits result.splits if_splits) blast

lemma probe_buses_found:
  assumes "probe_buses os chip buses us k = Some (Ok (Inl c), k')"
  shows "\<exists>bus \<in> set buses. chip_answers (os_i2c os) bus chip \<and> c = check_ok ''clockchip_i2c'' (found_detail bus chip)"
  using assms
proof (induction buses arbitrary: us k)
  case (Cons b buses)
  from Cons.prems obtain p u where p: "probe_i2c_addr os b chip k = Some (Ok p, u)"
    and rest: "(case p of ProbeFound detail \<Rightarrow> ret (Inl (check_ok ''clockchip_i2c'' detail))
       | ProbeMissing \<Rightarrow> probe_buses os chip buses us
       | ProbeUnavailable detail \<Rightarrow> probe_buses os chip buses (us @ [detail])) u = Some (Ok (Inl c), k')"
    by (auto elim!: bindE_SomeE)
  show ?case
  proof (cases p)
    case (ProbeFound detail)
    with rest have "c = check_ok ''clockchip_i2c'' detail" by (simp add: ret_def)
    with probe_found [OF p [unfolded ProbeFound]] show ?thesis by simp
  qed (use rest Cons.IH in fastforce)+
qed (simp add: ret_def)

lemma clockchip_reachable_ok:
  assumes "clockchip_reachable os config k = Some (Ok c, k')" and "pc_ok c"
  shows "\<exists>bus \<in> set (clockchip_bus_candidates os config k).
    chip_answers (os_i2c os) bus (clockchip_address os config k)
    \<and> c = check_ok ''clockchip_i2c'' (found_detail bus (clockchip_address os config k))"
  using assms
  by (auto simp: clockchip_reachable_def gets_def ret_def Let_def elim!: bindE_SomeE
      split: if_splits sum.splits dest!: probe_buses_found)

text \<open>The endpoint is locked and in an accepted state.\<close>

definition endpoint_ready :: "'k server_os \<Rightarrow> config \<Rightarrow> 'k \<Rightarrow> bool" where
  "endpoint_ready os config k \<longleftrightarrow> (\<exists>st k'. read_endpoint_register_status (os_mem os) k = Some (Ok st, k')
     \<and> mmcm0_locked st \<and> mmcm1_locked st \<and> endpoint_state st \<in> set (endpoint_success_states os config k')
     \<and> (endpoint_state st = 8 \<longrightarrow> timestamp_ok st))"

lemma endpoint_register_checks_ok:
  assumes "endpoint_register_checks os config k = Some (Ok cs, k')"
  shows "list_all pc_ok cs \<longleftrightarrow> endpoint_ready os config k"
  using assms
  by (auto simp: endpoint_register_checks_def endpoint_ready_def tryE_def bindE_def gets_def ret_def Let_def
      split: option.splits result.splits if_splits)

text \<open>Quoted values are sliced within their bounds, so reading the configuration always gives one, and
  changes nothing.\<close>

lemma unquote_total:
  obtains u where "unquote v k = Some (Ok u, k)"
  by (rule that [of "if unquote v k = Some (Ok v, k) then v else take (length v - 2) (drop 1 v)"])
    (auto simp: unquote_def slice_str_def Let_def ret_def numeral_2_eq_2)

lemma config_line_total:
  obtains e where "config_line raw k = Some (Ok e, k)"
proof (cases "split_once ''='' (trim raw)")
  case None
  then show thesis by (intro that [of None]) (simp add: config_line_def Let_def ret_def)
next
  case (Some kv)
  obtain key v where kv: "kv = (key, v)" by (cases kv)
  obtain u where "unquote (trim v) k = Some (Ok u, k)" by (rule unquote_total)
  with Some kv show thesis
    by (intro that [of "if trim raw = [] \<or> starts_with ''#'' (trim raw) then None else Some (trim key, u)"])
      (simp add: config_line_def Let_def ret_def bindE_def)
qed

lemma config_lines_total: "\<exists>c. config_lines ls m k = Some (Ok c, k)"
proof (induction ls arbitrary: m)
  case (Cons raw ls)
  obtain e where e: "config_line raw k = Some (Ok e, k)" by (rule config_line_total)
  show ?case
    using Cons [of "case e of None \<Rightarrow> m | Some (key, v) \<Rightarrow> m(key \<mapsto> v)"]
    by (simp add: e bindE_def)
qed (simp add: ret_def)

lemma config_files_total: "\<exists>c. config_files os paths m k = Some (Ok c, k)"
proof (induction paths arbitrary: m)
  case (Cons path paths)
  show ?case
  proof (cases "os_read_file os path k")
    case (Ok content)
    obtain c where "config_lines (lines content) m k = Some (Ok c, k)"
      by (rule exE [OF config_lines_total])
    with Ok Cons [of c] show ?thesis by (simp add: bindE_gets) (simp add: bindE_def)
  next
    case (Err e)
    with Cons [of m] show ?thesis by (simp add: bindE_gets)
  qed
qed (simp add: ret_def)

lemma read_board_config_total:
  obtains config where "read_board_config os k = Some (Ok config, k)"
  unfolding read_board_config_def by (rule exE [OF config_files_total])

lemma collect_ends:
  assumes "preflight_collect os k = Some (Ok st, k')"
  obtains config c1 c2 c3 c4 es k1 k2 k3 k4 where
    "read_board_config os k = Some (Ok config, k)"
    "systemd_unit_active os ''firmware.service'' k = Some (Ok c1, k1)"
    "systemd_unit_active os ''clockchip.service'' k1 = Some (Ok c2, k2)"
    "systemd_unit_active os ''endpoint.service'' k2 = Some (Ok c3, k3)"
    "clockchip_reachable os config k3 = Some (Ok c4, k4)"
    "endpoint_register_checks os config k4 = Some (Ok es, k')"
    "ps_checks st = [c1, c2, c3,
        file_equals os ''fpga_manager'' ''/sys/class/fpga_manager/fpga0/state'' ''operating'' k3,
        path_exists os ''pl_i2c_device'' ''/sys/bus/platform/devices/9c000000.i2c'' k3,
        path_exists os ''pl_spi_device'' ''/sys/bus/platform/devices/9c020000.axi_quad_spi'' k3,
        any_i2c_device os config k3,
        path_exists os ''spi_device_node'' ''/dev/spidev3.0'' k3,
        any_remoteproc_device os k3, c4] @ es"
proof -
  obtain config where config: "read_board_config os k = Some (Ok config, k)"
    by (rule read_board_config_total)
  then have read: "bindE (read_board_config os) f k = f config k"
    for f :: "config \<Rightarrow> ('a, preflight_status, string) eff"
    by (simp add: bindE_def)
  from assms show thesis
    unfolding preflight_collect_def read bindE_gets
    by (elim bindE_SomeE) (simp_all add: ret_def that [OF config, simplified], auto intro: that [OF config])
qed

section \<open>The cache\<close>

text \<open>The preflight of a running server: checks, and anything the system does between them.\<close>

inductive preflight_run :: "'k server_os \<Rightarrow> nat \<Rightarrow> linux_preflight \<times> 'k \<Rightarrow> bool" for os ttl where
  start: "preflight_run os ttl (linux_preflight_with_ttl ttl, k)"
| check: "preflight_run os ttl s \<Longrightarrow> preflight_check_now os s = Some (r, s') \<Longrightarrow> preflight_run os ttl s'"
| other: "preflight_run os ttl (p, k) \<Longrightarrow> preflight_run os ttl (p, k')"

text \<open>A status, and when its collection ended.\<close>

definition collected_at :: "'k server_os \<Rightarrow> nat \<Rightarrow> preflight_status \<Rightarrow> bool" where
  "collected_at os t st \<longleftrightarrow> (\<exists>k0 k1. preflight_collect os k0 = Some (Ok st, k1) \<and> t = fst (os_now os k1))"

text \<open>Collected in a check that begins in the state \<open>k\<close>, at once or after the clock was read.\<close>

definition collected_in_check :: "'k server_os \<Rightarrow> 'k \<Rightarrow> preflight_status \<Rightarrow> bool" where
  "collected_in_check os k st \<longleftrightarrow> (\<exists>k0 k1. k0 \<in> {k, snd (os_now os k)} \<and> preflight_collect os k0 = Some (Ok st, k1))"

text \<open>A status that may be used in a check that begins in the state \<open>k\<close>.\<close>

definition fresh_status :: "'k server_os \<Rightarrow> nat \<Rightarrow> 'k \<Rightarrow> preflight_status \<Rightarrow> bool" where
  "fresh_status os ttl k st \<longleftrightarrow>
     (\<exists>t. collected_at os t st \<and> fst (os_now os k) - t < ttl) \<or> collected_in_check os k st"

text \<open>No part of a preflight raises an error.\<close>

lemma never_raises [raises_intros]:
  "raises_only (\<lambda>_. False) (callE f)" "raises_only (\<lambda>_. False) (systemd_unit_active os unit)"
  by (simp_all add: raises_only_def callE_def systemd_unit_active_def bindE_def ret_def split: prod.split)

lemma raises_only_tryE: "(\<And>r. raises_only P (f r)) \<Longrightarrow> raises_only P (tryE m f)"
  unfolding raises_only_def by (metis tryE_SomeE)

lemma probe_never_raises: "raises_only (\<lambda>_. False) (probe_i2c_addr os bus addr)"
  unfolding probe_i2c_addr_def
  by (auto simp: Let_def intro!: raises_only_tryE raises_intros split: result.split)

lemma probe_buses_never_raises: "raises_only (\<lambda>_. False) (probe_buses os chip buses us)"
  by (induction buses arbitrary: us)
    (auto intro!: raises_intros probe_never_raises split: probe_result.split)

lemma collect_never_raises: "preflight_collect os k \<noteq> Some (Err e, k')"
proof -
  have "raises_only (\<lambda>_. False) (read_board_config os)"
    unfolding raises_only_def by (metis Pair_inject option.inject read_board_config_total result.distinct(1))
  then have "raises_only (\<lambda>_. False) (preflight_collect os)"
    unfolding preflight_collect_def clockchip_reachable_def endpoint_register_checks_def
    by (auto simp: Let_def intro!: raises_intros raises_only_tryE probe_buses_never_raises
        split: result.split sum.split)
  then show ?thesis by (auto simp: raises_only_def)
qed

lemma refresh_ends:
  assumes "preflight_refresh os (p, k) = Some (r, s')"
  obtains st k1 where "preflight_collect os k = Some (Ok st, k1)" "r = Ok st"
    "s' = (p\<lparr>lp_cached := Some (fst (os_now os k1), st)\<rparr>, snd (os_now os k1))"
  using assms unfolding preflight_refresh_def
  by (auto simp: on_os_def zoom_def callE_def thenE_def bindE_def modify_def ret_def collect_never_raises
      split: option.splits result.splits prod.splits)

lemma check_now_ends:
  assumes "preflight_check_now os (p, k) = Some (r, s')"
  obtains (cached) t st where "lp_cached p = Some (t, st)" "fst (os_now os k) - t < lp_ttl p" "r = Ok st"
      "s' = (p, snd (os_now os k))"
  | (fresh) k0 st k1 where "k0 \<in> {k, snd (os_now os k)}" "preflight_collect os k0 = Some (Ok st, k1)" "r = Ok st"
    "s' = (p\<lparr>lp_cached := Some (fst (os_now os k1), st)\<rparr>, snd (os_now os k1))"
proof -
  have collected: thesis if "preflight_refresh os (p, k0) = Some (r, s')" "k0 \<in> {k, snd (os_now os k)}" for k0
    using that(1) by (rule refresh_ends) (rule fresh [OF that(2)])
  show thesis
  proof (cases "lp_cached p")
    case None
    with assms show thesis by (intro collected [of k]) (simp_all add: preflight_check_now_def gets_def bindE_def)
  next
    case (Some c)
    obtain t st where c: "c = (t, st)" by (cases c)
    show thesis
    proof (cases "fst (os_now os k) - t < lp_ttl p")
      case True
      with assms Some c show thesis
        by (intro cached [of t st]) (auto simp: preflight_check_now_def gets_def on_os_def zoom_def callE_def bindE_def ret_def
            split: prod.splits)
    next
      case False
      with assms Some c show thesis
        by (intro collected [of "snd (os_now os k)"])
          (auto simp: preflight_check_now_def gets_def on_os_def zoom_def callE_def bindE_def ret_def split: prod.splits)
    qed
  qed
qed

lemma preflight_run_cache:
  "preflight_run os ttl s \<Longrightarrow> lp_ttl (fst s) = ttl
     \<and> (\<forall>t st. lp_cached (fst s) = Some (t, st) \<longrightarrow> collected_at os t st)"
proof (induction rule: preflight_run.induct)
  case (check s r s')
  obtain p k where s: "s = (p, k)" by (cases s)
  from check(2) [unfolded s] show ?case
    by (cases rule: check_now_ends) (use check.IH in \<open>auto simp: s collected_at_def\<close>)
qed (simp_all add: linux_preflight_with_ttl_def)

section \<open>Reading addresses\<close>

lemma parse_digits_chars: "parse_digits b limit acc s = Some n \<Longrightarrow> list_all (\<lambda>c. digit_value b c \<noteq> None) s"
  by (induction s arbitrary: acc) (auto split: option.splits if_splits)

lemma fmt_dec_digits: "list_all (\<lambda>c. digit_value 10 c \<noteq> None) (fmt_dec w)"
  unfolding fmt_dec_def by (rule parse_digits_chars [OF parse_radix_digits [of 10 "unat w" "unat w"]]) simp_all

lemma fmt_dec_no_hex: "strip_prefix ''0x'' (fmt_dec w) = None" "strip_prefix ''0X'' (fmt_dec w) = None"
proof -
  have "take 2 (fmt_dec w) \<noteq> [CHR ''0'', c]" if "digit_value 10 c = None" for c
    using fmt_dec_digits [of w] that append_take_drop_id [of 2 "fmt_dec w"] by (metis list_all_append list.pred_inject(2))
  then show "strip_prefix ''0x'' (fmt_dec w) = None" "strip_prefix ''0X'' (fmt_dec w) = None"
    by (simp_all add: strip_prefix_def digit_value_def numeral_2_eq_2)
qed

lemma parse_hex_addr [simp]: "parse_i2c_addr (''0x'' @ fmt_hex_upper n w) = Some w"
  using trim_graphic [of "''0x'' @ fmt_hex_upper n w"]
  by (simp add: parse_i2c_addr_def strip_prefix_def graphic_def)

lemma parse_hex_u8 [simp]: "parse_u8_integer (''0x'' @ fmt_hex_upper n (ucast b :: u16)) = Some b"
  using unsigned_less [of b, where 'a = nat]
  unfolding parse_u8_integer_def parse_hex_addr by (simp add: unat_ucast_up ucast_up_ucast is_up)

section \<open>A healthy machine\<close>

text \<open>A clock chip on bus 2 that holds the sanity value, endpoint registers with both locks set and
  state 8 with a good timestamp, and a clock that counts the calls of \<open>systemctl\<close>.\<close>

definition healthy_i2c :: "nat i2c_kernel" where
  "healthy_i2c =
     \<lparr>kn_open = (\<lambda>path. ret 3), kn_close = (\<lambda>fd k. k), kn_ioctl = (\<lambda>fd req arg k. (0, k)),
      kn_smbus = (\<lambda>fd req rw r n w k. ((0, 0), k)), kn_last_error = (\<lambda>k. []),
      kn_write_all = (\<lambda>fd bytes. ret ()), kn_read_exact = (\<lambda>fd n. ret (replicate n 6)),
      kn_sleep_ms = (\<lambda>n k. k), kn_dev_names = (\<lambda>k. Some [Some ''i2c-2''])\<rparr>"

definition healthy_mem :: "nat mem_kernel" where
  "healthy_mem =
     \<lparr>mm_open = (\<lambda>path. ret 4), mm_close = (\<lambda>fd k. k), mm_page_size = (\<lambda>k. 4096),
      mm_mmap = (\<lambda>fd len offset k. (Some 0x10000, k)),
      mm_load = (\<lambda>v k. (if v = 0x10004 then 3 else if v = 0x1000C then 0x18 else 0, k)),
      mm_munmap = (\<lambda>v len k. (0, k)), mm_last_error = (\<lambda>k. [])\<rparr>"

definition healthy_os :: "nat server_os" where
  "healthy_os =
     \<lparr>os_env = (\<lambda>key k. None),
      os_read_file = (\<lambda>path k.
        if path = ''/sys/class/fpga_manager/fpga0/state'' then Ok (''operating'' @ [CHR 0x0A])
        else Err ''No such file or directory (os error 2)''),
      os_exists = (\<lambda>path k. True),
      os_read_dir = (\<lambda>path k. Ok [Ok ''remoteproc0'']),
      os_is_active = (\<lambda>unit k. (Ok \<lparr>po_success = True, po_stdout = ''active'' @ [CHR 0x0A], po_stderr = []\<rparr>, k + 1)),
      os_now = (\<lambda>k. (k, k)), os_since_epoch = (\<lambda>k. (Some k, k)), os_i2c = healthy_i2c, os_mem = healthy_mem\<rparr>"

lemma healthy_texts:
  "trim (''active'' @ [CHR 0x0A]) = ''active''" "trim (''operating'' @ [CHR 0x0A]) = ''operating''"
  "bus_of_name ''i2c-2'' = Some 2" "fmt_hex_upper 0 (8 :: u16) = ''8''"
  "filter (\<lambda>t. trim t \<noteq> []) (split_at (\<lambda>c. c = CHR '','' \<or> c = CHR '' '') ''0x8'') = [''0x8'']"
  by (simp_all add: trim_def white_space_def white_at_def upt_rec_numeral bus_of_name_def strip_prefix_def
      from_str_radix_def digit_value_def fmt_hex_upper_def pad_zeros_def radix_digits.simps digit_char_def char_of_def bit_0)

lemma state_8: "parse_u8_integer ''0x8'' = Some 8"
  using parse_hex_u8 [of 0 8] healthy_texts(4) by simp

lemma healthy_config [simp]: "read_board_config healthy_os k = Some (Ok Map.empty, k)"
  by (simp add: read_board_config_def healthy_os_def bindE_gets ret_def)

lemma healthy_unit: "\<exists>c. systemd_unit_active healthy_os unit k = Some (Ok c, k + 1) \<and> pc_ok c"
  using healthy_texts(1)
  by (auto simp: systemd_unit_active_def healthy_os_def callE_def bindE_def ret_def Let_def)

lemma healthy_buses [simp]:
  "clockchip_bus_candidates healthy_os Map.empty k = [2]" "clockchip_address healthy_os Map.empty k = 0x70"
proof -
  show "clockchip_bus_candidates healthy_os Map.empty k = [2]"
    by (simp add: clockchip_bus_candidates_def env_value_def healthy_os_def healthy_i2c_def
        i2c_bus_candidates_def map_filter_simps healthy_texts(3))
  show "clockchip_address healthy_os Map.empty k = 0x70"
    using parse_hex_addr [of 2 CLOCKCHIP_DEFAULT_ADDR]
    by (simp add: clockchip_address_def env_value_def healthy_os_def CLOCKCHIP_DEFAULT_ADDR_def)
qed

lemma healthy_probe: "probe_i2c_addr healthy_os 2 0x70 k = Some (Ok (ProbeFound (found_detail 2 0x70)), k)"
  using sanity_result_found [of 2 "0x70" "Ok 6"]
  by (simp add: probe_i2c_addr_def healthy_os_def healthy_i2c_def device_open_def device_read_register_def check_rc_def
      tryE_def thenE_def bindE_def map_errE_def modify_def ret_def indexE_def Let_def CLOCKCHIP_SANITY_VALUE_def)

lemma healthy_clockchip: "\<exists>c. clockchip_reachable healthy_os Map.empty k = Some (Ok c, k) \<and> pc_ok c"
  by (simp add: clockchip_reachable_def gets_def bindE_def healthy_probe ret_def)

lemma healthy_pages:
  "page_base_of 4096 0x84000000 = 0x84000000" "page_base_of 4096 0x84000004 = 0x84000000"
  "page_base_of 4096 0x8400000C = 0x84000000" "EP_CLK_CTRL = 0x84000000" "EP_CLK_STAT = 0x84000004" "EP_STAT = 0x8400000C"
  "from_le [0, 0, 0, 0] = (0 :: u32)" "from_le [3, 0, 0, 0] = (3 :: u32)" "from_le [0x18, 0, 0, 0] = (0x18 :: u32)"
  by code_simp+

lemma healthy_read:
  "read_phys_u32 (os_mem healthy_os) EP_CLK_CTRL k = Some (Ok 0, k)"
  "read_phys_u32 (os_mem healthy_os) EP_CLK_STAT k = Some (Ok 3, k)"
  "read_phys_u32 (os_mem healthy_os) EP_STAT k = Some (Ok 0x18, k)"
  by (simp_all add: healthy_pages read_phys_u32_def read_mapped_def read_page_def load_mapped_def load_byte_def page_size_def healthy_os_def
      healthy_mem_def bindE_def map_errE_def ret_def Let_def)

lemma healthy_registers:
  "read_endpoint_register_status (os_mem healthy_os) k =
     Some (Ok \<lparr>er_clock_control = 0, er_clock_status = 3, er_endpoint_status = 0x18\<rparr>, k)"
  by (simp add: read_endpoint_register_status_def bindE_def healthy_read ret_def)

lemma healthy_clock [simp]: "os_now healthy_os k = (k, k)"
  by (simp add: healthy_os_def)

lemma healthy_endpoint:
  "\<exists>cs. endpoint_register_checks healthy_os Map.empty k = Some (Ok cs, k) \<and> list_all pc_ok cs"
proof -
  let ?st = "\<lparr>er_clock_control = 0, er_clock_status = 3, er_endpoint_status = 0x18\<rparr>"
  have "mmcm0_locked ?st" "mmcm1_locked ?st" "endpoint_state ?st = 8" "timestamp_ok ?st" by code_simp+
  moreover have "endpoint_success_states healthy_os Map.empty k = [8]"
    by (simp add: endpoint_success_states_def env_value_def healthy_os_def healthy_texts(5) state_8 map_filter_simps)
  ultimately show ?thesis
    by (simp add: endpoint_register_checks_def tryE_def healthy_registers bindE_gets ret_def Let_def)
qed

lemma healthy_collect: "\<exists>st. preflight_collect healthy_os k = Some (Ok st, k + 3) \<and> ready_for_hardware_commands st"
proof -
  obtain c1 c2 c3 c4 es where
    "systemd_unit_active healthy_os ''firmware.service'' k = Some (Ok c1, k + 1)" "pc_ok c1"
    "systemd_unit_active healthy_os ''clockchip.service'' (k + 1) = Some (Ok c2, k + 2)" "pc_ok c2"
    "systemd_unit_active healthy_os ''endpoint.service'' (k + 2) = Some (Ok c3, k + 3)" "pc_ok c3"
    "clockchip_reachable healthy_os Map.empty (k + 3) = Some (Ok c4, k + 3)" "pc_ok c4"
    "endpoint_register_checks healthy_os Map.empty (k + 3) = Some (Ok es, k + 3)" "list_all pc_ok es"
    using healthy_unit [of "''firmware.service''" k] healthy_unit [of "''clockchip.service''" "k + 1"]
      healthy_unit [of "''endpoint.service''" "k + 2"] healthy_clockchip [of "k + 3"] healthy_endpoint [of "k + 3"]
    by (auto simp: numeral_eq_Suc)
  moreover have "pc_ok (file_equals healthy_os n ''/sys/class/fpga_manager/fpga0/state'' ''operating'' k')"
    "pc_ok (path_exists healthy_os n p k')" "pc_ok (any_i2c_device healthy_os Map.empty k')"
    "pc_ok (any_remoteproc_device healthy_os k')" for n p k'
    using healthy_texts(2)
    by (simp_all add: file_equals_ok path_exists_ok any_i2c_device_def Let_def)
      (simp_all add: healthy_os_def any_remoteproc_device_def)
  ultimately show ?thesis
    by (simp add: preflight_collect_def gets_def bindE_def ret_def ready_for_hardware_commands_def)
qed

section \<open>Properties\<close>

text \<open>C20: a preflight that reports ready was backed by what it saw: the three services were active,
  the FPGA manager operating, the three device nodes present, the clock chip answered its sanity
  read with the sanity value at the configured address on a candidate bus, both clock managers of
  the endpoint were locked, its state was an accepted one, and in state 8 with a good timestamp.\<close>

theorem ready_preflight_checked:
  assumes "preflight_collect os k = Some (Ok st, k')" and "ready_for_hardware_commands st"
  shows "\<exists>config k1 k2 k3 k4. read_board_config os k = Some (Ok config, k)
    \<and> k1 = snd (os_is_active os ''firmware.service'' k)
    \<and> k2 = snd (os_is_active os ''clockchip.service'' k1) \<and> k3 = snd (os_is_active os ''endpoint.service'' k2)
    \<and> unit_active os ''firmware.service'' k \<and> unit_active os ''clockchip.service'' k1
    \<and> unit_active os ''endpoint.service'' k2
    \<and> (\<exists>c. os_read_file os ''/sys/class/fpga_manager/fpga0/state'' k3 = Ok c \<and> trim c = ''operating'')
    \<and> os_exists os ''/sys/bus/platform/devices/9c000000.i2c'' k3
    \<and> os_exists os ''/sys/bus/platform/devices/9c020000.axi_quad_spi'' k3
    \<and> os_exists os ''/dev/spidev3.0'' k3
    \<and> (\<exists>bus \<in> set (clockchip_bus_candidates os config k3).
         chip_answers (os_i2c os) bus (clockchip_address os config k3))
    \<and> endpoint_ready os config k4"
  using assms(1)
proof (cases rule: collect_ends)
  case (1 config c1 c2 c3 c4 es k1 k2 k3 k4)
  with assms(2) have oks: "pc_ok c1" "pc_ok c2" "pc_ok c3" "pc_ok c4" "list_all pc_ok es"
    by (auto simp: ready_for_hardware_commands_def)
  from 1(7) assms(2) have files:
    "\<exists>c. os_read_file os ''/sys/class/fpga_manager/fpga0/state'' k3 = Ok c \<and> trim c = ''operating''"
    "os_exists os ''/sys/bus/platform/devices/9c000000.i2c'' k3"
    "os_exists os ''/sys/bus/platform/devices/9c020000.axi_quad_spi'' k3" "os_exists os ''/dev/spidev3.0'' k3"
    by (simp_all add: ready_for_hardware_commands_def file_equals_ok path_exists_ok)
  note units = systemd_unit_active_result [OF 1(2)] systemd_unit_active_result [OF 1(3)]
    systemd_unit_active_result [OF 1(4)]
  have "\<exists>bus \<in> set (clockchip_bus_candidates os config k3).
      chip_answers (os_i2c os) bus (clockchip_address os config k3)"
    using clockchip_reachable_ok [OF 1(5)] oks(4) by blast
  moreover have "endpoint_ready os config k4"
    using endpoint_register_checks_ok [OF 1(6)] oks(5) by simp
  moreover have "k1 = snd (os_is_active os ''firmware.service'' k)" "k2 = snd (os_is_active os ''clockchip.service'' k1)"
    "k3 = snd (os_is_active os ''endpoint.service'' k2)" "unit_active os ''firmware.service'' k"
    "unit_active os ''clockchip.service'' k1" "unit_active os ''endpoint.service'' k2"
    using units oks(1-3) by auto
  ultimately show ?thesis using files 1(1) by blast
qed

theorem ready_preflight_checked_witness:
  "\<exists>st k'. preflight_collect healthy_os 0 = Some (Ok st, k') \<and> ready_for_hardware_commands st
     \<and> unit_active healthy_os ''firmware.service'' 0"
  using healthy_collect [of 0] ready_preflight_checked [where os = healthy_os and k = 0] by blast

text \<open>C21: however checks are interleaved with changes of the system, a check returns a status, and that
  status was collected by a full preflight that ended, on the monotonic clock, less than the time to
  live before the check, or it is collected by a full preflight in the check itself.\<close>

theorem status_not_older_than_ttl:
  assumes "preflight_run os ttl (p, k)" and "preflight_check_now os (p, k) = Some (r, s')"
  shows "\<exists>st. r = Ok st \<and> ((\<exists>t. collected_at os t st \<and> fst (os_now os k) - t < ttl)
    \<or> (\<exists>k0 k1. k0 \<in> {k, snd (os_now os k)} \<and> preflight_collect os k0 = Some (Ok st, k1)))"
  using assms(2)
proof (cases rule: check_now_ends)
  case (cached t st)
  with preflight_run_cache [OF assms(1)] show ?thesis by auto
qed auto

theorem status_not_older_than_ttl_witness:
  "\<exists>st s'. preflight_check_now healthy_os (linux_preflight_with_ttl 1000, 5) = Some (Ok st, s')
     \<and> ready_for_hardware_commands st
     \<and> ((\<exists>t. collected_at healthy_os t st \<and> 5 - t < 1000) \<or> (\<exists>k1. preflight_collect healthy_os 5 = Some (Ok st, k1)))"
proof -
  obtain st where st: "preflight_collect healthy_os 5 = Some (Ok st, 8)" "ready_for_hardware_commands st"
    using healthy_collect [of 5] by auto
  then obtain s' where run: "preflight_check_now healthy_os (linux_preflight_with_ttl 1000, 5) = Some (Ok st, s')"
    by (simp add: preflight_check_now_def gets_def linux_preflight_with_ttl_def preflight_refresh_def
        on_os_def zoom_def callE_def thenE_def bindE_def modify_def ret_def split: prod.split)
  from status_not_older_than_ttl [OF preflight_run.start run] run st(2) show ?thesis by auto
qed

text \<open>Addresses and states are read back from their decimal form and from their hexadecimal form
  of any width and letter case.\<close>

theorem address_roundtrip:
  "parse_i2c_addr (''0x'' @ fmt_hex_upper n a) = Some a \<and> parse_i2c_addr (''0X'' @ fmt_hex_lower n a) = Some a
   \<and> parse_i2c_addr (fmt_dec a) = Some a \<and> parse_u8_integer (''0x'' @ fmt_hex_upper n (ucast b :: u16)) = Some b"
proof -
  have "parse_i2c_addr (''0X'' @ fmt_hex_lower n a) = Some a"
    using trim_graphic [of "''0X'' @ fmt_hex_lower n a"]
    by (simp add: parse_i2c_addr_def strip_prefix_def graphic_def)
  moreover have "parse_i2c_addr (fmt_dec a) = Some a"
    using trim_graphic [of "fmt_dec a"] by (simp add: parse_i2c_addr_def fmt_dec_no_hex)
  ultimately show ?thesis by (simp del: append_Cons)
qed

end
