(* ===== verification/StatusFacts.thy ===== *)
theory StatusFacts
  imports StatusCollector PreflightFacts
begin

text \<open>
  What the collected status says (\<open>status_collector.rs\<close>): the fields of the PMBus formats are the
  two's complement values, the I2C list is ordered, and the bus that a preflight found the clock
  chip on is listed with the chip.
\<close>

section \<open>Sign extension\<close>

lemma sint_cases: "sint (w :: 32 word) = (if uint w < 2 ^ 31 then uint w else uint w - 2 ^ 32)"
proof -
  have u: "0 \<le> uint w" "uint w < 2 ^ 32" using uint_lt2p [of w] by simp_all
  have "sint w = take_bit 32 (uint w) - 2 ^ 32 * of_bool (bit (uint w) 31)"
    unfolding sint_uint by (simp add: signed_take_bit_eq_take_bit_minus)
  moreover have "take_bit 32 (uint w) = uint w" using u by (simp add: take_bit_int_eq_self)
  moreover have "bit (uint w) 31 \<longleftrightarrow> 2 ^ 31 \<le> uint w"
  proof (cases "uint w < 2 ^ 31")
    case True
    then show ?thesis using u by (simp add: bit_iff_odd)
  next
    case False
    then have "uint w div 2 ^ 31 = 1" using u by (intro int_div_pos_eq [where r = "uint w - 2 ^ 31"]) auto
    then show ?thesis using False by (simp add: bit_iff_odd)
  qed
  ultimately show ?thesis by simp
qed

definition twos_complement :: "nat \<Rightarrow> int \<Rightarrow> int" where
  "twos_complement bits v = (if 2 ^ (bits - 1) \<le> v then v - 2 ^ bits else v)"

lemma sint_sign_extend:
  assumes bits: "0 < bits" "bits \<le> 16" and v: "uint v < 2 ^ bits"
  shows "sint (sign_extend v bits) = twos_complement bits (uint v)"
proof -
  let ?s = "32 - bits" and ?w = "push_bit (32 - bits) (ucast v :: 32 word)"
  have pow: "(2 :: int) ^ bits * 2 ^ ?s = 2 ^ 32" "(2 :: int) ^ (bits - 1) * 2 ^ ?s = 2 ^ 31"
    using bits by (simp_all flip: power_add)
  have small: "uint v * 2 ^ ?s < 2 ^ 32" using mult_strict_right_mono [OF v, of "2 ^ ?s"] unfolding pow(1) by simp
  have "uint (ucast v :: 32 word) = uint v" by (simp add: uint_up_ucast is_up)
  then have w: "uint ?w = uint v * 2 ^ ?s"
    using small unfolding unsigned_push_bit_eq by (simp add: push_bit_eq_mult take_bit_int_eq_self)
  have half: "uint v * 2 ^ ?s < 2 ^ 31 \<longleftrightarrow> uint v < 2 ^ (bits - 1)"
    unfolding pow(2) [symmetric] by (rule mult_less_cancel_right_pos) simp
  have sint_w: "sint ?w = (if uint v < 2 ^ (bits - 1) then uint v * 2 ^ ?s else uint v * 2 ^ ?s - 2 ^ 32)"
    unfolding sint_cases w half ..
  have "sint (sign_extend v bits) = sint ?w div 2 ^ ?s"
    unfolding sign_extend_def Let_def sint_signed_drop_bit_eq by (simp add: drop_bit_eq_div)
  also have "\<dots> = twos_complement bits (uint v)"
  proof (cases "uint v < 2 ^ (bits - 1)")
    case True
    then show ?thesis unfolding sint_w twos_complement_def by (simp only: if_True if_False not_less) simp
  next
    case False
    then have "sint ?w = (uint v - 2 ^ bits) * 2 ^ ?s"
      unfolding sint_w by (simp only: if_False left_diff_distrib pow(1))
    with False show ?thesis by (simp add: twos_complement_def)
  qed
  finally show ?thesis .
qed

lemma linear11_fields:
  "sint (sign_extend (raw AND 0x07FF) 11) = twos_complement 11 (uint raw mod 2 ^ 11)"
  "sint (sign_extend (drop_bit 11 raw) 5) = twos_complement 5 (uint raw div 2 ^ 11)"
proof -
  have low: "raw AND 0x07FF = take_bit 11 raw"
    by (simp add: take_bit_eq_mask mask_eq_exp_minus_1)
  have "uint (take_bit 11 raw) = uint raw mod 2 ^ 11" unfolding unsigned_take_bit_eq by (simp add: take_bit_eq_mod)
  then show "sint (sign_extend (raw AND 0x07FF) 11) = twos_complement 11 (uint raw mod 2 ^ 11)"
    unfolding low by (subst sint_sign_extend) simp_all
  have "take_bit 16 (uint raw) = uint raw"
    using uint_lt2p [of raw] by (intro take_bit_int_eq_self) simp_all
  then have "uint (drop_bit 11 raw) = uint raw div 2 ^ 11" unfolding unsigned_drop_bit_eq
    by (simp add: drop_bit_eq_div)
  moreover have "uint raw div 2 ^ 11 < 2 ^ 5" using uint_lt2p [of raw] by (simp add: div_less_iff_less_mult)
  ultimately show "sint (sign_extend (drop_bit 11 raw) 5) = twos_complement 5 (uint raw div 2 ^ 11)"
    by (subst sint_sign_extend) simp_all
qed

section \<open>The I2C list\<close>

lemma bus_map_key: "i2c_bus_map os st k bus = Some b \<Longrightarrow> ibs_bus b = bus"
proof -
  define ok :: "bus_map \<Rightarrow> bool" where "ok m \<longleftrightarrow> (\<forall>bus b. m bus = Some b \<longrightarrow> ibs_bus b = bus)" for m
  have update: "ok m \<Longrightarrow> ok (update_bus bus f m)" for m bus f
    by (auto simp: ok_def update_bus_def empty_bus_def Let_def split: option.splits)
  have fold: "ok m \<Longrightarrow> ok (fold (\<lambda>d. update_bus (fst d) (g d)) ds m)" for ds m g
    by (induction ds arbitrary: m) (auto intro: update)
  have start: "ok (\<lambda>bus. if bus \<in> set (i2c_bus_candidates (os_i2c os) None k) then Some (empty_bus bus) else None)"
    by (simp add: ok_def empty_bus_def)
  have "ok (i2c_bus_map os st k)"
    using fold [OF start, of "\<lambda>d ds. ds @ [registered_device os k d]"]
      update [OF fold [OF start, of "\<lambda>d ds. ds @ [registered_device os k d]"]]
    by (simp add: i2c_bus_map_def Let_def split: option.split prod.split)
  then show "i2c_bus_map os st k bus = Some b \<Longrightarrow> ibs_bus b = bus" by (simp add: ok_def)
qed

lemma bus_keys_sorted: "sorted_wrt (<) bus_keys"
  by (auto simp: bus_keys_def sorted_wrt_map word_less_nat_alt unat_of_nat take_bit_nat_eq_self
      intro!: sorted_wrt_mono_rel [OF _ sorted_wrt_upt])

lemma set_bus_keys: "set bus_keys = UNIV"
proof -
  have "b \<in> set bus_keys" for b :: u8
    using unsigned_less [of b, where 'a = nat] by (auto simp: bus_keys_def intro!: image_eqI [of _ _ "unat b"])
  then show ?thesis by blast
qed

lemma map_filter_sorted:
  assumes "\<And>x y. m x = Some y \<Longrightarrow> f y = (x :: u8)" and "sorted_wrt (<) xs"
  shows "sorted_wrt (\<lambda>a b. f a < f b) (List.map_filter m xs)"
  using assms(2)
  by (induction xs) (auto simp: map_filter_simps map_filter_def assms(1) split: option.split)

lemma i2c_status_entry:
  assumes "i2c_bus_map os st k bus = Some b"
  shows "b\<lparr>ibs_devices := sort_key ids_address (ibs_devices b)\<rparr> \<in> set (collect_i2c_status os st k)"
  unfolding collect_i2c_status_def set_map
  by (rule imageI) (use assms in \<open>auto simp: map_filter_def set_bus_keys intro!: image_eqI [of _ _ bus]\<close>)

section \<open>The clock chip in the list\<close>

lemma upsert_member: "d \<in> set (upsert_i2c_device ds d)"
  by (induction ds) auto

lemma clockchip_listed:
  assumes "clockchip_detail st = Some (bus, detail)"
  shows "\<exists>b \<in> set (collect_i2c_status os st k). ibs_bus b = bus \<and> clockchip_device detail \<in> set (ibs_devices b)"
proof -
  obtain b where b: "i2c_bus_map os st k bus = Some b" "clockchip_device detail \<in> set (ibs_devices b)"
    using assms by (auto simp: i2c_bus_map_def update_bus_def Let_def upsert_member split: option.split)
  with bus_map_key [OF b(1)] show ?thesis
    by (intro bexI [OF _ i2c_status_entry [OF b(1)]]) simp
qed

lemma split_once_skip:
  "list_all (\<lambda>c. c \<noteq> p) xs \<Longrightarrow> split_once (p # ps) (xs @ ys) = map_option (\<lambda>(a, b). (xs @ a, b)) (split_once (p # ps) ys)"
proof (induction xs)
  case (Cons x xs)
  then show ?case by (simp add: strip_prefix_def) (cases "split_once (p # ps) ys"; auto)
qed (cases "split_once (p # ps) ys"; auto)

lemma takeWhile_digits:
  "\<not> digit_value 10 c \<noteq> None \<Longrightarrow> takeWhile (\<lambda>c. digit_value 10 c \<noteq> None) (fmt_dec w @ c # s) = fmt_dec w"
  using fmt_dec_digits [of w] by (subst takeWhile_append2) (auto simp: list_all_iff)

lemma hex_no_i: "list_all (\<lambda>c. c \<noteq> CHR ''i'') (fmt_hex_upper n w)"
proof -
  have "list_all (\<lambda>c. digit_value 16 c \<noteq> None) (radix_digits 16 True (unat w))"
    by (rule parse_digits_chars [OF parse_radix_digits [of 16 "unat w" "unat w"]]) simp_all
  then show ?thesis by (auto simp: fmt_hex_upper_def pad_zeros_def list_all_iff digit_value_def)
qed

lemma bus_of_found_detail: "parse_i2c_bus_from_detail (found_detail bus addr) = Some bus"
proof -
  let ?pre = "''0x'' @ fmt_hex_upper 2 addr @ '' present on /dev/''"
  have "found_detail bus addr = ?pre @ ''i2c-'' @ fmt_dec bus @ ''; 0xE6=0x06''"
    by (simp add: found_detail_def)
  moreover have "list_all (\<lambda>c. c \<noteq> CHR ''i'') ?pre" by (simp add: hex_no_i)
  ultimately have "split_once ''i2c-'' (found_detail bus addr) = Some (?pre, fmt_dec bus @ ''; 0xE6=0x06'')"
    by (simp only: split_once_skip) (simp add: strip_prefix_def)
  then show ?thesis
    using takeWhile_digits [of "CHR '';''" bus] by (simp add: parse_i2c_bus_from_detail_def digit_value_def)
qed

lemma check_names:
  "systemd_unit_active os unit k = Some (Ok c, k') \<Longrightarrow> pc_name c = unit"
  "pc_name (file_equals os n p e k) = n" "pc_name (path_exists os n p k) = n"
  "pc_name (any_i2c_device os cfg k) = ''i2c_device_node''" "pc_name (any_remoteproc_device os k) = ''remoteproc''"
  by (auto simp: systemd_unit_active_def callE_def bindE_def ret_def file_equals_def path_exists_def
      any_i2c_device_def any_remoteproc_device_def Let_def split: result.splits prod.splits if_splits)

lemma ready_clockchip_detail:
  assumes "preflight_collect os k = Some (Ok st, k')" and "ready_for_hardware_commands st"
  shows "\<exists>bus k3 config. bus \<in> set (clockchip_bus_candidates os config k3)
    \<and> chip_answers (os_i2c os) bus (clockchip_address os config k3)
    \<and> clockchip_detail st = Some (bus, found_detail bus (clockchip_address os config k3))"
  using assms(1)
proof (cases rule: collect_ends)
  case (1 config c1 c2 c3 c4 es k1 k2 k3 k4)
  with assms(2) have "pc_ok c4" by (simp add: ready_for_hardware_commands_def)
  from clockchip_reachable_ok [OF 1(5) this] obtain bus where bus:
    "bus \<in> set (clockchip_bus_candidates os config k3)"
    "chip_answers (os_i2c os) bus (clockchip_address os config k3)"
    "c4 = check_ok ''clockchip_i2c'' (found_detail bus (clockchip_address os config k3))"
    by blast
  have "clockchip_detail st = Some (bus, found_detail bus (clockchip_address os config k3))"
    using check_names(1) [OF 1(2)] check_names(1) [OF 1(3)] check_names(1) [OF 1(4)]
    by (simp add: clockchip_detail_def 1(7) check_names(2-5) bus(3) bus_of_found_detail)
  with bus show ?thesis by blast
qed

section \<open>Properties\<close>

text \<open>The 11-bit and 5-bit fields of a PMBus reading are their two's complement values: a LINEAR11
  word is decoded as mantissa times two to the exponent, and a LINEAR16 word as its signed value
  times two to the given exponent.\<close>

theorem pmbus_formats:
  "decode_linear11 fo raw =
     f_mul fo (f_of_int fo (twos_complement 11 (uint raw mod 2 ^ 11)))
       (f_powi_2 fo (twos_complement 5 (uint raw div 2 ^ 11)))
   \<and> decode_linear16 fo raw e = f_mul fo (f_of_int fo (twos_complement 16 (uint raw))) (f_powi_2 fo e)"
proof -
  have "sint raw = twos_complement 16 (uint raw)"
  proof -
    have u: "0 \<le> uint raw" "uint raw < 2 ^ 16" using uint_lt2p [of raw] by simp_all
    have "sint (sign_extend raw 16) = sint raw"
      by (simp add: sign_extend_def sint_signed_drop_bit_eq Let_def) (rule bit_eqI, simp add: bit_simps min_def)
    with sint_sign_extend [of 16 raw] u show ?thesis by simp
  qed
  then show ?thesis by (simp add: decode_linear11_def decode_linear16_def linear11_fields Let_def)
qed

text \<open>The buses of the I2C status are in strictly increasing order, so none is listed twice, and the
  devices of each are in the order of their addresses.\<close>

theorem i2c_status_sorted:
  "sorted_wrt (\<lambda>a b. ibs_bus a < ibs_bus b) (collect_i2c_status os st k)
   \<and> (\<forall>b \<in> set (collect_i2c_status os st k). sorted (map ids_address (ibs_devices b)))"
proof -
  have "sorted_wrt (\<lambda>a b. ibs_bus a < ibs_bus b) (List.map_filter (i2c_bus_map os st k) bus_keys)"
    by (rule map_filter_sorted [OF bus_map_key bus_keys_sorted])
  then show ?thesis by (simp add: collect_i2c_status_def sorted_wrt_map [of _ "\<lambda>b. b\<lparr>ibs_devices := _ b\<rparr>"] sorted_sort_key)
qed

text \<open>C37: when a preflight is ready, the status built from it lists the bus on which the chip answered,
  read back from the text of the check, with the clock chip present among its devices.\<close>

theorem ready_preflight_lists_clockchip:
  assumes "preflight_collect os k = Some (Ok st, k')" and "ready_for_hardware_commands st"
  shows "\<exists>b \<in> set (collect_i2c_status os st k''). \<exists>d \<in> set (ibs_devices b). \<exists>addr.
    ids_name d = ''clockchip'' \<and> ids_present d \<and> chip_answers (os_i2c os) (ibs_bus b) addr
    \<and> ids_status d = Some (found_detail (ibs_bus b) addr)"
proof -
  from ready_clockchip_detail [OF assms] obtain bus k3 config
    where chip: "chip_answers (os_i2c os) bus (clockchip_address os config k3)"
      "clockchip_detail st = Some (bus, found_detail bus (clockchip_address os config k3))"
    by (elim exE conjE)
  let ?addr = "clockchip_address os config k3"
  from clockchip_listed [OF chip(2), of os k''] obtain b where b: "b \<in> set (collect_i2c_status os st k'')"
    "ibs_bus b = bus" "clockchip_device (found_detail bus ?addr) \<in> set (ibs_devices b)" by blast
  show ?thesis
    by (rule bexI [OF _ b(1)], rule bexI [OF _ b(3)], rule exI [of _ ?addr])
      (use chip(1) b(2) in \<open>simp add: clockchip_device_def\<close>)
qed

theorem ready_preflight_lists_clockchip_witness:
  "\<exists>st k' b. preflight_collect healthy_os 0 = Some (Ok st, k') \<and> b \<in> set (collect_i2c_status healthy_os st k')
     \<and> (\<exists>d \<in> set (ibs_devices b). ids_name d = ''clockchip'')"
  using healthy_collect [of 0] ready_preflight_lists_clockchip [where os = healthy_os and k = 0] by blast

end
