(* ===== verification/PbMessages.thy ===== *)
theory PbMessages
  imports Prelude
begin

text \<open>
  The messages of the client protocol, as the structures that the build generates from the schemas
  under \<open>src/proto\<close> (\<open>pb.rs\<close> includes them).  The coding of messages is a library: \<open>pb_codec\<close> has one
  decoder for each request and one encoder for the responses, and the decoder and the encoder of
  the envelope.  A decoding error is its text.  An \<open>int32\<close> is a word of 32 bits that is read signed;
  a \<open>double\<close> is a value of the type parameter.
\<close>

section \<open>Configuration of the front end\<close>

record channel_config =
  pcc_id :: u32
  pcc_trim :: u32
  pcc_offset :: u32
  pcc_gain :: u32

record adc_config_pb =
  pad_resolution :: bool
  pad_output_format :: bool
  pad_sb_first :: bool

record pga_config_pb =
  ppg_lpf_cut_frequency :: u32
  ppg_integrator_disable :: bool
  ppg_gain :: bool

record lna_config_pb =
  pln_clamp :: u32
  pln_gain :: u32
  pln_integrator_disable :: bool

record afe_config =
  pac_id :: u32
  pac_attenuators :: u32
  pac_v_bias :: u32
  pac_adc :: "adc_config_pb option"
  pac_pga :: "pga_config_pb option"
  pac_lna :: "lna_config_pb option"

record configure_request =
  cfg_daphne_address :: string
  cfg_slot :: u32
  cfg_timeout_ms :: u32
  cfg_biasctrl :: u32
  cfg_self_trigger_threshold :: u64
  cfg_self_trigger_xcorr :: u64
  cfg_tp_conf :: u64
  cfg_compensator :: u64
  cfg_inverters :: u64
  cfg_channels :: "channel_config list"
  cfg_afes :: "afe_config list"
  cfg_full_stream_channels :: "u32 list"

record configure_response =
  cfgr_success :: bool
  cfgr_message :: string

section \<open>Low-level commands\<close>

record cmd_write_afe_reg =
  war_id :: u32
  war_afe_block :: u32
  war_reg_address :: u32
  war_reg_value :: u32

record cmd_write_afe_reg_response =
  warr_success :: bool
  warr_message :: string
  warr_afe_block :: u32
  warr_reg_address :: u32
  warr_reg_value :: u32

record cmd_write_afe_vgain =
  wav_id :: u32
  wav_afe_block :: u32
  wav_vgain_value :: u32

record cmd_write_afe_vgain_response =
  wavr_success :: bool
  wavr_message :: string
  wavr_afe_block :: u32
  wavr_vgain_value :: u32

record cmd_write_afe_attenuation =
  waa_id :: u32
  waa_afe_block :: u32
  waa_attenuation :: u32

record cmd_write_afe_attenuation_response =
  waar_success :: bool
  waar_message :: string
  waar_afe_block :: u32
  waar_attenuation :: u32

record cmd_write_afe_bias_set =
  wab_id :: u32
  wab_afe_block :: u32
  wab_bias_value :: u32

record cmd_write_afe_bias_set_response =
  wabr_success :: bool
  wabr_message :: string
  wabr_afe_block :: u32
  wabr_bias_value :: u32

record cmd_write_trim_all_channels =
  wtac_id :: u32
  wtac_trim_value :: u32
  wtac_trim_gain :: bool

record cmd_write_trim_all_channels_response =
  wtacr_success :: bool
  wtacr_message :: string
  wtacr_trim_value :: u32
  wtacr_trim_gain :: bool

record cmd_write_trim_all_afe =
  wtaa_id :: u32
  wtaa_afe_block :: u32
  wtaa_trim_value :: u32
  wtaa_trim_gain :: bool

record cmd_write_trim_all_afe_response =
  wtaar_success :: bool
  wtaar_message :: string
  wtaar_afe_block :: u32
  wtaar_trim_value :: u32
  wtaar_trim_gain :: bool

record cmd_write_trim_single_channel =
  wtsc_id :: u32
  wtsc_trim_channel :: u32
  wtsc_trim_value :: u32
  wtsc_trim_gain :: bool

record cmd_write_trim_single_channel_response =
  wtscr_success :: bool
  wtscr_message :: string
  wtscr_trim_channel :: u32
  wtscr_trim_value :: u32
  wtscr_trim_gain :: bool

record cmd_write_offset_all_channels =
  woac_id :: u32
  woac_offset_value :: u32
  woac_offset_gain :: bool

record cmd_write_offset_all_channels_response =
  woacr_success :: bool
  woacr_message :: string
  woacr_offset_value :: u32
  woacr_offset_gain :: bool

record cmd_write_offset_all_afe =
  woaa_id :: u32
  woaa_afe_block :: u32
  woaa_offset_value :: u32
  woaa_offset_gain :: bool

record cmd_write_offset_all_afe_response =
  woaar_success :: bool
  woaar_message :: string
  woaar_afe_block :: u32
  woaar_offset_value :: u32
  woaar_offset_gain :: bool

record cmd_write_offset_single_channel =
  wosc_id :: u32
  wosc_offset_channel :: u32
  wosc_offset_value :: u32
  wosc_offset_gain :: bool

record cmd_write_offset_single_channel_response =
  woscr_success :: bool
  woscr_message :: string
  woscr_offset_channel :: u32
  woscr_offset_value :: u32
  woscr_offset_gain :: bool

record cmd_write_vbias_control =
  wvc_id :: u32
  wvc_v_bias_control_value :: u32
  wvc_enable :: bool

record cmd_write_vbias_control_response =
  wvcr_success :: bool
  wvcr_message :: string
  wvcr_v_bias_control_value :: u32

record cmd_read_afe_reg =
  rar_id :: u32
  rar_afe_block :: u32
  rar_reg_address :: u32

record cmd_read_afe_reg_response =
  rarr_success :: bool
  rarr_message :: string
  rarr_afe_block :: u32
  rarr_reg_address :: u32
  rarr_reg_value :: u32

record cmd_read_afe_vgain =
  rav_id :: u32
  rav_afe_block :: u32

record cmd_read_afe_vgain_response =
  ravr_success :: bool
  ravr_message :: string
  ravr_afe_block :: u32
  ravr_vgain_value :: u32

record cmd_read_afe_bias_set =
  rab_id :: u32
  rab_afe_block :: u32

record cmd_read_afe_bias_set_response =
  rabr_success :: bool
  rabr_message :: string
  rabr_afe_block :: u32
  rabr_bias_value :: u32

record cmd_read_trim_all_channels =
  rtac_id :: u32

record cmd_read_trim_all_channels_response =
  rtacr_success :: bool
  rtacr_message :: string
  rtacr_trim_values :: "u32 list"

record cmd_read_trim_all_afe =
  rtaa_id :: u32
  rtaa_afe_block :: u32

record cmd_read_trim_all_afe_response =
  rtaar_success :: bool
  rtaar_message :: string
  rtaar_afe_block :: u32
  rtaar_trim_values :: "u32 list"

record cmd_read_trim_single_channel =
  rtsc_id :: u32
  rtsc_trim_channel :: u32

record cmd_read_trim_single_channel_response =
  rtscr_success :: bool
  rtscr_message :: string
  rtscr_trim_channel :: u32
  rtscr_trim_value :: u32

record cmd_read_offset_all_channels =
  roac_id :: u32

record cmd_read_offset_all_channels_response =
  roacr_success :: bool
  roacr_message :: string
  roacr_offset_values :: "u32 list"

record cmd_read_offset_all_afe =
  roaa_id :: u32
  roaa_afe_block :: u32

record cmd_read_offset_all_afe_response =
  roaar_success :: bool
  roaar_message :: string
  roaar_afe_block :: u32
  roaar_offset_values :: "u32 list"

record cmd_read_offset_single_channel =
  rosc_id :: u32
  rosc_offset_channel :: u32

record cmd_read_offset_single_channel_response =
  roscr_success :: bool
  roscr_message :: string
  roscr_offset_channel :: u32
  roscr_offset_value :: u32

record cmd_read_vbias_control =
  rvc_id :: u32

record cmd_read_vbias_control_response =
  rvcr_success :: bool
  rvcr_message :: string
  rvcr_v_bias_control_value :: u32

record cmd_read_current_monitor =
  rcm_id :: u32
  rcm_current_monitor_channel :: u32

record cmd_read_current_monitor_response =
  rcmr_success :: bool
  rcmr_message :: string
  rcmr_current_monitor_channel :: u32
  rcmr_current_value :: u32

record cmd_read_bias_voltage_monitor =
  rbvm_id :: u32
  rbvm_afe_block :: u32

record cmd_read_bias_voltage_monitor_response =
  rbvmr_success :: bool
  rbvmr_message :: string
  rbvmr_afe_block :: u32
  rbvmr_bias_voltage_value :: u32

record cmd_set_afe_reset =
  sar_id :: u32
  sar_reset_value :: bool

record cmd_set_afe_reset_response =
  sarr_success :: bool
  sarr_message :: string
  sarr_reset_value :: bool

record cmd_do_afe_reset =
  dar_id :: u32

record cmd_do_afe_reset_response =
  darr_success :: bool
  darr_message :: string

record cmd_set_afe_power_state =
  sap_id :: u32
  sap_power_state :: bool

record cmd_set_afe_power_state_response =
  sapr_success :: bool
  sapr_message :: string
  sapr_power_state :: u32

datatype cmd_align_afes = CmdAlignAfes

record cmd_align_afes_response =
  alnr_success :: bool
  alnr_delay :: "u32 list"
  alnr_bitslip :: "u32 list"
  alnr_message :: string

record cmd_write_afe_function =
  waf_afe_block :: u32
  waf_function :: string
  waf_config_value :: u32

record cmd_write_afe_function_response =
  wafr_success :: bool
  wafr_message :: string
  wafr_afe_block :: u32
  wafr_function :: string
  wafr_config_value :: u32

section \<open>Status\<close>

record test_reg_response =
  trr_value :: u64
  trr_message :: string

record 'f general_info =
  gi_v_bias_0 :: 'f
  gi_v_bias_1 :: 'f
  gi_v_bias_2 :: 'f
  gi_v_bias_3 :: 'f
  gi_v_bias_4 :: 'f
  gi_power_minus5v :: 'f
  gi_power_plus2p5v :: 'f
  gi_power_ce :: 'f
  gi_temperature :: 'f

record slow_control_status_request =
  scq_level :: u32

record firmware_status_pb =
  pfs_loaded :: bool
  pfs_fpga_manager_state :: string
  pfs_overlay_name :: string
  pfs_build_id :: string
  pfs_pl_devices_present :: "string list"

record rpu_status_pb =
  prs_available :: bool
  prs_running :: bool
  prs_firmware :: string
  prs_heartbeat :: u64
  prs_last_fault :: string

record i2c_device_status_pb =
  pid_address :: u32
  pid_name :: string
  pid_present :: bool
  pid_status :: string

record i2c_bus_status_pb =
  pib_bus :: u32
  pib_path :: string
  pib_devices :: "i2c_device_status_pb list"

record clock_status_pb =
  pcs_endpoint_clock_source_controlled :: bool
  pcs_mmcm0_locked :: bool
  pcs_mmcm1_locked :: bool
  pcs_raw_endpoint_status :: u32

record 'f temperature_reading_pb =
  ptr_name :: string
  ptr_celsius :: 'f

record 'f rail_reading_pb =
  prr_name :: string
  prr_voltage_v :: 'f
  prr_current_a :: 'f
  prr_power_w :: 'f
  prr_status :: string

record service_status_pb =
  psv_name :: string
  psv_active :: bool
  psv_state :: string

record 'f slow_control_status_response =
  scr_success :: bool
  scr_message :: string
  scr_firmware :: "firmware_status_pb option"
  scr_rpu :: "rpu_status_pb option"
  scr_i2c :: "i2c_bus_status_pb list"
  scr_clocks :: "clock_status_pb option"
  scr_temperatures :: "'f temperature_reading_pb list"
  scr_rails :: "'f rail_reading_pb list"
  scr_services :: "service_status_pb list"
  scr_errors :: "string list"

section \<open>Envelopes\<close>

record control_envelope_v2 =
  env_version :: u32
  env_dir :: u32
  env_type :: u32
  env_payload :: "u8 list"
  env_task_id :: u64
  env_msg_id :: u64
  env_correl_id :: u64
  env_route :: string
  env_timestamp_ns :: u64

text \<open>The enumeration \<open>Direction\<close>.\<close>

definition DIR_REQUEST :: u32 where "DIR_REQUEST = 0"
definition DIR_RESPONSE :: u32 where "DIR_RESPONSE = 1"

section \<open>Responses and the codec\<close>

datatype 'f pb_response =
    ConfigureResponse configure_response
  | WriteAfeRegResponse cmd_write_afe_reg_response
  | WriteAfeVgainResponse cmd_write_afe_vgain_response
  | WriteAfeAttenuationResponse cmd_write_afe_attenuation_response
  | WriteAfeBiasSetResponse cmd_write_afe_bias_set_response
  | WriteTrimAllChannelsResponse cmd_write_trim_all_channels_response
  | WriteTrimAllAfeResponse cmd_write_trim_all_afe_response
  | WriteTrimSingleChannelResponse cmd_write_trim_single_channel_response
  | WriteOffsetAllChannelsResponse cmd_write_offset_all_channels_response
  | WriteOffsetAllAfeResponse cmd_write_offset_all_afe_response
  | WriteOffsetSingleChannelResponse cmd_write_offset_single_channel_response
  | WriteVbiasControlResponse cmd_write_vbias_control_response
  | ReadAfeRegResponse cmd_read_afe_reg_response
  | ReadAfeVgainResponse cmd_read_afe_vgain_response
  | ReadAfeBiasSetResponse cmd_read_afe_bias_set_response
  | ReadTrimAllChannelsResponse cmd_read_trim_all_channels_response
  | ReadTrimAllAfeResponse cmd_read_trim_all_afe_response
  | ReadTrimSingleChannelResponse cmd_read_trim_single_channel_response
  | ReadOffsetAllChannelsResponse cmd_read_offset_all_channels_response
  | ReadOffsetAllAfeResponse cmd_read_offset_all_afe_response
  | ReadOffsetSingleChannelResponse cmd_read_offset_single_channel_response
  | ReadVbiasControlResponse cmd_read_vbias_control_response
  | ReadCurrentMonitorResponse cmd_read_current_monitor_response
  | ReadBiasVoltageMonitorResponse cmd_read_bias_voltage_monitor_response
  | SetAfeResetResponse cmd_set_afe_reset_response
  | DoAfeResetResponse cmd_do_afe_reset_response
  | SetAfePowerStateResponse cmd_set_afe_power_state_response
  | AlignAfesResponse cmd_align_afes_response
  | WriteAfeFunctionResponse cmd_write_afe_function_response
  | TestRegResponse test_reg_response
  | GeneralInfoResponse "'f general_info"
  | SlowControlStatusResponse "'f slow_control_status_response"

text \<open>The fields every answer to a command has.\<close>

definition response_success :: "'f pb_response \<Rightarrow> bool option" where
  "response_success r = (case r of
     ConfigureResponse x \<Rightarrow> Some (cfgr_success x)
   | WriteAfeRegResponse x \<Rightarrow> Some (warr_success x)
   | WriteAfeVgainResponse x \<Rightarrow> Some (wavr_success x)
   | WriteAfeAttenuationResponse x \<Rightarrow> Some (waar_success x)
   | WriteAfeBiasSetResponse x \<Rightarrow> Some (wabr_success x)
   | WriteTrimAllChannelsResponse x \<Rightarrow> Some (wtacr_success x)
   | WriteTrimAllAfeResponse x \<Rightarrow> Some (wtaar_success x)
   | WriteTrimSingleChannelResponse x \<Rightarrow> Some (wtscr_success x)
   | WriteOffsetAllChannelsResponse x \<Rightarrow> Some (woacr_success x)
   | WriteOffsetAllAfeResponse x \<Rightarrow> Some (woaar_success x)
   | WriteOffsetSingleChannelResponse x \<Rightarrow> Some (woscr_success x)
   | WriteVbiasControlResponse x \<Rightarrow> Some (wvcr_success x)
   | ReadAfeRegResponse x \<Rightarrow> Some (rarr_success x)
   | ReadAfeVgainResponse x \<Rightarrow> Some (ravr_success x)
   | ReadAfeBiasSetResponse x \<Rightarrow> Some (rabr_success x)
   | ReadTrimAllChannelsResponse x \<Rightarrow> Some (rtacr_success x)
   | ReadTrimAllAfeResponse x \<Rightarrow> Some (rtaar_success x)
   | ReadTrimSingleChannelResponse x \<Rightarrow> Some (rtscr_success x)
   | ReadOffsetAllChannelsResponse x \<Rightarrow> Some (roacr_success x)
   | ReadOffsetAllAfeResponse x \<Rightarrow> Some (roaar_success x)
   | ReadOffsetSingleChannelResponse x \<Rightarrow> Some (roscr_success x)
   | ReadVbiasControlResponse x \<Rightarrow> Some (rvcr_success x)
   | ReadCurrentMonitorResponse x \<Rightarrow> Some (rcmr_success x)
   | ReadBiasVoltageMonitorResponse x \<Rightarrow> Some (rbvmr_success x)
   | SetAfeResetResponse x \<Rightarrow> Some (sarr_success x)
   | DoAfeResetResponse x \<Rightarrow> Some (darr_success x)
   | SetAfePowerStateResponse x \<Rightarrow> Some (sapr_success x)
   | AlignAfesResponse x \<Rightarrow> Some (alnr_success x)
   | WriteAfeFunctionResponse x \<Rightarrow> Some (wafr_success x)
   | SlowControlStatusResponse x \<Rightarrow> Some (scr_success x)
   | TestRegResponse x \<Rightarrow> None
   | GeneralInfoResponse x \<Rightarrow> None)"

definition response_message :: "'f pb_response \<Rightarrow> string option" where
  "response_message r = (case r of
     ConfigureResponse x \<Rightarrow> Some (cfgr_message x)
   | WriteAfeRegResponse x \<Rightarrow> Some (warr_message x)
   | WriteAfeVgainResponse x \<Rightarrow> Some (wavr_message x)
   | WriteAfeAttenuationResponse x \<Rightarrow> Some (waar_message x)
   | WriteAfeBiasSetResponse x \<Rightarrow> Some (wabr_message x)
   | WriteTrimAllChannelsResponse x \<Rightarrow> Some (wtacr_message x)
   | WriteTrimAllAfeResponse x \<Rightarrow> Some (wtaar_message x)
   | WriteTrimSingleChannelResponse x \<Rightarrow> Some (wtscr_message x)
   | WriteOffsetAllChannelsResponse x \<Rightarrow> Some (woacr_message x)
   | WriteOffsetAllAfeResponse x \<Rightarrow> Some (woaar_message x)
   | WriteOffsetSingleChannelResponse x \<Rightarrow> Some (woscr_message x)
   | WriteVbiasControlResponse x \<Rightarrow> Some (wvcr_message x)
   | ReadAfeRegResponse x \<Rightarrow> Some (rarr_message x)
   | ReadAfeVgainResponse x \<Rightarrow> Some (ravr_message x)
   | ReadAfeBiasSetResponse x \<Rightarrow> Some (rabr_message x)
   | ReadTrimAllChannelsResponse x \<Rightarrow> Some (rtacr_message x)
   | ReadTrimAllAfeResponse x \<Rightarrow> Some (rtaar_message x)
   | ReadTrimSingleChannelResponse x \<Rightarrow> Some (rtscr_message x)
   | ReadOffsetAllChannelsResponse x \<Rightarrow> Some (roacr_message x)
   | ReadOffsetAllAfeResponse x \<Rightarrow> Some (roaar_message x)
   | ReadOffsetSingleChannelResponse x \<Rightarrow> Some (roscr_message x)
   | ReadVbiasControlResponse x \<Rightarrow> Some (rvcr_message x)
   | ReadCurrentMonitorResponse x \<Rightarrow> Some (rcmr_message x)
   | ReadBiasVoltageMonitorResponse x \<Rightarrow> Some (rbvmr_message x)
   | SetAfeResetResponse x \<Rightarrow> Some (sarr_message x)
   | DoAfeResetResponse x \<Rightarrow> Some (darr_message x)
   | SetAfePowerStateResponse x \<Rightarrow> Some (sapr_message x)
   | AlignAfesResponse x \<Rightarrow> Some (alnr_message x)
   | WriteAfeFunctionResponse x \<Rightarrow> Some (wafr_message x)
   | SlowControlStatusResponse x \<Rightarrow> Some (scr_message x)
   | TestRegResponse x \<Rightarrow> Some (trr_message x)
   | GeneralInfoResponse x \<Rightarrow> None)"

record 'f pb_codec =
  cd_configure_request :: "u8 list \<Rightarrow> (configure_request, string) result"
  cd_write_afe_reg :: "u8 list \<Rightarrow> (cmd_write_afe_reg, string) result"
  cd_write_afe_vgain :: "u8 list \<Rightarrow> (cmd_write_afe_vgain, string) result"
  cd_write_afe_attenuation :: "u8 list \<Rightarrow> (cmd_write_afe_attenuation, string) result"
  cd_write_afe_bias_set :: "u8 list \<Rightarrow> (cmd_write_afe_bias_set, string) result"
  cd_write_trim_all_channels :: "u8 list \<Rightarrow> (cmd_write_trim_all_channels, string) result"
  cd_write_trim_all_afe :: "u8 list \<Rightarrow> (cmd_write_trim_all_afe, string) result"
  cd_write_trim_single_channel :: "u8 list \<Rightarrow> (cmd_write_trim_single_channel, string) result"
  cd_write_offset_all_channels :: "u8 list \<Rightarrow> (cmd_write_offset_all_channels, string) result"
  cd_write_offset_all_afe :: "u8 list \<Rightarrow> (cmd_write_offset_all_afe, string) result"
  cd_write_offset_single_channel :: "u8 list \<Rightarrow> (cmd_write_offset_single_channel, string) result"
  cd_write_vbias_control :: "u8 list \<Rightarrow> (cmd_write_vbias_control, string) result"
  cd_read_afe_reg :: "u8 list \<Rightarrow> (cmd_read_afe_reg, string) result"
  cd_read_afe_vgain :: "u8 list \<Rightarrow> (cmd_read_afe_vgain, string) result"
  cd_read_afe_bias_set :: "u8 list \<Rightarrow> (cmd_read_afe_bias_set, string) result"
  cd_read_trim_all_channels :: "u8 list \<Rightarrow> (cmd_read_trim_all_channels, string) result"
  cd_read_trim_all_afe :: "u8 list \<Rightarrow> (cmd_read_trim_all_afe, string) result"
  cd_read_trim_single_channel :: "u8 list \<Rightarrow> (cmd_read_trim_single_channel, string) result"
  cd_read_offset_all_channels :: "u8 list \<Rightarrow> (cmd_read_offset_all_channels, string) result"
  cd_read_offset_all_afe :: "u8 list \<Rightarrow> (cmd_read_offset_all_afe, string) result"
  cd_read_offset_single_channel :: "u8 list \<Rightarrow> (cmd_read_offset_single_channel, string) result"
  cd_read_vbias_control :: "u8 list \<Rightarrow> (cmd_read_vbias_control, string) result"
  cd_read_current_monitor :: "u8 list \<Rightarrow> (cmd_read_current_monitor, string) result"
  cd_read_bias_voltage_monitor :: "u8 list \<Rightarrow> (cmd_read_bias_voltage_monitor, string) result"
  cd_set_afe_reset :: "u8 list \<Rightarrow> (cmd_set_afe_reset, string) result"
  cd_do_afe_reset :: "u8 list \<Rightarrow> (cmd_do_afe_reset, string) result"
  cd_set_afe_power_state :: "u8 list \<Rightarrow> (cmd_set_afe_power_state, string) result"
  cd_align_afes :: "u8 list \<Rightarrow> (cmd_align_afes, string) result"
  cd_write_afe_function :: "u8 list \<Rightarrow> (cmd_write_afe_function, string) result"
  cd_slow_control_status_request :: "u8 list \<Rightarrow> (slow_control_status_request, string) result"
  cd_encode :: "'f pb_response \<Rightarrow> u8 list"
  cd_decode_envelope :: "u8 list \<Rightarrow> (control_envelope_v2, string) result"
  cd_encode_envelope :: "control_envelope_v2 \<Rightarrow> u8 list"

lemma response_selectors [simp]:
  "response_success (ConfigureResponse a0) = Some (cfgr_success a0)"
  "response_message (ConfigureResponse a0) = Some (cfgr_message a0)"
  "response_success (WriteAfeRegResponse a1) = Some (warr_success a1)"
  "response_message (WriteAfeRegResponse a1) = Some (warr_message a1)"
  "response_success (WriteAfeVgainResponse a2) = Some (wavr_success a2)"
  "response_message (WriteAfeVgainResponse a2) = Some (wavr_message a2)"
  "response_success (WriteAfeAttenuationResponse a3) = Some (waar_success a3)"
  "response_message (WriteAfeAttenuationResponse a3) = Some (waar_message a3)"
  "response_success (WriteAfeBiasSetResponse a4) = Some (wabr_success a4)"
  "response_message (WriteAfeBiasSetResponse a4) = Some (wabr_message a4)"
  "response_success (WriteTrimAllChannelsResponse a5) = Some (wtacr_success a5)"
  "response_message (WriteTrimAllChannelsResponse a5) = Some (wtacr_message a5)"
  "response_success (WriteTrimAllAfeResponse a6) = Some (wtaar_success a6)"
  "response_message (WriteTrimAllAfeResponse a6) = Some (wtaar_message a6)"
  "response_success (WriteTrimSingleChannelResponse a7) = Some (wtscr_success a7)"
  "response_message (WriteTrimSingleChannelResponse a7) = Some (wtscr_message a7)"
  "response_success (WriteOffsetAllChannelsResponse a8) = Some (woacr_success a8)"
  "response_message (WriteOffsetAllChannelsResponse a8) = Some (woacr_message a8)"
  "response_success (WriteOffsetAllAfeResponse a9) = Some (woaar_success a9)"
  "response_message (WriteOffsetAllAfeResponse a9) = Some (woaar_message a9)"
  "response_success (WriteOffsetSingleChannelResponse a10) = Some (woscr_success a10)"
  "response_message (WriteOffsetSingleChannelResponse a10) = Some (woscr_message a10)"
  "response_success (WriteVbiasControlResponse a11) = Some (wvcr_success a11)"
  "response_message (WriteVbiasControlResponse a11) = Some (wvcr_message a11)"
  "response_success (ReadAfeRegResponse a12) = Some (rarr_success a12)"
  "response_message (ReadAfeRegResponse a12) = Some (rarr_message a12)"
  "response_success (ReadAfeVgainResponse a13) = Some (ravr_success a13)"
  "response_message (ReadAfeVgainResponse a13) = Some (ravr_message a13)"
  "response_success (ReadAfeBiasSetResponse a14) = Some (rabr_success a14)"
  "response_message (ReadAfeBiasSetResponse a14) = Some (rabr_message a14)"
  "response_success (ReadTrimAllChannelsResponse a15) = Some (rtacr_success a15)"
  "response_message (ReadTrimAllChannelsResponse a15) = Some (rtacr_message a15)"
  "response_success (ReadTrimAllAfeResponse a16) = Some (rtaar_success a16)"
  "response_message (ReadTrimAllAfeResponse a16) = Some (rtaar_message a16)"
  "response_success (ReadTrimSingleChannelResponse a17) = Some (rtscr_success a17)"
  "response_message (ReadTrimSingleChannelResponse a17) = Some (rtscr_message a17)"
  "response_success (ReadOffsetAllChannelsResponse a18) = Some (roacr_success a18)"
  "response_message (ReadOffsetAllChannelsResponse a18) = Some (roacr_message a18)"
  "response_success (ReadOffsetAllAfeResponse a19) = Some (roaar_success a19)"
  "response_message (ReadOffsetAllAfeResponse a19) = Some (roaar_message a19)"
  "response_success (ReadOffsetSingleChannelResponse a20) = Some (roscr_success a20)"
  "response_message (ReadOffsetSingleChannelResponse a20) = Some (roscr_message a20)"
  "response_success (ReadVbiasControlResponse a21) = Some (rvcr_success a21)"
  "response_message (ReadVbiasControlResponse a21) = Some (rvcr_message a21)"
  "response_success (ReadCurrentMonitorResponse a22) = Some (rcmr_success a22)"
  "response_message (ReadCurrentMonitorResponse a22) = Some (rcmr_message a22)"
  "response_success (ReadBiasVoltageMonitorResponse a23) = Some (rbvmr_success a23)"
  "response_message (ReadBiasVoltageMonitorResponse a23) = Some (rbvmr_message a23)"
  "response_success (SetAfeResetResponse a24) = Some (sarr_success a24)"
  "response_message (SetAfeResetResponse a24) = Some (sarr_message a24)"
  "response_success (DoAfeResetResponse a25) = Some (darr_success a25)"
  "response_message (DoAfeResetResponse a25) = Some (darr_message a25)"
  "response_success (SetAfePowerStateResponse a26) = Some (sapr_success a26)"
  "response_message (SetAfePowerStateResponse a26) = Some (sapr_message a26)"
  "response_success (AlignAfesResponse a27) = Some (alnr_success a27)"
  "response_message (AlignAfesResponse a27) = Some (alnr_message a27)"
  "response_success (WriteAfeFunctionResponse a28) = Some (wafr_success a28)"
  "response_message (WriteAfeFunctionResponse a28) = Some (wafr_message a28)"
  "response_success (SlowControlStatusResponse s) = Some (scr_success s)"
  "response_message (SlowControlStatusResponse s) = Some (scr_message s)"
  "response_success (TestRegResponse t) = None" "response_success (GeneralInfoResponse g) = None"
  by (simp_all add: response_success_def response_message_def)

end
