(* ===== verification/Handlers.thy ===== *)
theory Handlers
  imports PbMessages StatusCollector Transport
begin

text \<open>
  The handlers of the requests (\<open>daphne-sc-server/src/handlers.rs\<close>): a payload is decoded, turned
  into a command of the AFE interface, validated, submitted to the RPU transport, and the outcome is
  encoded in the response of the request's type.  A preflight that is not ready replaces the
  transport by one that rejects every command.  The codec of the messages is a parameter.
\<close>

definition RPU_FAIL_PREFIX :: string where "RPU_FAIL_PREFIX = ''RPU AFE command failed: ''"

section \<open>Submitting a command\<close>

record submit_outcome =
  so_success :: bool
  so_message :: string
  so_readback :: "u32 option"
  so_fault_code :: u32
  so_context_code :: u32
  so_transport_error :: bool

definition failed_outcome :: "string \<Rightarrow> bool \<Rightarrow> submit_outcome" where
  "failed_outcome message transport_error =
     \<lparr>so_success = False, so_message = message, so_readback = None, so_fault_code = 0,
      so_context_code = 0, so_transport_error = transport_error\<rparr>"

definition outcome_of :: "(afe_command_reply, rpu_error) result \<Rightarrow> submit_outcome" where
  "outcome_of res = (case res of
     Ok reply \<Rightarrow>
       \<lparr>so_success = ar_accepted reply \<and> ar_applied reply, so_message = ar_message reply,
        so_readback = ar_readback reply, so_fault_code = ar_fault_code reply,
        so_context_code = ar_context_code reply, so_transport_error = False\<rparr>
   | Err err \<Rightarrow> failed_outcome (RPU_FAIL_PREFIX @ rpu_error_to_string err) True)"

definition submit :: "'s rpu_afe_transport \<Rightarrow> afe_command \<Rightarrow> ('s, submit_outcome, string) eff" where
  "submit rpu command = (case validate command of
     Err err \<Rightarrow> ret (failed_outcome (afe_validation_error_to_string err) False)
   | Ok _ \<Rightarrow> tryE (rt_submit_afe_command rpu command) (\<lambda>res. ret (outcome_of res)))"

definition unwrap_or_default :: "u32 option \<Rightarrow> u32" where
  "unwrap_or_default v = (case v of Some n \<Rightarrow> n | None \<Rightarrow> 0)"

section \<open>From fields to commands\<close>

definition u8_value :: "string \<Rightarrow> u32 \<Rightarrow> (u8, string) result" where
  "u8_value name v = (if unat v < 2 ^ 8 then Ok (ucast v)
     else Err (name @ '' out of range for u8: '' @ fmt_dec v))"

definition u16_value :: "string \<Rightarrow> u32 \<Rightarrow> (u16, string) result" where
  "u16_value name v = (if unat v < 2 ^ 16 then Ok (ucast v)
     else Err (name @ '' out of range for u16: '' @ fmt_dec v))"

definition request_afe :: "u32 \<Rightarrow> (afe_id, string) result" where
  "request_afe v = and_then (u8_value ''afeBlock'' v) (\<lambda>afe.
     map_err afe_validation_error_to_string (from_board afe))"

definition request_channel :: "u32 \<Rightarrow> (channel_id, string) result" where
  "request_channel v = and_then (u8_value ''channel'' v) (\<lambda>channel.
     map_err afe_validation_error_to_string (channel_new channel))"

definition make_read_register :: "u32 \<Rightarrow> u32 \<Rightarrow> (afe_command, string) result" where
  "make_read_register afe_block reg_address =
     and_then (request_afe afe_block) (\<lambda>afe.
     and_then (u8_value ''regAddress'' reg_address) (\<lambda>register. Ok (ReadRegister afe register)))"

definition make_write_register :: "u32 \<Rightarrow> u32 \<Rightarrow> u32 \<Rightarrow> (afe_command, string) result" where
  "make_write_register afe_block reg_address reg_value =
     and_then (request_afe afe_block) (\<lambda>afe.
     and_then (u8_value ''regAddress'' reg_address) (\<lambda>register.
     and_then (u16_value ''regValue'' reg_value) (\<lambda>v. Ok (WriteRegister afe register v))))"

definition make_set_attenuation :: "u32 \<Rightarrow> u32 \<Rightarrow> (afe_command, string) result" where
  "make_set_attenuation afe_block v =
     and_then (request_afe afe_block) (\<lambda>afe.
     and_then (u16_value ''attenuation'' v) (\<lambda>n. Ok (SetAttenuation afe n)))"

definition make_set_bias :: "u32 \<Rightarrow> u32 \<Rightarrow> (afe_command, string) result" where
  "make_set_bias afe_block v =
     and_then (request_afe afe_block) (\<lambda>afe.
     and_then (u16_value ''biasValue'' v) (\<lambda>n. Ok (SetBias afe n)))"

definition make_set_trim :: "channel_target \<Rightarrow> u32 \<Rightarrow> bool \<Rightarrow> (afe_command, string) result" where
  "make_set_trim target v gain = and_then (u16_value ''trimValue'' v) (\<lambda>n. Ok (SetTrim target n gain))"

definition make_set_offset :: "channel_target \<Rightarrow> u32 \<Rightarrow> bool \<Rightarrow> (afe_command, string) result" where
  "make_set_offset target v gain = and_then (u16_value ''offsetValue'' v) (\<lambda>n. Ok (SetOffset target n gain))"

definition make_set_vbias_control :: "u32 \<Rightarrow> bool \<Rightarrow> (afe_command, string) result" where
  "make_set_vbias_control v enable =
     and_then (u16_value ''vBiasControlValue'' v) (\<lambda>n. Ok (SetVbiasControl n enable))"

definition make_write_function :: "u32 \<Rightarrow> string \<Rightarrow> u32 \<Rightarrow> (afe_command, string) result" where
  "make_write_function afe_block name v =
     and_then (request_afe afe_block) (\<lambda>afe.
     and_then (u16_value ''configValue'' v) (\<lambda>n. Ok (WriteFunction afe name n)))"

text \<open>The default of a missing group of settings.\<close>

definition afe_settings :: "afe_config \<Rightarrow> adc_config_pb \<times> pga_config_pb \<times> lna_config_pb" where
  "afe_settings afe =
     (case pac_adc afe of Some adc \<Rightarrow> adc
        | None \<Rightarrow> \<lparr>pad_resolution = False, pad_output_format = False, pad_sb_first = False\<rparr>,
      case pac_pga afe of Some pga \<Rightarrow> pga
        | None \<Rightarrow> \<lparr>ppg_lpf_cut_frequency = 0, ppg_integrator_disable = False, ppg_gain = False\<rparr>,
      case pac_lna afe of Some lna \<Rightarrow> lna
        | None \<Rightarrow> \<lparr>pln_clamp = 0, pln_gain = 0, pln_integrator_disable = False\<rparr>)"

definition configure_afe_record :: "afe_config \<Rightarrow> (afe_frontend_config, string) result" where
  "configure_afe_record afe =
     (let (adc, pga, lna) = afe_settings afe in
      and_then (request_afe (pac_id afe)) (\<lambda>id.
      and_then (u16_value ''attenuators'' (pac_attenuators afe)) (\<lambda>attenuation.
      and_then (u16_value ''v_bias'' (pac_v_bias afe)) (\<lambda>bias.
      and_then (u8_value ''pga.lpf_cut_frequency'' (ppg_lpf_cut_frequency pga)) (\<lambda>lpf.
      and_then (u8_value ''lna.clamp'' (pln_clamp lna)) (\<lambda>clamp.
      and_then (u8_value ''lna.gain'' (pln_gain lna)) (\<lambda>gain.
      Ok \<lparr>fe_afe = id, fe_attenuation = attenuation, fe_bias = bias,
          fe_adc = \<lparr>adc_resolution = pad_resolution adc, adc_output_format = pad_output_format adc,
                    adc_msb_first = pad_sb_first adc\<rparr>,
          fe_pga = \<lparr>pga_lpf_cut_frequency = lpf, pga_integrator_disable = ppg_integrator_disable pga,
                    pga_gain = ppg_gain pga\<rparr>,
          fe_lna = \<lparr>lna_clamp = clamp, lna_gain = gain,
                    lna_integrator_disable = pln_integrator_disable lna\<rparr>\<rparr>)))))))"

definition configure_channel_record :: "channel_config \<Rightarrow> (channel_frontend_config, string) result" where
  "configure_channel_record channel =
     and_then (request_channel (pcc_id channel)) (\<lambda>id.
     and_then (u16_value ''trim'' (pcc_trim channel)) (\<lambda>trim.
     and_then (u16_value ''offset'' (pcc_offset channel)) (\<lambda>offset.
     and_then (u16_value ''gain'' (pcc_gain channel)) (\<lambda>gain.
     Ok \<lparr>fc_channel = id, fc_trim = trim, fc_offset = offset, fc_gain = gain\<rparr>))))"

definition configure_command :: "configure_request \<Rightarrow> (afe_command, string) result" where
  "configure_command req =
     and_then (try_map configure_afe_record (cfg_afes req)) (\<lambda>afes.
     and_then (try_map configure_channel_record (cfg_channels req)) (\<lambda>channels.
     and_then (u16_value ''biasctrl'' (cfg_biasctrl req)) (\<lambda>bias_control.
     Ok (ConfigureFrontend afes channels bias_control))))"

section \<open>Commands to the front end\<close>

definition handle_configure_fe :: "'f pb_codec \<Rightarrow> u8 list \<Rightarrow> 's rpu_afe_transport \<Rightarrow> ('s, u8 list, string) eff" where
  "handle_configure_fe cd payload rpu = (case cd_configure_request cd payload of
     Err err \<Rightarrow> ret (cd_encode cd (ConfigureResponse
         \<lparr>cfgr_success = False, cfgr_message = ''Bad ConfigureRequest payload: '' @ err\<rparr>))
   | Ok req \<Rightarrow> (case configure_command req of
       Err err \<Rightarrow> ret (cd_encode cd (ConfigureResponse \<lparr>cfgr_success = False, cfgr_message = err\<rparr>))
     | Ok command \<Rightarrow> bindE (submit rpu command) (\<lambda>outcome.
         ret (cd_encode cd (ConfigureResponse
           \<lparr>cfgr_success = so_success outcome, cfgr_message = so_message outcome\<rparr>)))))"

definition bad_write_afe_reg :: "'f pb_codec \<Rightarrow> string \<Rightarrow> u8 list" where
  "bad_write_afe_reg cd message = cd_encode cd (WriteAfeRegResponse
     \<lparr>warr_success = False, warr_message = message, warr_afe_block = 0, warr_reg_address = 0,
      warr_reg_value = 0\<rparr>)"

definition handle_write_afe_reg :: "'f pb_codec \<Rightarrow> u8 list \<Rightarrow> 's rpu_afe_transport \<Rightarrow> ('s, u8 list, string) eff" where
  "handle_write_afe_reg cd payload rpu = (case cd_write_afe_reg cd payload of
     Err err \<Rightarrow> ret (bad_write_afe_reg cd (''Bad cmd_writeAFEReg payload: '' @ err))
   | Ok req \<Rightarrow> (case make_write_register (war_afe_block req) (war_reg_address req) (war_reg_value req) of
       Err err \<Rightarrow> ret (bad_write_afe_reg cd err)
     | Ok command \<Rightarrow> bindE (submit rpu command) (\<lambda>outcome.
         ret (cd_encode cd (WriteAfeRegResponse
           \<lparr>warr_success = so_success outcome, warr_message = so_message outcome,
            warr_afe_block = war_afe_block req, warr_reg_address = war_reg_address req,
            warr_reg_value = unwrap_or_default (so_readback outcome)\<rparr>)))))"

definition bad_write_afe_vgain :: "'f pb_codec \<Rightarrow> string \<Rightarrow> u8 list" where
  "bad_write_afe_vgain cd message = cd_encode cd (WriteAfeVgainResponse
     \<lparr>wavr_success = False, wavr_message = message, wavr_afe_block = 0, wavr_vgain_value = 0\<rparr>)"

definition handle_write_afe_vgain :: "'f pb_codec \<Rightarrow> u8 list \<Rightarrow> 's rpu_afe_transport \<Rightarrow> ('s, u8 list, string) eff" where
  "handle_write_afe_vgain cd payload rpu = (case cd_write_afe_vgain cd payload of
     Err err \<Rightarrow> ret (bad_write_afe_vgain cd (''Bad cmd_writeAFEVGAIN payload: '' @ err))
   | Ok req \<Rightarrow> (case make_set_attenuation (wav_afe_block req) (wav_vgain_value req) of
       Err err \<Rightarrow> ret (bad_write_afe_vgain cd err)
     | Ok command \<Rightarrow> bindE (submit rpu command) (\<lambda>outcome.
         ret (cd_encode cd (WriteAfeVgainResponse
           \<lparr>wavr_success = so_success outcome, wavr_message = so_message outcome,
            wavr_afe_block = wav_afe_block req,
            wavr_vgain_value = unwrap_or_default (so_readback outcome)\<rparr>)))))"

definition bad_write_afe_attenuation :: "'f pb_codec \<Rightarrow> string \<Rightarrow> u8 list" where
  "bad_write_afe_attenuation cd message = cd_encode cd (WriteAfeAttenuationResponse
     \<lparr>waar_success = False, waar_message = message, waar_afe_block = 0, waar_attenuation = 0\<rparr>)"

definition handle_write_afe_attenuation :: "'f pb_codec \<Rightarrow> u8 list \<Rightarrow> 's rpu_afe_transport \<Rightarrow> ('s, u8 list, string) eff" where
  "handle_write_afe_attenuation cd payload rpu = (case cd_write_afe_attenuation cd payload of
     Err err \<Rightarrow> ret (bad_write_afe_attenuation cd (''Bad cmd_writeAFEAttenuation payload: '' @ err))
   | Ok req \<Rightarrow> (case make_set_attenuation (waa_afe_block req) (waa_attenuation req) of
       Err err \<Rightarrow> ret (bad_write_afe_attenuation cd err)
     | Ok command \<Rightarrow> bindE (submit rpu command) (\<lambda>outcome.
         ret (cd_encode cd (WriteAfeAttenuationResponse
           \<lparr>waar_success = so_success outcome, waar_message = so_message outcome,
            waar_afe_block = waa_afe_block req,
            waar_attenuation = unwrap_or_default (so_readback outcome)\<rparr>)))))"

definition bad_write_afe_bias :: "'f pb_codec \<Rightarrow> string \<Rightarrow> u8 list" where
  "bad_write_afe_bias cd message = cd_encode cd (WriteAfeBiasSetResponse
     \<lparr>wabr_success = False, wabr_message = message, wabr_afe_block = 0, wabr_bias_value = 0\<rparr>)"

definition handle_write_afe_bias :: "'f pb_codec \<Rightarrow> u8 list \<Rightarrow> 's rpu_afe_transport \<Rightarrow> ('s, u8 list, string) eff" where
  "handle_write_afe_bias cd payload rpu = (case cd_write_afe_bias_set cd payload of
     Err err \<Rightarrow> ret (bad_write_afe_bias cd (''Bad cmd_writeAFEBiasSet payload: '' @ err))
   | Ok req \<Rightarrow> (case make_set_bias (wab_afe_block req) (wab_bias_value req) of
       Err err \<Rightarrow> ret (bad_write_afe_bias cd err)
     | Ok command \<Rightarrow> bindE (submit rpu command) (\<lambda>outcome.
         ret (cd_encode cd (WriteAfeBiasSetResponse
           \<lparr>wabr_success = so_success outcome, wabr_message = so_message outcome,
            wabr_afe_block = wab_afe_block req,
            wabr_bias_value = unwrap_or_default (so_readback outcome)\<rparr>)))))"

definition bad_write_trim_channel :: "'f pb_codec \<Rightarrow> string \<Rightarrow> u8 list" where
  "bad_write_trim_channel cd message = cd_encode cd (WriteTrimSingleChannelResponse
     \<lparr>wtscr_success = False, wtscr_message = message, wtscr_trim_channel = 0,
      wtscr_trim_value = 0, wtscr_trim_gain = False\<rparr>)"

definition handle_write_trim_channel :: "'f pb_codec \<Rightarrow> u8 list \<Rightarrow> 's rpu_afe_transport \<Rightarrow> ('s, u8 list, string) eff" where
  "handle_write_trim_channel cd payload rpu = (case cd_write_trim_single_channel cd payload of
     Err err \<Rightarrow> ret (bad_write_trim_channel cd (''Bad cmd_writeTrim_singleChannel payload: '' @ err))
   | Ok req \<Rightarrow> (case map_ok TargetOne (request_channel (wtsc_trim_channel req)) of
       Err err \<Rightarrow> ret (bad_write_trim_channel cd err)
     | Ok target \<Rightarrow> (case make_set_trim target (wtsc_trim_value req) (wtsc_trim_gain req) of
         Err err \<Rightarrow> ret (bad_write_trim_channel cd err)
       | Ok command \<Rightarrow> bindE (submit rpu command) (\<lambda>outcome.
           ret (cd_encode cd (WriteTrimSingleChannelResponse
             \<lparr>wtscr_success = so_success outcome, wtscr_message = so_message outcome,
              wtscr_trim_channel = wtsc_trim_channel req,
              wtscr_trim_value = unwrap_or_default (so_readback outcome),
              wtscr_trim_gain = wtsc_trim_gain req\<rparr>))))))"

definition bad_write_trim_all_channels :: "'f pb_codec \<Rightarrow> string \<Rightarrow> u8 list" where
  "bad_write_trim_all_channels cd message = cd_encode cd (WriteTrimAllChannelsResponse
     \<lparr>wtacr_success = False, wtacr_message = message, wtacr_trim_value = 0,
      wtacr_trim_gain = False\<rparr>)"

definition handle_write_trim_all_channels :: "'f pb_codec \<Rightarrow> u8 list \<Rightarrow> 's rpu_afe_transport \<Rightarrow> ('s, u8 list, string) eff" where
  "handle_write_trim_all_channels cd payload rpu = (case cd_write_trim_all_channels cd payload of
     Err err \<Rightarrow> ret (bad_write_trim_all_channels cd (''Bad cmd_writeTRIM_allChannels payload: '' @ err))
   | Ok req \<Rightarrow> (case make_set_trim TargetAll (wtac_trim_value req) (wtac_trim_gain req) of
       Err err \<Rightarrow> ret (bad_write_trim_all_channels cd err)
     | Ok command \<Rightarrow> bindE (submit rpu command) (\<lambda>outcome.
         ret (cd_encode cd (WriteTrimAllChannelsResponse
           \<lparr>wtacr_success = so_success outcome, wtacr_message = so_message outcome,
            wtacr_trim_value = unwrap_or_default (so_readback outcome),
            wtacr_trim_gain = wtac_trim_gain req\<rparr>)))))"

definition bad_write_trim_all_afe :: "'f pb_codec \<Rightarrow> string \<Rightarrow> u8 list" where
  "bad_write_trim_all_afe cd message = cd_encode cd (WriteTrimAllAfeResponse
     \<lparr>wtaar_success = False, wtaar_message = message, wtaar_afe_block = 0,
      wtaar_trim_value = 0, wtaar_trim_gain = False\<rparr>)"

definition handle_write_trim_all_afe :: "'f pb_codec \<Rightarrow> u8 list \<Rightarrow> 's rpu_afe_transport \<Rightarrow> ('s, u8 list, string) eff" where
  "handle_write_trim_all_afe cd payload rpu = (case cd_write_trim_all_afe cd payload of
     Err err \<Rightarrow> ret (bad_write_trim_all_afe cd (''Bad cmd_writeTrim_allAFE payload: '' @ err))
   | Ok req \<Rightarrow> (case map_ok TargetAfe (request_afe (wtaa_afe_block req)) of
       Err err \<Rightarrow> ret (bad_write_trim_all_afe cd err)
     | Ok target \<Rightarrow> (case make_set_trim target (wtaa_trim_value req) (wtaa_trim_gain req) of
         Err err \<Rightarrow> ret (bad_write_trim_all_afe cd err)
       | Ok command \<Rightarrow> bindE (submit rpu command) (\<lambda>outcome.
           ret (cd_encode cd (WriteTrimAllAfeResponse
             \<lparr>wtaar_success = so_success outcome, wtaar_message = so_message outcome,
              wtaar_afe_block = wtaa_afe_block req,
              wtaar_trim_value = unwrap_or_default (so_readback outcome),
              wtaar_trim_gain = wtaa_trim_gain req\<rparr>))))))"

definition bad_write_offset_channel :: "'f pb_codec \<Rightarrow> string \<Rightarrow> u8 list" where
  "bad_write_offset_channel cd message = cd_encode cd (WriteOffsetSingleChannelResponse
     \<lparr>woscr_success = False, woscr_message = message, woscr_offset_channel = 0,
      woscr_offset_value = 0, woscr_offset_gain = False\<rparr>)"

definition handle_write_offset_channel :: "'f pb_codec \<Rightarrow> u8 list \<Rightarrow> 's rpu_afe_transport \<Rightarrow> ('s, u8 list, string) eff" where
  "handle_write_offset_channel cd payload rpu = (case cd_write_offset_single_channel cd payload of
     Err err \<Rightarrow> ret (bad_write_offset_channel cd (''Bad cmd_writeOFFSET_singleChannel payload: '' @ err))
   | Ok req \<Rightarrow> (case map_ok TargetOne (request_channel (wosc_offset_channel req)) of
       Err err \<Rightarrow> ret (bad_write_offset_channel cd err)
     | Ok target \<Rightarrow> (case make_set_offset target (wosc_offset_value req) (wosc_offset_gain req) of
         Err err \<Rightarrow> ret (bad_write_offset_channel cd err)
       | Ok command \<Rightarrow> bindE (submit rpu command) (\<lambda>outcome.
           ret (cd_encode cd (WriteOffsetSingleChannelResponse
             \<lparr>woscr_success = so_success outcome, woscr_message = so_message outcome,
              woscr_offset_channel = wosc_offset_channel req,
              woscr_offset_value = unwrap_or_default (so_readback outcome),
              woscr_offset_gain = wosc_offset_gain req\<rparr>))))))"

definition bad_write_offset_all_channels :: "'f pb_codec \<Rightarrow> string \<Rightarrow> u8 list" where
  "bad_write_offset_all_channels cd message = cd_encode cd (WriteOffsetAllChannelsResponse
     \<lparr>woacr_success = False, woacr_message = message, woacr_offset_value = 0,
      woacr_offset_gain = False\<rparr>)"

definition handle_write_offset_all_channels :: "'f pb_codec \<Rightarrow> u8 list \<Rightarrow> 's rpu_afe_transport \<Rightarrow> ('s, u8 list, string) eff" where
  "handle_write_offset_all_channels cd payload rpu = (case cd_write_offset_all_channels cd payload of
     Err err \<Rightarrow> ret (bad_write_offset_all_channels cd (''Bad cmd_writeOFFSET_allChannels payload: '' @ err))
   | Ok req \<Rightarrow> (case make_set_offset TargetAll (woac_offset_value req) (woac_offset_gain req) of
       Err err \<Rightarrow> ret (bad_write_offset_all_channels cd err)
     | Ok command \<Rightarrow> bindE (submit rpu command) (\<lambda>outcome.
         ret (cd_encode cd (WriteOffsetAllChannelsResponse
           \<lparr>woacr_success = so_success outcome, woacr_message = so_message outcome,
            woacr_offset_value = unwrap_or_default (so_readback outcome),
            woacr_offset_gain = woac_offset_gain req\<rparr>)))))"

definition bad_write_offset_all_afe :: "'f pb_codec \<Rightarrow> string \<Rightarrow> u8 list" where
  "bad_write_offset_all_afe cd message = cd_encode cd (WriteOffsetAllAfeResponse
     \<lparr>woaar_success = False, woaar_message = message, woaar_afe_block = 0,
      woaar_offset_value = 0, woaar_offset_gain = False\<rparr>)"

definition handle_write_offset_all_afe :: "'f pb_codec \<Rightarrow> u8 list \<Rightarrow> 's rpu_afe_transport \<Rightarrow> ('s, u8 list, string) eff" where
  "handle_write_offset_all_afe cd payload rpu = (case cd_write_offset_all_afe cd payload of
     Err err \<Rightarrow> ret (bad_write_offset_all_afe cd (''Bad cmd_writeOFFSET_allAFE payload: '' @ err))
   | Ok req \<Rightarrow> (case map_ok TargetAfe (request_afe (woaa_afe_block req)) of
       Err err \<Rightarrow> ret (bad_write_offset_all_afe cd err)
     | Ok target \<Rightarrow> (case make_set_offset target (woaa_offset_value req) (woaa_offset_gain req) of
         Err err \<Rightarrow> ret (bad_write_offset_all_afe cd err)
       | Ok command \<Rightarrow> bindE (submit rpu command) (\<lambda>outcome.
           ret (cd_encode cd (WriteOffsetAllAfeResponse
             \<lparr>woaar_success = so_success outcome, woaar_message = so_message outcome,
              woaar_afe_block = woaa_afe_block req,
              woaar_offset_value = unwrap_or_default (so_readback outcome),
              woaar_offset_gain = woaa_offset_gain req\<rparr>))))))"

definition bad_write_vbias_control :: "'f pb_codec \<Rightarrow> string \<Rightarrow> u8 list" where
  "bad_write_vbias_control cd message = cd_encode cd (WriteVbiasControlResponse
     \<lparr>wvcr_success = False, wvcr_message = message, wvcr_v_bias_control_value = 0\<rparr>)"

definition handle_write_vbias_control :: "'f pb_codec \<Rightarrow> u8 list \<Rightarrow> 's rpu_afe_transport \<Rightarrow> ('s, u8 list, string) eff" where
  "handle_write_vbias_control cd payload rpu = (case cd_write_vbias_control cd payload of
     Err err \<Rightarrow> ret (bad_write_vbias_control cd (''Bad cmd_writeVbiasControl payload: '' @ err))
   | Ok req \<Rightarrow> (case make_set_vbias_control (wvc_v_bias_control_value req) (wvc_enable req) of
       Err err \<Rightarrow> ret (bad_write_vbias_control cd err)
     | Ok command \<Rightarrow> bindE (submit rpu command) (\<lambda>outcome.
         ret (cd_encode cd (WriteVbiasControlResponse
           \<lparr>wvcr_success = so_success outcome, wvcr_message = so_message outcome,
            wvcr_v_bias_control_value = unwrap_or_default (so_readback outcome)\<rparr>)))))"

definition bad_read_afe_reg :: "'f pb_codec \<Rightarrow> string \<Rightarrow> u8 list" where
  "bad_read_afe_reg cd message = cd_encode cd (ReadAfeRegResponse
     \<lparr>rarr_success = False, rarr_message = message, rarr_afe_block = 0, rarr_reg_address = 0,
      rarr_reg_value = 0\<rparr>)"

definition handle_read_afe_reg :: "'f pb_codec \<Rightarrow> u8 list \<Rightarrow> 's rpu_afe_transport \<Rightarrow> ('s, u8 list, string) eff" where
  "handle_read_afe_reg cd payload rpu = (case cd_read_afe_reg cd payload of
     Err err \<Rightarrow> ret (bad_read_afe_reg cd (''Bad cmd_readAFEReg payload: '' @ err))
   | Ok req \<Rightarrow> (case make_read_register (rar_afe_block req) (rar_reg_address req) of
       Err err \<Rightarrow> ret (bad_read_afe_reg cd err)
     | Ok command \<Rightarrow> bindE (submit rpu command) (\<lambda>outcome.
         ret (cd_encode cd (ReadAfeRegResponse
           \<lparr>rarr_success = so_success outcome, rarr_message = so_message outcome,
            rarr_afe_block = rar_afe_block req, rarr_reg_address = rar_reg_address req,
            rarr_reg_value = unwrap_or_default (so_readback outcome)\<rparr>)))))"

definition bad_read_afe_vgain :: "'f pb_codec \<Rightarrow> string \<Rightarrow> u8 list" where
  "bad_read_afe_vgain cd message = cd_encode cd (ReadAfeVgainResponse
     \<lparr>ravr_success = False, ravr_message = message, ravr_afe_block = 0, ravr_vgain_value = 0\<rparr>)"

definition handle_read_afe_vgain :: "'f pb_codec \<Rightarrow> u8 list \<Rightarrow> 's rpu_afe_transport \<Rightarrow> ('s, u8 list, string) eff" where
  "handle_read_afe_vgain cd payload rpu = (case cd_read_afe_vgain cd payload of
     Err err \<Rightarrow> ret (bad_read_afe_vgain cd (''Bad cmd_readAFEVgain payload: '' @ err))
   | Ok req \<Rightarrow> (case map_ok ReadAttenuation (request_afe (rav_afe_block req)) of
       Err err \<Rightarrow> ret (bad_read_afe_vgain cd err)
     | Ok command \<Rightarrow> bindE (submit rpu command) (\<lambda>outcome.
         ret (cd_encode cd (ReadAfeVgainResponse
           \<lparr>ravr_success = so_success outcome, ravr_message = so_message outcome,
            ravr_afe_block = rav_afe_block req,
            ravr_vgain_value = unwrap_or_default (so_readback outcome)\<rparr>)))))"

definition bad_read_afe_bias :: "'f pb_codec \<Rightarrow> string \<Rightarrow> u8 list" where
  "bad_read_afe_bias cd message = cd_encode cd (ReadAfeBiasSetResponse
     \<lparr>rabr_success = False, rabr_message = message, rabr_afe_block = 0, rabr_bias_value = 0\<rparr>)"

definition handle_read_afe_bias :: "'f pb_codec \<Rightarrow> u8 list \<Rightarrow> 's rpu_afe_transport \<Rightarrow> ('s, u8 list, string) eff" where
  "handle_read_afe_bias cd payload rpu = (case cd_read_afe_bias_set cd payload of
     Err err \<Rightarrow> ret (bad_read_afe_bias cd (''Bad cmd_readAFEBiasSet payload: '' @ err))
   | Ok req \<Rightarrow> (case map_ok ReadBias (request_afe (rab_afe_block req)) of
       Err err \<Rightarrow> ret (bad_read_afe_bias cd err)
     | Ok command \<Rightarrow> bindE (submit rpu command) (\<lambda>outcome.
         ret (cd_encode cd (ReadAfeBiasSetResponse
           \<lparr>rabr_success = so_success outcome, rabr_message = so_message outcome,
            rabr_afe_block = rab_afe_block req,
            rabr_bias_value = unwrap_or_default (so_readback outcome)\<rparr>)))))"

definition bad_read_trim_channel :: "'f pb_codec \<Rightarrow> string \<Rightarrow> u8 list" where
  "bad_read_trim_channel cd message = cd_encode cd (ReadTrimSingleChannelResponse
     \<lparr>rtscr_success = False, rtscr_message = message, rtscr_trim_channel = 0,
      rtscr_trim_value = 0\<rparr>)"

definition handle_read_trim_channel :: "'f pb_codec \<Rightarrow> u8 list \<Rightarrow> 's rpu_afe_transport \<Rightarrow> ('s, u8 list, string) eff" where
  "handle_read_trim_channel cd payload rpu = (case cd_read_trim_single_channel cd payload of
     Err err \<Rightarrow> ret (bad_read_trim_channel cd (''Bad cmd_readTrim_singleChannel payload: '' @ err))
   | Ok req \<Rightarrow> (case map_ok (\<lambda>channel. ReadTrim (TargetOne channel)) (request_channel (rtsc_trim_channel req)) of
       Err err \<Rightarrow> ret (bad_read_trim_channel cd err)
     | Ok command \<Rightarrow> bindE (submit rpu command) (\<lambda>outcome.
         ret (cd_encode cd (ReadTrimSingleChannelResponse
           \<lparr>rtscr_success = so_success outcome, rtscr_message = so_message outcome,
            rtscr_trim_channel = rtsc_trim_channel req,
            rtscr_trim_value = unwrap_or_default (so_readback outcome)\<rparr>)))))"

definition handle_read_trim_all_channels :: "'f pb_codec \<Rightarrow> u8 list \<Rightarrow> 's rpu_afe_transport \<Rightarrow> ('s, u8 list, string) eff" where
  "handle_read_trim_all_channels cd payload rpu = (case cd_read_trim_all_channels cd payload of
     Err err \<Rightarrow> ret (cd_encode cd (ReadTrimAllChannelsResponse
         \<lparr>rtacr_success = False,
          rtacr_message = ''Bad cmd_readTrim_allChannels payload: '' @ err,
          rtacr_trim_values = []\<rparr>))
   | Ok _ \<Rightarrow> bindE (submit rpu (ReadTrim TargetAll)) (\<lambda>outcome.
       ret (cd_encode cd (ReadTrimAllChannelsResponse
         \<lparr>rtacr_success = so_success outcome, rtacr_message = so_message outcome,
          rtacr_trim_values = []\<rparr>))))"

definition handle_read_trim_all_afe :: "'f pb_codec \<Rightarrow> u8 list \<Rightarrow> 's rpu_afe_transport \<Rightarrow> ('s, u8 list, string) eff" where
  "handle_read_trim_all_afe cd payload rpu = (case cd_read_trim_all_afe cd payload of
     Err err \<Rightarrow> ret (cd_encode cd (ReadTrimAllAfeResponse
         \<lparr>rtaar_success = False, rtaar_message = ''Bad cmd_readTrim_allAFE payload: '' @ err,
          rtaar_afe_block = 0, rtaar_trim_values = []\<rparr>))
   | Ok req \<Rightarrow> (case map_ok (\<lambda>afe. ReadTrim (TargetAfe afe)) (request_afe (rtaa_afe_block req)) of
       Err err \<Rightarrow> ret (cd_encode cd (ReadTrimAllAfeResponse
         \<lparr>rtaar_success = False, rtaar_message = err, rtaar_afe_block = rtaa_afe_block req,
          rtaar_trim_values = []\<rparr>))
     | Ok command \<Rightarrow> bindE (submit rpu command) (\<lambda>outcome.
         ret (cd_encode cd (ReadTrimAllAfeResponse
           \<lparr>rtaar_success = so_success outcome, rtaar_message = so_message outcome,
            rtaar_afe_block = rtaa_afe_block req, rtaar_trim_values = []\<rparr>)))))"

definition bad_read_offset_channel :: "'f pb_codec \<Rightarrow> string \<Rightarrow> u8 list" where
  "bad_read_offset_channel cd message = cd_encode cd (ReadOffsetSingleChannelResponse
     \<lparr>roscr_success = False, roscr_message = message, roscr_offset_channel = 0,
      roscr_offset_value = 0\<rparr>)"

definition handle_read_offset_channel :: "'f pb_codec \<Rightarrow> u8 list \<Rightarrow> 's rpu_afe_transport \<Rightarrow> ('s, u8 list, string) eff" where
  "handle_read_offset_channel cd payload rpu = (case cd_read_offset_single_channel cd payload of
     Err err \<Rightarrow> ret (bad_read_offset_channel cd (''Bad cmd_readOffset_singleChannel payload: '' @ err))
   | Ok req \<Rightarrow> (case map_ok (\<lambda>channel. ReadOffset (TargetOne channel)) (request_channel (rosc_offset_channel req)) of
       Err err \<Rightarrow> ret (bad_read_offset_channel cd err)
     | Ok command \<Rightarrow> bindE (submit rpu command) (\<lambda>outcome.
         ret (cd_encode cd (ReadOffsetSingleChannelResponse
           \<lparr>roscr_success = so_success outcome, roscr_message = so_message outcome,
            roscr_offset_channel = rosc_offset_channel req,
            roscr_offset_value = unwrap_or_default (so_readback outcome)\<rparr>)))))"

definition handle_read_offset_all_channels :: "'f pb_codec \<Rightarrow> u8 list \<Rightarrow> 's rpu_afe_transport \<Rightarrow> ('s, u8 list, string) eff" where
  "handle_read_offset_all_channels cd payload rpu = (case cd_read_offset_all_channels cd payload of
     Err err \<Rightarrow> ret (cd_encode cd (ReadOffsetAllChannelsResponse
         \<lparr>roacr_success = False,
          roacr_message = ''Bad cmd_readOffset_allChannels payload: '' @ err,
          roacr_offset_values = []\<rparr>))
   | Ok _ \<Rightarrow> bindE (submit rpu (ReadOffset TargetAll)) (\<lambda>outcome.
       ret (cd_encode cd (ReadOffsetAllChannelsResponse
         \<lparr>roacr_success = so_success outcome, roacr_message = so_message outcome,
          roacr_offset_values = []\<rparr>))))"

definition handle_read_offset_all_afe :: "'f pb_codec \<Rightarrow> u8 list \<Rightarrow> 's rpu_afe_transport \<Rightarrow> ('s, u8 list, string) eff" where
  "handle_read_offset_all_afe cd payload rpu = (case cd_read_offset_all_afe cd payload of
     Err err \<Rightarrow> ret (cd_encode cd (ReadOffsetAllAfeResponse
         \<lparr>roaar_success = False, roaar_message = ''Bad cmd_readOffset_allAFE payload: '' @ err,
          roaar_afe_block = 0, roaar_offset_values = []\<rparr>))
   | Ok req \<Rightarrow> (case map_ok (\<lambda>afe. ReadOffset (TargetAfe afe)) (request_afe (roaa_afe_block req)) of
       Err err \<Rightarrow> ret (cd_encode cd (ReadOffsetAllAfeResponse
         \<lparr>roaar_success = False, roaar_message = err, roaar_afe_block = roaa_afe_block req,
          roaar_offset_values = []\<rparr>))
     | Ok command \<Rightarrow> bindE (submit rpu command) (\<lambda>outcome.
         ret (cd_encode cd (ReadOffsetAllAfeResponse
           \<lparr>roaar_success = so_success outcome, roaar_message = so_message outcome,
            roaar_afe_block = roaa_afe_block req, roaar_offset_values = []\<rparr>)))))"

definition handle_read_vbias_control :: "'f pb_codec \<Rightarrow> u8 list \<Rightarrow> 's rpu_afe_transport \<Rightarrow> ('s, u8 list, string) eff" where
  "handle_read_vbias_control cd payload rpu = (case cd_read_vbias_control cd payload of
     Err err \<Rightarrow> ret (cd_encode cd (ReadVbiasControlResponse
         \<lparr>rvcr_success = False, rvcr_message = ''Bad cmd_readVbiasControl payload: '' @ err,
          rvcr_v_bias_control_value = 0\<rparr>))
   | Ok _ \<Rightarrow> bindE (submit rpu ReadVbiasControl) (\<lambda>outcome.
       ret (cd_encode cd (ReadVbiasControlResponse
         \<lparr>rvcr_success = so_success outcome, rvcr_message = so_message outcome,
          rvcr_v_bias_control_value = unwrap_or_default (so_readback outcome)\<rparr>))))"

definition handle_set_afe_reset :: "'f pb_codec \<Rightarrow> u8 list \<Rightarrow> 's rpu_afe_transport \<Rightarrow> ('s, u8 list, string) eff" where
  "handle_set_afe_reset cd payload rpu = (case cd_set_afe_reset cd payload of
     Err err \<Rightarrow> ret (cd_encode cd (SetAfeResetResponse
         \<lparr>sarr_success = False, sarr_message = ''Bad cmd_setAFEReset payload: '' @ err,
          sarr_reset_value = False\<rparr>))
   | Ok req \<Rightarrow> bindE (submit rpu (SetReset (sar_reset_value req))) (\<lambda>outcome.
       ret (cd_encode cd (SetAfeResetResponse
         \<lparr>sarr_success = so_success outcome, sarr_message = so_message outcome,
          sarr_reset_value = sar_reset_value req\<rparr>))))"

definition handle_do_afe_reset :: "'f pb_codec \<Rightarrow> u8 list \<Rightarrow> 's rpu_afe_transport \<Rightarrow> ('s, u8 list, string) eff" where
  "handle_do_afe_reset cd payload rpu = (case cd_do_afe_reset cd payload of
     Err err \<Rightarrow> ret (cd_encode cd (DoAfeResetResponse
         \<lparr>darr_success = False, darr_message = ''Bad cmd_doAFEReset payload: '' @ err\<rparr>))
   | Ok _ \<Rightarrow> bindE (submit rpu DoReset) (\<lambda>outcome.
       ret (cd_encode cd (DoAfeResetResponse
         \<lparr>darr_success = so_success outcome, darr_message = so_message outcome\<rparr>))))"

definition handle_set_afe_power_state :: "'f pb_codec \<Rightarrow> u8 list \<Rightarrow> 's rpu_afe_transport \<Rightarrow> ('s, u8 list, string) eff" where
  "handle_set_afe_power_state cd payload rpu = (case cd_set_afe_power_state cd payload of
     Err err \<Rightarrow> ret (cd_encode cd (SetAfePowerStateResponse
         \<lparr>sapr_success = False, sapr_message = ''Bad cmd_setAFEPowerState payload: '' @ err,
          sapr_power_state = 0\<rparr>))
   | Ok req \<Rightarrow> bindE (submit rpu (SetPowerState (sap_power_state req))) (\<lambda>outcome.
       ret (cd_encode cd (SetAfePowerStateResponse
         \<lparr>sapr_success = so_success outcome, sapr_message = so_message outcome,
          sapr_power_state = (case so_readback outcome of Some v \<Rightarrow> v | None \<Rightarrow> of_flag (sap_power_state req))\<rparr>))))"

definition handle_write_afe_function :: "'f pb_codec \<Rightarrow> u8 list \<Rightarrow> 's rpu_afe_transport \<Rightarrow> ('s, u8 list, string) eff" where
  "handle_write_afe_function cd payload rpu = (case cd_write_afe_function cd payload of
     Err err \<Rightarrow> ret (cd_encode cd (WriteAfeFunctionResponse
         \<lparr>wafr_success = False, wafr_message = ''Bad cmd_writeAFEFunction payload: '' @ err,
          wafr_afe_block = 0, wafr_function = [], wafr_config_value = 0\<rparr>))
   | Ok req \<Rightarrow> (case make_write_function (waf_afe_block req) (waf_function req) (waf_config_value req) of
       Err err \<Rightarrow> ret (cd_encode cd (WriteAfeFunctionResponse
         \<lparr>wafr_success = False, wafr_message = err, wafr_afe_block = waf_afe_block req,
          wafr_function = waf_function req, wafr_config_value = waf_config_value req\<rparr>))
     | Ok command \<Rightarrow> bindE (submit rpu command) (\<lambda>outcome.
         ret (cd_encode cd (WriteAfeFunctionResponse
           \<lparr>wafr_success = so_success outcome, wafr_message = so_message outcome,
            wafr_afe_block = waf_afe_block req, wafr_function = waf_function req,
            wafr_config_value = unwrap_or_default (so_readback outcome)\<rparr>)))))"

section \<open>Alignment\<close>

definition describe_alignment_context :: "u32 \<Rightarrow> string option" where
  "describe_alignment_context context =
     (if context = 0 then None
      else (let afe = context AND 0xFF;
                stage = drop_bit 8 context AND 0xFF;
                stage_name = (if stage = 1 then ''reset'' else if stage = 2 then ''delayctrl-ready''
                  else if stage = 3 then ''delay-scan'' else if stage = 4 then ''bitslip-scan''
                  else if stage = 5 then ''vtc-restore'' else if stage = 6 then ''frame-clock-probe''
                  else ''unknown'')
            in if afe = 0xFF then Some (''alignment failed at '' @ stage_name)
               else Some (''alignment failed at '' @ stage_name @ '' for AFE '' @ fmt_dec afe)))"

definition alignment_message :: "submit_outcome \<Rightarrow> string" where
  "alignment_message outcome =
     so_message outcome
     @ (if so_fault_code outcome \<noteq> 0 \<and> \<not> contains ''code'' (so_message outcome)
        then ''; fault code '' @ fmt_dec (so_fault_code outcome) else [])
     @ (case describe_alignment_context (so_context_code outcome) of
          Some context \<Rightarrow> ''; '' @ context | None \<Rightarrow> [])"

fun read_alignment_from ::
    "'s rpu_afe_transport \<Rightarrow> u8 list \<Rightarrow> u32 list \<Rightarrow> u32 list \<Rightarrow> ('s, u32 list \<times> u32 list, string) eff" where
  "read_alignment_from rpu [] delay bitslip = ret (delay, bitslip)"
| "read_alignment_from rpu (afe_board # boards) delay bitslip = (case from_board afe_board of
     Err _ \<Rightarrow> read_alignment_from rpu boards delay bitslip
   | Ok afe \<Rightarrow> bindE (submit rpu (ReadAlignment afe)) (\<lambda>outcome. case so_readback outcome of
       None \<Rightarrow> read_alignment_from rpu boards delay bitslip
     | Some readback \<Rightarrow>
         if readback AND 0x80000000 = 0 then read_alignment_from rpu boards delay bitslip
         else read_alignment_from rpu boards (delay @ [readback AND 0xFFFF])
                (bitslip @ [drop_bit 16 readback AND 0x0F])))"

definition read_alignment_vectors :: "'s rpu_afe_transport \<Rightarrow> ('s, u32 list \<times> u32 list, string) eff" where
  "read_alignment_vectors rpu = read_alignment_from rpu (map word_of_nat [0..<unat AFE_COUNT]) [] []"

definition handle_align_afe :: "'f pb_codec \<Rightarrow> u8 list \<Rightarrow> 's rpu_afe_transport \<Rightarrow> ('s, u8 list, string) eff" where
  "handle_align_afe cd payload rpu = (case cd_align_afes cd payload of
     Err err \<Rightarrow> ret (cd_encode cd (AlignAfesResponse
         \<lparr>alnr_success = False, alnr_delay = [], alnr_bitslip = [],
          alnr_message = ''Bad cmd_alignAFEs payload: '' @ err\<rparr>))
   | Ok _ \<Rightarrow> bindE (submit rpu Align) (\<lambda>outcome0.
       let outcome = outcome0\<lparr>so_message := alignment_message outcome0\<rparr>
       in bindE (if so_transport_error outcome then ret ([], []) else read_alignment_vectors rpu)
            (\<lambda>(delay, bitslip). ret (cd_encode cd (AlignAfesResponse
              \<lparr>alnr_success = so_success outcome, alnr_delay = delay, alnr_bitslip = bitslip,
               alnr_message = so_message outcome\<rparr>)))))"

section \<open>Dispatch of the commands\<close>

definition handle_rpu_afe ::
    "'f pb_codec \<Rightarrow> message_type_v2 \<Rightarrow> u8 list \<Rightarrow> 's rpu_afe_transport \<Rightarrow> ('s, u8 list, string) eff" where
  "handle_rpu_afe cd message_type payload rpu = (case message_type of
     ConfigureFeReq \<Rightarrow> handle_configure_fe cd payload rpu
   | WriteAfeRegReq \<Rightarrow> handle_write_afe_reg cd payload rpu
   | WriteAfeVgainReq \<Rightarrow> handle_write_afe_vgain cd payload rpu
   | WriteAfeBiasSetReq \<Rightarrow> handle_write_afe_bias cd payload rpu
   | WriteTrimAllChReq \<Rightarrow> handle_write_trim_all_channels cd payload rpu
   | WriteTrimAllAfeReq \<Rightarrow> handle_write_trim_all_afe cd payload rpu
   | WriteTrimChReq \<Rightarrow> handle_write_trim_channel cd payload rpu
   | WriteOffsetAllChReq \<Rightarrow> handle_write_offset_all_channels cd payload rpu
   | WriteOffsetAllAfeReq \<Rightarrow> handle_write_offset_all_afe cd payload rpu
   | WriteOffsetChReq \<Rightarrow> handle_write_offset_channel cd payload rpu
   | WriteVbiasControlReq \<Rightarrow> handle_write_vbias_control cd payload rpu
   | ReadAfeRegReq \<Rightarrow> handle_read_afe_reg cd payload rpu
   | ReadAfeVgainReq \<Rightarrow> handle_read_afe_vgain cd payload rpu
   | ReadAfeBiasSetReq \<Rightarrow> handle_read_afe_bias cd payload rpu
   | ReadTrimAllChReq \<Rightarrow> handle_read_trim_all_channels cd payload rpu
   | ReadTrimAllAfeReq \<Rightarrow> handle_read_trim_all_afe cd payload rpu
   | ReadTrimChReq \<Rightarrow> handle_read_trim_channel cd payload rpu
   | ReadOffsetAllChReq \<Rightarrow> handle_read_offset_all_channels cd payload rpu
   | ReadOffsetAllAfeReq \<Rightarrow> handle_read_offset_all_afe cd payload rpu
   | ReadOffsetChReq \<Rightarrow> handle_read_offset_channel cd payload rpu
   | ReadVbiasControlReq \<Rightarrow> handle_read_vbias_control cd payload rpu
   | SetAfeResetReq \<Rightarrow> handle_set_afe_reset cd payload rpu
   | DoAfeResetReq \<Rightarrow> handle_do_afe_reset cd payload rpu
   | SetAfePowerStateReq \<Rightarrow> handle_set_afe_power_state cd payload rpu
   | WriteAfeAttenuationReq \<Rightarrow> handle_write_afe_attenuation cd payload rpu
   | AlignAfeReq \<Rightarrow> handle_align_afe cd payload rpu
   | WriteAfeFunctionReq \<Rightarrow> handle_write_afe_function cd payload rpu
   | _ \<Rightarrow> ret [])"

section \<open>The slow-control status\<close>

definition text_or_empty :: "string option \<Rightarrow> string" where
  "text_or_empty t = (case t of Some s \<Rightarrow> s | None \<Rightarrow> [])"

definition firmware_status_to_pb :: "firmware_status \<Rightarrow> firmware_status_pb" where
  "firmware_status_to_pb s =
     \<lparr>pfs_loaded = fs_loaded s, pfs_fpga_manager_state = text_or_empty (fs_fpga_manager_state s),
      pfs_overlay_name = text_or_empty (fs_overlay_name s), pfs_build_id = text_or_empty (fs_build_id s),
      pfs_pl_devices_present = fs_pl_devices_present s\<rparr>"

definition rpu_link_status_to_pb :: "rpu_link_status \<Rightarrow> rpu_status_pb" where
  "rpu_link_status_to_pb s =
     \<lparr>prs_available = ls_available s, prs_running = ls_running s, prs_firmware = text_or_empty (ls_firmware s),
      prs_heartbeat = (case ls_heartbeat s of Some h \<Rightarrow> h | None \<Rightarrow> 0),
      prs_last_fault = text_or_empty (ls_last_fault s)\<rparr>"

definition i2c_device_to_pb :: "i2c_device_status \<Rightarrow> i2c_device_status_pb" where
  "i2c_device_to_pb s =
     \<lparr>pid_address = ucast (ids_address s), pid_name = ids_name s, pid_present = ids_present s,
      pid_status = text_or_empty (ids_status s)\<rparr>"

definition i2c_bus_to_pb :: "i2c_bus_status \<Rightarrow> i2c_bus_status_pb" where
  "i2c_bus_to_pb s =
     \<lparr>pib_bus = ucast (ibs_bus s), pib_path = ibs_path s, pib_devices = map i2c_device_to_pb (ibs_devices s)\<rparr>"

definition clock_status_to_pb :: "clock_status \<Rightarrow> clock_status_pb" where
  "clock_status_to_pb s =
     \<lparr>pcs_endpoint_clock_source_controlled = (cs_endpoint_clock_source_controlled s = Some True),
      pcs_mmcm0_locked = (cs_mmcm0_locked s = Some True), pcs_mmcm1_locked = (cs_mmcm1_locked s = Some True),
      pcs_raw_endpoint_status = unwrap_or_default (cs_raw_endpoint_status s)\<rparr>"

definition temperature_to_pb :: "'f temperature_reading \<Rightarrow> 'f temperature_reading_pb" where
  "temperature_to_pb s = \<lparr>ptr_name = tr_name s, ptr_celsius = tr_celsius s\<rparr>"

definition f64_or_zero :: "'f f64_ops \<Rightarrow> 'f option \<Rightarrow> 'f" where
  "f64_or_zero fo v = (case v of Some x \<Rightarrow> x | None \<Rightarrow> f_zero fo)"

definition rail_to_pb :: "'f f64_ops \<Rightarrow> 'f rail_reading \<Rightarrow> 'f rail_reading_pb" where
  "rail_to_pb fo s =
     \<lparr>prr_name = rr_name s, prr_voltage_v = f64_or_zero fo (rr_voltage_v s),
      prr_current_a = f64_or_zero fo (rr_current_a s), prr_power_w = f64_or_zero fo (rr_power_w s),
      prr_status = text_or_empty (rr_status s)\<rparr>"

definition service_to_pb :: "service_status \<Rightarrow> service_status_pb" where
  "service_to_pb s = \<lparr>psv_name = sv_name s, psv_active = sv_active s, psv_state = sv_state s\<rparr>"

definition slow_control_status_to_pb ::
    "'f f64_ops \<Rightarrow> bool \<Rightarrow> string \<Rightarrow> 'f slow_control_status \<Rightarrow> 'f slow_control_status_response" where
  "slow_control_status_to_pb fo success message s =
     \<lparr>scr_success = success, scr_message = message,
      scr_firmware = Some (firmware_status_to_pb (sc_firmware s)),
      scr_rpu = Some (rpu_link_status_to_pb (sc_rpu s)),
      scr_i2c = map i2c_bus_to_pb (sc_i2c s),
      scr_clocks = Some (clock_status_to_pb (sc_clocks s)),
      scr_temperatures = map temperature_to_pb (sc_temperatures s),
      scr_rails = map (rail_to_pb fo) (sc_rails s),
      scr_services = map service_to_pb (sc_services s), scr_errors = sc_errors s\<rparr>"

text \<open>The state of the handlers from here on is the transport and the operating system.\<close>

definition on_rpu :: "('s, 'a, 'e) eff \<Rightarrow> ('s \<times> 'k, 'a, 'e) eff" where
  "on_rpu = zoom fst (\<lambda>s x. (s, snd x))"

definition on_system :: "('k, 'a, 'e) eff \<Rightarrow> ('s \<times> 'k, 'a, 'e) eff" where
  "on_system = zoom snd (\<lambda>k x. (fst x, k))"

definition status_message :: "preflight_status \<Rightarrow> (rpu_link_status, rpu_error) result \<Rightarrow> string" where
  "status_message preflight rpu_status =
     (if ready_for_hardware_commands preflight \<and> is_ok rpu_status then ''ok''
      else if \<not> ready_for_hardware_commands preflight then failure_message preflight
      else ''RPU status failed: ''
        @ (case rpu_status of Err err \<Rightarrow> rpu_error_to_string err | Ok _ \<Rightarrow> ''unknown''))"

definition handle_slow_control_status ::
    "'f pb_codec \<Rightarrow> 'f f64_ops \<Rightarrow> 'k server_os \<Rightarrow> u8 list \<Rightarrow> 's rpu_afe_transport \<Rightarrow> preflight_status
     \<Rightarrow> ('s \<times> 'k, u8 list, string) eff" where
  "handle_slow_control_status cd fo os payload rpu preflight = (case cd_slow_control_status_request cd payload of
     Err err \<Rightarrow> ret (cd_encode cd (SlowControlStatusResponse
         \<lparr>scr_success = False, scr_message = ''Bad SlowControlStatusRequest payload: '' @ err,
          scr_firmware = None, scr_rpu = None, scr_i2c = [], scr_clocks = None, scr_temperatures = [],
          scr_rails = [], scr_services = [], scr_errors = []\<rparr>))
   | Ok _ \<Rightarrow> tryE (on_rpu (rt_status rpu)) (\<lambda>rpu_status.
       let success = (ready_for_hardware_commands preflight \<and> is_ok rpu_status);
           message = status_message preflight rpu_status;
           link = (case rpu_status of Ok s \<Rightarrow> s
             | Err err \<Rightarrow> \<lparr>ls_available = False, ls_running = False, ls_firmware = None, ls_heartbeat = None,
                 ls_last_fault = Some (rpu_error_to_string err)\<rparr>)
       in bindE (on_system (collect_slow_control_status fo os preflight link)) (\<lambda>status.
          let errors = (case rpu_status of Ok _ \<Rightarrow> sc_errors status
                | Err err \<Rightarrow> sc_errors status @ [''rpu: '' @ rpu_error_to_string err])
          in ret (cd_encode cd (SlowControlStatusResponse
               (slow_control_status_to_pb fo success message (status\<lparr>sc_errors := errors\<rparr>)))))))"

definition handle_linux_status ::
    "'f pb_codec \<Rightarrow> 'f f64_ops \<Rightarrow> 'k server_os \<Rightarrow> message_type_v2 \<Rightarrow> u8 list \<Rightarrow> 's rpu_afe_transport
     \<Rightarrow> preflight_status \<Rightarrow> ('s \<times> 'k, u8 list, string) eff" where
  "handle_linux_status cd fo os message_type payload rpu preflight = (case message_type of
     ReadCurrentMonitorReq \<Rightarrow> (case cd_read_current_monitor cd payload of
       Err err \<Rightarrow> ret (cd_encode cd (ReadCurrentMonitorResponse
         \<lparr>rcmr_success = False, rcmr_message = ''Bad cmd_readCurrentMonitor payload: '' @ err,
          rcmr_current_monitor_channel = 0, rcmr_current_value = 0\<rparr>))
     | Ok req \<Rightarrow> ret (cd_encode cd (ReadCurrentMonitorResponse
         \<lparr>rcmr_success = False, rcmr_message = ''Current monitor not implemented in Rust server yet'',
          rcmr_current_monitor_channel = rcm_current_monitor_channel req, rcmr_current_value = 0\<rparr>)))
   | ReadBiasVoltageMonitorReq \<Rightarrow> (case cd_read_bias_voltage_monitor cd payload of
       Err err \<Rightarrow> ret (cd_encode cd (ReadBiasVoltageMonitorResponse
         \<lparr>rbvmr_success = False, rbvmr_message = ''Bad cmd_readBiasVoltageMonitor payload: '' @ err,
          rbvmr_afe_block = 0, rbvmr_bias_voltage_value = 0\<rparr>))
     | Ok req \<Rightarrow> ret (cd_encode cd (ReadBiasVoltageMonitorResponse
         \<lparr>rbvmr_success = False, rbvmr_message = ''Bias voltage monitor not implemented in Rust server yet'',
          rbvmr_afe_block = rbvm_afe_block req, rbvmr_bias_voltage_value = 0\<rparr>)))
   | ReadGeneralInfoReq \<Rightarrow> ret (cd_encode cd (GeneralInfoResponse
         \<lparr>gi_v_bias_0 = f_zero fo, gi_v_bias_1 = f_zero fo, gi_v_bias_2 = f_zero fo, gi_v_bias_3 = f_zero fo,
          gi_v_bias_4 = f_zero fo, gi_power_minus5v = f_zero fo, gi_power_plus2p5v = f_zero fo,
          gi_power_ce = f_zero fo, gi_temperature = f_zero fo\<rparr>))
   | ReadSlowControlStatusReq \<Rightarrow> handle_slow_control_status cd fo os payload rpu preflight
   | _ \<Rightarrow> ret [])"

section \<open>All requests\<close>

definition handle_not_implemented :: "'f pb_codec \<Rightarrow> message_type_v2 \<Rightarrow> u8 list" where
  "handle_not_implemented cd message_type = (case message_type of
     ReadTestRegReq \<Rightarrow> cd_encode cd (TestRegResponse \<lparr>trr_value = 0xDEADBEEF, trr_message = ''ok''\<rparr>)
   | _ \<Rightarrow> [])"

text \<open>The transport that stands in for the RPU while the preflight is not ready; it has no state.\<close>

definition preflight_rejected_transport :: "string \<Rightarrow> unit rpu_afe_transport" where
  "preflight_rejected_transport message =
     \<lparr>rt_status = ret \<lparr>ls_available = False, ls_running = False, ls_firmware = None, ls_heartbeat = None,
        ls_last_fault = Some message\<rparr>,
      rt_submit_afe_command = (\<lambda>command. raise (RejectedError message))\<rparr>"

definition handle_payload ::
    "'f pb_codec \<Rightarrow> 'f f64_ops \<Rightarrow> 'k server_os \<Rightarrow> u32 \<Rightarrow> u8 list \<Rightarrow> 's rpu_afe_transport \<Rightarrow> preflight_status
     \<Rightarrow> ('s \<times> 'k, u8 list, string) eff" where
  "handle_payload cd fo os message_type payload rpu preflight = (case message_type_try_from message_type of
     None \<Rightarrow> ret []
   | Some core_type \<Rightarrow> (case route_message_type core_type of
       RpuAfe \<Rightarrow>
         if ready_for_hardware_commands preflight then on_rpu (handle_rpu_afe cd core_type payload rpu)
         else zoom (\<lambda>_. ()) (\<lambda>_ x. x)
           (handle_rpu_afe cd core_type payload (preflight_rejected_transport (failure_message preflight)))
     | LinuxStatus \<Rightarrow> handle_linux_status cd fo os core_type payload rpu preflight
     | LinuxFpga \<Rightarrow> ret (handle_not_implemented cd core_type)
     | Unsupported \<Rightarrow> ret (handle_not_implemented cd core_type)))"

end
