(* ===== verification/HandlerFacts.thy ===== *)
theory HandlerFacts
  imports Handlers
begin

text \<open>
  Facts about the handlers (\<open>handlers.rs\<close>): every request other than the alignment submits at most
  one command, which is well formed and in range, and reports success exactly when it was accepted
  and applied; while the preflight is not ready nothing reaches the transport; every request is
  answered when the transport returns.
\<close>

section \<open>Well-formed commands\<close>

definition wf_afe_command :: "afe_command \<Rightarrow> bool" where
  "wf_afe_command c = (case c of
     ReadRegister a _ \<Rightarrow> wf_afe_id a | WriteRegister a _ _ \<Rightarrow> wf_afe_id a
   | ReadAttenuation a \<Rightarrow> wf_afe_id a | SetAttenuation a _ \<Rightarrow> wf_afe_id a
   | ReadBias a \<Rightarrow> wf_afe_id a | SetBias a _ \<Rightarrow> wf_afe_id a
   | ReadTrim t \<Rightarrow> wf_channel_target t | SetTrim t _ _ \<Rightarrow> wf_channel_target t
   | ReadOffset t \<Rightarrow> wf_channel_target t | SetOffset t _ _ \<Rightarrow> wf_channel_target t
   | WriteFunction a _ _ \<Rightarrow> wf_afe_id a | ReadAlignment a \<Rightarrow> wf_afe_id a
   | ConfigureFrontend afes chs _ \<Rightarrow>
       list_all (\<lambda>r. wf_afe_id (fe_afe r)) afes \<and> list_all (\<lambda>r. wf_channel_id (fc_channel r)) chs
   | _ \<Rightarrow> True)"

lemma wf_afe_command_simps [simp]:
  "wf_afe_command (ReadTrim t) = wf_channel_target t" "wf_afe_command (ReadOffset t) = wf_channel_target t"
  "wf_afe_command (ReadAttenuation a) = wf_afe_id a" "wf_afe_command (ReadBias a) = wf_afe_id a"
  "wf_afe_command (ReadAlignment a) = wf_afe_id a" "wf_afe_command ReadVbiasControl"
  "wf_afe_command (SetReset b)" "wf_afe_command DoReset" "wf_afe_command (SetPowerState b)" "wf_afe_command Align"
  by (simp_all add: wf_afe_command_def)

lemma wf_channel_target_simps [simp]:
  "wf_channel_target (TargetOne c) = wf_channel_id c" "wf_channel_target (TargetAfe a) = wf_afe_id a"
  "wf_channel_target TargetAll"
  by (simp_all add: wf_channel_target_def)

lemma u8_value_Ok: "u8_value n v = Ok b \<longleftrightarrow> unat v < 256 \<and> b = ucast v"
  by (auto simp: u8_value_def)

lemma u16_value_Ok: "u16_value n v = Ok w \<longleftrightarrow> unat v < 65536 \<and> w = ucast v"
  by (auto simp: u16_value_def)

lemma unat_narrow:
  "unat (v :: u32) < 256 \<Longrightarrow> unat (ucast v :: u8) = unat v"
  "unat (v :: u32) < 65536 \<Longrightarrow> unat (ucast v :: u16) = unat v"
  by (simp_all add: unsigned_ucast_eq take_bit_nat_eq_self)

lemma request_afe_Ok: "request_afe v = Ok a \<longleftrightarrow> unat v < 256 \<and> from_board (ucast v) = Ok a"
  by (auto simp: request_afe_def and_then_Ok_iff u8_value_Ok)

lemma request_channel_Ok: "request_channel v = Ok c \<longleftrightarrow> unat v < 256 \<and> channel_new (ucast v) = Ok c"
  by (auto simp: request_channel_def and_then_Ok_iff u8_value_Ok)

lemma request_wf:
  "request_afe v = Ok a \<Longrightarrow> wf_afe_id a" "request_channel v = Ok c \<Longrightarrow> wf_channel_id c"
  by (auto simp: request_afe_Ok request_channel_Ok dest: from_board_wf channel_new_wf)

lemmas make_defs = make_read_register_def make_write_register_def make_set_attenuation_def make_set_bias_def
  make_set_trim_def make_set_offset_def make_set_vbias_control_def make_write_function_def

lemma make_wf:
  "make_read_register b r = Ok c \<Longrightarrow> wf_afe_command c" "make_write_register b r v = Ok c \<Longrightarrow> wf_afe_command c"
  "make_set_attenuation b v = Ok c \<Longrightarrow> wf_afe_command c" "make_set_bias b v = Ok c \<Longrightarrow> wf_afe_command c"
  "make_set_vbias_control v e = Ok c \<Longrightarrow> wf_afe_command c" "make_write_function b f v = Ok c \<Longrightarrow> wf_afe_command c"
  by (auto simp: make_defs and_then_Ok_iff wf_afe_command_def dest: request_wf)

lemma make_target_wf:
  "make_set_trim t v g = Ok c \<Longrightarrow> wf_channel_target t \<Longrightarrow> wf_afe_command c"
  "make_set_offset t v g = Ok c \<Longrightarrow> wf_channel_target t \<Longrightarrow> wf_afe_command c"
  by (auto simp: make_defs and_then_Ok_iff wf_afe_command_def)

lemma configure_records_wf:
  "configure_afe_record a = Ok r \<Longrightarrow> wf_afe_id (fe_afe r)"
  "configure_channel_record ch = Ok r' \<Longrightarrow> wf_channel_id (fc_channel r')"
  by (auto simp: configure_afe_record_def configure_channel_record_def and_then_Ok_iff split: prod.splits
      dest: request_wf)

lemma configure_command_wf:
  assumes "configure_command req = Ok c"
  shows "wf_afe_command c"
proof -
  from assms obtain afes chs bias where c: "c = ConfigureFrontend afes chs bias"
    and recs: "list_all2 (\<lambda>a r. configure_afe_record a = Ok r) (cfg_afes req) afes"
      "list_all2 (\<lambda>ch r. configure_channel_record ch = Ok r) (cfg_channels req) chs"
    by (auto simp: configure_command_def and_then_Ok_iff try_map_Ok_iff)
  from recs(1) have "list_all (\<lambda>r. wf_afe_id (fe_afe r)) afes"
    by induction (auto dest: configure_records_wf)
  moreover from recs(2) have "list_all (\<lambda>r. wf_channel_id (fc_channel r)) chs"
    by induction (auto dest: configure_records_wf)
  ultimately show ?thesis by (simp add: c wf_afe_command_def)
qed

section \<open>One command per request\<close>

text \<open>What a submission tells the client.\<close>

definition applied_reply :: "(afe_command_reply, rpu_error) result \<Rightarrow> bool" where
  "applied_reply r \<longleftrightarrow> (\<exists>reply. r = Ok reply \<and> ar_accepted reply \<and> ar_applied reply)"

definition reply_text :: "(afe_command_reply, rpu_error) result \<Rightarrow> string" where
  "reply_text r = (case r of Ok reply \<Rightarrow> ar_message reply | Err e \<Rightarrow> RPU_FAIL_PREFIX @ rpu_error_to_string e)"

definition refused :: "'f pb_codec \<Rightarrow> (u8 list, string) result \<Rightarrow> bool" where
  "refused cd res \<longleftrightarrow> (\<exists>resp. res = Ok (cd_encode cd resp) \<and> response_success resp = Some False)"

definition reported ::
    "'f pb_codec \<Rightarrow> (afe_command_reply, rpu_error) result \<Rightarrow> (u8 list, string) result \<Rightarrow> bool" where
  "reported cd r res \<longleftrightarrow> (\<exists>resp. res = Ok (cd_encode cd resp) \<and> response_success resp = Some (applied_reply r)
     \<and> response_message resp = Some (reply_text r))"

definition one_command :: "'f pb_codec \<Rightarrow> 's rpu_afe_transport \<Rightarrow> ('s, u8 list, string) eff \<Rightarrow> bool" where
  "one_command cd rpu m \<longleftrightarrow> (\<forall>s res s'. m s = Some (res, s') \<longrightarrow>
     s' = s \<and> refused cd res
     \<or> (\<exists>c r. wf_afe_command c \<and> validate c = Ok () \<and> rt_submit_afe_command rpu c s = Some (r, s') \<and> reported cd r res))"

named_theorems one_command_intros \<open>how a handler is put together\<close>

lemma one_command_ret [one_command_intros]:
  "response_success resp = Some False \<Longrightarrow> one_command cd rpu (ret (cd_encode cd resp))"
  by (auto simp: one_command_def refused_def ret_def)

lemma outcome_of_simps [simp]:
  "so_success (outcome_of r) = applied_reply r" "so_message (outcome_of r) = reply_text r"
  "so_transport_error (outcome_of r) \<longleftrightarrow> \<not> is_ok r"
  by (auto simp: outcome_of_def applied_reply_def reply_text_def failed_outcome_def split: result.splits)

lemma submit_cases:
  assumes "submit rpu c s = Some (res, s')"
  obtains (invalid) e where "validate c = Err e" "s' = s"
      "res = Ok (failed_outcome (afe_validation_error_to_string e) False)"
  | (sent) r where "validate c = Ok ()" "rt_submit_afe_command rpu c s = Some (r, s')" "res = Ok (outcome_of r)"
  using assms by (cases "validate c") (auto simp: submit_def ret_def elim!: tryE_SomeE)

lemma submit_never_raises [simp]: "submit rpu c s \<noteq> Some (Err e, s')"
  by (auto elim: submit_cases)

lemma one_command_submit [one_command_intros]:
  assumes "wf_afe_command c"
    and "\<And>out. response_success (f out) = Some (so_success out)" "\<And>out. response_message (f out) = Some (so_message out)"
  shows "one_command cd rpu (bindE (submit rpu c) (\<lambda>out. ret (cd_encode cd (f out))))"
  unfolding one_command_def
proof (intro allI impI)
  fix s res s' assume "bindE (submit rpu c) (\<lambda>out. ret (cd_encode cd (f out))) s = Some (res, s')"
  then obtain out where sub: "submit rpu c s = Some (Ok out, s')" and res: "res = Ok (cd_encode cd (f out))"
    by (auto simp: ret_def elim!: bindE_SomeE)
  from sub show "s' = s \<and> refused cd res \<or> (\<exists>c r. wf_afe_command c \<and> validate c = Ok ()
      \<and> rt_submit_afe_command rpu c s = Some (r, s') \<and> reported cd r res)"
  proof (cases rule: submit_cases)
    case (invalid e)
    then show ?thesis by (auto simp: refused_def res assms failed_outcome_def)
  next
    case (sent r)
    have "reported cd r res"
      using sent(3) by (auto simp: reported_def res assms intro!: exI [of _ "f out"])
    with sent assms(1) show ?thesis by blast
  qed
qed

lemma one_command_case [one_command_intros]:
  "(\<And>a. r = Ok a \<Longrightarrow> one_command cd rpu (m a)) \<Longrightarrow> (\<And>e. one_command cd rpu (k e)) \<Longrightarrow>
   one_command cd rpu (case r of Ok a \<Rightarrow> m a | Err e \<Rightarrow> k e)"
  by (cases r) simp_all

lemmas bad_defs = bad_write_afe_reg_def bad_write_afe_vgain_def bad_write_afe_attenuation_def
  bad_write_afe_bias_def bad_write_trim_channel_def bad_write_trim_all_channels_def bad_write_trim_all_afe_def
  bad_write_offset_channel_def bad_write_offset_all_channels_def bad_write_offset_all_afe_def
  bad_write_vbias_control_def bad_read_afe_reg_def bad_read_afe_vgain_def bad_read_afe_bias_def
  bad_read_trim_channel_def bad_read_offset_channel_def

lemmas handler_defs = handle_configure_fe_def handle_write_afe_reg_def handle_write_afe_vgain_def
  handle_write_afe_attenuation_def handle_write_afe_bias_def handle_write_trim_channel_def
  handle_write_trim_all_channels_def handle_write_trim_all_afe_def handle_write_offset_channel_def
  handle_write_offset_all_channels_def handle_write_offset_all_afe_def handle_write_vbias_control_def
  handle_read_afe_reg_def handle_read_afe_vgain_def handle_read_afe_bias_def handle_read_trim_channel_def
  handle_read_trim_all_channels_def handle_read_trim_all_afe_def handle_read_offset_channel_def
  handle_read_offset_all_channels_def handle_read_offset_all_afe_def handle_read_vbias_control_def
  handle_set_afe_reset_def handle_do_afe_reset_def handle_set_afe_power_state_def handle_write_afe_function_def

lemma handler_one_command:
  "one_command cd rpu (handle_configure_fe cd payload rpu)"
  "one_command cd rpu (handle_write_afe_reg cd payload rpu)"
  "one_command cd rpu (handle_write_afe_vgain cd payload rpu)"
  "one_command cd rpu (handle_write_afe_attenuation cd payload rpu)"
  "one_command cd rpu (handle_write_afe_bias cd payload rpu)"
  "one_command cd rpu (handle_write_trim_channel cd payload rpu)"
  "one_command cd rpu (handle_write_trim_all_channels cd payload rpu)"
  "one_command cd rpu (handle_write_trim_all_afe cd payload rpu)"
  "one_command cd rpu (handle_write_offset_channel cd payload rpu)"
  "one_command cd rpu (handle_write_offset_all_channels cd payload rpu)"
  "one_command cd rpu (handle_write_offset_all_afe cd payload rpu)"
  "one_command cd rpu (handle_write_vbias_control cd payload rpu)"
  "one_command cd rpu (handle_read_afe_reg cd payload rpu)"
  "one_command cd rpu (handle_read_afe_vgain cd payload rpu)"
  "one_command cd rpu (handle_read_afe_bias cd payload rpu)"
  "one_command cd rpu (handle_read_trim_channel cd payload rpu)"
  "one_command cd rpu (handle_read_trim_all_channels cd payload rpu)"
  "one_command cd rpu (handle_read_trim_all_afe cd payload rpu)"
  "one_command cd rpu (handle_read_offset_channel cd payload rpu)"
  "one_command cd rpu (handle_read_offset_all_channels cd payload rpu)"
  "one_command cd rpu (handle_read_offset_all_afe cd payload rpu)"
  "one_command cd rpu (handle_read_vbias_control cd payload rpu)"
  "one_command cd rpu (handle_set_afe_reset cd payload rpu)"
  "one_command cd rpu (handle_do_afe_reset cd payload rpu)"
  "one_command cd rpu (handle_set_afe_power_state cd payload rpu)"
  "one_command cd rpu (handle_write_afe_function cd payload rpu)"
  unfolding handler_defs bad_defs
  by (intro one_command_intros; auto simp: map_ok_Ok_iff request_wf intro: make_wf make_target_wf configure_command_wf)+

lemma handlers_one_command:
  assumes "route_message_type m = RpuAfe" "m \<noteq> AlignAfeReq"
  shows "one_command cd rpu (handle_rpu_afe cd m payload rpu)"
  using assms by (cases m) (simp_all add: handle_rpu_afe_def route_message_type_def handler_one_command)

section \<open>What handlers keep\<close>

lemma submit_keeps:
  "(validate c = Ok () \<Longrightarrow> keeps I (rt_submit_afe_command rpu c)) \<Longrightarrow> keeps I (submit rpu c)"
  unfolding submit_def by (intro keeps_intros) simp

lemma submit_leaves: "leaves f (rt_submit_afe_command rpu c) \<Longrightarrow> leaves f (submit rpu c)"
  unfolding submit_def by (intro leaves_intros)

lemma read_alignment_keeps:
  assumes "\<And>c. wf_afe_command c \<Longrightarrow> validate c = Ok () \<Longrightarrow> keeps I (rt_submit_afe_command rpu c)"
  shows "keeps I (read_alignment_from rpu boards delay bitslip)"
  by (induction boards arbitrary: delay bitslip)
    (auto intro!: keeps_intros submit_keeps assms dest: from_board_wf)

lemma read_alignment_leaves:
  assumes "\<And>c. leaves f (rt_submit_afe_command rpu c)"
  shows "leaves f (read_alignment_from rpu boards delay bitslip)"
  by (induction boards arbitrary: delay bitslip)
    (auto intro!: leaves_intros submit_leaves assms split: result.split option.split)

lemma handler_keeps:
  assumes "\<And>c. wf_afe_command c \<Longrightarrow> validate c = Ok () \<Longrightarrow> keeps I (rt_submit_afe_command rpu c)"
  shows
  "keeps I (handle_configure_fe cd payload rpu)"
  "keeps I (handle_write_afe_reg cd payload rpu)"
  "keeps I (handle_write_afe_vgain cd payload rpu)"
  "keeps I (handle_write_afe_attenuation cd payload rpu)"
  "keeps I (handle_write_afe_bias cd payload rpu)"
  "keeps I (handle_write_trim_channel cd payload rpu)"
  "keeps I (handle_write_trim_all_channels cd payload rpu)"
  "keeps I (handle_write_trim_all_afe cd payload rpu)"
  "keeps I (handle_write_offset_channel cd payload rpu)"
  "keeps I (handle_write_offset_all_channels cd payload rpu)"
  "keeps I (handle_write_offset_all_afe cd payload rpu)"
  "keeps I (handle_write_vbias_control cd payload rpu)"
  "keeps I (handle_read_afe_reg cd payload rpu)"
  "keeps I (handle_read_afe_vgain cd payload rpu)"
  "keeps I (handle_read_afe_bias cd payload rpu)"
  "keeps I (handle_read_trim_channel cd payload rpu)"
  "keeps I (handle_read_trim_all_channels cd payload rpu)"
  "keeps I (handle_read_trim_all_afe cd payload rpu)"
  "keeps I (handle_read_offset_channel cd payload rpu)"
  "keeps I (handle_read_offset_all_channels cd payload rpu)"
  "keeps I (handle_read_offset_all_afe cd payload rpu)"
  "keeps I (handle_read_vbias_control cd payload rpu)"
  "keeps I (handle_set_afe_reset cd payload rpu)"
  "keeps I (handle_do_afe_reset cd payload rpu)"
  "keeps I (handle_set_afe_power_state cd payload rpu)"
  "keeps I (handle_write_afe_function cd payload rpu)"
  "keeps I (handle_align_afe cd payload rpu)"
  unfolding handler_defs handle_align_afe_def read_alignment_vectors_def Let_def case_prod_unfold
  by (intro keeps_intros submit_keeps read_alignment_keeps assms;
      auto simp: map_ok_Ok_iff request_wf intro: make_wf make_target_wf configure_command_wf)+

lemma handler_leaves:
  assumes "\<And>c. leaves f (rt_submit_afe_command rpu c)"
  shows
  "leaves f (handle_configure_fe cd payload rpu)"
  "leaves f (handle_write_afe_reg cd payload rpu)"
  "leaves f (handle_write_afe_vgain cd payload rpu)"
  "leaves f (handle_write_afe_attenuation cd payload rpu)"
  "leaves f (handle_write_afe_bias cd payload rpu)"
  "leaves f (handle_write_trim_channel cd payload rpu)"
  "leaves f (handle_write_trim_all_channels cd payload rpu)"
  "leaves f (handle_write_trim_all_afe cd payload rpu)"
  "leaves f (handle_write_offset_channel cd payload rpu)"
  "leaves f (handle_write_offset_all_channels cd payload rpu)"
  "leaves f (handle_write_offset_all_afe cd payload rpu)"
  "leaves f (handle_write_vbias_control cd payload rpu)"
  "leaves f (handle_read_afe_reg cd payload rpu)"
  "leaves f (handle_read_afe_vgain cd payload rpu)"
  "leaves f (handle_read_afe_bias cd payload rpu)"
  "leaves f (handle_read_trim_channel cd payload rpu)"
  "leaves f (handle_read_trim_all_channels cd payload rpu)"
  "leaves f (handle_read_trim_all_afe cd payload rpu)"
  "leaves f (handle_read_offset_channel cd payload rpu)"
  "leaves f (handle_read_offset_all_channels cd payload rpu)"
  "leaves f (handle_read_offset_all_afe cd payload rpu)"
  "leaves f (handle_read_vbias_control cd payload rpu)"
  "leaves f (handle_set_afe_reset cd payload rpu)"
  "leaves f (handle_do_afe_reset cd payload rpu)"
  "leaves f (handle_set_afe_power_state cd payload rpu)"
  "leaves f (handle_write_afe_function cd payload rpu)"
  "leaves f (handle_align_afe cd payload rpu)"
  unfolding handler_defs handle_align_afe_def read_alignment_vectors_def Let_def case_prod_unfold
  by (intro leaves_intros submit_leaves read_alignment_leaves assms)+

lemma handle_rpu_afe_keeps:
  assumes "\<And>c. wf_afe_command c \<Longrightarrow> validate c = Ok () \<Longrightarrow> keeps I (rt_submit_afe_command rpu c)"
  shows "keeps I (handle_rpu_afe cd m payload rpu)"
  by (cases m) (simp_all add: handle_rpu_afe_def handler_keeps assms keeps_ret)

lemma handle_rpu_afe_leaves:
  assumes "\<And>c. leaves f (rt_submit_afe_command rpu c)"
  shows "leaves f (handle_rpu_afe cd m payload rpu)"
  by (cases m) (simp_all add: handle_rpu_afe_def handler_leaves assms leaves_basic)

section \<open>Alignment\<close>

text \<open>The settings that are reported: one delay and one bitslip per aligned front end.\<close>

definition alignment_vectors_ok :: "nat \<Rightarrow> u32 list \<times> u32 list \<Rightarrow> bool" where
  "alignment_vectors_ok n v \<longleftrightarrow> length (fst v) \<le> n \<and> length (fst v) = length (snd v)
     \<and> (\<forall>d \<in> set (fst v). d < 0x10000) \<and> (\<forall>b \<in> set (snd v). b < 16)"

lemma alignment_fields: "(r :: u32) AND 0xFFFF < 0x10000" "(r :: u32) AND 0x0F < 16"
  by (rule le_less_trans [OF word_and_le1], simp)+

lemma read_alignment_values:
  assumes "read_alignment_from rpu boards delay bitslip s = Some (res, s')" "alignment_vectors_ok n (delay, bitslip)"
  shows "\<exists>v. res = Ok v \<and> alignment_vectors_ok (n + length boards) v"
  using assms
proof (induction boards arbitrary: delay bitslip s n)
  case (Cons b boards)
  have more: "alignment_vectors_ok n v \<Longrightarrow> alignment_vectors_ok (Suc n) v" for n v
    by (auto simp: alignment_vectors_ok_def)
  have push: "alignment_vectors_ok (Suc n) (delay @ [r AND 0xFFFF], bitslip @ [drop_bit 16 r AND 0x0F])" for r
    using Cons.prems(2) alignment_fields by (auto simp: alignment_vectors_ok_def)
  show ?case
  proof (cases "from_board b")
    case (Err e)
    with Cons.prems more [OF Cons.prems(2)] Cons.IH [of delay bitslip s "Suc n"] show ?thesis by simp
  next
    case (Ok afe)
    with Cons.prems(1) obtain out :: submit_outcome and u where "(case so_readback out of
        None \<Rightarrow> read_alignment_from rpu boards delay bitslip
      | Some readback \<Rightarrow>
          if readback AND 0x80000000 = 0 then read_alignment_from rpu boards delay bitslip
          else read_alignment_from rpu boards (delay @ [readback AND 0xFFFF])
                 (bitslip @ [drop_bit 16 readback AND 0x0F])) u = Some (res, s')"
      by (auto elim!: bindE_SomeE)
    with more [OF Cons.prems(2)] push Cons.IH [of _ _ u "Suc n"] show ?thesis
      by (auto split: option.splits if_splits)
  qed
qed (auto simp: ret_def)

section \<open>Configuration requests\<close>

text \<open>The records of a request and of the command it becomes.\<close>

definition afe_in_range :: "afe_config \<Rightarrow> bool" where
  "afe_in_range a \<longleftrightarrow> (case afe_settings a of (adc, pga, lna) \<Rightarrow>
     unat (pac_id a) < 5 \<and> unat (pac_attenuators a) < 65536 \<and> unat (pac_v_bias a) < 65536
     \<and> unat (ppg_lpf_cut_frequency pga) < 256 \<and> unat (pln_clamp lna) < 256 \<and> unat (pln_gain lna) < 256)"

definition channel_in_range :: "channel_config \<Rightarrow> bool" where
  "channel_in_range c \<longleftrightarrow> unat (pcc_id c) < 40 \<and> unat (pcc_trim c) < 65536 \<and> unat (pcc_offset c) < 65536
     \<and> unat (pcc_gain c) < 65536"

definition same_afe :: "afe_config \<Rightarrow> afe_frontend_config \<Rightarrow> bool" where
  "same_afe a r \<longleftrightarrow> (case afe_settings a of (adc, pga, lna) \<Rightarrow>
     wf_afe_id (fe_afe r) \<and> unat (id_board (fe_afe r)) = unat (pac_id a)
     \<and> unat (fe_attenuation r) = unat (pac_attenuators a) \<and> unat (fe_bias r) = unat (pac_v_bias a)
     \<and> fe_adc r = \<lparr>adc_resolution = pad_resolution adc, adc_output_format = pad_output_format adc,
                    adc_msb_first = pad_sb_first adc\<rparr>
     \<and> unat (pga_lpf_cut_frequency (fe_pga r)) = unat (ppg_lpf_cut_frequency pga)
     \<and> pga_integrator_disable (fe_pga r) = ppg_integrator_disable pga \<and> pga_gain (fe_pga r) = ppg_gain pga
     \<and> unat (lna_clamp (fe_lna r)) = unat (pln_clamp lna) \<and> unat (lna_gain (fe_lna r)) = unat (pln_gain lna)
     \<and> lna_integrator_disable (fe_lna r) = pln_integrator_disable lna)"

definition same_channel :: "channel_config \<Rightarrow> channel_frontend_config \<Rightarrow> bool" where
  "same_channel c r \<longleftrightarrow> wf_channel_id (fc_channel r) \<and> unat (ch_channel (fc_channel r)) = unat (pcc_id c)
     \<and> unat (fc_trim r) = unat (pcc_trim c) \<and> unat (fc_offset r) = unat (pcc_offset c)
     \<and> unat (fc_gain r) = unat (pcc_gain c)"

lemma request_afe_board: "request_afe v = Ok a \<Longrightarrow> unat (id_board a) = unat v \<and> unat v < 5"
  by (auto simp: request_afe_Ok from_board_Ok_iff unat_narrow)

lemma request_afe_total: "unat v < 5 \<Longrightarrow> \<exists>a. request_afe v = Ok a"
  by (auto simp: request_afe_Ok from_board_Ok_iff unat_narrow)

lemma request_channel_number: "request_channel v = Ok c \<Longrightarrow> unat (ch_channel c) = unat v \<and> unat v < 40"
  by (auto simp: request_channel_Ok channel_new_Ok_iff unat_narrow word_less_nat_alt)

lemma request_channel_total: "unat v < 40 \<Longrightarrow> \<exists>c. request_channel v = Ok c"
  using channel_new_total [of "ucast v"] by (auto simp: request_channel_Ok unat_narrow word_less_nat_alt)

lemma configure_afe_record_Ok:
  "configure_afe_record a = Ok r \<Longrightarrow> afe_in_range a \<and> same_afe a r"
  by (auto simp: configure_afe_record_def and_then_Ok_iff afe_in_range_def same_afe_def u8_value_Ok u16_value_Ok
      unat_narrow request_wf dest: request_afe_board split: prod.splits)

lemma configure_afe_record_total: "afe_in_range a \<Longrightarrow> \<exists>r. configure_afe_record a = Ok r"
  using request_afe_total [of "pac_id a"]
  by (auto simp: configure_afe_record_def afe_in_range_def u8_value_def u16_value_def split: prod.splits)

lemma configure_channel_record_Ok:
  "configure_channel_record c = Ok r \<Longrightarrow> channel_in_range c \<and> same_channel c r"
  by (auto simp: configure_channel_record_def and_then_Ok_iff channel_in_range_def same_channel_def u16_value_Ok
      unat_narrow request_wf dest: request_channel_number)

lemma configure_channel_record_total: "channel_in_range c \<Longrightarrow> \<exists>r. configure_channel_record c = Ok r"
  using request_channel_total [of "pcc_id c"]
  by (auto simp: configure_channel_record_def channel_in_range_def u16_value_def)

lemma try_map_total: "\<forall>x \<in> set xs. \<exists>y. f x = Ok y \<Longrightarrow> \<exists>ys. try_map f xs = Ok ys"
  by (induction xs) (auto simp: and_then_Ok_iff)

lemma configure_command_contents:
  assumes "configure_command req = Ok c"
  shows "\<exists>afes chs bias. c = ConfigureFrontend afes chs bias
      \<and> list_all2 same_afe (cfg_afes req) afes \<and> list_all2 same_channel (cfg_channels req) chs
      \<and> unat bias = unat (cfg_biasctrl req) \<and> unat (cfg_biasctrl req) < 65536
      \<and> list_all afe_in_range (cfg_afes req) \<and> list_all channel_in_range (cfg_channels req)"
proof -
  from assms obtain afes chs where c: "c = ConfigureFrontend afes chs (ucast (cfg_biasctrl req))"
    and recs: "list_all2 (\<lambda>a r. configure_afe_record a = Ok r) (cfg_afes req) afes"
      "list_all2 (\<lambda>a r. configure_channel_record a = Ok r) (cfg_channels req) chs"
    and bias: "unat (cfg_biasctrl req) < 65536"
    by (auto simp: configure_command_def and_then_Ok_iff try_map_Ok_iff u16_value_Ok)
  from recs(1) have "list_all2 same_afe (cfg_afes req) afes \<and> list_all afe_in_range (cfg_afes req)"
    by induction (auto dest: configure_afe_record_Ok)
  moreover from recs(2) have "list_all2 same_channel (cfg_channels req) chs \<and> list_all channel_in_range (cfg_channels req)"
    by induction (auto dest: configure_channel_record_Ok)
  ultimately show ?thesis using c bias by (auto simp: unat_narrow)
qed

lemma configure_command_total:
  assumes "list_all afe_in_range (cfg_afes req)" and "list_all channel_in_range (cfg_channels req)"
    and "unat (cfg_biasctrl req) < 65536"
  shows "\<exists>afes chs bias. configure_command req = Ok (ConfigureFrontend afes chs bias)
      \<and> list_all2 same_afe (cfg_afes req) afes \<and> list_all2 same_channel (cfg_channels req) chs
      \<and> unat bias = unat (cfg_biasctrl req)"
proof -
  have "\<exists>afes. try_map configure_afe_record (cfg_afes req) = Ok afes"
    by (rule try_map_total) (use assms(1) in \<open>auto simp: list_all_iff intro: configure_afe_record_total\<close>)
  moreover have "\<exists>chs. try_map configure_channel_record (cfg_channels req) = Ok chs"
    by (rule try_map_total) (use assms(2) in \<open>auto simp: list_all_iff intro: configure_channel_record_total\<close>)
  ultimately obtain c where "configure_command req = Ok c"
    using assms(3) by (auto simp: configure_command_def u16_value_def)
  with configure_command_contents [OF this] show ?thesis by blast
qed


text \<open>The values for the DACs have 12 bits.\<close>

definition dac_values_fit :: "configure_request \<Rightarrow> bool" where
  "dac_values_fit req \<longleftrightarrow> unat (cfg_biasctrl req) \<le> 4095
     \<and> (\<forall>a \<in> set (cfg_afes req). unat (pac_attenuators a) \<le> 4095 \<and> unat (pac_v_bias a) \<le> 4095)
     \<and> (\<forall>ch \<in> set (cfg_channels req). unat (pcc_trim ch) \<le> 4095 \<and> unat (pcc_offset ch) \<le> 4095)"

lemma configure_command_valid:
  assumes "configure_command req = Ok c"
  shows "validate c = Ok () \<longleftrightarrow> dac_values_fit req"
proof -
  from configure_command_contents [OF assms] obtain afes chs bias where c: "c = ConfigureFrontend afes chs bias"
    and same: "list_all2 same_afe (cfg_afes req) afes" "list_all2 same_channel (cfg_channels req) chs"
      "unat bias = unat (cfg_biasctrl req)" by blast
  have limit: "validate_12bit v = Ok () \<longleftrightarrow> unat v \<le> 4095" for v :: u16
    by (simp add: validate_12bit_def DAC_12BIT_MAX_def word_less_nat_alt word_le_nat_alt not_less)
  from same(1) have "(\<forall>a \<in> set afes. unat (fe_attenuation a) \<le> 4095 \<and> unat (fe_bias a) \<le> 4095)
      \<longleftrightarrow> (\<forall>a \<in> set (cfg_afes req). unat (pac_attenuators a) \<le> 4095 \<and> unat (pac_v_bias a) \<le> 4095)"
    by induction (auto simp: same_afe_def split: prod.splits)
  moreover from same(2) have "(\<forall>ch \<in> set chs. unat (fc_trim ch) \<le> 4095 \<and> unat (fc_offset ch) \<le> 4095)
      \<longleftrightarrow> (\<forall>ch \<in> set (cfg_channels req). unat (pcc_trim ch) \<le> 4095 \<and> unat (pcc_offset ch) \<le> 4095)"
    by induction (auto simp: same_channel_def)
  ultimately show ?thesis
    using same(3) by (auto simp: c dac_values_fit_def validate_def and_then_Ok_iff try_each_Ok_iff limit)
qed

section \<open>Properties\<close>

text \<open>C18: a configuration request becomes a command exactly when every number fits its field and every
  front end and channel exists; the command then has one record per front end and per channel, in
  the order of the request and with its values.\<close>

theorem configure_request_contents:
  "(\<forall>c. configure_command req = Ok c \<longrightarrow> (\<exists>afes chs bias. c = ConfigureFrontend afes chs bias
      \<and> list_all2 same_afe (cfg_afes req) afes \<and> list_all2 same_channel (cfg_channels req) chs
      \<and> unat bias = unat (cfg_biasctrl req)))
   \<and> (is_ok (configure_command req) \<longleftrightarrow> list_all afe_in_range (cfg_afes req)
        \<and> list_all channel_in_range (cfg_channels req) \<and> unat (cfg_biasctrl req) < 65536)"
  using configure_command_contents [of req] configure_command_total [of req]
  by (cases "configure_command req") (auto simp: is_ok_def)

theorem configure_request_contents_witness:
  "\<exists>chs. configure_command \<lparr>cfg_daphne_address = ''board'', cfg_slot = 0, cfg_timeout_ms = 500, cfg_biasctrl = 1200,
       cfg_self_trigger_threshold = 0, cfg_self_trigger_xcorr = 0, cfg_tp_conf = 0, cfg_compensator = 0, cfg_inverters = 0,
       cfg_channels = [\<lparr>pcc_id = 39, pcc_trim = 7, pcc_offset = 8, pcc_gain = 2\<rparr>], cfg_afes = [],
       cfg_full_stream_channels = []\<rparr> = Ok (ConfigureFrontend [] chs 1200)
     \<and> list_all2 same_channel [\<lparr>pcc_id = 39, pcc_trim = 7, pcc_offset = 8, pcc_gain = 2\<rparr>] chs"
  (is "\<exists>chs. configure_command ?req = _ \<and> _")
proof -
  have "is_ok (configure_command ?req)"
    using configure_request_contents [of ?req] by (simp add: channel_in_range_def)
  then obtain c where c: "configure_command ?req = Ok c" by (cases "configure_command ?req") simp_all
  with configure_request_contents [of ?req] obtain afes chs bias where "c = ConfigureFrontend afes chs bias"
    "list_all2 same_afe [] afes" "list_all2 same_channel [\<lparr>pcc_id = 39, pcc_trim = 7, pcc_offset = 8, pcc_gain = 2\<rparr>] chs"
    "unat bias = unat (1200 :: u32)"
    by auto
  moreover from this(4) have "bias = 1200" by (simp add: word_unat_eq_iff)
  ultimately show ?thesis using c by auto
qed

text \<open>C16: every request to the front end other than the alignment submits at most one command; the
  command is well formed and in range; the response reports success exactly when the command was
  accepted and applied, with the message of the outcome, and without a submission reports failure.\<close>

theorem request_one_command:
  assumes "route_message_type m = RpuAfe" and "m \<noteq> AlignAfeReq"
    and "handle_rpu_afe cd m payload rpu s = Some (res, s')"
  shows "s' = s \<and> refused cd res
    \<or> (\<exists>c r. wf_afe_command c \<and> validate c = Ok () \<and> rt_submit_afe_command rpu c s = Some (r, s') \<and> reported cd r res)"
  using handlers_one_command [OF assms(1,2), of cd rpu payload] assms(3) unfolding one_command_def by blast

text \<open>A codec for the examples: an envelope is its type and its payload, the payload of a register
  write has one byte for each field, and a response is encoded as whether it reports success.\<close>

definition sample_codec :: "nat pb_codec" where
  "sample_codec =
     \<lparr>cd_configure_request = (\<lambda>p. Err ''unsupported''),
      cd_write_afe_reg = (\<lambda>p. if length p = 3 then Ok \<lparr>war_id = 7, war_afe_block = ucast (p ! 0), war_reg_address = ucast (p ! 1), war_reg_value = ucast (p ! 2)\<rparr> else Err ''truncated''),
      cd_write_afe_vgain = (\<lambda>p. Err ''unsupported''),
      cd_write_afe_attenuation = (\<lambda>p. Err ''unsupported''),
      cd_write_afe_bias_set = (\<lambda>p. Err ''unsupported''),
      cd_write_trim_all_channels = (\<lambda>p. Err ''unsupported''),
      cd_write_trim_all_afe = (\<lambda>p. Err ''unsupported''),
      cd_write_trim_single_channel = (\<lambda>p. Err ''unsupported''),
      cd_write_offset_all_channels = (\<lambda>p. Err ''unsupported''),
      cd_write_offset_all_afe = (\<lambda>p. Err ''unsupported''),
      cd_write_offset_single_channel = (\<lambda>p. Err ''unsupported''),
      cd_write_vbias_control = (\<lambda>p. Err ''unsupported''),
      cd_read_afe_reg = (\<lambda>p. Err ''unsupported''),
      cd_read_afe_vgain = (\<lambda>p. Err ''unsupported''),
      cd_read_afe_bias_set = (\<lambda>p. Err ''unsupported''),
      cd_read_trim_all_channels = (\<lambda>p. Err ''unsupported''),
      cd_read_trim_all_afe = (\<lambda>p. Err ''unsupported''),
      cd_read_trim_single_channel = (\<lambda>p. Err ''unsupported''),
      cd_read_offset_all_channels = (\<lambda>p. Err ''unsupported''),
      cd_read_offset_all_afe = (\<lambda>p. Err ''unsupported''),
      cd_read_offset_single_channel = (\<lambda>p. Err ''unsupported''),
      cd_read_vbias_control = (\<lambda>p. Err ''unsupported''),
      cd_read_current_monitor = (\<lambda>p. Err ''unsupported''),
      cd_read_bias_voltage_monitor = (\<lambda>p. Err ''unsupported''),
      cd_set_afe_reset = (\<lambda>p. Err ''unsupported''),
      cd_do_afe_reset = (\<lambda>p. Err ''unsupported''),
      cd_set_afe_power_state = (\<lambda>p. Err ''unsupported''),
      cd_align_afes = (\<lambda>p. Ok CmdAlignAfes),
      cd_write_afe_function = (\<lambda>p. Err ''unsupported''),
      cd_slow_control_status_request = (\<lambda>p. Ok \<lparr>scq_level = 0\<rparr>),
      cd_encode = (\<lambda>r. [if response_success r = Some True then 1 else 0]),
      cd_decode_envelope = (\<lambda>p. case p of
        t # rest \<Rightarrow> Ok \<lparr>env_version = 2, env_dir = 0, env_type = ucast t, env_payload = rest, env_task_id = 42,
          env_msg_id = 100, env_correl_id = 0, env_route = ''test'', env_timestamp_ns = 0\<rparr>
      | [] \<Rightarrow> Err ''empty''),
      cd_encode_envelope = (\<lambda>e. ucast (env_type e) # env_payload e)\<rparr>"

definition obedient_reply :: afe_command_reply where
  "obedient_reply = \<lparr>ar_accepted = True, ar_applied = True, ar_readback = Some 0x80030007, ar_fault_code = 0,
     ar_context_code = 0, ar_message = ''RPU applied command''\<rparr>"

definition obedient_transport :: "nat rpu_afe_transport" where
  "obedient_transport =
     \<lparr>rt_status = ret \<lparr>ls_available = True, ls_running = True, ls_firmware = None, ls_heartbeat = None,
        ls_last_fault = None\<rparr>,
      rt_submit_afe_command = (\<lambda>c n. Some (Ok obedient_reply, Suc n))\<rparr>"

lemma submit_obedient:
  "validate c = Ok () \<Longrightarrow> submit obedient_transport c n = Some (Ok (outcome_of (Ok obedient_reply)), Suc n)"
  by (simp add: submit_def obedient_transport_def tryE_def ret_def)

lemma sample_write:
  "\<exists>resp. handle_rpu_afe sample_codec WriteAfeRegReq [1, 3, 200] rpu = bindE (submit rpu
     (WriteRegister \<lparr>id_board = 1, id_pl = 4\<rparr> 3 200)) (\<lambda>out. ret (cd_encode sample_codec (resp out)))
     \<and> (\<forall>out. response_success (resp out) = Some (so_success out))"
proof -
  have "make_write_register 1 3 200 = Ok (WriteRegister \<lparr>id_board = 1, id_pl = 4\<rparr> 3 200)"
    by (simp add: make_write_register_def request_afe_def u8_value_def u16_value_def from_board_def AFE_BOARD_TO_PL_def)
  moreover have "cd_write_afe_reg sample_codec [1, 3, 200] =
      Ok \<lparr>war_id = 7, war_afe_block = 1, war_reg_address = 3, war_reg_value = 200\<rparr>"
    by (simp add: sample_codec_def)
  ultimately show ?thesis
    by (auto simp: handle_rpu_afe_def handle_write_afe_reg_def
        intro!: exI [of _ "\<lambda>out. WriteAfeRegResponse \<lparr>warr_success = so_success out, warr_message = so_message out,
          warr_afe_block = 1, warr_reg_address = 3, warr_reg_value = unwrap_or_default (so_readback out)\<rparr>"])
qed

theorem request_one_command_witness:
  "\<exists>res. handle_rpu_afe sample_codec WriteAfeRegReq [1, 3, 200] obedient_transport 0 = Some (res, 1) \<and>
     (\<exists>c r. wf_afe_command c \<and> validate c = Ok () \<and> rt_submit_afe_command obedient_transport c 0 = Some (r, 1))"
proof -
  obtain resp where "handle_rpu_afe sample_codec WriteAfeRegReq [1, 3, 200] obedient_transport = bindE (submit obedient_transport
     (WriteRegister \<lparr>id_board = 1, id_pl = 4\<rparr> 3 200)) (\<lambda>out. ret (cd_encode sample_codec (resp out)))"
    using sample_write [of obedient_transport] by blast
  moreover have "validate (WriteRegister a r v) = Ok ()" for a r v by (simp add: validate_def)
  ultimately have "\<exists>res. handle_rpu_afe sample_codec WriteAfeRegReq [1, 3, 200] obedient_transport 0 = Some (res, 1)"
    by (simp add: bindE_def submit_obedient ret_def)
  then obtain res where run: "handle_rpu_afe sample_codec WriteAfeRegReq [1, 3, 200] obedient_transport 0 = Some (res, 1)" ..
  have "route_message_type WriteAfeRegReq = RpuAfe" "WriteAfeRegReq \<noteq> AlignAfeReq" by (simp_all add: route_message_type_def)
  from request_one_command [OF this run] run show ?thesis by (metis zero_neq_one)
qed

lemma align_request_ends:
  assumes "handle_rpu_afe cd AlignAfeReq payload rpu s = Some (res, s')"
  shows "s' = s \<and> refused cd res
    \<or> (\<exists>r u x. rt_submit_afe_command rpu Align s = Some (r, u) \<and> res = Ok (cd_encode cd (AlignAfesResponse x))
         \<and> alnr_success x = applied_reply r \<and> alignment_vectors_ok 5 (alnr_delay x, alnr_bitslip x)
         \<and> (\<not> is_ok r \<longrightarrow> s' = u \<and> alnr_delay x = []))"
proof (cases "cd_align_afes cd payload")
  case (Err e)
  with assms show ?thesis by (auto simp: handle_rpu_afe_def handle_align_afe_def ret_def refused_def)
next
  case (Ok q)
  let ?rest = "\<lambda>out. bindE (if so_transport_error out then ret ([], []) else read_alignment_vectors rpu)
      (\<lambda>(delay, bitslip). ret (cd_encode cd (AlignAfesResponse \<lparr>alnr_success = so_success out, alnr_delay = delay,
         alnr_bitslip = bitslip, alnr_message = alignment_message out\<rparr>)))"
  from Ok assms have "bindE (submit rpu Align) ?rest s = Some (res, s')"
    by (simp add: handle_rpu_afe_def handle_align_afe_def Let_def)
  then obtain out u where sub: "submit rpu Align s = Some (Ok out, u)" and rest: "?rest out u = Some (res, s')"
    by (rule bindE_SomeE) simp_all
  from sub obtain r where r: "rt_submit_afe_command rpu Align s = Some (r, u)" "out = outcome_of r"
    by (cases rule: submit_cases) (auto simp: validate_def)
  show ?thesis
  proof (cases "is_ok r")
    case False
    with rest r show ?thesis
      by (auto simp: ret_def bindE_def alignment_vectors_ok_def intro!: disjI2)
  next
    case True
    have none: "alignment_vectors_ok 0 ([], [])" by (simp add: alignment_vectors_ok_def)
    from rest True r(2) obtain v where v: "read_alignment_vectors rpu u = Some (Ok v, s')"
      "res = Ok (cd_encode cd (AlignAfesResponse \<lparr>alnr_success = so_success out, alnr_delay = fst v,
         alnr_bitslip = snd v, alnr_message = alignment_message out\<rparr>))"
      using read_alignment_values [OF _ none]
      by (fastforce simp: ret_def read_alignment_vectors_def case_prod_unfold elim!: bindE_SomeE)
    from read_alignment_values [OF v(1) [unfolded read_alignment_vectors_def] none]
    have "alignment_vectors_ok 5 v" by (simp add: AFE_COUNT_def)
    with v r True show ?thesis by (auto intro!: disjI2 exI [of _ r])
  qed
qed

text \<open>C19: an alignment request submits the alignment; when that fails in the transport nothing else is
  submitted and no settings are reported; otherwise the response has at most one delay of 16 bits
  and one bitslip of 4 bits for each of the five front ends, equally many of both, and reports
  success exactly when the alignment was accepted and applied.\<close>

theorem align_request:
  assumes "handle_rpu_afe cd AlignAfeReq payload rpu s = Some (res, s')"
  shows "s' = s \<and> refused cd res
    \<or> (\<exists>r u x. rt_submit_afe_command rpu Align s = Some (r, u) \<and> res = Ok (cd_encode cd (AlignAfesResponse x))
         \<and> alnr_success x = applied_reply r \<and> alignment_vectors_ok 5 (alnr_delay x, alnr_bitslip x)
         \<and> (\<not> is_ok r \<longrightarrow> s' = u \<and> alnr_delay x = []))"
  using assms by (rule align_request_ends)

theorem align_request_witness:
  "\<exists>x s'. handle_rpu_afe sample_codec AlignAfeReq [] obedient_transport 0
       = Some (Ok (cd_encode sample_codec (AlignAfesResponse x)), s')
     \<and> alnr_success x \<and> alignment_vectors_ok 5 (alnr_delay x, alnr_bitslip x)"
proof -
  have valid: "validate Align = Ok ()" by (simp add: validate_def)
  have decoded: "cd_align_afes sample_codec [] = Ok CmdAlignAfes" by (simp add: sample_codec_def)
  have "keeps (\<lambda>n. 1 \<le> n) (read_alignment_vectors obedient_transport)"
    unfolding read_alignment_vectors_def
    by (rule read_alignment_keeps) (simp add: keeps_def wp_def obedient_transport_def)
  from keepsD [OF this, of 1] have "wp (read_alignment_vectors obedient_transport) (\<lambda>_ n. 1 \<le> n) 1" by simp
  then have "wp (handle_rpu_afe sample_codec AlignAfeReq [] obedient_transport) (\<lambda>_ n. 1 \<le> n) 0"
    by (auto simp: handle_rpu_afe_def handle_align_afe_def decoded Let_def wp_bindE wp_Some [OF submit_obedient [OF valid]]
        post_ok_def wp_ret case_prod_unfold elim!: wp_mono split: result.split)
  then obtain res s' where run: "handle_rpu_afe sample_codec AlignAfeReq [] obedient_transport 0 = Some (res, s')" "1 \<le> s'"
    by (elim wpE)
  have "r = Ok obedient_reply" if "rt_submit_afe_command obedient_transport Align 0 = Some (r, u)" for r u
    using that by (simp add: obedient_transport_def)
  moreover have "applied_reply (Ok obedient_reply)" by (simp add: applied_reply_def obedient_reply_def)
  ultimately show ?thesis using align_request [OF run(1)] run by fastforce
qed

end
