(* ===== verification/Router.thy ===== *)
theory Router
  imports Handlers
begin

text \<open>
  Envelopes and the request loop (\<open>daphne-sc-server/src/v2.rs\<close>, \<open>router.rs\<close>): a request envelope is
  decoded, its payload handled, and the response put into an envelope that refers to it; the loop
  takes multipart messages from a ZMQ socket, runs the preflight when the request needs it, and
  answers the sender.  The socket is a parameter.
\<close>

section \<open>Response envelopes\<close>

definition response_type :: "u32 \<Rightarrow> u32" where
  "response_type req_type =
     (if req_type = 0 then 0 else if req_type AND 1 = 0 then req_type + 1 else req_type)"

text \<open>The server: its transport, the operating system, the counter of messages and the preflight.\<close>

record ('s, 'k) server_state =
  st_rpu :: 's
  st_system :: 'k
  st_next_seq :: u64
  st_preflight :: linux_preflight

definition system_of :: "('k, 'a, 'e) eff \<Rightarrow> (('s, 'k) server_state, 'a, 'e) eff" where
  "system_of = zoom st_system (\<lambda>k x. x\<lparr>st_system := k\<rparr>)"

definition now_ns :: "'k server_os \<Rightarrow> (('s, 'k) server_state, u64, string) eff" where
  "now_ns os = bindE (system_of (callE (os_since_epoch os))) (\<lambda>t.
     ret (case t of Some n \<Rightarrow> word_of_nat n | None \<Rightarrow> 0))"

definition fetch_add_seq :: "(('s, 'k) server_state, u64, string) eff" where
  "fetch_add_seq x = Some (Ok (st_next_seq x), x\<lparr>st_next_seq := st_next_seq x + 1\<rparr>)"

definition next_msg_id :: "'k server_os \<Rightarrow> (('s, 'k) server_state, u64, string) eff" where
  "next_msg_id os = bindE fetch_add_seq (\<lambda>seq. bindE (now_ns os) (\<lambda>now.
     ret ((push_bit 16 now XOR seq) AND (push_bit 63 1 - 1))))"

definition make_response ::
    "'k server_os \<Rightarrow> control_envelope_v2 \<Rightarrow> u8 list \<Rightarrow> (('s, 'k) server_state, control_envelope_v2, string) eff" where
  "make_response os req payload =
     bindE (next_msg_id os) (\<lambda>msg_id.
     bindE (now_ns os) (\<lambda>timestamp.
     ret \<lparr>env_version = 2, env_dir = DIR_RESPONSE, env_type = response_type (env_type req),
          env_payload = payload, env_task_id = env_task_id req, env_msg_id = msg_id,
          env_correl_id = env_msg_id req, env_route = env_route req, env_timestamp_ns = timestamp\<rparr>))"

section \<open>Requests\<close>

definition on_handlers :: "('s \<times> 'k, 'a, 'e) eff \<Rightarrow> (('s, 'k) server_state, 'a, 'e) eff" where
  "on_handlers = zoom (\<lambda>x. (st_rpu x, st_system x)) (\<lambda>(s, k) x. x\<lparr>st_rpu := s, st_system := k\<rparr>)"

definition is_request :: "control_envelope_v2 \<Rightarrow> bool" where
  "is_request req \<longleftrightarrow> \<not> (env_version req \<noteq> 2 \<or> env_dir req \<noteq> DIR_REQUEST)"

definition handle_envelope ::
    "'f pb_codec \<Rightarrow> 'f f64_ops \<Rightarrow> 'k server_os \<Rightarrow> u8 list \<Rightarrow> 's rpu_afe_transport \<Rightarrow> preflight_status
     \<Rightarrow> (('s, 'k) server_state, u8 list option, string) eff" where
  "handle_envelope cd fo os payload rpu preflight = (case cd_decode_envelope cd payload of
     Err _ \<Rightarrow> ret None
   | Ok req \<Rightarrow>
       if \<not> is_request req then ret None
       else bindE (on_handlers (handle_payload cd fo os (env_type req) (env_payload req) rpu preflight))
         (\<lambda>response_payload.
          bindE (make_response os req response_payload) (\<lambda>response. ret (Some (cd_encode_envelope cd response)))))"

definition needs_preflight :: "'f pb_codec \<Rightarrow> u8 list \<Rightarrow> bool" where
  "needs_preflight cd payload = (case cd_decode_envelope cd payload of
     Err _ \<Rightarrow> False
   | Ok req \<Rightarrow>
       is_request req
       \<and> (case message_type_try_from (env_type req) of
            None \<Rightarrow> False
          | Some t \<Rightarrow> route_message_type t = RpuAfe \<or> t = ReadSlowControlStatusReq))"

section \<open>The socket and the loop\<close>

text \<open>\<open>zq_send frame more\<close> sends one part; errors are texts.\<close>

record 'k zmq_api =
  zq_router_socket :: "('k, nat, string) eff"
  zq_set_linger :: "nat \<Rightarrow> int \<Rightarrow> ('k, unit, string) eff"
  zq_set_sndhwm :: "nat \<Rightarrow> int \<Rightarrow> ('k, unit, string) eff"
  zq_set_rcvhwm :: "nat \<Rightarrow> int \<Rightarrow> ('k, unit, string) eff"
  zq_set_sndbuf :: "nat \<Rightarrow> int \<Rightarrow> ('k, unit, string) eff"
  zq_set_immediate :: "nat \<Rightarrow> bool \<Rightarrow> ('k, unit, string) eff"
  zq_bind :: "nat \<Rightarrow> string \<Rightarrow> ('k, unit, string) eff"
  zq_recv_multipart :: "nat \<Rightarrow> ('k, u8 list list, string) eff"
  zq_send :: "nat \<Rightarrow> u8 list \<Rightarrow> bool \<Rightarrow> ('k, unit, string) eff"

record router_options =
  ro_sndhwm :: int
  ro_rcvhwm :: int
  ro_sndbuf :: int
  ro_immediate :: bool
  ro_max_envelope_bytes :: nat

definition default_router_options :: router_options where
  "default_router_options =
     \<lparr>ro_sndhwm = 20000, ro_rcvhwm = 20000, ro_sndbuf = 4 * 1024 * 1024, ro_immediate = True,
      ro_max_envelope_bytes = 4 * 1024 * 1024\<rparr>"

text \<open>An error with its context.\<close>

definition in_context :: "string \<Rightarrow> ('k, 'a, string) eff \<Rightarrow> ('k, 'a, string) eff" where
  "in_context what m = map_errE (\<lambda>err. what @ '': '' @ err) m"

definition bind_router :: "'k zmq_api \<Rightarrow> string \<Rightarrow> router_options \<Rightarrow> ('k, nat, string) eff" where
  "bind_router zq endpoint options =
     bindE (in_context ''creating ZMQ ROUTER socket'' (zq_router_socket zq)) (\<lambda>socket.
     thenE (in_context ''setting ZMQ_LINGER'' (zq_set_linger zq socket 0))
     (thenE (in_context ''setting ZMQ_SNDHWM'' (zq_set_sndhwm zq socket (ro_sndhwm options)))
     (thenE (in_context ''setting ZMQ_RCVHWM'' (zq_set_rcvhwm zq socket (ro_rcvhwm options)))
     (thenE (in_context ''setting ZMQ_SNDBUF'' (zq_set_sndbuf zq socket (ro_sndbuf options)))
     (thenE (in_context ''setting ZMQ_IMMEDIATE'' (zq_set_immediate zq socket (ro_immediate options)))
     (thenE (in_context (''binding ZMQ ROUTER to '' @ endpoint) (zq_bind zq socket endpoint))
     (ret socket)))))))"

definition checked_preflight :: "'k server_os \<Rightarrow> (('s, 'k) server_state, preflight_status, string) eff" where
  "checked_preflight os =
     zoom (\<lambda>x. (st_preflight x, st_system x)) (\<lambda>(p, k) x. x\<lparr>st_preflight := p, st_system := k\<rparr>)
       (preflight_check_now os)"

text \<open>What is answered to a received message, if anything: indexing a message without parts would
  panic, and the last part is optional.\<close>

definition last_part :: "u8 list list \<Rightarrow> u8 list option" where
  "last_part frames = (if frames = [] then None else Some (last frames))"

definition answer_frames ::
    "'f pb_codec \<Rightarrow> 'f f64_ops \<Rightarrow> 'k server_os \<Rightarrow> router_options \<Rightarrow> 's rpu_afe_transport \<Rightarrow> u8 list list
     \<Rightarrow> (('s, 'k) server_state, (u8 list \<times> u8 list) option, string) eff" where
  "answer_frames cd fo os options rpu frames =
     (if length frames < 2 then ret None
      else bindE (indexE frames 0) (\<lambda>client_id.
        case last_part frames of
          None \<Rightarrow> ret None
        | Some payload \<Rightarrow>
            if length payload > ro_max_envelope_bytes options then ret None
            else bindE (if needs_preflight cd payload then checked_preflight os else ret preflight_ready)
              (\<lambda>preflight_status.
               bindE (handle_envelope cd fo os payload rpu preflight_status) (\<lambda>response.
               ret (case response of None \<Rightarrow> None | Some r \<Rightarrow> Some (client_id, r))))))"

text \<open>A message of at least two parts has the parts that the loop takes.\<close>

lemma index_in_bounds: "i < length xs \<Longrightarrow> bindE (indexE xs i) f = f (xs ! i)"
  by (simp add: indexE_def bindE_def ret_def)

lemma answer_frames_parts:
  "answer_frames cd fo os options rpu frames =
     (if length frames < 2 \<or> ro_max_envelope_bytes options < length (last frames) then ret None
      else bindE (if needs_preflight cd (last frames) then checked_preflight os else ret preflight_ready)
        (\<lambda>preflight_status.
         bindE (handle_envelope cd fo os (last frames) rpu preflight_status) (\<lambda>response.
         ret (case response of None \<Rightarrow> None | Some r \<Rightarrow> Some (hd frames, r)))))"
proof (cases "length frames < 2")
  case False
  then have "0 < length frames" "frames \<noteq> []" by auto
  with False show ?thesis
    by (simp add: answer_frames_def index_in_bounds last_part_def hd_conv_nth cong: option.case_cong)
qed (simp add: answer_frames_def)

definition serve_one ::
    "'f pb_codec \<Rightarrow> 'f f64_ops \<Rightarrow> 'k server_os \<Rightarrow> 'k zmq_api \<Rightarrow> router_options \<Rightarrow> 's rpu_afe_transport \<Rightarrow> nat
     \<Rightarrow> (('s, 'k) server_state, unit, string) eff" where
  "serve_one cd fo os zq options rpu socket =
     bindE (system_of (in_context ''receiving ZMQ multipart'' (zq_recv_multipart zq socket))) (\<lambda>frames.
     bindE (answer_frames cd fo os options rpu frames) (\<lambda>answer. case answer of
       None \<Rightarrow> ret ()
     | Some (client_id, response) \<Rightarrow>
         thenE (system_of (in_context ''sending ZMQ client identity'' (zq_send zq socket client_id True)))
           (system_of (in_context ''sending ZMQ response envelope'' (zq_send zq socket response False)))))"

text \<open>The loop does not end by itself: \<open>n\<close> turns of it.\<close>

fun serve_turns ::
    "'f pb_codec \<Rightarrow> 'f f64_ops \<Rightarrow> 'k server_os \<Rightarrow> 'k zmq_api \<Rightarrow> router_options \<Rightarrow> 's rpu_afe_transport \<Rightarrow> nat
     \<Rightarrow> nat \<Rightarrow> (('s, 'k) server_state, unit, string) eff" where
  "serve_turns cd fo os zq options rpu socket 0 = ret ()"
| "serve_turns cd fo os zq options rpu socket (Suc n) =
     thenE (serve_one cd fo os zq options rpu socket) (serve_turns cd fo os zq options rpu socket n)"

text \<open>The standard streams: \<open>println!\<close> and \<open>eprintln!\<close> panic when the line cannot be written.\<close>

record 'k console =
  co_stdout :: "string \<Rightarrow> ('k, unit, string) eff"
  co_stderr :: "string \<Rightarrow> ('k, unit, string) eff"

definition print_to :: "(string \<Rightarrow> ('k, unit, string) eff) \<Rightarrow> string \<Rightarrow> ('k, unit, 'e) eff" where
  "print_to stream line =
     tryE (stream (line @ [CHR 0x0A])) (\<lambda>r. case r of Ok _ \<Rightarrow> ret () | Err _ \<Rightarrow> panic)"

definition println :: "'k console \<Rightarrow> string \<Rightarrow> ('k, unit, 'e) eff" where
  "println co line = print_to (co_stdout co) line"

definition eprintln :: "'k console \<Rightarrow> string \<Rightarrow> ('k, unit, 'e) eff" where
  "eprintln co line = print_to (co_stderr co) line"

definition router_run ::
    "'f pb_codec \<Rightarrow> 'f f64_ops \<Rightarrow> 'k server_os \<Rightarrow> 'k zmq_api \<Rightarrow> 'k console \<Rightarrow> string \<Rightarrow> router_options
     \<Rightarrow> 's rpu_afe_transport \<Rightarrow> nat \<Rightarrow> (('s, 'k) server_state, unit, string) eff" where
  "router_run cd fo os zq co endpoint options rpu n =
     bindE (system_of (bind_router zq endpoint options)) (\<lambda>socket.
     thenE (modify (\<lambda>x. x\<lparr>st_preflight := default_linux_preflight\<rparr>))
     (thenE (system_of (println co (''ZMQ ROUTER listening on '' @ endpoint)))
       (serve_turns cd fo os zq options rpu socket n)))"

end
