(* ===== verification/ServerReturns.thy ===== *)
theory ServerReturns
  imports HandlerFacts Router PreflightFacts
begin

text \<open>
  The server does not hang on its own (\<open>handlers.rs\<close>, \<open>router.rs\<close>, \<open>preflight.rs\<close>,
  \<open>status_collector.rs\<close>): when the operating system and the transport return from what they are
  asked, whatever they answer, every check, every collection and every handler returns a value.
\<close>

section \<open>Everything returns\<close>

text \<open>What the operating system is asked returns, whatever it answers.\<close>

definition i2c_returns :: "'k i2c_kernel \<Rightarrow> bool" where
  "i2c_returns kn \<longleftrightarrow> (\<forall>path k. kn_open kn path k \<noteq> None) \<and> (\<forall>fd bytes k. kn_write_all kn fd bytes k \<noteq> None)
     \<and> (\<forall>fd n k. \<exists>r k'. kn_read_exact kn fd n k = Some (r, k') \<and> (\<forall>bytes. r = Ok bytes \<longrightarrow> length bytes = n))"

definition system_returns :: "'k server_os \<Rightarrow> bool" where
  "system_returns os \<longleftrightarrow> i2c_returns (os_i2c os) \<and> (\<forall>path k. mm_open (os_mem os) path k \<noteq> None)"

abbreviation returns :: "('s, 'a, 'e) eff \<Rightarrow> bool" where
  "returns m \<equiv> keeps (\<lambda>_. True) m"

lemma returns_iff: "returns m \<longleftrightarrow> (\<forall>s. m s \<noteq> None)"
  by (auto simp: keeps_def wp_def split: option.splits)

lemma returns_callE: "returns (callE f)"
  by (simp add: returns_iff callE_def split: prod.split)

lemma returns_modify: "returns (modify f)"
  by (simp add: returns_iff modify_def)

lemma returns_zoom: "returns m \<Longrightarrow> returns (zoom g p m)"
  by (auto simp: returns_iff zoom_def split: option.split)

lemmas returns_intros = keeps_intros returns_callE returns_modify returns_zoom

lemma returns_check_rc: "returns (check_rc kn call)"
  by (simp add: returns_iff check_rc_def split: prod.split)

lemma returns_device_open:
  assumes "i2c_returns kn"
  shows "returns (device_open kn bus addr)"
proof -
  have "returns (\<lambda>k. case check_rc kn (kn_ioctl kn fd I2C_SLAVE (ucast addr)) k of
        None \<Rightarrow> None
      | Some (Err source, k') \<Rightarrow> Some (Err (I2cSelectSlave bus addr source), kn_close kn fd k')
      | Some (Ok _, k') \<Rightarrow> Some (Ok \<lparr>ld_file = fd, ld_bus = bus, ld_address = addr\<rparr>, k'))" for fd
    using returns_check_rc [of kn "kn_ioctl kn fd I2C_SLAVE (ucast addr)"]
    by (auto simp: returns_iff split: option.splits result.splits prod.splits)
  moreover have "returns (map_errE (I2cOpen path) (kn_open kn path))" for path
    by (rule keeps_map_errE) (use assms in \<open>simp add: returns_iff i2c_returns_def\<close>)
  ultimately show ?thesis
    unfolding device_open_def Let_def by (rule keeps_bindE [rotated])
qed

lemma returns_device_read:
  assumes "i2c_returns kn"
  shows "returns (device_read_register kn d r)"
proof -
  have "returns (bindE (map_errE e (kn_read_exact kn fd 1)) (\<lambda>bytes. indexE bytes 0))" for e fd
  proof (rule keepsI)
    fix k
    from assms obtain r k' where "kn_read_exact kn fd 1 k = Some (r, k')" "\<forall>bytes. r = Ok bytes \<longrightarrow> length bytes = 1"
      unfolding i2c_returns_def by blast
    then show "wp (bindE (map_errE e (kn_read_exact kn fd 1)) (\<lambda>bytes. indexE bytes 0)) (\<lambda>_ _. True) k"
      by (cases r) (simp_all add: wp_simps wp_Some)
  qed
  with assms show ?thesis
    unfolding device_read_register_def
    by (intro keeps_thenE keeps_map_errE) (simp_all add: returns_iff i2c_returns_def)
qed

lemma returns_registers:
  assumes "\<forall>path k. mm_open kn path k \<noteq> None"
  shows "returns (read_endpoint_register_status kn)"
proof -
  have "read_mapped kn fd a k \<noteq> None" for fd a k
    by (auto simp: read_mapped_def read_page_def page_size_def load_mapped_def load_byte_def bindE_def Let_def
        split: option.splits prod.splits result.splits)
  then have "returns (read_phys_u32 kn a)" for a
    using assms unfolding read_phys_u32_def
    by (intro keeps_bindE keeps_map_errE) (auto simp: returns_iff split: option.split)
  then show ?thesis unfolding read_endpoint_register_status_def by (intro returns_intros)
qed

lemma returns_read_word: "returns (read_word_data kn d r)"
  by (auto simp: returns_iff read_word_data_def Let_def split: prod.split)

lemma returns_pmbus: "i2c_returns (os_i2c os) \<Longrightarrow> returns (read_pmbus_regulator fo os pr)"
  unfolding read_pmbus_regulator_def set_pec_def
  by (intro returns_intros returns_device_open returns_check_rc returns_read_word)

text \<open>A computation that cannot fail.\<close>

definition yields :: "('s, 'a, 'e) eff \<Rightarrow> bool" where
  "yields m \<longleftrightarrow> (\<forall>s. \<exists>a s'. m s = Some (Ok a, s'))"

named_theorems yields_intros \<open>computations that cannot fail\<close>

lemma yieldsE:
  assumes "yields m"
  obtains a s' where "m s = Some (Ok a, s')"
  using assms unfolding yields_def by blast

lemma yields_basic [yields_intros]:
  "yields (ret a)" "yields (gets g)" "yields (modify h)" "yields (callE f)"
  by (simp_all add: yields_def ret_def gets_def modify_def callE_def split: prod.split)

lemma yields_bindE [yields_intros]:
  assumes "yields m" and "\<And>a. yields (k a)"
  shows "yields (bindE m k)"
  unfolding yields_def
proof
  fix s
  obtain a s' where "m s = Some (Ok a, s')" by (rule yieldsE [OF assms(1)])
  moreover obtain b t where "k a s' = Some (Ok b, t)" by (rule yieldsE [OF assms(2)])
  ultimately show "\<exists>a s'. bindE m k s = Some (Ok a, s')" by (simp add: bindE_def)
qed

lemma yields_thenE [yields_intros]: "yields m \<Longrightarrow> yields k \<Longrightarrow> yields (thenE m k)"
  unfolding thenE_def by (rule yields_bindE)

lemma yields_tryE [yields_intros]:
  assumes "returns m" and "\<And>r. yields (k r)"
  shows "yields (tryE m k)"
  unfolding yields_def
proof
  fix s
  obtain r s' where "m s = Some (r, s')" using assms(1) unfolding returns_iff by fastforce
  moreover obtain b t where "k r s' = Some (Ok b, t)" by (rule yieldsE [OF assms(2)])
  ultimately show "\<exists>a s'. tryE m k s = Some (Ok a, s')" by (simp add: tryE_def)
qed

lemma yields_zoom [yields_intros]: "yields m \<Longrightarrow> yields (zoom g p m)"
  unfolding yields_def zoom_def by (metis (no_types, lifting) case_prod_conv option.simps(5))

lemma yields_cases [yields_intros]:
  "(\<And>a. yields (m a)) \<Longrightarrow> (\<And>e. yields (k e)) \<Longrightarrow> yields (case r of Ok a \<Rightarrow> m a | Err e \<Rightarrow> k e)"
  "(b \<Longrightarrow> yields p) \<Longrightarrow> (\<not> b \<Longrightarrow> yields q) \<Longrightarrow> yields (if b then p else q)"
  "yields p \<Longrightarrow> (\<And>x. yields (h x)) \<Longrightarrow> yields (case v of None \<Rightarrow> p | Some x \<Rightarrow> h x)"
  "(\<And>x y. yields (f x y)) \<Longrightarrow> yields (case pq of (x, y) \<Rightarrow> f x y)"
  by (simp_all split: result.split option.split prod.split)

lemma yields_collect_each [yields_intros]: "(\<And>x. yields (f x)) \<Longrightarrow> yields (collect_each f xs)"
  by (induction xs) (auto intro!: yields_intros)

lemma yields_probe: "i2c_returns (os_i2c os) \<Longrightarrow> yields (probe_i2c_addr os bus addr)"
  unfolding probe_i2c_addr_def Let_def
  by (intro yields_intros returns_device_open returns_device_read)

lemma yields_probe_buses: "i2c_returns (os_i2c os) \<Longrightarrow> yields (probe_buses os chip buses us)"
  by (induction buses arbitrary: us)
    (auto intro!: yields_intros yields_probe split: probe_result.split)

text \<open>The values of the configuration are sliced within their bounds.\<close>

lemma yields_config: "yields (config_files os paths m)"
  unfolding yields_def by (metis config_files_total)

lemma yields_collect:
  assumes "system_returns os"
  shows "yields (preflight_collect os)"
proof -
  have "yields (systemd_unit_active os u)" for u
    unfolding systemd_unit_active_def Let_def by (intro yields_intros)
  moreover have "yields (clockchip_reachable os c)" for c
    using assms unfolding clockchip_reachable_def Let_def system_returns_def
    by (auto intro!: yields_intros yields_probe_buses split: sum.split)
  moreover have "yields (endpoint_register_checks os c)" for c
    using assms unfolding endpoint_register_checks_def Let_def system_returns_def
    by (intro yields_intros returns_registers) simp
  ultimately show ?thesis
    unfolding preflight_collect_def read_board_config_def by (intro yields_intros yields_config)
qed

lemma yields_check_now:
  assumes "system_returns os"
  shows "yields (preflight_check_now os)"
proof -
  have "yields (preflight_refresh os)"
    unfolding preflight_refresh_def on_os_def by (intro yields_intros yields_collect assms)
  then show ?thesis
    unfolding preflight_check_now_def on_os_def by (intro yields_intros)
qed

lemma yields_status:
  assumes "system_returns os"
  shows "yields (collect_slow_control_status fo os preflight link)"
proof -
  have "yields (collect_clock_status os es)" for es
    using assms unfolding collect_clock_status_def system_returns_def by (intro yields_intros returns_registers) simp
  moreover have "yields (pmbus_rail fo os r)" for r
    using assms unfolding pmbus_rail_def system_returns_def by (intro yields_intros returns_pmbus) simp
  then have "yields (collect_rails fo os es)" for es
    unfolding collect_rails_def Let_def by (intro yields_intros)
  moreover have "yields (service_status os u)" for u
    unfolding service_status_def Let_def by (intro yields_intros)
  then have "yields (collect_service_statuses os)"
    unfolding collect_service_statuses_def by (intro yields_intros)
  moreover have "yields (collect_firmware_status os)"
    unfolding collect_firmware_status_def board_env_def Let_def by (intro yields_intros yields_config)
  ultimately show ?thesis unfolding collect_slow_control_status_def by (intro yields_intros)
qed

text \<open>What the handlers ask of a transport to the RPU: it returns, whatever it answers.\<close>

definition transport_returns :: "'s rpu_afe_transport \<Rightarrow> bool" where
  "transport_returns rpu \<longleftrightarrow> returns (rt_status rpu) \<and> (\<forall>c. returns (rt_submit_afe_command rpu c))"

locale returning_transport =
  fixes rpu :: "'s rpu_afe_transport"
  assumes status_returns: "returns (rt_status rpu)"
    and submit_returns: "returns (rt_submit_afe_command rpu c)"

lemma returning_transportI: "transport_returns rpu \<Longrightarrow> returning_transport rpu"
  by (simp add: transport_returns_def returning_transport_def)

interpretation fail_closed: returning_transport fail_closed_transport
  by unfold_locales (simp_all add: fail_closed_transport_def keeps_intros)

interpretation rejected: returning_transport "preflight_rejected_transport msg" for msg
  by unfold_locales (simp_all add: preflight_rejected_transport_def keeps_intros)

context returning_transport
begin

lemma yields_submit: "yields (submit rpu c)"
  unfolding submit_def by (intro yields_intros submit_returns)

lemma yields_alignment: "yields (read_alignment_from rpu boards delay bitslip)"
  by (induction boards arbitrary: delay bitslip)
    (auto intro!: yields_intros yields_submit)

lemma yields_handlers:
  "yields (handle_configure_fe cd payload rpu)"
  "yields (handle_write_afe_reg cd payload rpu)"
  "yields (handle_write_afe_vgain cd payload rpu)"
  "yields (handle_write_afe_attenuation cd payload rpu)"
  "yields (handle_write_afe_bias cd payload rpu)"
  "yields (handle_write_trim_channel cd payload rpu)"
  "yields (handle_write_trim_all_channels cd payload rpu)"
  "yields (handle_write_trim_all_afe cd payload rpu)"
  "yields (handle_write_offset_channel cd payload rpu)"
  "yields (handle_write_offset_all_channels cd payload rpu)"
  "yields (handle_write_offset_all_afe cd payload rpu)"
  "yields (handle_write_vbias_control cd payload rpu)"
  "yields (handle_read_afe_reg cd payload rpu)"
  "yields (handle_read_afe_vgain cd payload rpu)"
  "yields (handle_read_afe_bias cd payload rpu)"
  "yields (handle_read_trim_channel cd payload rpu)"
  "yields (handle_read_trim_all_channels cd payload rpu)"
  "yields (handle_read_trim_all_afe cd payload rpu)"
  "yields (handle_read_offset_channel cd payload rpu)"
  "yields (handle_read_offset_all_channels cd payload rpu)"
  "yields (handle_read_offset_all_afe cd payload rpu)"
  "yields (handle_read_vbias_control cd payload rpu)"
  "yields (handle_set_afe_reset cd payload rpu)"
  "yields (handle_do_afe_reset cd payload rpu)"
  "yields (handle_set_afe_power_state cd payload rpu)"
  "yields (handle_write_afe_function cd payload rpu)"
  "yields (handle_align_afe cd payload rpu)"
  unfolding handler_defs handle_align_afe_def read_alignment_vectors_def Let_def case_prod_unfold
  by (intro yields_intros yields_submit yields_alignment)+

lemma yields_rpu_afe: "yields (handle_rpu_afe cd m payload rpu)"
  by (cases m) (simp_all add: handle_rpu_afe_def yields_handlers yields_intros)

lemma yields_linux_status:
  assumes "system_returns os"
  shows "yields (handle_linux_status cd fo os m payload rpu preflight)"
proof -
  have "returns (on_rpu (rt_status rpu))"
    unfolding on_rpu_def by (intro returns_intros status_returns)
  then have "yields (handle_slow_control_status cd fo os payload rpu preflight)"
    unfolding handle_slow_control_status_def Let_def on_system_def
    by (intro yields_intros yields_status assms)
  then show ?thesis
    unfolding handle_linux_status_def by (cases m) (auto intro!: yields_intros)
qed

lemma yields_payload:
  assumes "system_returns os"
  shows "yields (handle_payload cd fo os m payload rpu preflight)"
  unfolding handle_payload_def on_rpu_def
  by (auto intro!: yields_intros yields_rpu_afe rejected.yields_rpu_afe yields_linux_status assms
      split: command_route.split)

end

lemma yields_response: "yields (make_response os req payload)"
proof -
  have "yields fetch_add_seq" by (simp add: yields_def fetch_add_seq_def)
  then show ?thesis
    unfolding make_response_def next_msg_id_def now_ns_def system_of_def by (intro yields_intros)
qed

section \<open>Properties\<close>

text \<open>The preflight check and the collection of the status come to an end with a value when the
  operating system returns from what it is asked.\<close>

theorem checks_return:
  assumes "system_returns os"
  shows "(\<exists>st s'. preflight_check_now os (p, k) = Some (Ok st, s'))
    \<and> (\<exists>status k'. collect_slow_control_status fo os preflight link k = Some (Ok status, k'))"
  using yields_check_now [OF assms] yields_status [OF assms] unfolding yields_def by blast

lemma healthy_returns: "system_returns healthy_os"
  by (simp add: system_returns_def i2c_returns_def healthy_os_def healthy_i2c_def healthy_mem_def ret_def)

theorem checks_return_witness:
  "\<exists>st s'. preflight_check_now healthy_os (default_linux_preflight, 7) = Some (Ok st, s')"
  using checks_return [OF healthy_returns] by blast

text \<open>A transport that also keeps the commands it was given.\<close>

definition recording :: "'s rpu_afe_transport \<Rightarrow> ('s \<times> afe_command list) rpu_afe_transport" where
  "recording rpu =
     \<lparr>rt_status = zoom fst (\<lambda>s x. (s, snd x)) (rt_status rpu),
      rt_submit_afe_command = (\<lambda>c (s, log). case rt_submit_afe_command rpu c s of
        None \<Rightarrow> None | Some (r, s') \<Rightarrow> Some (r, (s', log @ [c])))\<rparr>"

lemma recording_keeps:
  assumes "transport_returns rpu" and "wf_afe_command c" and "validate c = Ok ()"
  shows "keeps (\<lambda>(s, log). list_all (\<lambda>c. wf_afe_command c \<and> validate c = Ok ()) log)
    (rt_submit_afe_command (recording rpu) c)"
proof (rule keepsI)
  fix x :: "'a \<times> afe_command list"
  obtain s log where x: "x = (s, log)" by (cases x)
  assume "case x of (s, log) \<Rightarrow> list_all (\<lambda>c. wf_afe_command c \<and> validate c = Ok ()) log"
  moreover obtain r s' where "rt_submit_afe_command rpu c s = Some (r, s')"
    using assms(1) unfolding transport_returns_def returns_iff by fastforce
  ultimately show "wp (rt_submit_afe_command (recording rpu) c)
      (\<lambda>_ (s, log). list_all (\<lambda>c. wf_afe_command c \<and> validate c = Ok ()) log) x"
    using assms(2,3) by (simp add: x recording_def wp_def)
qed

text \<open>C17: whatever a request contains, every command that its handler submits is well formed (board
  and channel numbers in range, with the position of the chip that belongs to the board number) and
  passes validation; the handler answers.\<close>

theorem submitted_commands_well_formed:
  assumes "transport_returns rpu"
  shows "\<exists>res s' log. handle_rpu_afe cd m payload (recording rpu) (s, []) = Some (res, (s', log))
    \<and> list_all (\<lambda>c. wf_afe_command c \<and> validate c = Ok ()) log"
proof -
  have "keeps (\<lambda>(s, log). list_all (\<lambda>c. wf_afe_command c \<and> validate c = Ok ()) log)
      (handle_rpu_afe cd m payload (recording rpu))"
    by (intro handle_rpu_afe_keeps recording_keeps assms)
  from keepsD [OF this, of "(s, [])"] show ?thesis by (auto simp: wp_def split: option.splits)
qed

lemma obedient_returns: "transport_returns obedient_transport"
  by (simp add: transport_returns_def obedient_transport_def ret_def returns_iff)

theorem submitted_commands_well_formed_witness:
  "\<exists>res s' log. handle_rpu_afe sample_codec WriteAfeRegReq [1, 3, 200] (recording obedient_transport) (0, [])
       = Some (res, (s', log)) \<and> list_all (\<lambda>c. wf_afe_command c \<and> validate c = Ok ()) log"
  by (rule submitted_commands_well_formed [OF obedient_returns])

end
