(* ===== verification/ServerFacts.thy ===== *)
theory ServerFacts
  imports ServerReturns RpuLink
begin

text \<open>
  The server as a whole (\<open>handlers.rs\<close>, \<open>router.rs\<close>, \<open>v2.rs\<close>): nothing reaches the RPU while the
  preflight is not ready, every request is answered by one envelope that refers to it, and a request
  to the front end followed through the RPMsg transport down to the firmware.
\<close>

section \<open>The preflight gate\<close>

text \<open>A transport without a state that refuses every command.\<close>

definition refuses_all :: "unit rpu_afe_transport \<Rightarrow> bool" where
  "refuses_all rpu \<longleftrightarrow> (\<forall>c. \<exists>e. rt_submit_afe_command rpu c = raise e)"

lemma refuses_all_transports:
  "refuses_all (preflight_rejected_transport msg)" "refuses_all fail_closed_transport"
  by (auto simp: refuses_all_def preflight_rejected_transport_def fail_closed_transport_def)

lemma refused_request:
  assumes "refuses_all rpu" and "route_message_type m = RpuAfe"
  shows "\<exists>res. handle_rpu_afe cd m payload rpu () = Some (res, ()) \<and> refused cd res"
proof -
  obtain e where submit: "\<And>c s. rt_submit_afe_command rpu c s = Some (Err (e c), s)"
    using assms(1) unfolding refuses_all_def raise_def by metis
  then have failed: "\<not> applied_reply r" if "rt_submit_afe_command rpu c s = Some (r, s')" for c s r s'
    using that by (auto simp: applied_reply_def)
  have "keeps (\<lambda>_. True) (rt_submit_afe_command rpu c)" for c
    by (simp add: keeps_def wp_def submit)
  then have "keeps (\<lambda>_. True) (handle_rpu_afe cd m payload rpu)"
    by (rule handle_rpu_afe_keeps)
  then obtain res where run: "handle_rpu_afe cd m payload rpu () = Some (res, ())"
    by (fastforce simp: keeps_def elim: wpE)
  have "refused cd res"
  proof (cases "m = AlignAfeReq")
    case True
    from align_request_ends [OF run [unfolded True]] show ?thesis
      by (auto simp: refused_def dest: failed)
  next
    case False
    from handlers_one_command [OF assms(2) False, of cd rpu payload] run show ?thesis
      unfolding one_command_def reported_def refused_def by (metis failed)
  qed
  with run show ?thesis by blast
qed

lemma payload_rejected:
  assumes "\<not> ready_for_hardware_commands preflight" and "message_type_try_from code = Some m"
    and "route_message_type m = RpuAfe"
  shows "\<exists>res. handle_payload cd fo os code payload rpu preflight x = Some (res, x) \<and> refused cd res"
proof -
  obtain res where "handle_rpu_afe cd m payload (preflight_rejected_transport (failure_message preflight)) () = Some (res, ())"
    "refused cd res" using refused_request [OF refuses_all_transports(1) assms(3)] by blast
  with assms show ?thesis by (simp add: handle_payload_def zoom_def)
qed

text \<open>Started without a device of the RPU, the server refuses every request to the front end.\<close>

lemma payload_fail_closed:
  assumes "message_type_try_from code = Some m" and "route_message_type m = RpuAfe"
  shows "\<exists>res. handle_payload cd fo os code payload fail_closed_transport preflight ((), k) = Some (res, ((), k))
    \<and> refused cd res"
proof (cases "ready_for_hardware_commands preflight")
  case True
  obtain res where "handle_rpu_afe cd m payload fail_closed_transport () = Some (res, ())" "refused cd res"
    using refused_request [OF refuses_all_transports(2) assms(2)] by blast
  with True assms show ?thesis by (simp add: handle_payload_def on_rpu_def zoom_def)
next
  case False
  then show ?thesis by (rule payload_rejected [OF _ assms])
qed

lemma payload_accepted:
  assumes "ready_for_hardware_commands preflight" and "message_type_try_from code = Some m"
    and "route_message_type m = RpuAfe" and "handle_rpu_afe cd m payload rpu s = Some (res, s')"
  shows "handle_payload cd fo os code payload rpu preflight (s, k) = Some (res, (s', k))"
  using assms by (simp add: handle_payload_def on_rpu_def zoom_def)

lemma invalid_configuration:
  assumes "cd_configure_request cd payload = Ok req" and "configure_command req = Ok c" and "validate c \<noteq> Ok ()"
  shows "\<exists>resp. handle_rpu_afe cd ConfigureFeReq payload rpu s = Some (Ok (cd_encode cd (ConfigureResponse resp)), s)
    \<and> \<not> cfgr_success resp"
proof -
  obtain e where "validate c = Err e" using assms(3) by (cases "validate c") auto
  with assms(1,2) show ?thesis
    by (intro exI [of _ "\<lparr>cfgr_success = False, cfgr_message = afe_validation_error_to_string e\<rparr>"])
      (simp add: handle_rpu_afe_def handle_configure_fe_def submit_def failed_outcome_def bindE_def ret_def)
qed

section \<open>Envelopes\<close>

lemma make_response_ends:
  assumes "make_response os req payload x = Some (r, x')"
  obtains resp where "r = Ok resp" "env_version resp = 2" "env_dir resp = DIR_RESPONSE"
    "env_type resp = response_type (env_type req)" "env_payload resp = payload"
    "env_task_id resp = env_task_id req" "env_correl_id resp = env_msg_id req" "env_route resp = env_route req"
    "unat (env_msg_id resp) < 2 ^ 63" "st_rpu x' = st_rpu x" "st_preflight x' = st_preflight x"
proof -
  have "unat (w AND (push_bit 63 1 - 1) :: u64) < 2 ^ 63" for w
  proof -
    have "w AND (push_bit 63 1 - 1) \<le> push_bit 63 1 - 1" by (rule word_and_le1)
    then show ?thesis by (simp add: word_le_nat_alt)
  qed
  with assms show ?thesis
    by (auto simp: make_response_def next_msg_id_def now_ns_def fetch_add_seq_def system_of_def zoom_def callE_def
        bindE_def ret_def split: prod.splits intro!: that)
qed

lemma response_type_request:
  "response_type (message_type_code m) = message_type_code m + 1"
  by (cases m) (simp_all add: response_type_def message_type_code_def)

lemma envelope_leaves_preflight: "leaves st_preflight (handle_envelope cd fo os bytes rpu preflight)"
proof -
  have "leaves st_preflight (make_response os req p)" for req p
    unfolding leaves_def by (auto elim: make_response_ends)
  then show ?thesis
    unfolding handle_envelope_def on_handlers_def
    by (intro leaves_intros leaves_zoom) (simp split: prod.split)
qed

lemma handle_envelope_request:
  assumes "cd_decode_envelope cd bytes = Ok req" and "is_request req"
    and "handle_envelope cd fo os bytes rpu preflight x = Some (res, x')"
  obtains (failed) e where "res = Err e"
      "handle_payload cd fo os (env_type req) (env_payload req) rpu preflight (st_rpu x, st_system x)
        = Some (Err e, (st_rpu x', st_system x'))"
  | (handled) payload s k u resp where
      "handle_payload cd fo os (env_type req) (env_payload req) rpu preflight (st_rpu x, st_system x)
        = Some (Ok payload, (s, k))"
      "make_response os req payload u = Some (Ok resp, x')" "st_rpu u = s" "res = Ok (Some (cd_encode_envelope cd resp))"
proof -
  from assms have "bindE (on_handlers (handle_payload cd fo os (env_type req) (env_payload req) rpu preflight))
      (\<lambda>payload. bindE (make_response os req payload) (\<lambda>resp. ret (Some (cd_encode_envelope cd resp)))) x = Some (res, x')"
    by (simp add: handle_envelope_def)
  then show thesis
  proof (cases rule: bindE_SomeE)
    case (err e)
    then show thesis
      by (intro failed) (auto simp: on_handlers_def zoom_def split: option.splits)
  next
    case (ok payload u)
    have "\<exists>resp. make_response os req payload u = Some (Ok resp, x') \<and> res = Ok (Some (cd_encode_envelope cd resp))"
      using ok(2) by (rule bindE_SomeE) (auto simp: ret_def elim: make_response_ends)
    then obtain resp where "make_response os req payload u = Some (Ok resp, x')"
      "res = Ok (Some (cd_encode_envelope cd resp))" by blast
    moreover obtain s k where "handle_payload cd fo os (env_type req) (env_payload req) rpu preflight
        (st_rpu x, st_system x) = Some (Ok payload, (s, k))" "st_rpu u = s"
      using ok(1) by (auto simp: on_handlers_def zoom_def split: option.splits)
    ultimately show thesis by (intro handled)
  qed
qed

text \<open>What an envelope that answers a request is like.\<close>

definition answers_request :: "control_envelope_v2 \<Rightarrow> control_envelope_v2 \<Rightarrow> bool" where
  "answers_request resp req \<longleftrightarrow> env_version resp = 2 \<and> env_dir resp = DIR_RESPONSE
     \<and> env_type resp = response_type (env_type req) \<and> env_correl_id resp = env_msg_id req
     \<and> env_task_id resp = env_task_id req \<and> env_route resp = env_route req \<and> unat (env_msg_id resp) < 2 ^ 63"

text \<open>The payload of the answer is what the handlers made of the request's.\<close>

definition handled_by ::
    "'f pb_codec \<Rightarrow> 'f f64_ops \<Rightarrow> 'k server_os \<Rightarrow> 's rpu_afe_transport \<Rightarrow> control_envelope_v2 \<Rightarrow> u8 list \<Rightarrow> bool" where
  "handled_by cd fo os rpu req payload \<longleftrightarrow> (\<exists>preflight y z.
     handle_payload cd fo os (env_type req) (env_payload req) rpu preflight y = Some (Ok payload, z))"

lemma request_handled:
  assumes "system_returns os" and "transport_returns rpu"
    and "cd_decode_envelope cd bytes = Ok req" and "is_request req"
  obtains resp x' where "handle_envelope cd fo os bytes rpu preflight x = Some (Ok (Some (cd_encode_envelope cd resp)), x')"
    "answers_request resp req" "handled_by cd fo os rpu req (env_payload resp)"
proof -
  have "yields (handle_envelope cd fo os bytes rpu preflight)"
    using assms(3,4) unfolding handle_envelope_def on_handlers_def
    by (simp, intro yields_intros yields_response assms
      returning_transport.yields_payload [OF returning_transportI])
  then obtain a x' where run: "handle_envelope cd fo os bytes rpu preflight x = Some (Ok a, x')" by (rule yieldsE)
  from assms(3,4) run show thesis
  proof (cases rule: handle_envelope_request)
    case (handled payload s k u resp)
    from handled(2) have "answers_request resp req" "env_payload resp = payload"
      by (rule make_response_ends, auto simp: answers_request_def)+
    moreover have "handled_by cd fo os rpu req payload" using handled(1) unfolding handled_by_def by blast
    ultimately show thesis using handled(4) run by (intro that) auto
  qed simp
qed

lemma request_reply:
  assumes "system_returns os" and "transport_returns rpu"
    and "cd_decode_envelope cd bytes = Ok req" and "is_request req"
  obtains resp x' where "handle_envelope cd fo os bytes rpu preflight x = Some (Ok (Some (cd_encode_envelope cd resp)), x')"
    "answers_request resp req"
  by (rule request_handled [OF assms]) (rule that)

lemma frames_reply:
  assumes "system_returns os" and "transport_returns rpu"
    and "cd_decode_envelope cd bytes = Ok req" and "is_request req" and "length bytes \<le> ro_max_envelope_bytes options"
  obtains resp x' where "answer_frames cd fo os options rpu [client, bytes] x
      = Some (Ok (Some (client, cd_encode_envelope cd resp)), x')" "answers_request resp req"
    "handled_by cd fo os rpu req (env_payload resp)"
proof -
  have "yields (if needs_preflight cd bytes then checked_preflight os else ret preflight_ready)"
    unfolding checked_preflight_def by (intro yields_intros yields_check_now assms)
  then obtain st y where check: "(if needs_preflight cd bytes then checked_preflight os else ret preflight_ready) x
      = Some (Ok st, y)" by (rule yieldsE)
  obtain resp x' where "handle_envelope cd fo os bytes rpu st y = Some (Ok (Some (cd_encode_envelope cd resp)), x')"
    "answers_request resp req" "handled_by cd fo os rpu req (env_payload resp)"
    by (rule request_handled [OF assms(1-4)])
  with check assms(5) show thesis by (intro that) (auto simp: answer_frames_parts bindE_def ret_def)
qed

text \<open>Numbers that stand for double-precision ones in the examples.\<close>

definition sample_f64 :: "nat f64_ops" where
  "sample_f64 = \<lparr>f_zero = 0, f_of_int = nat, f_powi_2 = (\<lambda>e. 2 ^ nat e), f_mul = (\<lambda>a b. a * b),
     f_div = (\<lambda>a b. a div b), f_parse = (\<lambda>t. Err ''unsupported'')\<rparr>"

section \<open>The preflight along the loop\<close>

text \<open>\<open>stays I m\<close>: a step that returns leaves a state in which \<open>I\<close> still holds.\<close>

definition stays :: "('s \<Rightarrow> bool) \<Rightarrow> ('s, 'a, 'e) eff \<Rightarrow> bool" where
  "stays I m \<longleftrightarrow> (\<forall>s r t. I s \<longrightarrow> m s = Some (r, t) \<longrightarrow> I t)"

lemma staysD: "stays I m \<Longrightarrow> I s \<Longrightarrow> m s = Some (r, t) \<Longrightarrow> I t"
  unfolding stays_def by blast

lemma stays_bindE:
  assumes "stays I m" and "\<And>a. stays I (k a)"
  shows "stays I (bindE m k)"
  unfolding stays_def
proof (intro allI impI)
  fix s r t assume "I s" "bindE m k s = Some (r, t)"
  from this(2) show "I t"
    by (cases rule: bindE_SomeE) (use \<open>I s\<close> assms in \<open>auto dest: staysD\<close>)
qed

lemma stays_basic:
  "stays I (ret a)" "stays I m \<Longrightarrow> stays I k \<Longrightarrow> stays I (if b then m else k)"
  by (simp add: stays_def ret_def) (cases b; simp)

text \<open>The cached status of the server is one that its preflight collected.\<close>

definition preflight_sound :: "'k server_os \<Rightarrow> nat \<Rightarrow> ('s, 'k) server_state \<Rightarrow> bool" where
  "preflight_sound os ttl x \<longleftrightarrow> preflight_run os ttl (st_preflight x, st_system x)"

lemma sound_leaves: "leaves st_preflight m \<Longrightarrow> stays (preflight_sound os ttl) m"
  unfolding stays_def preflight_sound_def by (metis leavesD preflight_run.other)

lemma sound_system: "stays (preflight_sound os ttl) (system_of m)"
  unfolding system_of_def by (intro sound_leaves leaves_zoom) simp

lemma sound_checked: "stays (preflight_sound os ttl) (checked_preflight os)"
  by (auto simp: stays_def preflight_sound_def checked_preflight_def zoom_def split: option.splits
      dest: preflight_run.check)

lemma sound_answer: "stays (preflight_sound os ttl) (answer_frames cd fo os options rpu frames)"
  unfolding answer_frames_parts
  by (intro stays_bindE stays_basic sound_checked sound_leaves [OF envelope_leaves_preflight])

lemma sound_turns: "stays (preflight_sound os ttl) (serve_turns cd fo os zq options rpu socket n)"
proof -
  have "stays (preflight_sound os ttl) (serve_one cd fo os zq options rpu socket)"
    unfolding serve_one_def thenE_def
    by (auto intro!: stays_bindE stays_basic sound_system sound_answer split: option.split)
  then show ?thesis by (induction n) (auto simp: thenE_def intro!: stays_bindE stays_basic)
qed

section \<open>What changes the transport\<close>

text \<open>The requests after which the transport may be in another state.\<close>

definition reaches_rpu :: "u32 \<Rightarrow> preflight_status \<Rightarrow> bool" where
  "reaches_rpu code preflight \<longleftrightarrow> (\<exists>m. message_type_try_from code = Some m
     \<and> (m = ReadSlowControlStatusReq \<or> route_message_type m = RpuAfe \<and> ready_for_hardware_commands preflight))"

lemma linux_status_quiet:
  "m \<noteq> ReadSlowControlStatusReq \<Longrightarrow> handle_linux_status cd fo os m payload rpu preflight x = Some (res, x') \<Longrightarrow> x' = x"
  by (cases m) (auto simp: handle_linux_status_def ret_def split: result.splits)

lemma payload_quiet:
  assumes "handle_payload cd fo os code payload rpu preflight (s, k) = Some (res, (s', k'))"
    and "\<not> reaches_rpu code preflight"
  shows "s' = s"
proof (cases "message_type_try_from code")
  case None
  with assms(1) show ?thesis by (simp add: handle_payload_def ret_def)
next
  case (Some m)
  show ?thesis
  proof (cases "route_message_type m")
    case RpuAfe
    with Some assms(2) have "\<not> ready_for_hardware_commands preflight" by (simp add: reaches_rpu_def)
    from payload_rejected [OF this Some RpuAfe, of cd fo os payload rpu "(s, k)"] assms(1) show ?thesis by auto
  next
    case LinuxStatus
    with Some assms have "m \<noteq> ReadSlowControlStatusReq"
      "handle_linux_status cd fo os m payload rpu preflight (s, k) = Some (res, (s', k'))"
      by (auto simp: reaches_rpu_def handle_payload_def)
    from linux_status_quiet [OF this] show ?thesis by simp
  qed (use Some assms(1) in \<open>simp_all add: handle_payload_def ret_def\<close>)
qed

lemma envelope_quiet:
  assumes "handle_envelope cd fo os bytes rpu preflight x = Some (res, x')" and "st_rpu x' \<noteq> st_rpu x"
  shows "\<exists>req. cd_decode_envelope cd bytes = Ok req \<and> is_request req \<and> reaches_rpu (env_type req) preflight"
proof (cases "cd_decode_envelope cd bytes")
  case (Err e)
  with assms show ?thesis by (simp add: handle_envelope_def ret_def)
next
  case (Ok req)
  show ?thesis
  proof (cases "is_request req")
    case False
    with Ok assms show ?thesis by (simp add: handle_envelope_def ret_def)
  next
    case True
    have "reaches_rpu (env_type req) preflight"
      using Ok True assms(1)
    proof (cases rule: handle_envelope_request)
      case (failed e)
      with payload_quiet [OF failed(2)] assms(2) show ?thesis by blast
    next
      case (handled p s k u resp)
      from handled(2,3) have "st_rpu x' = s" by (auto elim: make_response_ends)
      with payload_quiet [OF handled(1)] assms(2) show ?thesis by blast
    qed
    with Ok True show ?thesis by blast
  qed
qed

text \<open>How an answer to a request that the RPU may see comes about.\<close>

lemma answer_changes:
  assumes "answer_frames cd fo os options rpu frames x = Some (res, x')" and "st_rpu x' \<noteq> st_rpu x"
  shows "\<exists>req st u. cd_decode_envelope cd (last frames) = Ok req \<and> is_request req \<and> reaches_rpu (env_type req) st
    \<and> (if needs_preflight cd (last frames) then checked_preflight os x = Some (Ok st, u) else u = x \<and> st = preflight_ready)
    \<and> st_preflight x' = st_preflight u"
proof -
  let ?check = "if needs_preflight cd (last frames) then checked_preflight os else ret preflight_ready"
  have run: "bindE ?check (\<lambda>st. bindE (handle_envelope cd fo os (last frames) rpu st)
      (\<lambda>response. ret (case response of None \<Rightarrow> None | Some r \<Rightarrow> Some (hd frames, r)))) x = Some (res, x')"
    using assms unfolding answer_frames_parts by (auto simp: ret_def split: if_splits)
  have same: "st_rpu u = st_rpu x" if "?check x = Some (r, u)" for r u
    using that by (auto simp: checked_preflight_def zoom_def ret_def split: if_splits option.splits)
  from run show ?thesis
  proof (cases rule: bindE_SomeE)
    case (err e)
    with same assms(2) show ?thesis by blast
  next
    case (ok st u)
    from ok(2) obtain r where env: "handle_envelope cd fo os (last frames) rpu st u = Some (r, x')"
      by (rule bindE_SomeE) (auto simp: ret_def)
    with same [OF ok(1)] assms(2) have "st_rpu x' \<noteq> st_rpu u" by simp
    from envelope_quiet [OF env this] leavesD [OF envelope_leaves_preflight env] ok(1) show ?thesis
      by (auto simp: ret_def split: if_splits)
  qed
qed

lemma checked_ends:
  assumes "checked_preflight os x = Some (Ok st, u)" and "preflight_sound os ttl x"
  shows "fresh_status os ttl (st_system x) st"
proof -
  from assms(1) obtain p k where run: "preflight_check_now os (st_preflight x, st_system x) = Some (Ok st, (p, k))"
    by (auto simp: checked_preflight_def zoom_def split: option.splits)
  note cache = preflight_run_cache [OF assms(2) [unfolded preflight_sound_def]]
  from run(1) show ?thesis
    by (cases rule: check_now_ends) (use cache in \<open>auto simp: fresh_status_def collected_in_check_def\<close>)
qed

section \<open>A request on a link\<close>

context rpu_link
begin

lemma interlocked_submit:
  assumes "idle (beats n rt) t" and "\<not> ready_for_afe (rn_interlock rt)" and "rpmsg_submit kn c t = Some (r, t')"
  shows "\<exists>n. idle (beats n rt) t'" "\<not> applied_reply r"
  using submit_interlocked [OF assms(1), of c] assms(2,3) by (auto simp: applied_reply_def)

lemma interlocked_transport:
  assumes "\<not> ready_for_afe (rn_interlock rt)"
  shows "keeps (\<lambda>t. \<exists>n. idle (beats n rt) t) (rt_submit_afe_command (rpmsg_afe_transport kn) c)"
proof (rule keepsI)
  fix t assume "\<exists>n. idle (beats n rt) t"
  then obtain n where n: "idle (beats n rt) t" ..
  from submit_interlocked [OF n, of c] assms obtain res t' m
    where "rpmsg_submit kn c t = Some (res, t')" "idle (beats m (beats n rt)) t'" by auto
  then show "wp (rt_submit_afe_command (rpmsg_afe_transport kn) c) (\<lambda>_ t. \<exists>n. idle (beats n rt) t) t"
    by (auto simp: rpmsg_afe_transport_def wp_Some)
qed

lemma interlocked_handler:
  assumes "idle rt t" and "\<not> ready_for_afe (rn_interlock rt)" and "route_message_type m = RpuAfe"
  shows "\<exists>res t' n. handle_rpu_afe cd m payload (rpmsg_afe_transport kn) t = Some (res, t')
    \<and> idle (beats n rt) t' \<and> refused cd res"
proof -
  have start: "idle (beats 0 rt) t" using assms(1) by simp
  have "keeps (\<lambda>t. \<exists>n. idle (beats n rt) t) (handle_rpu_afe cd m payload (rpmsg_afe_transport kn))"
    by (intro handle_rpu_afe_keeps interlocked_transport assms(2))
  from this exI [where P = "\<lambda>n. idle (beats n rt) t", OF start]
  have "wp (handle_rpu_afe cd m payload (rpmsg_afe_transport kn)) (\<lambda>_ t. \<exists>n. idle (beats n rt) t) t"
    by (rule keepsD)
  then obtain res t' where "handle_rpu_afe cd m payload (rpmsg_afe_transport kn) t = Some (res, t')"
    "\<exists>n. idle (beats n rt) t'" by (rule wpE)
  then obtain n where run: "handle_rpu_afe cd m payload (rpmsg_afe_transport kn) t = Some (res, t')"
    "idle (beats n rt) t'" by blast
  have failed: "\<not> applied_reply r" if "rt_submit_afe_command (rpmsg_afe_transport kn) c t = Some (r, u)" for c r u
    using interlocked_submit(2) [OF start assms(2)] that by (simp add: rpmsg_afe_transport_def)
  have "refused cd res"
  proof (cases "m = AlignAfeReq")
    case True
    from align_request_ends [OF run(1) [unfolded True]] show ?thesis
      by (auto simp: refused_def dest: failed)
  next
    case False
    from handlers_one_command [OF assms(3) False, of cd "rpmsg_afe_transport kn" payload] run(1) show ?thesis
      unfolding one_command_def reported_def refused_def by (metis failed)
  qed
  with run show ?thesis by blast
qed

lemma configure_handler:
  assumes "idle rt t" and "cd_configure_request cd payload = Ok req"
    and "configure_command req = Ok (ConfigureFrontend afes chs bias)" and "validate (ConfigureFrontend afes chs bias) = Ok ()"
    and "length afes \<le> 65535" and "length chs \<le> 65535" and "ready_for_afe (rn_interlock rt)"
    and "configure_directly hw afes chs bias (rn_hardware rt) = Some (Ok (), h')"
  shows "\<exists>resp t'. handle_rpu_afe cd ConfigureFeReq payload (rpmsg_afe_transport kn) t
      = Some (Ok (cd_encode cd (ConfigureResponse resp)), t') \<and> cfgr_success resp \<and> rn_hardware (firm (rp_kernel t')) = h'"
proof -
  obtain t' reply where sub: "rpmsg_submit kn (ConfigureFrontend afes chs bias) t = Some (Ok reply, t')"
    "ar_accepted reply" "ar_applied reply" "rn_hardware (firm (rp_kernel t')) = h'"
    using configure_runs [OF assms(1,4-8)] by blast
  then have "submit (rpmsg_afe_transport kn) (ConfigureFrontend afes chs bias) t = Some (Ok (outcome_of (Ok reply)), t')"
    "so_success (outcome_of (Ok reply))"
    using assms(4) by (simp_all add: submit_def tryE_def ret_def rpmsg_afe_transport_def applied_reply_def)
  with assms(2,3) sub(4) show ?thesis
    by (intro exI [of _ "\<lparr>cfgr_success = True, cfgr_message = reply_text (Ok reply)\<rparr>"] exI [of _ t'])
       (simp add: handle_rpu_afe_def handle_configure_fe_def bindE_def ret_def)
qed

end

end
