(* ===== verification/ClockchipTool.thy ===== *)
theory ClockchipTool
  imports Preflight
begin

text \<open>
  The maintenance program for the clock chip (\<open>daphne-sc-server/src/bin/clockchip_tool.rs\<close>): its
  arguments, the bus it opens, the programming or verification it runs, and what it prints.  A
  program ends with its lines of output or with an exit; the usage text of \<open>--help\<close> is left out.
\<close>

section \<open>How a program ends early\<close>

text \<open>\<open>std::process::exit\<close> with a code, or an error of \<open>main\<close>, of which the outermost message is kept.\<close>

datatype tool_exit = ExitProcess nat | Failed string

section \<open>Numbers and ranges\<close>

definition tool_parse_u16 :: "string \<Rightarrow> (u16, tool_exit) result" where
  "tool_parse_u16 value =
     (let trimmed = trim value;
          hex = (case strip_prefix ''0x'' trimmed of Some h \<Rightarrow> Some h | None \<Rightarrow> strip_prefix ''0X'' trimmed)
      in case hex of
           Some h \<Rightarrow> ok_or (from_str_radix 16 h) (Failed (''invalid hex integer: '' @ value))
         | None \<Rightarrow> ok_or (from_str_radix 10 trimmed) (Failed (''invalid integer: '' @ value)))"

definition tool_parse_u8 :: "string \<Rightarrow> (u8, tool_exit) result" where
  "tool_parse_u8 value =
     and_then (tool_parse_u16 value) (\<lambda>parsed.
       if unat parsed < 256 then Ok (ucast parsed) else Err (Failed (''value out of u8 range: '' @ value)))"

definition parse_range :: "string \<Rightarrow> (clock_chip_range, tool_exit) result" where
  "parse_range token0 =
     (let token = trim token0 in case split_once ''-'' token of
        Some (start, stop) \<Rightarrow>
          and_then (tool_parse_u8 start) (\<lambda>s. and_then (tool_parse_u8 stop) (\<lambda>e. Ok (range_new s e)))
      | None \<Rightarrow> and_then (tool_parse_u8 token) (\<lambda>r. Ok (range_new r r)))"

definition parse_ranges :: "string \<Rightarrow> (clock_chip_range list, tool_exit) result" where
  "parse_ranges value =
     try_map parse_range (filter (\<lambda>token. trim token \<noteq> []) (split_at (\<lambda>c. c = CHR '','') value))"

section \<open>Arguments\<close>

datatype clock_command = CmdVerify | CmdProgram

record clock_options =
  ct_bus :: "u8 option"
  ct_address :: u16
  ct_verify_after_write :: bool
  ct_reset :: bool
  ct_dry_run :: bool
  ct_ranges :: "clock_chip_range list"

record clock_args =
  ca_command :: clock_command
  ca_options :: clock_options

definition env_clockchip_bus :: "'k server_os \<Rightarrow> 'k \<Rightarrow> (u8 option, tool_exit) result" where
  "env_clockchip_bus os k = (case os_env os ''CLOCKCHIP_BUS'' k of
     None \<Rightarrow> Ok None
   | Some v \<Rightarrow>
       (let value = trim v in
        if value = [] \<or> value = ''auto'' then Ok None
        else map_ok Some (tool_parse_u8 value)))"

definition env_clockchip_addr :: "'k server_os \<Rightarrow> 'k \<Rightarrow> (u16, tool_exit) result" where
  "env_clockchip_addr os k = (case os_env os ''CLOCKCHIP_ADDR'' k of
     None \<Rightarrow> Ok CLOCKCHIP_DEFAULT_ADDR
   | Some value \<Rightarrow> tool_parse_u16 value)"

text \<open>The loop over the arguments, with the positional ones met so far.\<close>

fun clock_arg_loop ::
    "string list \<Rightarrow> string list \<Rightarrow> clock_options \<Rightarrow> (string list \<times> clock_options, tool_exit) result" where
  "clock_arg_loop [] positionals o' = Ok (positionals, o')"
| "clock_arg_loop (arg # args) positionals o' =
     (if arg = ''--bus'' then (case args of
          [] \<Rightarrow> Err (Failed ''--bus requires a value'')
        | value # rest \<Rightarrow> and_then (tool_parse_u8 value) (\<lambda>b. clock_arg_loop rest positionals (o'\<lparr>ct_bus := Some b\<rparr>)))
      else if arg = ''--chip'' \<or> arg = ''--addr'' then (case args of
          [] \<Rightarrow> Err (Failed ''--chip requires a value'')
        | value # rest \<Rightarrow> and_then (tool_parse_u16 value) (\<lambda>a. clock_arg_loop rest positionals (o'\<lparr>ct_address := a\<rparr>)))
      else if arg = ''--verify'' then clock_arg_loop args positionals (o'\<lparr>ct_verify_after_write := True\<rparr>)
      else if arg = ''--no-reset'' then clock_arg_loop args positionals (o'\<lparr>ct_reset := False\<rparr>)
      else if arg = ''--dry-run'' then clock_arg_loop args positionals (o'\<lparr>ct_dry_run := True\<rparr>)
      else if arg = ''--only'' then (case args of
          [] \<Rightarrow> Err (Failed ''--only requires a value'')
        | value # rest \<Rightarrow> and_then (parse_ranges value) (\<lambda>rs. clock_arg_loop rest positionals (o'\<lparr>ct_ranges := rs\<rparr>)))
      else if arg = ''--help'' \<or> arg = ''-h'' then Err (ExitProcess 0)
      else clock_arg_loop args (positionals @ [arg]) o')"

definition clock_command_of :: "string list \<Rightarrow> (clock_command, tool_exit) result" where
  "clock_command_of positionals = (case positionals of
     [] \<Rightarrow> Err (Failed ''missing command: verify or program'')
   | p # _ \<Rightarrow> if p = ''verify'' then Ok CmdVerify else if p = ''program'' then Ok CmdProgram
       else Err (Failed (''unknown command: '' @ p)))"

definition parse_clock_args :: "'k server_os \<Rightarrow> string list \<Rightarrow> 'k \<Rightarrow> (clock_args, tool_exit) result" where
  "parse_clock_args os args k =
     and_then (env_clockchip_bus os k) (\<lambda>bus.
     and_then (env_clockchip_addr os k) (\<lambda>address.
     and_then (clock_arg_loop args []
         \<lparr>ct_bus = bus, ct_address = address, ct_verify_after_write = False, ct_reset = True, ct_dry_run = False,
          ct_ranges = []\<rparr>) (\<lambda>(positionals, opts).
     and_then (clock_command_of positionals) (\<lambda>command.
     Ok \<lparr>ca_command = command, ca_options = opts\<rparr>))))"

section \<open>The dry run\<close>

definition command_debug :: "clock_command \<Rightarrow> string" where
  "command_debug c = (case c of CmdVerify \<Rightarrow> ''Verify'' | CmdProgram \<Rightarrow> ''Program'')"

definition write_line :: "u8 \<times> u8 \<Rightarrow> string" where
  "write_line w = ''write 0x'' @ fmt_hex_upper 2 (fst w) @ '' <- 0x'' @ fmt_hex_upper 2 (snd w)"

definition print_dry_run :: "'k server_os \<Rightarrow> clock_args \<Rightarrow> 'k \<Rightarrow> string list" where
  "print_dry_run os args k =
     (let opts = ca_options args;
          buses = (case ct_bus opts of Some bus \<Rightarrow> [bus] | None \<Rightarrow> i2c_bus_candidates (os_i2c os) None k)
      in [''dry-run: command='' @ command_debug (ca_command args) @ '' candidate_buses=[''
            @ join_with '', '' (map fmt_dec buses) @ ''] addr=0x'' @ fmt_hex_upper 2 (ct_address opts)]
         @ map (\<lambda>entry. write_line (cr_register entry, cr_value entry))
             (filter (\<lambda>entry. ct_ranges opts = []
                 \<or> (\<exists>range \<in> set (ct_ranges opts). range_contains range (cr_register entry))) CLOCKCHIP_REGISTERS)
         @ (if ca_command args = CmdProgram \<and> ct_reset opts
            then [''reset pulse register will be written after data table''] else []))"

section \<open>The program\<close>

definition tool_open_device :: "'k server_os \<Rightarrow> clock_args \<Rightarrow> ('k, linux_i2c_device, tool_exit) eff" where
  "tool_open_device os args =
     (let opts = ca_options args in
      map_errE (\<lambda>err. Failed (linux_i2c_error_to_string err))
        (case ct_bus opts of
           Some bus \<Rightarrow> device_open (os_i2c os) bus (ct_address opts)
         | None \<Rightarrow> open_on_first_responsive_bus (os_i2c os) None (ct_address opts) CLOCKCHIP_SANITY_REGISTER))"

definition clock_error :: "linux_i2c_error clock_chip_error \<Rightarrow> tool_exit" where
  "clock_error err = Failed (clock_chip_error_to_string linux_i2c_error_to_string err)"

definition program_options :: "clock_options \<Rightarrow> clock_chip_options" where
  "program_options opts =
     \<lparr>co_verify = ct_verify_after_write opts, co_reset = ct_reset opts, co_ranges = ct_ranges opts\<rparr>"

definition device_label :: "linux_i2c_device \<Rightarrow> string" where
  "device_label d = ''bus='' @ fmt_dec (ld_bus d) @ '' addr=0x'' @ fmt_hex_upper 2 (ld_address d)"

definition run_clock_command :: "'k server_os \<Rightarrow> clock_args \<Rightarrow> linux_i2c_device \<Rightarrow> ('k, string list, tool_exit) eff" where
  "run_clock_command os args d =
     (let bus = linux_i2c_bus (os_i2c os) d; opts = ca_options args in
      case ca_command args of
        CmdVerify \<Rightarrow>
          bindE (map_errE clock_error (verify_clock_chip bus (ct_ranges opts))) (\<lambda>report.
          ret [''clockchip verify ok: '' @ device_label d @ '' verified='' @ fmt_nat (cp_verified report)])
      | CmdProgram \<Rightarrow>
          bindE (map_errE clock_error (program_clock_chip bus (program_options opts))) (\<lambda>report.
          ret [''clockchip program ok: '' @ device_label d @ '' written='' @ fmt_nat (cp_written report)
            @ '' verified='' @ fmt_nat (cp_verified report) @ '' reset_pulses='' @ fmt_nat (cp_reset_pulses report)]))"

text \<open>The device is closed on every way out.\<close>

definition clockchip_tool :: "'k server_os \<Rightarrow> string list \<Rightarrow> ('k, string list, tool_exit) eff" where
  "clockchip_tool os argv =
     bindE (bindE (gets (parse_clock_args os argv)) liftR) (\<lambda>args.
     if ct_dry_run (ca_options args) then gets (print_dry_run os args)
     else bindE (tool_open_device os args) (\<lambda>d.
       tryE (run_clock_command os args d) (\<lambda>res.
         thenE (modify (kn_close (os_i2c os) (ld_file d))) (liftR res))))"

end
