(* ===== verification/ClockchipToolFacts.thy ===== *)
theory ClockchipToolFacts
  imports ClockchipTool PreflightFacts
begin

text \<open>
  Facts about the clock-chip program: the arguments that describe a set of options are read back as
  these options, and the dry run announces the writes that programming makes.
\<close>

section \<open>Digits\<close>

lemma hex_digits: "list_all (\<lambda>c. digit_value 16 c \<noteq> None) (fmt_hex_upper n w)"
proof -
  have "list_all (\<lambda>c. digit_value 16 c \<noteq> None) (radix_digits 16 True (unat w))"
    by (rule parse_digits_chars [OF parse_radix_digits [of 16 "unat w" "unat w"]]) simp_all
  moreover have "digit_value 16 (CHR ''0'') \<noteq> None" by code_simp
  ultimately show ?thesis by (auto simp: fmt_hex_upper_def pad_zeros_def list_all_iff)
qed

lemma hex_no_separator: "CHR ''-'' \<notin> set (fmt_hex_upper n w)" "CHR '','' \<notin> set (fmt_hex_upper n w)"
proof -
  have "digit_value 16 (CHR ''-'') = None" "digit_value 16 (CHR '','') = None" by code_simp+
  then show "CHR ''-'' \<notin> set (fmt_hex_upper n w)" "CHR '','' \<notin> set (fmt_hex_upper n w)"
    using hex_digits [of n w] by (auto simp: list_all_iff)
qed

lemma fmt_up: "fmt_hex_upper n (ucast (b :: u8) :: u16) = fmt_hex_upper n b" "fmt_dec (ucast b :: u16) = fmt_dec b"
  by (simp_all add: fmt_hex_upper_def fmt_dec_def unat_ucast_up)

lemma tool_parse_hex: "tool_parse_u16 (''0x'' @ fmt_hex_upper n w) = Ok w"
  using trim_graphic [of "''0x'' @ fmt_hex_upper n w"]
  by (simp add: tool_parse_u16_def strip_prefix_def graphic_def)

lemmas tool_parse_hex_chars = tool_parse_hex [simplified]

lemma tool_parse_dec: "tool_parse_u16 (fmt_dec w) = Ok w"
  using trim_graphic [of "fmt_dec w"] by (simp add: tool_parse_u16_def fmt_dec_no_hex)

lemma tool_parse_u8_text:
  "tool_parse_u8 (''0x'' @ fmt_hex_upper n (b :: u8)) = Ok b" "tool_parse_u8 (fmt_dec b) = Ok b"
proof -
  have "unat (ucast b :: u16) < 256" "ucast (ucast b :: u16) = b"
    using unsigned_less [of b, where 'a = nat] by (simp_all add: unat_ucast_up ucast_up_ucast is_up)
  then show "tool_parse_u8 (''0x'' @ fmt_hex_upper n b) = Ok b" "tool_parse_u8 (fmt_dec b) = Ok b"
    using tool_parse_hex [of n "ucast b :: u16"] tool_parse_dec [of "ucast b :: u16"]
    unfolding tool_parse_u8_def fmt_up by simp_all
qed

section \<open>Ranges\<close>

lemma split_once_char: "c \<notin> set a \<Longrightarrow> split_once [c] (a @ c # b) = Some (a, b)"
  by (induction a) (auto simp: strip_prefix_def)

lemma split_at_part:
  "\<not> (\<exists>c \<in> set a. p c) \<Longrightarrow> split_at p a = [a]"
  "\<not> (\<exists>c \<in> set a. p c) \<Longrightarrow> p c \<Longrightarrow> split_at p (a @ c # b) = a # split_at p b"
  by (induction a) auto

lemma split_at_join:
  assumes "\<forall>part \<in> set parts. c \<notin> set part" and "parts \<noteq> []"
  shows "split_at (\<lambda>x. x = c) (join_with [c] parts) = parts"
  using assms
proof (induction parts)
  case (Cons a parts)
  show ?case
  proof (cases parts)
    case Nil
    with Cons.prems show ?thesis by (simp add: join_with_def split_at_part)
  next
    case (Cons b rest)
    then have "join_with [c] (a # parts) = a @ c # join_with [c] parts" by (simp add: join_with_def)
    with Cons.IH Cons.prems Cons show ?thesis by (simp add: split_at_part)
  qed
qed simp

text \<open>A range as it is written on the command line.\<close>

definition range_text :: "clock_chip_range \<Rightarrow> string" where
  "range_text g = ''0x'' @ fmt_hex_upper 2 (rg_start g) @ ''-0x'' @ fmt_hex_upper 2 (rg_end g)"

lemma range_text_graphic: "trim (range_text g) = range_text g" "range_text g \<noteq> []" "CHR '','' \<notin> set (range_text g)"
proof -
  have "list_all graphic (range_text g)" by (simp add: range_text_def graphic_def)
  then show "trim (range_text g) = range_text g" by (rule trim_graphic)
qed (use hex_no_separator(2) in \<open>auto simp: range_text_def\<close>)

lemma parse_range_text:
  assumes "rg_start g \<le> rg_end g"
  shows "parse_range (range_text g) = Ok g"
proof -
  have "CHR ''-'' \<notin> set (''0x'' @ fmt_hex_upper 2 (rg_start g))" using hex_no_separator(1) by auto
  from split_once_char [OF this, of "''0x'' @ fmt_hex_upper 2 (rg_end g)"]
  have "split_once ''-'' (range_text g) = Some (''0x'' @ fmt_hex_upper 2 (rg_start g), ''0x'' @ fmt_hex_upper 2 (rg_end g))"
    by (simp add: range_text_def)
  then show ?thesis
    using assms unfolding parse_range_def range_text_graphic Let_def
    by (simp add: tool_parse_u8_text range_new_def del: append_Cons)
qed

lemma parse_ranges_text:
  assumes "\<forall>g \<in> set gs. rg_start g \<le> rg_end g"
  shows "parse_ranges (join_with '','' (map range_text gs)) = Ok gs"
proof (cases "gs = []")
  case True
  have "trim [] = []" by code_simp
  with True show ?thesis by (simp add: parse_ranges_def join_with_def)
next
  case False
  then have "split_at (\<lambda>c. c = CHR '','') (join_with '','' (map range_text gs)) = map range_text gs"
    by (intro split_at_join) (auto simp: range_text_graphic)
  moreover have "filter (\<lambda>token. trim token \<noteq> []) (map range_text gs) = map range_text gs"
    by (simp add: filter_id_conv range_text_graphic)
  moreover have "try_map parse_range (map range_text gs) = Ok gs"
    using assms by (induction gs) (auto simp: parse_range_text)
  ultimately show ?thesis by (simp add: parse_ranges_def)
qed

section \<open>Properties\<close>

text \<open>The arguments that describe a set of options.\<close>

definition clock_flags :: "clock_options \<Rightarrow> string list" where
  "clock_flags o' =
     (case ct_bus o' of Some b \<Rightarrow> [''--bus'', fmt_dec b] | None \<Rightarrow> [])
     @ [''--chip'', ''0x'' @ fmt_hex_upper 2 (ct_address o')]
     @ (if ct_verify_after_write o' then [''--verify''] else [])
     @ (if ct_reset o' then [] else [''--no-reset''])
     @ (if ct_dry_run o' then [''--dry-run''] else [])
     @ [''--only'', join_with '','' (map range_text (ct_ranges o'))]"

definition command_name :: "clock_command \<Rightarrow> string" where
  "command_name c = (case c of CmdVerify \<Rightarrow> ''verify'' | CmdProgram \<Rightarrow> ''program'')"

text \<open>A command and options written on the command line are read back as they are, whatever bus,
  address, flags and ranges, when the environment does not set a bus.\<close>

theorem clock_args_roundtrip:
  assumes "\<forall>g \<in> set (ct_ranges opts). rg_start g \<le> rg_end g" and "os_env os ''CLOCKCHIP_BUS'' k = None"
    and "os_env os ''CLOCKCHIP_ADDR'' k = None"
  shows "parse_clock_args os (command_name c # clock_flags opts) k = Ok \<lparr>ca_command = c, ca_options = opts\<rparr>"
proof -
  have "clock_arg_loop (clock_flags opts) [command_name c]
      \<lparr>ct_bus = None, ct_address = a, ct_verify_after_write = False, ct_reset = True, ct_dry_run = False, ct_ranges = []\<rparr>
    = Ok ([command_name c], opts)" for a
    by (cases opts; cases "ct_bus opts")
      (use assms(1) in \<open>auto simp: clock_flags_def tool_parse_hex_chars tool_parse_u8_text parse_ranges_text\<close>)
  then show ?thesis
    using assms(2,3)
    by (cases c) (simp_all add: parse_clock_args_def env_clockchip_bus_def env_clockchip_addr_def command_name_def clock_command_of_def)
qed

text \<open>The board of the examples: no environment, no files, the chip of the I2C examples.\<close>

definition tool_os :: "sim_chip server_os" where
  "tool_os =
     \<lparr>os_env = (\<lambda>key k. None), os_read_file = (\<lambda>path k. Err ''No such file or directory (os error 2)''),
      os_exists = (\<lambda>path k. False), os_read_dir = (\<lambda>path k. Err ''No such file or directory (os error 2)''),
      os_is_active = (\<lambda>unit k. (Err ''No such file or directory (os error 2)'', k)), os_now = (\<lambda>k. (0, k)),
      os_since_epoch = (\<lambda>k. (None, k)), os_i2c = sim_kernel,
      os_mem = \<lparr>mm_open = (\<lambda>path. raise ''Permission denied (os error 13)''), mm_close = (\<lambda>fd k. k), mm_page_size = (\<lambda>k. 4096),
        mm_mmap = (\<lambda>fd len offset k. (None, k)), mm_load = (\<lambda>p k. (0, k)), mm_munmap = (\<lambda>p len k. (0, k)),
        mm_last_error = (\<lambda>k. [])\<rparr>\<rparr>"

definition tool_options :: clock_options where
  "tool_options = \<lparr>ct_bus = Some 2, ct_address = 0x70, ct_verify_after_write = False, ct_reset = True, ct_dry_run = False,
     ct_ranges = [\<lparr>rg_start = 0x06, rg_end = 0x1C\<rparr>]\<rparr>"

theorem clock_args_roundtrip_witness:
  "parse_clock_args tool_os (command_name CmdProgram # clock_flags tool_options) idle_chip
     = Ok \<lparr>ca_command = CmdProgram, ca_options = tool_options\<rparr>"
  by (rule clock_args_roundtrip) (simp_all add: tool_options_def tool_os_def)

text \<open>C39: the dry run announces what programming does: it lists the writes of the data registers that a
  successful run makes, in their order, and the reset sequence exactly when the run makes it.\<close>

theorem dry_run_announces:
  assumes "chip_file_laws (os_i2c os) (ld_file d) mem ptr log" and "ca_command args = CmdProgram"
    and "run_clock_command os args d k = Some (Ok out, k')"
  shows "\<exists>writes resets announced. log k' = log k @ writes @ resets
    \<and> tl (print_dry_run os args k0) = map write_line writes @ announced
    \<and> (if ct_reset (ca_options args)
       then resets = map (Pair CLOCKCHIP_RESET_REGISTER) CLOCKCHIP_RESET_SEQUENCE \<and> length announced = 1
       else resets = [] \<and> announced = [])"
proof -
  let ?bus = "linux_i2c_bus (os_i2c os) d" and ?opts = "program_options (ca_options args)"
  obtain res u where run: "program_clock_chip ?bus ?opts k = Some (res, u)" and outcome: "case res of
     Ok rep \<Rightarrow> rep = full_report ?opts \<and> log u = log k @ planned_writes ?opts
       \<and> (\<forall>e \<in> set CLOCKCHIP_REGISTERS. includes_register ?opts (cr_register e) \<longrightarrow> mem u (cr_register e) = cr_value e)
   | Err err \<Rightarrow> (\<exists>r p src. err = BusError r p src) \<and> prefix (log k) (log u)
       \<and> prefix (log u) (log k @ planned_writes ?opts)"
    using linux_chip.chip_program [OF linux_chip.intro [OF assms(1)], of ?opts k] by blast
  from assms(2,3) run have "u = k'" "is_ok res"
    by (auto simp: run_clock_command_def Let_def bindE_def map_errE_def ret_def is_ok_def map_err_def split: result.splits)
  with outcome have log: "log k' = log k @ planned_writes ?opts" by (auto simp: is_ok_def split: result.splits)
  have included: "includes_register ?opts r \<longleftrightarrow> ct_ranges (ca_options args) = []
      \<or> (\<exists>g \<in> set (ct_ranges (ca_options args)). range_contains g r)" for r
    by (simp add: includes_register_def program_options_def list_ex_iff)
  have "tl (print_dry_run os args k0) = map write_line (map entry_write (selected ?opts CLOCKCHIP_REGISTERS))
      @ (if ct_reset (ca_options args) then [''reset pulse register will be written after data table''] else [])"
    using assms(2) by (simp add: print_dry_run_def Let_def selected_def included entry_write_def comp_def)
  with log show ?thesis
    by (intro exI [of _ "map entry_write (selected ?opts CLOCKCHIP_REGISTERS)"]
        exI [of _ "if ct_reset (ca_options args) then map (Pair CLOCKCHIP_RESET_REGISTER) CLOCKCHIP_RESET_SEQUENCE else []"]
        exI [of _ "if ct_reset (ca_options args) then [''reset pulse register will be written after data table''] else []"])
      (simp add: planned_writes_def program_options_def)
qed

theorem dry_run_announces_witness:
  "\<exists>out k' writes. run_clock_command tool_os \<lparr>ca_command = CmdProgram, ca_options = tool_options\<rparr> idle_device
       (idle_chip\<lparr>sc_faults := []\<rparr>) = Some (Ok out, k')
     \<and> prefix writes (sc_log k') \<and> prefix (map write_line writes)
       (tl (print_dry_run tool_os \<lparr>ca_command = CmdProgram, ca_options = tool_options\<rparr> idle_chip))"
proof -
  let ?args = "\<lparr>ca_command = CmdProgram, ca_options = tool_options\<rparr>" and ?k = "idle_chip\<lparr>sc_faults := []\<rparr>"
  have "map_option (is_ok \<circ> fst) (program_clock_chip (linux_i2c_bus sim_kernel idle_device)
      (program_options tool_options) ?k) = Some True" by code_simp
  from evaluates_ok [OF this] obtain rep k' where
    "program_clock_chip (linux_i2c_bus sim_kernel idle_device) (program_options tool_options) ?k = Some (Ok rep, k')"
    by blast
  then obtain out where run: "run_clock_command tool_os ?args idle_device ?k = Some (Ok out, k')"
    by (simp add: run_clock_command_def Let_def bindE_def map_errE_def ret_def tool_os_def)
  have laws: "chip_file_laws (os_i2c tool_os) (ld_file idle_device) sc_registers sc_pointer sc_log"
    using sim_chip_file_laws by (simp add: tool_os_def)
  have "sc_log ?k = []" by (simp add: idle_chip_def)
  with dry_run_announces [OF laws _ run, of idle_chip] obtain writes resets announced where
    "sc_log k' = writes @ resets" "tl (print_dry_run tool_os ?args idle_chip) = map write_line writes @ announced" by auto
  then have "prefix writes (sc_log k') \<and> prefix (map write_line writes) (tl (print_dry_run tool_os ?args idle_chip))" by simp
  with run show ?thesis by blast
qed

end
