(* ===== verification/MmioSmoke.thy ===== *)
theory MmioSmoke
  imports ClockchipTool AfeHw
begin

text \<open>
  The smoke test of the registers (\<open>daphne-sc-server/src/bin/mmio_smoke.rs\<close>): a program that reads
  the registers of the FPGA through \<open>/dev/mem\<close> and prints them.  The usage text is left out.
\<close>

definition ENDPOINT_CLOCK_CONTROL_OFFSET :: u32 where "ENDPOINT_CLOCK_CONTROL_OFFSET = 0x04000000"
definition ENDPOINT_CLOCK_STATUS_OFFSET :: u32 where "ENDPOINT_CLOCK_STATUS_OFFSET = 0x04000004"
definition ENDPOINT_STATUS_OFFSET :: u32 where "ENDPOINT_STATUS_OFFSET = 0x0400000C"

section \<open>Arguments\<close>

record smoke_args =
  sa_base :: u64
  sa_include_spy :: bool

definition parse_u64 :: "string \<Rightarrow> (u64, tool_exit) result" where
  "parse_u64 value =
     (let hex = (case strip_prefix ''0x'' value of Some h \<Rightarrow> Some h | None \<Rightarrow> strip_prefix ''0X'' value)
      in case hex of
           Some h \<Rightarrow> ok_or (from_str_radix 16 h) (Failed (''invalid hex value: '' @ value))
         | None \<Rightarrow> ok_or (from_str_radix 10 value) (Failed (''invalid integer value: '' @ value)))"

fun smoke_arg_loop :: "string list \<Rightarrow> smoke_args \<Rightarrow> (smoke_args, tool_exit) result" where
  "smoke_arg_loop [] parsed = Ok parsed"
| "smoke_arg_loop (arg # args) parsed =
     (if arg = ''--base'' then (case args of
          [] \<Rightarrow> Err (Failed ''--base requires a value'')
        | value # rest \<Rightarrow> and_then (parse_u64 value) (\<lambda>b. smoke_arg_loop rest (parsed\<lparr>sa_base := b\<rparr>)))
      else if arg = ''--skip-spy'' then smoke_arg_loop args (parsed\<lparr>sa_include_spy := False\<rparr>)
      else if arg = ''--help'' \<or> arg = ''-h'' then Err (ExitProcess 0)
      else Err (Failed (''unknown argument: '' @ arg)))"

definition parse_smoke_args :: "string list \<Rightarrow> (smoke_args, tool_exit) result" where
  "parse_smoke_args args = smoke_arg_loop args \<lparr>sa_base = FPGA_REGISTER_BASE, sa_include_spy = True\<rparr>"

section \<open>Reading\<close>

text \<open>The open device and the page size.\<close>

record phys_mem =
  pm_file :: nat
  pm_page_size :: u64

definition phys_mem_open :: "'k mem_kernel \<Rightarrow> ('k, phys_mem, tool_exit) eff" where
  "phys_mem_open kn =
     bindE (map_errE (\<lambda>err. Failed (''opening '' @ DEV_MEM @ ''; run as root on the DAPHNE board'')) (mm_open kn DEV_MEM)) (\<lambda>fd.
     tryE (page_size kn) (\<lambda>res. case res of
       Ok psize \<Rightarrow> ret \<lparr>pm_file = fd, pm_page_size = psize\<rparr>
     | Err err \<Rightarrow> thenE (modify (mm_close kn fd)) (raise (Failed err))))"

definition phys_mem_read_u32 :: "'k mem_kernel \<Rightarrow> phys_mem \<Rightarrow> u64 \<Rightarrow> ('k, u32, tool_exit) eff" where
  "phys_mem_read_u32 kn mem address = map_errE Failed (read_page kn (pm_file mem) (pm_page_size mem) address)"

definition pad_right :: "nat \<Rightarrow> string \<Rightarrow> string" where
  "pad_right n s = s @ replicate (n - length s) (CHR '' '')"

definition register_line :: "string \<Rightarrow> u64 \<Rightarrow> u32 \<Rightarrow> string" where
  "register_line name physical value =
     pad_right 28 name @ '' phys=0x'' @ fmt_hex_upper 8 physical @ '' value=0x'' @ fmt_hex_upper 8 value"

text \<open>The line that is printed; the sum of base and offset must not overflow.\<close>

definition read_named :: "'k mem_kernel \<Rightarrow> phys_mem \<Rightarrow> u64 \<Rightarrow> string \<Rightarrow> u32 \<Rightarrow> ('k, string, tool_exit) eff" where
  "read_named kn mem base name offset =
     (if unat base + unat offset < 2 ^ 64 then
        (let physical = base + ucast offset in
         bindE (phys_mem_read_u32 kn mem physical) (\<lambda>value. ret (register_line name physical value)))
      else panic)"

text \<open>Registers in turn; the offset of a front end that does not exist is a panic.\<close>

fun read_registers ::
    "'k mem_kernel \<Rightarrow> phys_mem \<Rightarrow> u64 \<Rightarrow> (string \<times> u32 option) list \<Rightarrow> ('k, string list, tool_exit) eff" where
  "read_registers kn mem base [] = ret []"
| "read_registers kn mem base ((name, offset) # regs) = (case offset of
     None \<Rightarrow> panic
   | Some off \<Rightarrow>
       bindE (read_named kn mem base name off) (\<lambda>line.
       bindE (read_registers kn mem base regs) (\<lambda>rest. ret (line # rest))))"

definition afe_indices :: "u8 list" where
  "afe_indices = map word_of_nat [0..<unat AFE_COUNT]"

definition common_registers :: "(string \<times> u32 option) list" where
  "common_registers =
     [(''afe.global_control'', Some AFE_GLOBAL_CONTROL_OFFSET)]
     @ map (\<lambda>i. (''afe.control.'' @ fmt_dec i, afe_control_offset i)) afe_indices
     @ [(''dac.gain_bias.control'', Some DAC_GAIN_BIAS_CONTROL_OFFSET),
        (''dac.gain_bias.u50'', Some DAC_GAIN_BIAS_U50_OFFSET),
        (''dac.gain_bias.u53'', Some DAC_GAIN_BIAS_U53_OFFSET),
        (''dac.gain_bias.u5'', Some DAC_GAIN_BIAS_U5_OFFSET),
        (''bias.enable'', Some BIAS_ENABLE_OFFSET),
        (''frontend.control'', Some FRONTEND_CONTROL_OFFSET),
        (''frontend.status'', Some FRONTEND_STATUS_OFFSET),
        (''frontend.trigger'', Some FRONTEND_TRIGGER_OFFSET)]
     @ concat (map (\<lambda>i. [(''frontend.delay.'' @ fmt_dec i, frontend_delay_offset i),
                         (''frontend.bitslip.'' @ fmt_dec i, frontend_bitslip_offset i)]) afe_indices)
     @ [(''endpoint.clock_control'', Some ENDPOINT_CLOCK_CONTROL_OFFSET),
        (''endpoint.clock_status'', Some ENDPOINT_CLOCK_STATUS_OFFSET),
        (''endpoint.status'', Some ENDPOINT_STATUS_OFFSET)]"

definition spy_registers :: "(string \<times> u32 option) list" where
  "spy_registers =
     map (\<lambda>i. (''spy.fclk.'' @ fmt_dec i @ ''.'' @ fmt_dec CHANNELS_PER_AFE, spy_buffer_frame_clock_offset i 0)) afe_indices"

definition read_common_registers :: "'k mem_kernel \<Rightarrow> phys_mem \<Rightarrow> u64 \<Rightarrow> ('k, string list, tool_exit) eff" where
  "read_common_registers kn mem base = read_registers kn mem base common_registers"

definition read_spy_registers :: "'k mem_kernel \<Rightarrow> phys_mem \<Rightarrow> u64 \<Rightarrow> ('k, string list, tool_exit) eff" where
  "read_spy_registers kn mem base = read_registers kn mem base spy_registers"

section \<open>The program\<close>

definition smoke_lines :: "'k mem_kernel \<Rightarrow> smoke_args \<Rightarrow> phys_mem \<Rightarrow> ('k, string list, tool_exit) eff" where
  "smoke_lines kn args mem =
     bindE (read_common_registers kn mem (sa_base args)) (\<lambda>common.
     bindE (if sa_include_spy args then read_spy_registers kn mem (sa_base args)
            else ret [''spy frame-clock reads skipped'']) (\<lambda>spy.
     ret ((''mmio_smoke: read-only base=0x'' @ fmt_hex_upper 8 (sa_base args) @ '' dev='' @ DEV_MEM) # common @ spy)))"

text \<open>The device is closed on every way out.\<close>

definition mmio_smoke :: "'k mem_kernel \<Rightarrow> string list \<Rightarrow> ('k, string list, tool_exit) eff" where
  "mmio_smoke kn argv =
     bindE (liftR (parse_smoke_args argv)) (\<lambda>args.
     bindE (phys_mem_open kn) (\<lambda>mem.
     tryE (smoke_lines kn args mem) (\<lambda>res. thenE (modify (mm_close kn (pm_file mem))) (liftR res))))"

section \<open>What is printed\<close>

lemma aligned_sum:
  fixes a b :: u64
  assumes "take_bit 2 a = 0" and "take_bit 2 b = 0"
  shows "take_bit 2 (a + b) = 0"
proof -
  have iff: "take_bit 2 w = 0 \<longleftrightarrow> unat w mod 4 = 0" for w :: u64
    by (simp add: word_unat_eq_iff unat_mod take_bit_eq_mod)
  have "unat (a + b) mod 4 = (unat a + unat b) mod 4"
    by (simp add: unat_word_ariths mod_mod_cancel)
  with assms show ?thesis unfolding iff by (metis add_0 mod_0 mod_add_eq)
qed

lemma read_registers_lines:
  assumes mem: "maps_memory kn n view phys" and n: "2 \<le> n" "n < 64" and "pm_page_size m = 2 ^ n"
    and "read_registers kn m base regs k = Some (Ok out, k')" "take_bit 2 base = 0"
    and "list_all (\<lambda>(name, off). \<exists>x. off = Some x \<and> take_bit 2 x = 0) regs"
  shows "out = map (\<lambda>(name, off). register_line name (base + ucast (the off)) (phys_word phys (base + ucast (the off)))) regs"
  using assms(5,7)
proof (induction regs arbitrary: k out)
  case (Cons reg regs)
  obtain name x where reg: "reg = (name, Some x)" "take_bit 2 x = 0" using Cons.prems(2) by (cases reg) auto
  from Cons.prems(1) obtain l ls k1 where l: "read_named kn m base name x k = Some (Ok l, k1)"
    and rest: "read_registers kn m base regs k1 = Some (Ok ls, k')" and out: "out = l # ls"
    by (auto simp: reg ret_def elim!: bindE_SomeE)
  from l obtain v k2 where v: "read_page kn (pm_file m) (2 ^ n) (base + ucast x) k = Some (Ok v, k2)"
    "l = register_line name (base + ucast x) v"
    by (auto simp: read_named_def Let_def ret_def panic_def phys_mem_read_u32_def assms(4) map_errE_def elim!: bindE_SomeE
        split: if_splits option.splits)
  have "take_bit 2 (base + ucast x) = 0"
  proof -
    have "take_bit 2 (ucast x :: u64) = 0"
      using arg_cong [OF reg(2), of "unsigned :: u32 \<Rightarrow> u64"] by (simp add: unsigned_take_bit_eq)
    with assms(6) show ?thesis by (rule aligned_sum)
  qed
  from read_page_word [OF mem n this v(1)] v(2) Cons.IH [OF rest] Cons.prems(2) show ?case
    by (simp add: out reg)
qed (simp add: ret_def)

lemma register_offsets_aligned:
  "list_all (\<lambda>(name, off). \<exists>x. off = Some x \<and> take_bit 2 x = 0) common_registers"
  "list_all (\<lambda>(name, off). \<exists>x. off = Some x \<and> take_bit 2 x = 0) spy_registers"
proof -
  have "list_all (\<lambda>(name, off). case off of None \<Rightarrow> False | Some x \<Rightarrow> take_bit 2 x = 0) common_registers"
    "list_all (\<lambda>(name, off). case off of None \<Rightarrow> False | Some x \<Rightarrow> take_bit 2 x = 0) spy_registers" by code_simp+
  then show "list_all (\<lambda>(name, off). \<exists>x. off = Some x \<and> take_bit 2 x = 0) common_registers"
    "list_all (\<lambda>(name, off). \<exists>x. off = Some x \<and> take_bit 2 x = 0) spy_registers"
    by (auto simp: list_all_iff split: option.splits)
qed

section \<open>Properties\<close>

text \<open>The lines that describe the words of the physical memory at the offsets of some registers.\<close>

definition memory_lines :: "(u64 \<Rightarrow> u8) \<Rightarrow> u64 \<Rightarrow> (string \<times> u32 option) list \<Rightarrow> string list" where
  "memory_lines phys base regs =
     map (\<lambda>(name, off). register_line name (base + ucast (the off)) (phys_word phys (base + ucast (the off)))) regs"

text \<open>C40: with the pages of the machine mapped as documented, a run of the smoke test that ends well on a
  word-aligned base prints its title and, for every register in the order of the map, the word that
  the physical memory holds at the register's address.\<close>

theorem mmio_smoke_prints:
  assumes "maps_memory kn n view phys" and "2 \<le> n" and "n < 64" and "mm_page_size kn = (\<lambda>_. 2 ^ n)"
    and "parse_smoke_args argv = Ok args" and "take_bit 2 (sa_base args) = 0"
    and "mmio_smoke kn argv k = Some (Ok out, k')"
  shows "out = (''mmio_smoke: read-only base=0x'' @ fmt_hex_upper 8 (sa_base args) @ '' dev='' @ DEV_MEM)
    # memory_lines phys (sa_base args) common_registers
    @ (if sa_include_spy args then memory_lines phys (sa_base args) spy_registers else [''spy frame-clock reads skipped''])"
proof -
  from assms(5,7) obtain m k1 k2 where open_mem: "phys_mem_open kn k = Some (Ok m, k1)"
    and lines: "smoke_lines kn args m k1 = Some (Ok out, k2)"
    by (auto simp: mmio_smoke_def liftR_def thenE_def modify_def elim!: bindE_SomeE tryE_SomeE)
  from open_mem assms(4) have psize: "pm_page_size m = 2 ^ n"
    by (auto simp: phys_mem_open_def page_size_def Let_def ret_def raise_def thenE_def modify_def elim!: bindE_SomeE tryE_SomeE
        split: if_splits result.splits)
  from lines [unfolded smoke_lines_def read_common_registers_def read_spy_registers_def] obtain common spy k3 where c: "read_registers kn m (sa_base args) common_registers k1 = Some (Ok common, k3)"
    and s: "(if sa_include_spy args then read_registers kn m (sa_base args) spy_registers
      else ret [''spy frame-clock reads skipped'']) k3 = Some (Ok spy, k2)"
    and out: "out = (''mmio_smoke: read-only base=0x'' @ fmt_hex_upper 8 (sa_base args) @ '' dev='' @ DEV_MEM) # common @ spy"
    by (elim bindE_SomeE) (simp_all add: ret_def)
  note words = read_registers_lines [OF assms(1-3) psize _ assms(6)]
  have "common = memory_lines phys (sa_base args) common_registers"
    using words [OF c register_offsets_aligned(1)] by (simp add: memory_lines_def)
  moreover have "spy = (if sa_include_spy args then memory_lines phys (sa_base args) spy_registers
      else [''spy frame-clock reads skipped''])"
    using words [OF _ register_offsets_aligned(2)] s by (simp add: memory_lines_def ret_def split: if_splits)
  ultimately show ?thesis by (simp add: out)
qed

lemma sim_read_page:
  assumes "sm_open k"
  shows "\<exists>v k'. read_page (sim_mem_kernel phys) fd 4096 a k = Some (Ok v, k') \<and> sm_open k'"
proof -
  have "take_bit 12 (page_base_of 4096 a) = 0" using page_base_aligned [of 12 a] by simp
  with assms show ?thesis
    by (simp add: read_page_def load_mapped_def load_byte_def sim_mem_kernel_def bindE_def Let_def)
qed

lemma sim_read_registers:
  assumes "sm_open k" and "pm_page_size m = 4096"
    and "list_all (\<lambda>(name, off). \<exists>x. off = Some x \<and> unat base + unat x < 2 ^ 64) regs"
  shows "\<exists>out k'. read_registers (sim_mem_kernel phys) m base regs k = Some (Ok out, k')"
  using assms
proof (induction regs arbitrary: k)
  case (Cons reg regs)
  obtain name x where reg: "reg = (name, Some x)" "unat base + unat x < 2 ^ 64" using Cons.prems(3) by (cases reg) auto
  obtain v k1 where "read_page (sim_mem_kernel phys) (pm_file m) 4096 (base + ucast x) k = Some (Ok v, k1)" "sm_open k1"
    using sim_read_page [OF Cons.prems(1)] by blast
  moreover obtain out k' where "read_registers (sim_mem_kernel phys) m base regs k1 = Some (Ok out, k')"
    using Cons.IH [OF calculation(2)] Cons.prems(2,3) by auto
  ultimately show ?case
    using reg Cons.prems(2) by (simp add: read_named_def phys_mem_read_u32_def Let_def map_errE_def bindE_def ret_def)
qed (simp add: ret_def)

theorem mmio_smoke_prints_witness:
  "\<exists>out k'. mmio_smoke (sim_mem_kernel (\<lambda>a. if a = 0x80000000 then 7 else 0)) [''--skip-spy''] unmapped = Some (Ok out, k')
     \<and> out ! 1 = register_line ''afe.global_control'' 0x80000000 7"
proof -
  let ?phys = "\<lambda>a :: u64. if a = 0x80000000 then 7 else 0 :: u8"
  have parsed: "parse_smoke_args [''--skip-spy''] = Ok \<lparr>sa_base = FPGA_REGISTER_BASE, sa_include_spy = False\<rparr>"
    by (simp add: parse_smoke_args_def)
  have "list_all (\<lambda>(name, off). case off of None \<Rightarrow> False | Some x \<Rightarrow> x < 0x20000000) common_registers" by code_simp
  moreover have "unat FPGA_REGISTER_BASE + unat x < 2 ^ 64" if "x < 0x20000000" for x :: u32
    using that by (simp add: FPGA_REGISTER_BASE_def word_less_nat_alt)
  ultimately have "list_all (\<lambda>(name, off). \<exists>x. off = Some x \<and> unat FPGA_REGISTER_BASE + unat x < 2 ^ 64) common_registers"
    by (fastforce simp: list_all_iff split: option.splits)
  from sim_read_registers [OF _ _ this, of "unmapped\<lparr>sm_open := True\<rparr>" "\<lparr>pm_file = 3, pm_page_size = 4096\<rparr>" ?phys]
  obtain common k1 where common: "read_registers (sim_mem_kernel ?phys) \<lparr>pm_file = 3, pm_page_size = 4096\<rparr> FPGA_REGISTER_BASE
      common_registers (unmapped\<lparr>sm_open := True\<rparr>) = Some (Ok common, k1)" by auto
  have opened: "phys_mem_open (sim_mem_kernel ?phys) unmapped
      = Some (Ok \<lparr>pm_file = 3, pm_page_size = 4096\<rparr>, unmapped\<lparr>sm_open := True\<rparr>)"
    by (simp add: phys_mem_open_def sim_mem_kernel_def DEV_MEM_def page_size_def bindE_def map_errE_def tryE_def ret_def)
  obtain out k' where run: "mmio_smoke (sim_mem_kernel ?phys) [''--skip-spy''] unmapped = Some (Ok out, k')"
    using common opened parsed
    by (simp add: mmio_smoke_def smoke_lines_def read_common_registers_def liftR_def bindE_def tryE_def thenE_def
        modify_def ret_def)
  have aligned: "take_bit 2 (sa_base \<lparr>sa_base = FPGA_REGISTER_BASE, sa_include_spy = False\<rparr>) = 0" by code_simp
  have page: "mm_page_size (sim_mem_kernel ?phys) = (\<lambda>_. 2 ^ 12)" by (simp add: sim_mem_kernel_def)
  from mmio_smoke_prints [OF sim_maps_memory _ _ page parsed aligned run]
  have "out ! 1 = register_line ''afe.global_control'' (FPGA_REGISTER_BASE + ucast AFE_GLOBAL_CONTROL_OFFSET)
      (phys_word ?phys (FPGA_REGISTER_BASE + ucast AFE_GLOBAL_CONTROL_OFFSET))"
    by (simp add: memory_lines_def common_registers_def)
  also have "FPGA_REGISTER_BASE + ucast AFE_GLOBAL_CONTROL_OFFSET = 0x80000000" by code_simp
  also have "phys_word ?phys 0x80000000 = 7" by code_simp
  finally show ?thesis using run by blast
qed

end
