(* ===== verification/ServerMain.thy ===== *)
theory ServerMain
  imports ClockchipTool Router Rpmsg
begin

text \<open>
  The server program (\<open>daphne-sc-server/src/main.rs\<close>): its arguments and environment, and the choice
  of the transport that the request loop is run with.  Arguments are lists of bytes that need not be Unicode,
  and what it prints goes to streams that may fail.
\<close>

definition DEFAULT_BIND_ENDPOINT :: string where "DEFAULT_BIND_ENDPOINT = ''tcp://*:40002''"
definition DEFAULT_RPU_TIMEOUT_MS :: u64 where "DEFAULT_RPU_TIMEOUT_MS = 200"

section \<open>Arguments\<close>

record server_args =
  sv_endpoint :: string
  sv_bind_smoke :: bool
  sv_rpu_rpmsg :: "string option"
  sv_rpu_timeout_ms :: u64

definition env_nonempty :: "'k server_os \<Rightarrow> string \<Rightarrow> 'k \<Rightarrow> string option" where
  "env_nonempty os key k = (case os_env os key k of
     None \<Rightarrow> None
   | Some v \<Rightarrow> (let value = trim v in if value = [] then None else Some value))"

text \<open>A value that is not a number ends the program.\<close>

definition parse_timeout_ms :: "'k console \<Rightarrow> string \<Rightarrow> string \<Rightarrow> ('k, u64, tool_exit) eff" where
  "parse_timeout_ms co value source = (case from_str_radix 10 value of
     Some ms \<Rightarrow> ret ms
   | None \<Rightarrow> thenE (eprintln co (''invalid '' @ source @ '' value: '' @ value)) (raise (ExitProcess 2)))"

text \<open>\<open>std::env::args\<close> panics when it comes to an argument that is not Unicode; the arguments begin with
  the name of the program, which is skipped in the same way.\<close>

definition unicode :: "string \<Rightarrow> bool" where
  "unicode arg \<longleftrightarrow> utf8_valid (as_bytes arg)"

definition take_arg :: "string \<Rightarrow> ('k, unit, tool_exit) eff" where
  "take_arg arg = (if unicode arg then ret () else panic)"

definition skip_program_name :: "string list \<Rightarrow> ('k, string list, tool_exit) eff" where
  "skip_program_name argv = (case argv of [] \<Rightarrow> ret [] | name # args \<Rightarrow> thenE (take_arg name) (ret args))"

definition print_help :: "'k console \<Rightarrow> ('k, server_args, tool_exit) eff" where
  "print_help co =
     thenE (println co ''usage: daphne-sc-server [--bind-smoke] [--rpu-rpmsg PATH] [--rpu-timeout-ms MS] [endpoint]'')
     (thenE (println co (''default endpoint: '' @ DEFAULT_BIND_ENDPOINT))
     (thenE (println co ''env: DAPHNE_SC_BIND, DAPHNE_SC_RPU_RPMSG, DAPHNE_SC_RPU_TIMEOUT_MS'')
     (raise (ExitProcess 0))))"

fun server_arg_loop :: "'k console \<Rightarrow> string list \<Rightarrow> server_args \<Rightarrow> ('k, server_args, tool_exit) eff" where
  "server_arg_loop co [] a = ret a"
| "server_arg_loop co (arg # args) a = thenE (take_arg arg)
     (if arg = ''--bind-smoke'' then server_arg_loop co args (a\<lparr>sv_bind_smoke := True\<rparr>)
      else if arg = ''--rpu-rpmsg'' then (case args of
          [] \<Rightarrow> thenE (eprintln co ''--rpu-rpmsg requires a path'') (raise (ExitProcess 2))
        | path # rest \<Rightarrow> thenE (take_arg path) (server_arg_loop co rest (a\<lparr>sv_rpu_rpmsg := Some path\<rparr>)))
      else if arg = ''--rpu-timeout-ms'' then (case args of
          [] \<Rightarrow> thenE (eprintln co ''--rpu-timeout-ms requires a value'') (raise (ExitProcess 2))
        | value # rest \<Rightarrow> thenE (take_arg value)
            (bindE (parse_timeout_ms co value ''--rpu-timeout-ms'') (\<lambda>ms.
             server_arg_loop co rest (a\<lparr>sv_rpu_timeout_ms := ms\<rparr>))))
      else if arg = ''--help'' \<or> arg = ''-h'' then print_help co
      else server_arg_loop co args (a\<lparr>sv_endpoint := arg\<rparr>))"

definition parse_server_args ::
    "'k server_os \<Rightarrow> 'k console \<Rightarrow> string list \<Rightarrow> ('k, server_args, tool_exit) eff" where
  "parse_server_args os co argv =
     bindE (gets (env_nonempty os ''DAPHNE_SC_BIND'')) (\<lambda>endpoint.
     bindE (gets (env_nonempty os ''DAPHNE_SC_RPU_RPMSG'')) (\<lambda>rpu_rpmsg.
     bindE (gets (env_nonempty os ''DAPHNE_SC_RPU_TIMEOUT_MS'')) (\<lambda>timeout.
     bindE (case timeout of
         Some value \<Rightarrow> parse_timeout_ms co value ''DAPHNE_SC_RPU_TIMEOUT_MS''
       | None \<Rightarrow> ret DEFAULT_RPU_TIMEOUT_MS) (\<lambda>ms.
     bindE (skip_program_name argv) (\<lambda>args.
     server_arg_loop co args
       \<lparr>sv_endpoint = (case endpoint of Some e \<Rightarrow> e | None \<Rightarrow> DEFAULT_BIND_ENDPOINT),
        sv_bind_smoke = False, sv_rpu_rpmsg = rpu_rpmsg, sv_rpu_timeout_ms = ms\<rparr>)))))"

section \<open>The program\<close>

definition start_state :: "'s \<Rightarrow> 'k \<Rightarrow> ('s, 'k) server_state" where
  "start_state s k = \<lparr>st_rpu = s, st_system = k, st_next_seq = 1, st_preflight = default_linux_preflight\<rparr>"

text \<open>\<open>n\<close> turns of the request loop over a transport; the state at the end is that of the system and
  of the transport.\<close>

definition run_server ::
    "'f pb_codec \<Rightarrow> 'f f64_ops \<Rightarrow> 'k server_os \<Rightarrow> 'k zmq_api \<Rightarrow> 'k console \<Rightarrow> string \<Rightarrow> 's rpu_afe_transport
     \<Rightarrow> nat \<Rightarrow> 's \<Rightarrow> 'k \<Rightarrow> ((unit, tool_exit) result \<times> 's \<times> 'k) option" where
  "run_server cd fo os zq co endpoint rpu n s k =
     (case router_run cd fo os zq co endpoint default_router_options rpu n (start_state s k) of
        None \<Rightarrow> None
      | Some (res, x) \<Rightarrow> Some (map_err Failed res, (st_rpu x, st_system x)))"

text \<open>The system behind the sockets, files and streams, and the kernel behind the RPMsg device.\<close>

definition on_server :: "('k, 'a, tool_exit) eff \<Rightarrow> ('k \<times> 'r, 'a, tool_exit) eff" where
  "on_server = zoom fst (\<lambda>k (_, r). (k, r))"

definition command_route_debug :: "command_route \<Rightarrow> string" where
  "command_route_debug route = (case route of
     RpuAfe \<Rightarrow> ''RpuAfe'' | LinuxStatus \<Rightarrow> ''LinuxStatus'' | LinuxFpga \<Rightarrow> ''LinuxFpga''
   | Unsupported \<Rightarrow> ''Unsupported'')"

definition print_start :: "'k console \<Rightarrow> server_args \<Rightarrow> ('k, unit, tool_exit) eff" where
  "print_start co args =
     thenE (println co ''daphne-sc server scaffold'')
     (thenE (println co (''bind endpoint: '' @ sv_endpoint args))
     (thenE (println co (''MT2_WRITE_AFE_REG_REQ route: '' @ command_route_debug (route_message_type WriteAfeRegReq)))
     (println co (''AFE commands fail closed until an RPU transport replaces '' @ command_route_debug RpuAfe))))"

definition bind_smoke :: "'k zmq_api \<Rightarrow> 'k console \<Rightarrow> server_args \<Rightarrow> ('k, unit, tool_exit) eff" where
  "bind_smoke zq co args =
     bindE (map_errE Failed (bind_router zq (sv_endpoint args) default_router_options)) (\<lambda>socket.
     thenE (println co (''ZMQ ROUTER bound to '' @ sv_endpoint args))
     (println co ''bind smoke test complete; transport loop not started''))"

text \<open>With an RPMsg device, and without one: then asking the transport for its status must not fail.\<close>

definition serve_rpmsg ::
    "'f pb_codec \<Rightarrow> 'f f64_ops \<Rightarrow> 'k server_os \<Rightarrow> 'k zmq_api \<Rightarrow> 'k console \<Rightarrow> 'r rpmsg_kernel \<Rightarrow> server_args
     \<Rightarrow> string \<Rightarrow> nat \<Rightarrow> ('k \<times> 'r, unit, tool_exit) eff" where
  "serve_rpmsg cd fo os zq co rk args path n = (\<lambda>(k, r).
     case rpmsg_open rk path (unat (sv_rpu_timeout_ms args) * 1000000) r of
       None \<Rightarrow> None
     | Some (Err err, r') \<Rightarrow> Some (Err (Failed (rpu_error_to_string err)), (k, r'))
     | Some (Ok t, r') \<Rightarrow> (case run_server cd fo os zq co (sv_endpoint args) (rpmsg_afe_transport rk) n t k of
           None \<Rightarrow> None
         | Some (res, (t', k')) \<Rightarrow> Some (res, (k', rp_kernel t'))))"

definition serve_fail_closed ::
    "'f pb_codec \<Rightarrow> 'f f64_ops \<Rightarrow> 'k server_os \<Rightarrow> 'k zmq_api \<Rightarrow> 'k console \<Rightarrow> server_args \<Rightarrow> nat
     \<Rightarrow> ('k, unit, tool_exit) eff" where
  "serve_fail_closed cd fo os zq co args n = (\<lambda>k. case rt_status fail_closed_transport () of
     Some (Ok st, s) \<Rightarrow>
       thenE (println co (''RPU AFE backend: available='' @ fmt_bool (ls_available st) @ '' running=''
           @ fmt_bool (ls_running st)))
         (\<lambda>k. case run_server cd fo os zq co (sv_endpoint args) fail_closed_transport n s k of
            None \<Rightarrow> None
          | Some (res, (_, k')) \<Rightarrow> Some (res, k')) k
   | _ \<Rightarrow> None)"

definition start_server ::
    "'f pb_codec \<Rightarrow> 'f f64_ops \<Rightarrow> 'k server_os \<Rightarrow> 'k zmq_api \<Rightarrow> 'k console \<Rightarrow> 'r rpmsg_kernel \<Rightarrow> nat \<Rightarrow> server_args
     \<Rightarrow> ('k \<times> 'r, unit, tool_exit) eff" where
  "start_server cd fo os zq co rk n args =
     thenE (on_server (print_start co args))
     (if sv_bind_smoke args then on_server (bind_smoke zq co args)
      else case sv_rpu_rpmsg args of
          Some path \<Rightarrow>
            thenE (on_server (println co (''RPU AFE backend: RPMsg path='' @ path @ '' timeout_ms=''
                @ fmt_dec (sv_rpu_timeout_ms args))))
              (serve_rpmsg cd fo os zq co rk args path n)
        | None \<Rightarrow> on_server (serve_fail_closed cd fo os zq co args n))"

definition server_main ::
    "'f pb_codec \<Rightarrow> 'f f64_ops \<Rightarrow> 'k server_os \<Rightarrow> 'k zmq_api \<Rightarrow> 'k console \<Rightarrow> 'r rpmsg_kernel \<Rightarrow> string list \<Rightarrow> nat
     \<Rightarrow> ('k \<times> 'r, unit, tool_exit) eff" where
  "server_main cd fo os zq co rk argv n =
     bindE (on_server (parse_server_args os co argv)) (start_server cd fo os zq co rk n)"

section \<open>Arguments are read back\<close>

definition server_flags :: "server_args \<Rightarrow> string list" where
  "server_flags a =
     (if sv_bind_smoke a then [''--bind-smoke''] else [])
     @ (case sv_rpu_rpmsg a of Some path \<Rightarrow> [''--rpu-rpmsg'', path] | None \<Rightarrow> [])
     @ [''--rpu-timeout-ms'', fmt_dec (sv_rpu_timeout_ms a), sv_endpoint a]"

lemma unicode_graphic:
  assumes "list_all graphic s"
  shows "unicode s"
proof -
  have "list_all graphic s \<Longrightarrow> utf8_valid (as_bytes s)"
  proof (induction s)
    case (Cons c s)
    then have "(word_of_nat (of_char c) :: u8) < 0x80"
      by (simp add: graphic_def word_less_nat_alt unat_of_nat take_bit_nat_eq_self)
    with Cons show ?case by (simp add: as_bytes_def)
  qed (simp add: as_bytes_def)
  with assms show ?thesis by (simp add: unicode_def)
qed

lemma take_unicode: "unicode arg \<Longrightarrow> thenE (take_arg arg) m = m"
  by (simp add: take_arg_def thenE_def bindE_def ret_def)

lemma skip_unicode: "\<forall>arg \<in> set argv. unicode arg \<Longrightarrow> bindE (skip_program_name argv) f = f (tl argv)"
  by (cases argv) (simp_all add: skip_program_name_def take_unicode, simp_all add: bindE_def ret_def)

text \<open>The Unicode arguments that describe a set of options are read back as these options, when the
  environment sets nothing and the endpoint is not itself an option.\<close>

theorem server_args_roundtrip:
  assumes "\<forall>key. os_env os key k = None" and "\<forall>arg \<in> set (name # server_flags a). unicode arg"
    and "sv_endpoint a \<notin> {''--bind-smoke'', ''--rpu-rpmsg'', ''--rpu-timeout-ms'', ''--help'', ''-h''}"
  shows "parse_server_args os co (name # server_flags a) k = Some (Ok a, k)"
proof -
  have timeout: "bindE (parse_timeout_ms co (fmt_dec ms) source) f = f ms" for ms source and f :: "u64 \<Rightarrow> ('a, 'b, tool_exit) eff"
    by (simp add: parse_timeout_ms_def bindE_def ret_def)
  have none: "env_nonempty os key k = None" for key using assms(1) by (simp add: env_nonempty_def)
  have "server_arg_loop co (server_flags a)
      \<lparr>sv_endpoint = e, sv_bind_smoke = False, sv_rpu_rpmsg = None, sv_rpu_timeout_ms = ms\<rparr> = ret a" for e ms
    using assms(2,3)
    by (cases a; cases "sv_rpu_rpmsg a") (auto simp: server_flags_def take_unicode timeout)
  with assms(2) show ?thesis
    by (simp add: parse_server_args_def bindE_gets none skip_unicode) (simp add: bindE_def ret_def)
qed

end
