(* ===== verification/ServerTermination.thy ===== *)
theory ServerTermination
  imports ServerFacts ServerMain
begin

text \<open>
  The server program does not panic (\<open>main.rs\<close>, \<open>router.rs\<close>, \<open>rpmsg.rs\<close>): with Unicode arguments and open
  standard streams, whatever its environment, whatever clients send and whatever the files, sockets
  and the RPU answer, every turn of the request loop comes to an end.
\<close>

section \<open>The transport to the RPU\<close>

definition rpmsg_returns :: "'k rpmsg_kernel \<Rightarrow> bool" where
  "rpmsg_returns rk \<longleftrightarrow> (\<forall>path. returns (rk_open rk path)) \<and> (\<forall>fd bytes. returns (rk_write_all rk fd bytes))
     \<and> (\<forall>fd. returns (rk_flush rk fd)) \<and> (\<forall>fd n. returns (rk_read_exact rk fd n))"

lemma returns_on_file: "(\<And>fd. returns (call fd)) \<Longrightarrow> returns (on_file call what)"
  unfolding on_file_def by (intro returns_intros)

lemma returns_wait: "returns (wait_readable rk)"
  by (auto simp: returns_iff wait_readable_def Let_def split: prod.split)

lemma returns_accept: "returns (accept_reply rk c bytes)"
  unfolding accept_reply_def pace_def by (intro returns_intros)

lemma returns_transact:
  assumes "rpmsg_returns rk"
  shows "returns (transact rk c)"
  using assms unfolding transact_def pace_def rpmsg_returns_def
  by (intro returns_intros returns_on_file returns_wait returns_accept) auto

lemma returns_send: "rpmsg_returns rk \<Longrightarrow> returns (send_frames rk m idx fs r)"
  by (induction fs arbitrary: idx r) (auto intro!: returns_intros returns_transact)

lemma rpmsg_returning:
  assumes "rpmsg_returns rk"
  shows "returning_transport (rpmsg_afe_transport rk)"
proof
  have "returns next_sequence" by (simp add: returns_iff next_sequence_def)
  then show "returns (rt_status (rpmsg_afe_transport rk))"
    unfolding rpmsg_afe_transport_def rpmsg_status_def
    by (simp, intro returns_intros returns_transact assms)
  have "returns (reserve_sequences n)" for n by (simp add: returns_iff reserve_sequences_def Let_def)
  then show "returns (rt_submit_afe_command (rpmsg_afe_transport rk) c)" for c
    unfolding rpmsg_afe_transport_def rpmsg_submit_def Let_def case_prod_unfold
    by (simp, intro returns_intros returns_send assms)
qed

section \<open>The request loop\<close>

definition zmq_returns :: "'k zmq_api \<Rightarrow> bool" where
  "zmq_returns zq \<longleftrightarrow> returns (zq_router_socket zq) \<and> (\<forall>s v. returns (zq_set_linger zq s v))
     \<and> (\<forall>s v. returns (zq_set_sndhwm zq s v)) \<and> (\<forall>s v. returns (zq_set_rcvhwm zq s v))
     \<and> (\<forall>s v. returns (zq_set_sndbuf zq s v)) \<and> (\<forall>s b. returns (zq_set_immediate zq s b))
     \<and> (\<forall>s e. returns (zq_bind zq s e)) \<and> (\<forall>s. returns (zq_recv_multipart zq s))
     \<and> (\<forall>s bytes more. returns (zq_send zq s bytes more))"

lemma yields_returns: "yields m \<Longrightarrow> returns m"
  unfolding yields_def returns_iff by (metis option.distinct(1))

lemma returns_bind_router: "zmq_returns zq \<Longrightarrow> returns (bind_router zq endpoint options)"
  unfolding bind_router_def in_context_def zmq_returns_def by (intro returns_intros) auto

text \<open>Lines that can be written.\<close>

definition console_open :: "'k console \<Rightarrow> bool" where
  "console_open co \<longleftrightarrow> (\<forall>text. yields (co_stdout co text)) \<and> (\<forall>text. yields (co_stderr co text))"

lemma returns_print_to:
  assumes "\<forall>text. yields (stream text)"
  shows "returns (print_to stream line)"
  unfolding returns_iff
proof
  fix s
  obtain a s' where "stream (line @ [CHR 0x0A]) s = Some (Ok a, s')"
    by (rule yieldsE [OF spec [OF assms]])
  then show "print_to stream line s \<noteq> None" by (simp add: print_to_def tryE_def ret_def)
qed

lemma returns_print:
  assumes "console_open co"
  shows "returns (println co line)" and "returns (eprintln co line)"
  using assms by (simp_all add: console_open_def println_def eprintln_def returns_print_to)

context returning_transport
begin

lemma returns_answer:
  assumes "system_returns os"
  shows "returns (answer_frames cd fo os options rpu frames)"
proof -
  have "yields (handle_envelope cd fo os bytes rpu preflight)" for bytes preflight
    unfolding handle_envelope_def on_handlers_def
    by (intro yields_intros yields_payload yields_response assms)
  then have "yields (answer_frames cd fo os options rpu frames)"
    unfolding answer_frames_parts checked_preflight_def
    by (intro yields_intros yields_check_now assms)
  then show ?thesis by (rule yields_returns)
qed

lemma returns_turns:
  assumes "system_returns os" and "zmq_returns zq"
  shows "returns (serve_turns cd fo os zq options rpu socket n)"
proof -
  have "returns (serve_one cd fo os zq options rpu socket)"
    using assms(2) unfolding serve_one_def system_of_def in_context_def zmq_returns_def case_prod_unfold
    by (intro returns_intros returns_answer assms(1)) auto
  then show ?thesis by (induction n) (auto intro!: returns_intros)
qed

lemma returns_run:
  assumes "system_returns os" and "zmq_returns zq" and "console_open co"
  shows "run_server cd fo os zq co endpoint rpu n s k \<noteq> None"
proof -
  have "returns (router_run cd fo os zq co endpoint default_router_options rpu n)"
    unfolding router_run_def system_of_def
    by (intro returns_intros returns_bind_router returns_turns returns_print assms)
  then show ?thesis by (auto simp: returns_iff run_server_def split: option.splits)
qed

end

section \<open>The program\<close>

lemma returns_take_arg: "unicode arg \<Longrightarrow> returns (take_arg arg)"
  by (simp add: take_arg_def keeps_intros)

lemma returns_timeout: "console_open co \<Longrightarrow> returns (parse_timeout_ms co value source)"
  unfolding parse_timeout_ms_def
  by (cases "from_str_radix 10 value :: u64 option") (auto intro!: returns_intros returns_print)

lemma returns_arg_loop:
  assumes "console_open co" and "\<forall>arg \<in> set args. unicode arg"
  shows "returns (server_arg_loop co args a)"
  using assms
proof (induction co args a rule: server_arg_loop.induct)
  case (2 co arg args a)
  from 2 have parts: "unicode arg" "\<forall>x \<in> set args. unicode x" and "console_open co" by simp_all
  note intros = returns_intros returns_take_arg returns_print returns_timeout \<open>console_open co\<close>
  consider "arg = ''--bind-smoke''" | "arg = ''--rpu-rpmsg''" | "arg = ''--rpu-timeout-ms''"
    | "arg = ''--help'' \<or> arg = ''-h''"
    | "arg \<notin> {''--bind-smoke'', ''--rpu-rpmsg'', ''--rpu-timeout-ms'', ''--help'', ''-h''}" by blast
  then show ?case
  proof cases
    case 1
    with 2 parts show ?thesis by (auto intro!: intros)
  next
    case rpmsg: 2
    with 2 parts show ?thesis by (cases args) (auto intro!: intros)
  next
    case 3
    with 2 parts show ?thesis by (cases args) (auto intro!: intros)
  next
    case 4
    then show ?thesis using parts by (auto simp: print_help_def intro!: intros)
  next
    case 5
    with 2 parts show ?thesis by (auto intro!: intros)
  qed
qed (simp add: keeps_intros)

lemma returns_arguments:
  assumes "console_open co" and "\<forall>arg \<in> set argv. unicode arg"
  shows "returns (parse_server_args os co argv)"
proof -
  have "\<forall>arg \<in> set (tl argv). unicode arg" using assms(2) by (cases argv) auto
  then show ?thesis
    unfolding parse_server_args_def skip_unicode [OF assms(2)]
    by (intro returns_intros returns_timeout returns_arg_loop assms(1))
qed

lemma returns_rpmsg:
  fixes os :: "'k server_os" and rk :: "'r rpmsg_kernel"
  assumes "system_returns os" and "zmq_returns zq" and "rpmsg_returns rk" and "console_open co"
  shows "returns (serve_rpmsg cd fo os zq co rk args path n)"
  unfolding returns_iff
proof
  fix s :: "'k \<times> 'r"
  obtain k r where s: "s = (k, r)" by (cases s)
  have opens: "rpmsg_open rk path (unat (sv_rpu_timeout_ms args) * 1000000) r \<noteq> None"
    using assms(3) by (auto simp: rpmsg_returns_def returns_iff rpmsg_open_def split: option.splits result.splits)
  have runs: "run_server cd fo os zq co (sv_endpoint args) (rpmsg_afe_transport rk) n t k \<noteq> None" for t
    by (rule returning_transport.returns_run [OF rpmsg_returning [OF assms(3)] assms(1,2,4)])
  from opens show "serve_rpmsg cd fo os zq co rk args path n s \<noteq> None"
    by (auto simp: serve_rpmsg_def s runs split: result.split option.split)
qed

lemma returns_fail_closed:
  assumes "system_returns os" and "zmq_returns zq" and "console_open co"
  shows "returns (serve_fail_closed cd fo os zq co args n)"
proof -
  have "returns (\<lambda>k. case run_server cd fo os zq co (sv_endpoint args) fail_closed_transport n () k of
      None \<Rightarrow> None | Some (res, (_, k')) \<Rightarrow> Some (res, k'))"
    using fail_closed.returns_run [OF assms] by (auto simp: returns_iff split: option.split)
  then have "returns (thenE (println co line) (\<lambda>k. case run_server cd fo os zq co (sv_endpoint args) fail_closed_transport n () k of
      None \<Rightarrow> None | Some (res, (_, k')) \<Rightarrow> Some (res, k')))" for line
    by (intro returns_intros returns_print assms)
  then show ?thesis
    by (simp add: serve_fail_closed_def fail_closed_transport_def ret_def returns_iff)
qed

lemma returns_bind_smoke:
  assumes "zmq_returns zq" and "console_open co"
  shows "returns (bind_smoke zq co args)"
  unfolding bind_smoke_def by (intro returns_intros returns_bind_router returns_print assms)

lemma returns_start:
  assumes "system_returns os" and "zmq_returns zq" and "rpmsg_returns rk" and "console_open co"
  shows "returns (start_server cd fo os zq co rk n args)"
proof -
  have "returns (print_start co args)"
    unfolding print_start_def by (intro returns_intros returns_print assms)
  then show ?thesis
    unfolding start_server_def on_server_def
    by (cases "sv_rpu_rpmsg args")
      (auto intro!: returns_intros returns_print returns_bind_smoke returns_rpmsg returns_fail_closed assms)
qed

section \<open>Properties\<close>

text \<open>C22: started with Unicode arguments and standard streams that can be written to, in whatever
  environment and whatever its clients send, the server does not panic: it ends with an exit or an
  error, or any number of turns of its request loop come to an end, when the system calls it makes
  return.\<close>

theorem server_never_panics:
  assumes "system_returns os" and "zmq_returns zq" and "rpmsg_returns rk" and "console_open co"
    and "\<forall>arg \<in> set argv. unicode arg"
  shows "\<exists>res s'. server_main cd fo os zq co rk argv n (k, r) = Some (res, s')"
proof -
  have "returns (server_main cd fo os zq co rk argv n)"
    unfolding server_main_def on_server_def
    by (intro returns_intros returns_arguments returns_start assms)
  then have "server_main cd fo os zq co rk argv n (k, r) \<noteq> None" unfolding returns_iff by blast
  then show ?thesis by auto
qed

text \<open>A socket on which one request comes in again and again, and a device that never answers.\<close>

definition busy_zmq :: "nat zmq_api" where
  "busy_zmq =
     \<lparr>zq_router_socket = ret 0, zq_set_linger = (\<lambda>_ _. ret ()), zq_set_sndhwm = (\<lambda>_ _. ret ()),
      zq_set_rcvhwm = (\<lambda>_ _. ret ()), zq_set_sndbuf = (\<lambda>_ _. ret ()), zq_set_immediate = (\<lambda>_ _. ret ()),
      zq_bind = (\<lambda>_ _. ret ()), zq_recv_multipart = (\<lambda>_. ret [[7], [204, 1, 3, 200]]), zq_send = (\<lambda>_ _ _. ret ())\<rparr>"

definition silent_rpu :: "nat rpmsg_kernel" where
  "silent_rpu =
     \<lparr>rk_open = (\<lambda>_. ret 3), rk_sleep_ms = (\<lambda>ms k. k + ms), rk_write_all = (\<lambda>_ _. ret ()), rk_flush = (\<lambda>_. ret ()),
      rk_poll = (\<lambda>_ _ k. ((0, 0), k)), rk_last_error = (\<lambda>_. ''none''), rk_read_exact = (\<lambda>_ _. raise ''none'')\<rparr>"

definition open_console :: "nat console" where
  "open_console = \<lparr>co_stdout = (\<lambda>_. ret ()), co_stderr = (\<lambda>_. ret ())\<rparr>"

theorem server_never_panics_witness:
  "\<exists>res s'. server_main sample_codec sample_f64 healthy_os busy_zmq open_console silent_rpu
     [''daphne-sc-server'', ''--rpu-rpmsg'', ''/dev/rpmsg0''] 3 (0, 0) = Some (res, s')"
proof (rule server_never_panics)
  show "system_returns healthy_os" by (rule healthy_returns)
  show "zmq_returns busy_zmq" by (simp add: zmq_returns_def busy_zmq_def keeps_intros)
  show "rpmsg_returns silent_rpu" by (simp add: rpmsg_returns_def silent_rpu_def keeps_intros)
  show "console_open open_console" by (simp add: console_open_def open_console_def yields_intros)
  show "\<forall>arg \<in> set [''daphne-sc-server'', ''--rpu-rpmsg'', ''/dev/rpmsg0'']. unicode arg"
    by (simp add: unicode_def as_bytes_def)
qed

end
