(* ===== verification/ZmqSmokeClient.thy ===== *)
theory ZmqSmokeClient
  imports ClockchipTool Router HandlerFacts
begin

text \<open>
  The smoke-test client (\<open>daphne-sc-server/src/bin/zmq_smoke_client.rs\<close>): its arguments, the request
  each command sends, the exchange over a ZMQ socket and the lines printed of the response.  The
  generated coding of messages, the names of the generated enumeration and the formatting of
  floating-point numbers are parameters.
\<close>

definition DEFAULT_ENDPOINT :: string where "DEFAULT_ENDPOINT = ''tcp://127.0.0.1:40002''"

section \<open>Commands\<close>

datatype smoke_command =
    SmokeReadTestReg
  | SmokeStatus
  | SmokeWriteAfeReg (afe_block: u32) (reg_address: u32) (reg_value: u32)
  | SmokeReadAfeReg (afe_block: u32) (reg_address: u32)
  | SmokeSetAfeReset (asserted: bool)
  | SmokeDoAfeReset
  | SmokeSetAfePower (enabled: bool)
  | SmokeWriteAfeFunction (afe_block: u32) (function_name: string) (config_value: u32)
  | SmokeConfigureMin (biasctrl: u32) (vgain: u32) (offset: u32) (adc_resolution: bool)
  | SmokeAlignAfe

record client_args =
  cl_endpoint :: string
  cl_command :: smoke_command
  cl_timeout_ms :: int

section \<open>Arguments\<close>

definition parse_bool :: "string \<Rightarrow> (bool, tool_exit) result" where
  "parse_bool value =
     (if value \<in> {''1'', ''true'', ''TRUE'', ''on'', ''ON''} then Ok True
      else if value \<in> {''0'', ''false'', ''FALSE'', ''off'', ''OFF''} then Ok False
      else Err (Failed (''invalid boolean: '' @ value @ ''; expected true/false or 1/0'')))"

definition parse_u32 :: "string \<Rightarrow> (u32, tool_exit) result" where
  "parse_u32 value = (case strip_prefix ''0x'' value of
     Some hex \<Rightarrow> ok_or (from_str_radix 16 hex) (Failed (''invalid hex integer: '' @ value))
   | None \<Rightarrow> ok_or (from_str_radix 10 value) (Failed (''invalid integer: '' @ value)))"

definition parse_optional_bool :: "string list \<Rightarrow> nat \<Rightarrow> bool \<Rightarrow> (bool, tool_exit) result" where
  "parse_optional_bool positionals i dflt = (if i < length positionals then parse_bool (positionals ! i) else Ok dflt)"

definition parse_optional_u32 :: "string list \<Rightarrow> nat \<Rightarrow> u32 \<Rightarrow> (u32, tool_exit) result" where
  "parse_optional_u32 positionals i dflt = (if i < length positionals then parse_u32 (positionals ! i) else Ok dflt)"

text \<open>An \<open>i32\<close> in decimal: digits that fit after a minus sign, or an optional plus sign.\<close>

definition parse_i32 :: "string \<Rightarrow> int option" where
  "parse_i32 s = (case s of
     c # ds \<Rightarrow> if c = CHR ''-''
       then (if ds = [] then None else map_option (\<lambda>n. - int n) (parse_digits 10 (2 ^ 31) 0 ds))
       else (let digits = (if c = CHR ''+'' then ds else s) in
             if digits = [] then None else map_option int (parse_digits 10 (2 ^ 31 - 1) 0 digits))
   | [] \<Rightarrow> None)"

definition smoke_command_of :: "string list \<Rightarrow> (smoke_command, tool_exit) result" where
  "smoke_command_of positionals = (case positionals of
     [] \<Rightarrow> Ok SmokeReadTestReg
   | name # _ \<Rightarrow>
       if name = ''read-test-reg'' then Ok SmokeReadTestReg
       else if name = ''status'' then Ok SmokeStatus
       else if name = ''write-afe-reg'' then
         (if length positionals \<noteq> 4 then Err (Failed ''write-afe-reg requires: afeBlock regAddress regValue'')
          else and_then (parse_u32 (positionals ! 1)) (\<lambda>b. and_then (parse_u32 (positionals ! 2)) (\<lambda>r.
            and_then (parse_u32 (positionals ! 3)) (\<lambda>v. Ok (SmokeWriteAfeReg b r v)))))
       else if name = ''read-afe-reg'' then
         (if length positionals \<noteq> 3 then Err (Failed ''read-afe-reg requires: afeBlock regAddress'')
          else and_then (parse_u32 (positionals ! 1)) (\<lambda>b. and_then (parse_u32 (positionals ! 2)) (\<lambda>r.
            Ok (SmokeReadAfeReg b r))))
       else if name = ''set-afe-reset'' then
         (if length positionals \<noteq> 2 then Err (Failed ''set-afe-reset requires: true|false'')
          else and_then (parse_bool (positionals ! 1)) (\<lambda>b. Ok (SmokeSetAfeReset b)))
       else if name = ''do-afe-reset'' then
         (if length positionals \<noteq> 1 then Err (Failed ''do-afe-reset does not accept arguments'') else Ok SmokeDoAfeReset)
       else if name = ''set-afe-power'' then
         (if length positionals \<noteq> 2 then Err (Failed ''set-afe-power requires: true|false'')
          else and_then (parse_bool (positionals ! 1)) (\<lambda>b. Ok (SmokeSetAfePower b)))
       else if name = ''write-afe-function'' then
         (if length positionals \<noteq> 4 then Err (Failed ''write-afe-function requires: afeBlock function configValue'')
          else and_then (parse_u32 (positionals ! 1)) (\<lambda>b. and_then (parse_u32 (positionals ! 3)) (\<lambda>v.
            Ok (SmokeWriteAfeFunction b (positionals ! 2) v))))
       else if name = ''configure-min'' then
         (if length positionals > 5
          then Err (Failed ''configure-min accepts at most: biasctrl vgain offset adc_resolution'')
          else and_then (parse_optional_u32 positionals 1 0) (\<lambda>b. and_then (parse_optional_u32 positionals 2 1600) (\<lambda>v.
            and_then (parse_optional_u32 positionals 3 2275) (\<lambda>o'. and_then (parse_optional_bool positionals 4 True) (\<lambda>r.
            Ok (SmokeConfigureMin b v o' r))))))
       else if name = ''align-afe'' then Ok SmokeAlignAfe
       else Err (Failed (''unknown command: '' @ name)))"

fun client_arg_loop ::
    "string list \<Rightarrow> string \<Rightarrow> int \<Rightarrow> string list \<Rightarrow> (string \<times> int \<times> string list, tool_exit) result" where
  "client_arg_loop [] endpoint timeout_ms positionals = Ok (endpoint, timeout_ms, positionals)"
| "client_arg_loop (arg # args) endpoint timeout_ms positionals =
     (if arg = ''--endpoint'' then (case args of
          [] \<Rightarrow> Err (Failed ''--endpoint requires a value'')
        | value # rest \<Rightarrow> client_arg_loop rest value timeout_ms positionals)
      else if arg = ''--timeout-ms'' then (case args of
          [] \<Rightarrow> Err (Failed ''--timeout-ms requires a value'')
        | value # rest \<Rightarrow> (case parse_i32 value of
              None \<Rightarrow> Err (Failed (''invalid --timeout-ms value: '' @ value))
            | Some ms \<Rightarrow> client_arg_loop rest endpoint ms positionals))
      else if arg = ''--help'' \<or> arg = ''-h'' then Err (ExitProcess 0)
      else client_arg_loop args endpoint timeout_ms (positionals @ [arg]))"

definition parse_client_args :: "string list \<Rightarrow> (client_args, tool_exit) result" where
  "parse_client_args args =
     and_then (client_arg_loop args DEFAULT_ENDPOINT 2000 []) (\<lambda>(endpoint, timeout_ms, positionals).
     and_then (smoke_command_of positionals) (\<lambda>command.
     Ok \<lparr>cl_endpoint = endpoint, cl_command = command, cl_timeout_ms = timeout_ms\<rparr>))"

section \<open>Requests\<close>

definition minimal_configure_request :: "u32 \<Rightarrow> u32 \<Rightarrow> u32 \<Rightarrow> bool \<Rightarrow> configure_request" where
  "minimal_configure_request bias gain off resolution =
     \<lparr>cfg_daphne_address = ''127.0.0.1'', cfg_slot = 0, cfg_timeout_ms = 30000, cfg_biasctrl = bias,
      cfg_self_trigger_threshold = 0x0C, cfg_self_trigger_xcorr = 0x68, cfg_tp_conf = 0x0010DB35,
      cfg_compensator = 0x00FFFFFFFFFF, cfg_inverters = 0x00FF00000000,
      cfg_channels = map (\<lambda>n. \<lparr>pcc_id = word_of_nat n, pcc_trim = 0, pcc_offset = off, pcc_gain = 1\<rparr>) [0..<40],
      cfg_afes = map (\<lambda>n. \<lparr>pac_id = word_of_nat n, pac_attenuators = gain, pac_v_bias = 0,
        pac_adc = Some \<lparr>pad_resolution = resolution, pad_output_format = True, pad_sb_first = False\<rparr>,
        pac_pga = Some \<lparr>ppg_lpf_cut_frequency = 4, ppg_integrator_disable = True, ppg_gain = False\<rparr>,
        pac_lna = Some \<lparr>pln_clamp = 0, pln_gain = 2, pln_integrator_disable = True\<rparr>\<rparr>) [0..<5],
      cfg_full_stream_channels = []\<rparr>"

text \<open>The messages that are sent; their coding is a parameter.\<close>

datatype client_request =
    TestRegRequest
  | StatusRequest slow_control_status_request
  | WriteAfeRegRequest cmd_write_afe_reg
  | ReadAfeRegRequest cmd_read_afe_reg
  | SetAfeResetRequest cmd_set_afe_reset
  | DoAfeResetRequest cmd_do_afe_reset
  | SetAfePowerRequest cmd_set_afe_power_state
  | WriteAfeFunctionRequest cmd_write_afe_function
  | ConfigureFeRequest configure_request
  | AlignAfesRequest cmd_align_afes

record 'f client_codec =
  cc_encode :: "client_request \<Rightarrow> u8 list"
  cc_encode_envelope :: "control_envelope_v2 \<Rightarrow> u8 list"
  cc_decode_envelope :: "u8 list \<Rightarrow> (control_envelope_v2, string) result"
  cc_status_response :: "u8 list \<Rightarrow> ('f slow_control_status_response, string) result"
  cc_test_reg_response :: "u8 list \<Rightarrow> (test_reg_response, string) result"
  cc_write_afe_reg_response :: "u8 list \<Rightarrow> (cmd_write_afe_reg_response, string) result"
  cc_read_afe_reg_response :: "u8 list \<Rightarrow> (cmd_read_afe_reg_response, string) result"
  cc_set_afe_reset_response :: "u8 list \<Rightarrow> (cmd_set_afe_reset_response, string) result"
  cc_do_afe_reset_response :: "u8 list \<Rightarrow> (cmd_do_afe_reset_response, string) result"
  cc_set_afe_power_state_response :: "u8 list \<Rightarrow> (cmd_set_afe_power_state_response, string) result"
  cc_write_afe_function_response :: "u8 list \<Rightarrow> (cmd_write_afe_function_response, string) result"
  cc_configure_response :: "u8 list \<Rightarrow> (configure_response, string) result"
  cc_align_afes_response :: "u8 list \<Rightarrow> (cmd_align_afes_response, string) result"

text \<open>The message type and the message of a command.\<close>

definition request_of_command :: "smoke_command \<Rightarrow> u32 \<times> client_request" where
  "request_of_command c = (case c of
     SmokeReadTestReg \<Rightarrow> (304, TestRegRequest)
   | SmokeStatus \<Rightarrow> (1000, StatusRequest \<lparr>scq_level = 1\<rparr>)
   | SmokeWriteAfeReg b r v \<Rightarrow>
       (204, WriteAfeRegRequest \<lparr>war_id = 1, war_afe_block = b, war_reg_address = r, war_reg_value = v\<rparr>)
   | SmokeReadAfeReg b r \<Rightarrow> (224, ReadAfeRegRequest \<lparr>rar_id = 1, rar_afe_block = b, rar_reg_address = r\<rparr>)
   | SmokeSetAfeReset a \<Rightarrow> (248, SetAfeResetRequest \<lparr>sar_id = 1, sar_reset_value = a\<rparr>)
   | SmokeDoAfeReset \<Rightarrow> (250, DoAfeResetRequest \<lparr>dar_id = 1\<rparr>)
   | SmokeSetAfePower e \<Rightarrow> (252, SetAfePowerRequest \<lparr>sap_id = 1, sap_power_state = e\<rparr>)
   | SmokeWriteAfeFunction b f v \<Rightarrow>
       (260, WriteAfeFunctionRequest \<lparr>waf_afe_block = b, waf_function = f, waf_config_value = v\<rparr>)
   | SmokeConfigureMin b v o' r \<Rightarrow> (202, ConfigureFeRequest (minimal_configure_request b v o' r))
   | SmokeAlignAfe \<Rightarrow> (258, AlignAfesRequest CmdAlignAfes))"

definition client_now_ns :: "'k server_os \<Rightarrow> ('k, u64, tool_exit) eff" where
  "client_now_ns os = bindE (callE (os_since_epoch os)) (\<lambda>t. ret (case t of Some n \<Rightarrow> word_of_nat n | None \<Rightarrow> 0))"

definition request_envelope :: "'k server_os \<Rightarrow> u32 \<Rightarrow> u8 list \<Rightarrow> ('k, control_envelope_v2, tool_exit) eff" where
  "request_envelope os message_type payload =
     bindE (client_now_ns os) (\<lambda>now.
     bindE (client_now_ns os) (\<lambda>timestamp.
     let msg_id = now AND (push_bit 63 1 - 1)
     in ret \<lparr>env_version = 2, env_dir = DIR_REQUEST, env_type = message_type, env_payload = payload, env_task_id = msg_id,
          env_msg_id = msg_id, env_correl_id = 0, env_route = ''smoke'', env_timestamp_ns = timestamp\<rparr>))"

section \<open>The exchange\<close>

record 'k zmq_client_api =
  zc_dealer_socket :: "('k, nat, string) eff"
  zc_set_identity :: "nat \<Rightarrow> u8 list \<Rightarrow> ('k, unit, string) eff"
  zc_set_linger :: "nat \<Rightarrow> int \<Rightarrow> ('k, unit, string) eff"
  zc_set_rcvtimeo :: "nat \<Rightarrow> int \<Rightarrow> ('k, unit, string) eff"
  zc_set_sndtimeo :: "nat \<Rightarrow> int \<Rightarrow> ('k, unit, string) eff"
  zc_connect :: "nat \<Rightarrow> string \<Rightarrow> ('k, unit, string) eff"
  zc_send :: "nat \<Rightarrow> u8 list \<Rightarrow> ('k, unit, string) eff"
  zc_recv_bytes :: "nat \<Rightarrow> ('k, u8 list, string) eff"

definition with_context :: "string \<Rightarrow> ('k, 'a, string) eff \<Rightarrow> ('k, 'a, tool_exit) eff" where
  "with_context what m = map_errE (\<lambda>_. Failed what) m"

text \<open>The request that is sent and the envelope that comes back.\<close>

definition exchange ::
    "'f client_codec \<Rightarrow> 'k server_os \<Rightarrow> 'k zmq_client_api \<Rightarrow> client_args \<Rightarrow> ('k, control_envelope_v2, tool_exit) eff" where
  "exchange cc os zc args =
     (let (message_type, message) = request_of_command (cl_command args) in
     bindE (request_envelope os message_type (cc_encode cc message)) (\<lambda>request.
     bindE (with_context ''creating ZMQ DEALER socket'' (zc_dealer_socket zc)) (\<lambda>socket.
     thenE (with_context ''setting ZMQ identity'' (zc_set_identity zc socket (as_bytes ''daphne-sc-smoke'')))
     (thenE (with_context ''setting ZMQ linger'' (zc_set_linger zc socket 0))
     (thenE (with_context ''setting ZMQ receive timeout'' (zc_set_rcvtimeo zc socket (cl_timeout_ms args)))
     (thenE (with_context ''setting ZMQ send timeout'' (zc_set_sndtimeo zc socket (cl_timeout_ms args)))
     (thenE (with_context (''connecting to '' @ cl_endpoint args) (zc_connect zc socket (cl_endpoint args)))
     (thenE (with_context ''sending request envelope'' (zc_send zc socket (cc_encode_envelope cc request)))
     (bindE (with_context ''receiving response envelope'' (zc_recv_bytes zc socket)) (\<lambda>response_bytes.
      liftR (map_err (\<lambda>_. Failed ''decoding response envelope'') (cc_decode_envelope cc response_bytes))))))))))))"

section \<open>What is printed\<close>

text \<open>The \<open>Debug\<close> name of a number of the generated enumeration or the text of the error, and a
  floating-point number with so many digits after the point.\<close>

record 'f print_api =
  pr_message_type :: "u32 \<Rightarrow> (string, string) result"
  pr_fixed :: "nat \<Rightarrow> 'f \<Rightarrow> string"

definition fmt_i32 :: "u32 \<Rightarrow> string" where
  "fmt_i32 w = (if sint w < 0 then ''-'' @ fmt_nat (nat (- sint w)) else fmt_nat (nat (sint w)))"

definition fmt_list :: "u32 list \<Rightarrow> string" where
  "fmt_list ws = ''['' @ join_with '', '' (map fmt_dec ws) @ '']''"

definition message_preview :: "string \<Rightarrow> nat \<Rightarrow> string list" where
  "message_preview message max_lines =
     (let ls = lines message
      in map (\<lambda>l. ''  '' @ l) (take max_lines ls)
         @ (if length ls > max_lines then [''  ... ('' @ fmt_nat (length ls - max_lines) @ '' more lines)''] else []))"

definition status_lines :: "'f print_api \<Rightarrow> 'f slow_control_status_response \<Rightarrow> string list" where
  "status_lines pr resp =
     [''STATUS success='' @ fmt_bool (scr_success resp) @ '' message='' @ scr_message resp
        @ '' services='' @ fmt_nat (length (scr_services resp)) @ '' i2c_buses='' @ fmt_nat (length (scr_i2c resp))
        @ '' temperatures='' @ fmt_nat (length (scr_temperatures resp)) @ '' rails='' @ fmt_nat (length (scr_rails resp))
        @ '' errors='' @ fmt_nat (length (scr_errors resp))]
     @ (case scr_clocks resp of None \<Rightarrow> [] | Some clock \<Rightarrow>
         [''  clocks endpoint_source='' @ fmt_bool (pcs_endpoint_clock_source_controlled clock)
           @ '' mmcm0='' @ fmt_bool (pcs_mmcm0_locked clock) @ '' mmcm1='' @ fmt_bool (pcs_mmcm1_locked clock)
           @ '' endpoint_raw=0x'' @ fmt_hex_lower 8 (pcs_raw_endpoint_status clock)])
     @ (case scr_firmware resp of None \<Rightarrow> [] | Some firmware \<Rightarrow>
         [''  firmware loaded='' @ fmt_bool (pfs_loaded firmware) @ '' fpga_state='' @ pfs_fpga_manager_state firmware
           @ '' overlay='' @ pfs_overlay_name firmware @ '' build_id='' @ pfs_build_id firmware
           @ '' pl_devices='' @ join_with '','' (pfs_pl_devices_present firmware)])
     @ (case scr_rpu resp of None \<Rightarrow> [] | Some rpu \<Rightarrow>
         [''  rpu available='' @ fmt_bool (prs_available rpu) @ '' running='' @ fmt_bool (prs_running rpu)
           @ '' firmware='' @ prs_firmware rpu @ '' heartbeat='' @ fmt_dec (prs_heartbeat rpu)
           @ '' last_fault='' @ prs_last_fault rpu])
     @ map (\<lambda>bus. ''  i2c '' @ fmt_dec (pib_bus bus) @ '' '' @ pib_path bus @ '' [''
         @ join_with '','' (map (\<lambda>device. ''0x'' @ fmt_hex_lower 2 (pid_address device) @ '':'' @ pid_name device)
             (pib_devices bus)) @ '']'') (scr_i2c resp)
     @ map (\<lambda>temp. ''  temp '' @ ptr_name temp @ '' '' @ pr_fixed pr 2 (ptr_celsius temp) @ '' C'')
         (take 8 (scr_temperatures resp))
     @ map (\<lambda>rail. ''  rail '' @ prr_name rail @ '' voltage='' @ pr_fixed pr 4 (prr_voltage_v rail)
         @ '' current='' @ pr_fixed pr 4 (prr_current_a rail) @ '' power='' @ pr_fixed pr 4 (prr_power_w rail)
         @ '' status='' @ prr_status rail) (take 12 (scr_rails resp))
     @ map (\<lambda>service. ''  service '' @ psv_name service @ '' active='' @ fmt_bool (psv_active service)
         @ '' state='' @ psv_state service) (scr_services resp)
     @ map (\<lambda>err. ''  error '' @ err) (scr_errors resp)"

definition after_decoding :: "string \<Rightarrow> ('a, string) result \<Rightarrow> ('a \<Rightarrow> string list) \<Rightarrow> (string list, tool_exit) result" where
  "after_decoding name r show_lines =
     and_then (map_err (\<lambda>_. Failed (''decoding '' @ name)) r) (\<lambda>resp. Ok (show_lines resp))"

text \<open>The lines after the first, or the error on which the program ends.\<close>

definition response_lines ::
    "'f print_api \<Rightarrow> 'f client_codec \<Rightarrow> control_envelope_v2 \<Rightarrow> (string list, tool_exit) result" where
  "response_lines pr cc env =
     (let payload = env_payload env; t = env_type env; bytes = ''; payload bytes='' @ fmt_nat (length payload) in
      if t = 1001 then after_decoding ''SlowControlStatusResponse'' (cc_status_response cc payload) (status_lines pr)
      else if t = 305 then after_decoding ''TestRegResponse'' (cc_test_reg_response cc payload) (\<lambda>resp.
        [''READ_TEST_REG value=0x'' @ fmt_hex_lower 8 (trr_value resp) @ '' message='' @ trr_message resp])
      else if t = 205 then after_decoding ''CmdWriteAfeRegResponse'' (cc_write_afe_reg_response cc payload) (\<lambda>resp.
        [''WRITE_AFE_REG success='' @ fmt_bool (warr_success resp) @ '' afeBlock='' @ fmt_dec (warr_afe_block resp)
          @ '' regAddress='' @ fmt_dec (warr_reg_address resp) @ '' regValue='' @ fmt_dec (warr_reg_value resp)
          @ '' message='' @ warr_message resp])
      else if t = 225 then after_decoding ''CmdReadAfeRegResponse'' (cc_read_afe_reg_response cc payload) (\<lambda>resp.
        [''READ_AFE_REG success='' @ fmt_bool (rarr_success resp) @ '' afeBlock='' @ fmt_dec (rarr_afe_block resp)
          @ '' regAddress='' @ fmt_dec (rarr_reg_address resp) @ '' regValue=0x'' @ fmt_hex_lower 4 (rarr_reg_value resp)
          @ '' message='' @ rarr_message resp])
      else if t = 249 then after_decoding ''CmdSetAfeResetResponse'' (cc_set_afe_reset_response cc payload) (\<lambda>resp.
        [''SET_AFE_RESET success='' @ fmt_bool (sarr_success resp) @ '' resetValue='' @ fmt_bool (sarr_reset_value resp)
          @ '' message='' @ sarr_message resp])
      else if t = 251 then after_decoding ''CmdDoAfeResetResponse'' (cc_do_afe_reset_response cc payload) (\<lambda>resp.
        [''DO_AFE_RESET success='' @ fmt_bool (darr_success resp) @ '' message='' @ darr_message resp])
      else if t = 253 then after_decoding ''CmdSetAfePowerStateResponse'' (cc_set_afe_power_state_response cc payload) (\<lambda>resp.
        [''SET_AFE_POWER success='' @ fmt_bool (sapr_success resp) @ '' powerState='' @ fmt_dec (sapr_power_state resp)
          @ '' message='' @ sapr_message resp])
      else if t = 261 then after_decoding ''CmdWriteAfeFunctionResponse'' (cc_write_afe_function_response cc payload) (\<lambda>resp.
        [''WRITE_AFE_FUNCTION success='' @ fmt_bool (wafr_success resp) @ '' afeBlock='' @ fmt_dec (wafr_afe_block resp)
          @ '' function='' @ wafr_function resp @ '' configValue='' @ fmt_dec (wafr_config_value resp)
          @ '' message='' @ wafr_message resp])
      else if t = 203 then after_decoding ''ConfigureResponse'' (cc_configure_response cc payload) (\<lambda>resp.
        (''CONFIGURE_FE success='' @ fmt_bool (cfgr_success resp)) # message_preview (cfgr_message resp) 24)
      else if t = 259 then after_decoding ''CmdAlignAfEsResponse'' (cc_align_afes_response cc payload) (\<lambda>resp.
        (''ALIGN_AFE success='' @ fmt_bool (alnr_success resp) @ '' delay='' @ fmt_list (alnr_delay resp)
          @ '' bitslip='' @ fmt_list (alnr_bitslip resp)) # message_preview (alnr_message resp) 24)
      else Ok [case pr_message_type pr t of
          Ok other \<Rightarrow> ''unhandled response type '' @ other @ bytes
        | Err err \<Rightarrow> ''unknown response type '' @ fmt_i32 t @ '' ('' @ err @ '')'' @ bytes])"

definition envelope_line :: "control_envelope_v2 \<Rightarrow> string" where
  "envelope_line env = ''response envelope: type='' @ fmt_i32 (env_type env) @ '' task_id='' @ fmt_dec (env_task_id env)
     @ '' correl_id='' @ fmt_dec (env_correl_id env)"

text \<open>The whole program: an error before anything is printed, or the lines printed and how it ends.\<close>

definition zmq_smoke_client ::
    "'f print_api \<Rightarrow> 'f client_codec \<Rightarrow> 'k server_os \<Rightarrow> 'k zmq_client_api \<Rightarrow> string list
     \<Rightarrow> ('k, string list \<times> (unit, tool_exit) result, tool_exit) eff" where
  "zmq_smoke_client pr cc os zc argv =
     bindE (liftR (parse_client_args argv)) (\<lambda>args.
     bindE (exchange cc os zc args) (\<lambda>env.
     ret (case response_lines pr cc env of
         Ok ls \<Rightarrow> (envelope_line env # ls, Ok ())
       | Err e \<Rightarrow> ([envelope_line env], Err e))))"

section \<open>Facts\<close>

lemma request_envelope_ends:
  assumes "request_envelope os t p k = Some (r, k')"
  obtains env where "r = Ok env" "is_request env" "env_type env = t" "env_payload env = p"
    "env_task_id env = env_msg_id env" "env_route env = ''smoke''"
  using assms
  by (auto simp: request_envelope_def client_now_ns_def callE_def bindE_def ret_def is_request_def Let_def
      split: prod.splits intro!: that)

lemma command_types:
  "\<exists>m. request_of_command c = (message_type_code m, snd (request_of_command c))
     \<and> route_message_type m = (case c of SmokeReadTestReg \<Rightarrow> LinuxFpga | SmokeStatus \<Rightarrow> LinuxStatus | _ \<Rightarrow> RpuAfe)"
proof -
  have codes: "304 = message_type_code ReadTestRegReq" "1000 = message_type_code ReadSlowControlStatusReq"
    "204 = message_type_code WriteAfeRegReq" "224 = message_type_code ReadAfeRegReq" "248 = message_type_code SetAfeResetReq"
    "250 = message_type_code DoAfeResetReq" "252 = message_type_code SetAfePowerStateReq"
    "260 = message_type_code WriteAfeFunctionReq" "202 = message_type_code ConfigureFeReq"
    "258 = message_type_code AlignAfeReq"
    by (simp_all add: message_type_code_def)
  show ?thesis
    by (cases c) (auto simp: request_of_command_def route_message_type_def codes)
qed

section \<open>Properties\<close>

text \<open>C38: the configuration of all five front ends and forty channels that the client sends becomes a
  command that passes validation exactly when bias, gain and offset are values of 12 bits.\<close>

theorem minimal_configuration_valid:
  "(\<exists>afes chs bias. configure_command (minimal_configure_request b g off r) = Ok (ConfigureFrontend afes chs bias)
      \<and> validate (ConfigureFrontend afes chs bias) = Ok () \<and> length afes = 5 \<and> length chs = 40)
   \<longleftrightarrow> unat b \<le> 4095 \<and> unat g \<le> 4095 \<and> unat off \<le> 4095"
proof -
  let ?req = "minimal_configure_request b g off r"
  have limits: "dac_values_fit ?req \<longleftrightarrow> unat b \<le> 4095 \<and> unat g \<le> 4095 \<and> unat off \<le> 4095"
  proof -
    have "\<exists>a::nat. a < 5" "\<exists>a::nat. a < 40" by (auto intro: exI [of _ 0])
    then show ?thesis unfolding minimal_configure_request_def dac_values_fit_def by auto
  qed
  show ?thesis
  proof
    assume small: "unat b \<le> 4095 \<and> unat g \<le> 4095 \<and> unat off \<le> 4095"
    have ids: "unat (word_of_nat n :: u32) = n" if "n < 40" for n using that by (simp add: unat_of_nat take_bit_nat_eq_self)
    have "list_all afe_in_range (cfg_afes ?req)" "list_all channel_in_range (cfg_channels ?req)" "unat (cfg_biasctrl ?req) < 65536"
      using small by (auto simp: minimal_configure_request_def list_all_iff afe_in_range_def afe_settings_def channel_in_range_def ids)
    from configure_command_total [OF this] obtain afes chs bias where
      c: "configure_command ?req = Ok (ConfigureFrontend afes chs bias)"
        "list_all2 same_afe (cfg_afes ?req) afes" "list_all2 same_channel (cfg_channels ?req) chs" by blast
    moreover have "validate (ConfigureFrontend afes chs bias) = Ok ()"
      using configure_command_valid [OF c(1)] small limits by blast
    moreover have "length afes = 5" "length chs = 40"
      using list_all2_lengthD [OF c(2)] list_all2_lengthD [OF c(3)] by (simp_all add: minimal_configure_request_def)
    ultimately show "\<exists>afes chs bias. configure_command ?req = Ok (ConfigureFrontend afes chs bias)
      \<and> validate (ConfigureFrontend afes chs bias) = Ok () \<and> length afes = 5 \<and> length chs = 40" by blast
  next
    assume "\<exists>afes chs bias. configure_command ?req = Ok (ConfigureFrontend afes chs bias)
      \<and> validate (ConfigureFrontend afes chs bias) = Ok () \<and> length afes = 5 \<and> length chs = 40"
    then show "unat b \<le> 4095 \<and> unat g \<le> 4095 \<and> unat off \<le> 4095"
      using configure_command_valid [of ?req] limits by blast
  qed
qed

end
