(* ===== verification/SmokeRoundTrip.thy ===== *)
theory SmokeRoundTrip
  imports ServerFacts ZmqSmokeClient
begin

text \<open>
  The smoke-test client against the server: what the client needs of its socket, of the coding of
  envelopes and of the coding of the response to its command, so that it ends by printing the
  response that the server's handlers gave.
\<close>

section \<open>What the handlers answer to the client's commands\<close>

text \<open>A computation whose values have a property.\<close>

definition gives :: "('a \<Rightarrow> bool) \<Rightarrow> ('s, 'a, 'e) eff \<Rightarrow> bool" where
  "gives Q m \<longleftrightarrow> (\<forall>s a t. m s = Some (Ok a, t) \<longrightarrow> Q a)"

named_theorems gives_intros \<open>values of the statement forms\<close>

lemma gives_bindE [gives_intros]: "(\<And>a. gives Q (k a)) \<Longrightarrow> gives Q (bindE m k)"
  unfolding gives_def by (auto simp: bindE_def split: option.splits result.splits)

lemma gives_tryE [gives_intros]: "(\<And>r. gives Q (k r)) \<Longrightarrow> gives Q (tryE m k)"
  unfolding gives_def by (auto simp: tryE_def split: option.splits)

lemma gives_zoom [gives_intros]: "gives Q m \<Longrightarrow> gives Q (zoom g p m)"
  unfolding gives_def by (auto simp: zoom_def split: option.splits)

lemma gives_cases [gives_intros]:
  "(\<And>a. gives Q (m a)) \<Longrightarrow> (\<And>e. gives Q (k e)) \<Longrightarrow> gives Q (case r of Ok a \<Rightarrow> m a | Err e \<Rightarrow> k e)"
  "(\<And>a b. gives Q (f a b)) \<Longrightarrow> gives Q (case p of (a, b) \<Rightarrow> f a b)"
  "gives Q m' \<Longrightarrow> gives Q k' \<Longrightarrow> gives Q (if c then m' else k')"
  by (auto split: result.split prod.split)

text \<open>The type of response that belongs to a command.\<close>

definition answer_of :: "smoke_command \<Rightarrow> 'f pb_response \<Rightarrow> bool" where
  "answer_of c resp = (case c of
     SmokeReadTestReg \<Rightarrow> (case resp of TestRegResponse _ \<Rightarrow> True | _ \<Rightarrow> False)
   | SmokeStatus \<Rightarrow> (case resp of SlowControlStatusResponse _ \<Rightarrow> True | _ \<Rightarrow> False)
   | SmokeWriteAfeReg _ _ _ \<Rightarrow> (case resp of WriteAfeRegResponse _ \<Rightarrow> True | _ \<Rightarrow> False)
   | SmokeReadAfeReg _ _ \<Rightarrow> (case resp of ReadAfeRegResponse _ \<Rightarrow> True | _ \<Rightarrow> False)
   | SmokeSetAfeReset _ \<Rightarrow> (case resp of SetAfeResetResponse _ \<Rightarrow> True | _ \<Rightarrow> False)
   | SmokeDoAfeReset \<Rightarrow> (case resp of DoAfeResetResponse _ \<Rightarrow> True | _ \<Rightarrow> False)
   | SmokeSetAfePower _ \<Rightarrow> (case resp of SetAfePowerStateResponse _ \<Rightarrow> True | _ \<Rightarrow> False)
   | SmokeWriteAfeFunction _ _ _ \<Rightarrow> (case resp of WriteAfeFunctionResponse _ \<Rightarrow> True | _ \<Rightarrow> False)
   | SmokeConfigureMin _ _ _ _ \<Rightarrow> (case resp of ConfigureResponse _ \<Rightarrow> True | _ \<Rightarrow> False)
   | SmokeAlignAfe \<Rightarrow> (case resp of AlignAfesResponse _ \<Rightarrow> True | _ \<Rightarrow> False))"

definition answered :: "'f pb_codec \<Rightarrow> smoke_command \<Rightarrow> u8 list \<Rightarrow> bool" where
  "answered cd c payload \<longleftrightarrow> (\<exists>resp. payload = cd_encode cd resp \<and> answer_of c resp)"

lemma gives_answer [gives_intros]: "answer_of c resp \<Longrightarrow> gives (answered cd c) (ret (cd_encode cd resp))"
  unfolding gives_def answered_def ret_def by blast

lemma handlers_answer:
  "gives (answered cd (SmokeWriteAfeReg b1 r1 v1)) (handle_write_afe_reg cd payload rpu)"
  "gives (answered cd (SmokeReadAfeReg b2 r2)) (handle_read_afe_reg cd payload rpu)"
  "gives (answered cd (SmokeSetAfeReset a)) (handle_set_afe_reset cd payload rpu)"
  "gives (answered cd SmokeDoAfeReset) (handle_do_afe_reset cd payload rpu)"
  "gives (answered cd (SmokeSetAfePower e)) (handle_set_afe_power_state cd payload rpu)"
  "gives (answered cd (SmokeWriteAfeFunction b3 f v3)) (handle_write_afe_function cd payload rpu)"
  "gives (answered cd (SmokeConfigureMin c g off res)) (handle_configure_fe cd payload rpu)"
  "gives (answered cd SmokeAlignAfe) (handle_align_afe cd payload rpu)"
  unfolding handler_defs bad_defs handle_align_afe_def Let_def
  by (intro gives_intros; simp add: answer_of_def)+

lemma status_answer: "gives (answered cd SmokeStatus) (handle_slow_control_status cd fo os payload rpu preflight)"
  unfolding handle_slow_control_status_def Let_def
  by (intro gives_intros; simp add: answer_of_def)

lemma payload_answer:
  assumes "request_of_command c = (t, msg)"
  shows "gives (answered cd c) (handle_payload cd fo os t payload rpu preflight)"
proof -
  have "gives (answered cd SmokeReadTestReg) (ret (handle_not_implemented cd ReadTestRegReq))"
    unfolding handle_not_implemented_def by (simp, intro gives_intros) (simp add: answer_of_def)
  with assms show ?thesis
    by (cases c)
      (auto simp: request_of_command_def handle_payload_def message_type_try_from_def route_message_type_def
        handle_rpu_afe_def handle_linux_status_def on_rpu_def intro!: gives_intros handlers_answer status_answer)
qed

section \<open>What the client needs\<close>

text \<open>The DEALER socket of a client that is connected to the ROUTER socket of a serving server, as ZMQ
  documents them: the set-up succeeds, a message that is sent reaches the server with the identity
  of the client before it, and what the server sends to that identity is received.  The state of the
  client's system determines the identity that is set, the message that is on its way and the state
  of the server that will take it.\<close>

definition served_dealer ::
    "'f pb_codec \<Rightarrow> 'f f64_ops \<Rightarrow> 'o server_os \<Rightarrow> router_options \<Rightarrow> 's rpu_afe_transport \<Rightarrow> 'k zmq_client_api
     \<Rightarrow> ('k \<Rightarrow> u8 list) \<Rightarrow> ('k \<Rightarrow> u8 list) \<Rightarrow> ('k \<Rightarrow> ('s, 'o) server_state) \<Rightarrow> bool" where
  "served_dealer cd fo os options rpu zc ident sent server \<longleftrightarrow>
     (\<forall>k. \<exists>h k'. zc_dealer_socket zc k = Some (Ok h, k'))
     \<and> (\<forall>h name k. \<exists>k'. zc_set_identity zc h name k = Some (Ok (), k') \<and> ident k' = name)
     \<and> (\<forall>h v k. \<exists>k'. zc_set_linger zc h v k = Some (Ok (), k') \<and> ident k' = ident k)
     \<and> (\<forall>h v k. \<exists>k'. zc_set_rcvtimeo zc h v k = Some (Ok (), k') \<and> ident k' = ident k)
     \<and> (\<forall>h v k. \<exists>k'. zc_set_sndtimeo zc h v k = Some (Ok (), k') \<and> ident k' = ident k)
     \<and> (\<forall>h e k. \<exists>k'. zc_connect zc h e k = Some (Ok (), k') \<and> ident k' = ident k)
     \<and> (\<forall>h bytes k. \<exists>k'. zc_send zc h bytes k = Some (Ok (), k') \<and> ident k' = ident k \<and> sent k' = bytes)
     \<and> (\<forall>h k reply x. answer_frames cd fo os options rpu [ident k, sent k] (server k) = Some (Ok (Some (ident k, reply)), x)
          \<longrightarrow> (\<exists>k'. zc_recv_bytes zc h k = Some (Ok reply, k')))"

lemma served_dealerD:
  assumes "served_dealer cd fo os options rpu zc ident sent server"
  shows "\<exists>h k'. zc_dealer_socket zc k = Some (Ok h, k')"
    and "\<exists>k'. zc_set_identity zc h name k = Some (Ok (), k') \<and> ident k' = name"
    and "\<exists>k'. zc_set_linger zc h v k = Some (Ok (), k') \<and> ident k' = ident k"
    and "\<exists>k'. zc_set_rcvtimeo zc h v k = Some (Ok (), k') \<and> ident k' = ident k"
    and "\<exists>k'. zc_set_sndtimeo zc h v k = Some (Ok (), k') \<and> ident k' = ident k"
    and "\<exists>k'. zc_connect zc h e k = Some (Ok (), k') \<and> ident k' = ident k"
    and "\<exists>k'. zc_send zc h bytes k = Some (Ok (), k') \<and> ident k' = ident k \<and> sent k' = bytes"
    and "answer_frames cd fo os options rpu [ident k, sent k] (server k) = Some (Ok (Some (ident k, reply)), x)
      \<Longrightarrow> \<exists>k'. zc_recv_bytes zc h k = Some (Ok reply, k')"
proof -
  note law = assms [unfolded served_dealer_def]
  show "\<exists>h k'. zc_dealer_socket zc k = Some (Ok h, k')" using law by metis
  show "\<exists>k'. zc_set_identity zc h name k = Some (Ok (), k') \<and> ident k' = name" using law by metis
  show "\<exists>k'. zc_set_linger zc h v k = Some (Ok (), k') \<and> ident k' = ident k" using law by metis
  show "\<exists>k'. zc_set_rcvtimeo zc h v k = Some (Ok (), k') \<and> ident k' = ident k" using law by metis
  show "\<exists>k'. zc_set_sndtimeo zc h v k = Some (Ok (), k') \<and> ident k' = ident k" using law by metis
  show "\<exists>k'. zc_connect zc h e k = Some (Ok (), k') \<and> ident k' = ident k" using law by metis
  show "\<exists>k'. zc_send zc h bytes k = Some (Ok (), k') \<and> ident k' = ident k \<and> sent k' = bytes" using law by metis
  show "\<exists>k'. zc_recv_bytes zc h k = Some (Ok reply, k')"
    if "answer_frames cd fo os options rpu [ident k, sent k] (server k) = Some (Ok (Some (ident k, reply)), x)"
    using law that by metis
qed

text \<open>The coding of envelopes and of the response to a command is read back by the other side.\<close>

definition envelopes_read_back :: "'f pb_codec \<Rightarrow> 'f client_codec \<Rightarrow> bool" where
  "envelopes_read_back cd cc \<longleftrightarrow> (\<forall>env. cd_decode_envelope cd (cc_encode_envelope cc env) = Ok env)
     \<and> (\<forall>env. cc_decode_envelope cc (cd_encode_envelope cd env) = Ok env)"

definition response_read_back :: "'f pb_codec \<Rightarrow> 'f client_codec \<Rightarrow> smoke_command \<Rightarrow> bool" where
  "response_read_back cd cc c \<longleftrightarrow> (case c of
     SmokeReadTestReg \<Rightarrow> \<forall>r. cc_test_reg_response cc (cd_encode cd (TestRegResponse r)) = Ok r
   | SmokeStatus \<Rightarrow> \<forall>r. cc_status_response cc (cd_encode cd (SlowControlStatusResponse r)) = Ok r
   | SmokeWriteAfeReg _ _ _ \<Rightarrow> \<forall>r. cc_write_afe_reg_response cc (cd_encode cd (WriteAfeRegResponse r)) = Ok r
   | SmokeReadAfeReg _ _ \<Rightarrow> \<forall>r. cc_read_afe_reg_response cc (cd_encode cd (ReadAfeRegResponse r)) = Ok r
   | SmokeSetAfeReset _ \<Rightarrow> \<forall>r. cc_set_afe_reset_response cc (cd_encode cd (SetAfeResetResponse r)) = Ok r
   | SmokeDoAfeReset \<Rightarrow> \<forall>r. cc_do_afe_reset_response cc (cd_encode cd (DoAfeResetResponse r)) = Ok r
   | SmokeSetAfePower _ \<Rightarrow> \<forall>r. cc_set_afe_power_state_response cc (cd_encode cd (SetAfePowerStateResponse r)) = Ok r
   | SmokeWriteAfeFunction _ _ _ \<Rightarrow> \<forall>r. cc_write_afe_function_response cc (cd_encode cd (WriteAfeFunctionResponse r)) = Ok r
   | SmokeConfigureMin _ _ _ _ \<Rightarrow> \<forall>r. cc_configure_response cc (cd_encode cd (ConfigureResponse r)) = Ok r
   | SmokeAlignAfe \<Rightarrow> \<forall>r. cc_align_afes_response cc (cd_encode cd (AlignAfesResponse r)) = Ok r)"

lemma answer_printed:
  assumes "request_of_command c = (t, msg)" and "response_read_back cd cc c" and "answer_of c resp"
    and "env_type env = t + 1" and "env_payload env = cd_encode cd resp"
  shows "\<exists>ls. response_lines pr cc env = Ok ls"
  using assms
  by (cases c; cases resp)
    (auto simp: request_of_command_def response_read_back_def answer_of_def response_lines_def after_decoding_def)

section \<open>The exchange\<close>

lemma request_envelope_runs:
  obtains env k' where "request_envelope os t p k = Some (Ok env, k')" "is_request env" "env_type env = t"
    "env_payload env = p" "env_route env = ''smoke''"
proof -
  have "yields (request_envelope os t p)"
    unfolding request_envelope_def client_now_ns_def Let_def by (intro yields_intros)
  then obtain env k' where run: "request_envelope os t p k = Some (Ok env, k')" by (rule yieldsE)
  then show thesis by (rule request_envelope_ends) (use run that in auto)
qed

lemma exchange_answered:
  assumes "system_returns os" and "transport_returns rpu" and "served_dealer cd fo os options rpu zc ident sent server"
    and "envelopes_read_back cd cc" and "request_of_command (cl_command args) = (t, msg)"
    and "request_envelope cos t (cc_encode cc msg) s = Some (Ok req, s1)" and "is_request req"
    and "length (cc_encode_envelope cc req) \<le> ro_max_envelope_bytes options"
  obtains env s' where "exchange cc cos zc args s = Some (Ok env, s')" "answers_request env req"
    "handled_by cd fo os rpu req (env_payload env)"
proof -
  note law = served_dealerD [OF assms(3)]
  let ?name = "as_bytes ''daphne-sc-smoke''" and ?bytes = "cc_encode_envelope cc req"
  obtain h k1 where k1: "zc_dealer_socket zc s1 = Some (Ok h, k1)" using law(1) by blast
  obtain k2 where k2: "zc_set_identity zc h ?name k1 = Some (Ok (), k2)" "ident k2 = ?name" using law(2) by blast
  obtain k3 where k3: "zc_set_linger zc h 0 k2 = Some (Ok (), k3)" "ident k3 = ident k2" using law(3) by blast
  obtain k4 where k4: "zc_set_rcvtimeo zc h (cl_timeout_ms args) k3 = Some (Ok (), k4)" "ident k4 = ident k3" using law(4) by blast
  obtain k5 where k5: "zc_set_sndtimeo zc h (cl_timeout_ms args) k4 = Some (Ok (), k5)" "ident k5 = ident k4" using law(5) by blast
  obtain k6 where k6: "zc_connect zc h (cl_endpoint args) k5 = Some (Ok (), k6)" "ident k6 = ident k5" using law(6) by blast
  obtain k7 where k7: "zc_send zc h ?bytes k6 = Some (Ok (), k7)" "ident k7 = ident k6" "sent k7 = ?bytes" using law(7) by blast
  have decoded: "cd_decode_envelope cd ?bytes = Ok req" using assms(4) by (simp add: envelopes_read_back_def)
  obtain resp x' where "answer_frames cd fo os options rpu [?name, ?bytes] (server k7)
      = Some (Ok (Some (?name, cd_encode_envelope cd resp)), x')"
    and resp: "answers_request resp req" "handled_by cd fo os rpu req (env_payload resp)"
    by (rule frames_reply [OF assms(1,2) decoded assms(7,8)])
  then have "answer_frames cd fo os options rpu [ident k7, sent k7] (server k7)
      = Some (Ok (Some (ident k7, cd_encode_envelope cd resp)), x')"
    using k2(2) k3(2) k4(2) k5(2) k6(2) k7(2,3) by simp
  then obtain k8 where k8: "zc_recv_bytes zc h k7 = Some (Ok (cd_encode_envelope cd resp), k8)"
    using law(8) by blast
  have "exchange cc cos zc args s = Some (Ok resp, k8)"
    using assms(4)
    by (simp add: exchange_def assms(5,6) with_context_def map_errE_def thenE_def bindE_def liftR_def
        envelopes_read_back_def k1 k2(1) k3(1) k4(1) k5(1) k6(1) k7(1) k8)
  then show thesis using resp by (rule that)
qed

section \<open>Properties\<close>

text \<open>C6: run against the server, the client ends without an error by printing the response to the request
  it sent, whatever its command: the envelope that comes back is a response of the type that follows
  the request's, on the client's route, it refers to the task and the message of the client's own
  request, and its body, which the handlers made for that request, is a response of the command's
  type that the client decodes and prints.\<close>

theorem smoke_client_answered:
  assumes "system_returns os" and "transport_returns rpu"
    and "parse_client_args argv = Ok args" and "request_of_command (cl_command args) = (t, msg)"
    and "served_dealer cd fo os options rpu zc ident sent server"
    and "envelopes_read_back cd cc" and "response_read_back cd cc (cl_command args)"
    and "\<And>env. env_payload env = cc_encode cc msg \<Longrightarrow> env_route env = ''smoke'' \<Longrightarrow>
      length (cc_encode_envelope cc env) \<le> ro_max_envelope_bytes options"
  shows "\<exists>req s1 env resp ls s'. request_envelope cos t (cc_encode cc msg) s = Some (Ok req, s1)
    \<and> zmq_smoke_client pr cc cos zc argv s = Some (Ok (envelope_line env # ls, Ok ()), s')
    \<and> env_dir env = DIR_RESPONSE \<and> env_type env = t + 1 \<and> env_route env = ''smoke''
    \<and> env_task_id env = env_task_id req \<and> env_correl_id env = env_msg_id req
    \<and> handled_by cd fo os rpu req (env_payload env)
    \<and> env_payload env = cd_encode cd resp \<and> answer_of (cl_command args) resp \<and> response_lines pr cc env = Ok ls"
proof -
  obtain req s1 where req: "request_envelope cos t (cc_encode cc msg) s = Some (Ok req, s1)" "is_request req"
      "env_type req = t" "env_payload req = cc_encode cc msg" "env_route req = ''smoke''"
    by (rule request_envelope_runs)
  obtain env s' where run: "exchange cc cos zc args s = Some (Ok env, s')" "answers_request env req"
      "handled_by cd fo os rpu req (env_payload env)"
    by (rule exchange_answered [OF assms(1,2,5,6,4) req(1,2) assms(8) [OF req(4,5)]])
  from run(3) payload_answer [OF assms(4)] obtain resp where resp: "env_payload env = cd_encode cd resp"
    "answer_of (cl_command args) resp"
    unfolding handled_by_def gives_def answered_def req(3) by blast
  have "response_type t = t + 1"
    using command_types [of "cl_command args"] assms(4) response_type_request by auto
  with run(2) req(3,5) have env: "env_dir env = DIR_RESPONSE" "env_type env = t + 1" "env_route env = ''smoke''"
    "env_task_id env = env_task_id req" "env_correl_id env = env_msg_id req"
    by (simp_all add: answers_request_def)
  obtain ls where ls: "response_lines pr cc env = Ok ls"
    using answer_printed [OF assms(4,7) resp(2) env(2) resp(1)] by blast
  then have "zmq_smoke_client pr cc cos zc argv s = Some (Ok (envelope_line env # ls, Ok ()), s')"
    using run(1) assms(3) by (simp add: zmq_smoke_client_def bindE_def liftR_def ret_def)
  with req(1) env run(3) resp ls show ?thesis by blast
qed

section \<open>An example\<close>

text \<open>An envelope as bytes: the numbers, the route with a mark before every character, the payload.\<close>

fun put_text :: "string \<Rightarrow> u8 list" where
  "put_text [] = [0]"
| "put_text (c # cs) = 1 # word_of_nat (of_char c) # put_text cs"

fun get_text :: "u8 list \<Rightarrow> string \<times> u8 list" where
  "get_text (m # b # bs) = (if m = 0 then ([], b # bs)
     else (case get_text bs of (cs, rest) \<Rightarrow> (char_of (unat b) # cs, rest)))"
| "get_text bs = ([], [])"

lemma get_put_text: "get_text (put_text cs @ rest) = (cs, rest)"
proof (induction cs)
  case Nil
  show ?case by (cases rest) simp_all
next
  case (Cons c cs)
  have "unat (word_of_nat (of_char c) :: u8) = of_char c"
    by (simp add: unat_of_nat take_bit_nat_eq_self)
  with Cons show ?case by simp
qed

definition put_envelope :: "control_envelope_v2 \<Rightarrow> u8 list" where
  "put_envelope env = le_bytes 4 (env_version env) @ le_bytes 4 (env_dir env) @ le_bytes 4 (env_type env)
     @ le_bytes 8 (env_task_id env) @ le_bytes 8 (env_msg_id env) @ le_bytes 8 (env_correl_id env)
     @ le_bytes 8 (env_timestamp_ns env) @ put_text (env_route env) @ env_payload env"

definition get_envelope :: "u8 list \<Rightarrow> (control_envelope_v2, string) result" where
  "get_envelope bs = (case get_text (drop 44 bs) of (route, payload) \<Rightarrow>
     Ok \<lparr>env_version = from_le (take 4 bs), env_dir = from_le (take 4 (drop 4 bs)), env_type = from_le (take 4 (drop 8 bs)),
        env_payload = payload, env_task_id = from_le (take 8 (drop 12 bs)), env_msg_id = from_le (take 8 (drop 20 bs)),
        env_correl_id = from_le (take 8 (drop 28 bs)), env_route = route,
        env_timestamp_ns = from_le (take 8 (drop 36 bs))\<rparr>)"

lemma get_put_envelope: "get_envelope (put_envelope env) = Ok env"
  by (simp add: get_envelope_def put_envelope_def get_put_text from_le_bytes)

text \<open>A response to a register write as bytes: whether it succeeded, the three numbers and the text.\<close>

definition put_write_response :: "cmd_write_afe_reg_response \<Rightarrow> u8 list" where
  "put_write_response r = (if warr_success r then 1 else 0) # le_bytes 4 (warr_afe_block r)
     @ le_bytes 4 (warr_reg_address r) @ le_bytes 4 (warr_reg_value r) @ as_bytes (warr_message r)"

definition get_write_response :: "u8 list \<Rightarrow> (cmd_write_afe_reg_response, string) result" where
  "get_write_response bs = Ok \<lparr>warr_success = (hd bs = 1), warr_message = from_bytes (drop 13 bs),
     warr_afe_block = from_le (take 4 (drop 1 bs)), warr_reg_address = from_le (take 4 (drop 5 bs)),
     warr_reg_value = from_le (take 4 (drop 9 bs))\<rparr>"

lemma get_put_write_response: "get_write_response (put_write_response r) = Ok r"
  by (cases r) (simp add: get_write_response_def put_write_response_def from_le_bytes)

definition served_codec :: "nat pb_codec" where
  "served_codec = sample_codec\<lparr>cd_decode_envelope := get_envelope, cd_encode_envelope := put_envelope,
     cd_encode := (\<lambda>r. case r of WriteAfeRegResponse w \<Rightarrow> put_write_response w | _ \<Rightarrow> [])\<rparr>"

definition sample_client_codec :: "nat client_codec" where
  "sample_client_codec =
     \<lparr>cc_encode = (\<lambda>_. [1, 3, 200]), cc_encode_envelope = put_envelope, cc_decode_envelope = get_envelope,
      cc_status_response = (\<lambda>_. Err ''none''), cc_test_reg_response = (\<lambda>_. Err ''none''),
      cc_write_afe_reg_response = get_write_response,
      cc_read_afe_reg_response = (\<lambda>_. Err ''none''), cc_set_afe_reset_response = (\<lambda>_. Err ''none''),
      cc_do_afe_reset_response = (\<lambda>_. Err ''none''), cc_set_afe_power_state_response = (\<lambda>_. Err ''none''),
      cc_write_afe_function_response = (\<lambda>_. Err ''none''), cc_configure_response = (\<lambda>_. Err ''none''),
      cc_align_afes_response = (\<lambda>_. Err ''none'')\<rparr>"

definition sample_print :: "nat print_api" where
  "sample_print = \<lparr>pr_message_type = (\<lambda>t. Err ''unknown enumeration value''), pr_fixed = (\<lambda>_ x. fmt_nat x)\<rparr>"

text \<open>A socket that holds the identity and the last message, and on receiving runs the turn of the
  server's loop that answers it.\<close>

type_synonym joined = "(nat, nat) server_state \<times> u8 list \<times> u8 list"

definition joined_recv :: "(joined, u8 list, string) eff" where
  "joined_recv = (\<lambda>(x, name, bytes).
     case answer_frames served_codec sample_f64 healthy_os default_router_options obedient_transport [name, bytes] x of
       None \<Rightarrow> None
     | Some (Ok (Some (_, reply)), x') \<Rightarrow> Some (Ok reply, (x', name, []))
     | Some (_, x') \<Rightarrow> Some (Err ''Resource temporarily unavailable'', (x', name, [])))"

definition joined_socket :: "joined zmq_client_api" where
  "joined_socket =
     \<lparr>zc_dealer_socket = ret 0, zc_set_identity = (\<lambda>_ name. modify (\<lambda>(x, _, bytes). (x, name, bytes))),
      zc_set_linger = (\<lambda>_ _. ret ()), zc_set_rcvtimeo = (\<lambda>_ _. ret ()), zc_set_sndtimeo = (\<lambda>_ _. ret ()),
      zc_connect = (\<lambda>_ _. ret ()), zc_send = (\<lambda>_ bytes. modify (\<lambda>(x, name, _). (x, name, bytes))),
      zc_recv_bytes = (\<lambda>_. joined_recv)\<rparr>"

lemma joined_served:
  "served_dealer served_codec sample_f64 healthy_os default_router_options obedient_transport joined_socket
     (\<lambda>(_, name, _). name) (\<lambda>(_, _, bytes). bytes) fst"
  by (auto simp: served_dealer_def joined_socket_def joined_recv_def ret_def modify_def)

theorem smoke_client_answered_witness:
  "\<forall>cos. \<exists>env ls s'. zmq_smoke_client sample_print sample_client_codec cos joined_socket
      [''write-afe-reg'', ''1'', ''3'', ''200'']
      (\<lparr>st_rpu = 0, st_system = 0, st_next_seq = 1, st_preflight = default_linux_preflight\<rparr>, [], [])
        = Some (Ok (envelope_line env # ls, Ok ()), s')
    \<and> env_type env = 205 \<and> (\<exists>w. env_payload env = put_write_response w)"
proof
  fix cos
  let ?args = "\<lparr>cl_endpoint = DEFAULT_ENDPOINT, cl_command = SmokeWriteAfeReg 1 3 200, cl_timeout_ms = 2000\<rparr>"
  let ?msg = "WriteAfeRegRequest \<lparr>war_id = 1, war_afe_block = 1, war_reg_address = 3, war_reg_value = 200\<rparr>"
  let ?s = "(\<lparr>st_rpu = 0, st_system = 0, st_next_seq = 1, st_preflight = default_linux_preflight\<rparr>, [], []) :: joined"
  have args: "parse_client_args [''write-afe-reg'', ''1'', ''3'', ''200''] = Ok ?args"
    by (simp add: parse_client_args_def smoke_command_of_def parse_u32_def strip_prefix_def from_str_radix_def
        digit_value_def and_then_def ok_or_def)
  have req: "request_of_command (cl_command ?args) = (204, ?msg)"
    by (simp add: request_of_command_def)
  have envelopes: "envelopes_read_back served_codec sample_client_codec"
    by (simp add: envelopes_read_back_def served_codec_def sample_client_codec_def get_put_envelope)
  have response: "response_read_back served_codec sample_client_codec (cl_command ?args)"
    by (simp add: response_read_back_def served_codec_def sample_client_codec_def get_put_write_response)
  have fits: "length (cc_encode_envelope sample_client_codec env) \<le> ro_max_envelope_bytes default_router_options"
    if "env_payload env = cc_encode sample_client_codec ?msg" "env_route env = ''smoke''" for env
    using that by (simp add: sample_client_codec_def put_envelope_def default_router_options_def)
  have written: "\<exists>w. cd_encode served_codec resp = put_write_response w"
    if "answer_of (SmokeWriteAfeReg 1 3 200) resp" for resp
    using that by (cases resp) (auto simp: answer_of_def served_codec_def)
  from smoke_client_answered [where pr = sample_print and cos = cos and s = ?s,
      OF healthy_returns obedient_returns args req joined_served envelopes response fits]
  show "\<exists>env ls s'. zmq_smoke_client sample_print sample_client_codec cos joined_socket
      [''write-afe-reg'', ''1'', ''3'', ''200''] ?s = Some (Ok (envelope_line env # ls, Ok ()), s')
    \<and> env_type env = 205 \<and> (\<exists>w. env_payload env = put_write_response w)"
    using written by fastforce
qed

end
