(* ===== verification/Spec2Isabelle.thy ===== *)
theory Spec2Isabelle
  imports RpuWireFacts Transport Rpu ClockChip I2c RpuRuntimeFacts MmioAlign RpuLink StatusFacts ServerFacts
    ClockchipToolFacts MmioSmoke ServerTermination SmokeRoundTrip
begin

text \<open>
  The slow control of the DAPHNE front-end board: a Linux server receives requests of clients over
  ZMQ, checks that the board is up, turns the requests into AFE commands, encodes these into 64-byte
  frames and sends them to firmware on a real-time core (RPU), which checks an interlock and drives
  the analogue front ends (AFEs) through memory-mapped registers.

  The theories, in the order of the code under \<open>src/crates\<close>:

  \<^item> \<open>Prelude\<close>: results, the state-passing computations with errors and panics (\<open>eff\<close>: \<open>None\<close> is
    a panic, otherwise a result and the new state), their rules (\<open>wp\<close>, \<open>keeps\<close>, \<open>leaves\<close>,
    \<open>raises_only\<close>) and the formatting of numbers.
  \<^item> \<open>ByteCodec\<close>: little-endian fields of byte lists.  \<open>RustText\<close>: the string functions of the standard
    library that the code uses (parsing of integers, trimming, splitting), read back what is formatted.
  \<^item> \<open>Afe\<close> (\<open>afe.rs\<close>): identifiers, targets, commands and their validation.
  \<^item> \<open>AfeFunctions\<close> (\<open>afe_functions.rs\<close>): the dictionary of named register fields.
  \<^item> \<open>AfeHw\<close> (\<open>afe_hw.rs\<close>): the register map and the packing of chip and DAC words.
  \<^item> \<open>RpuWire\<close>, \<open>RpuWireFacts\<close> (\<open>rpu_wire.rs\<close>): the frames of the wire, and their round trips.
  \<^item> \<open>Transport\<close> (\<open>transport.rs\<close>), \<open>Rpu\<close> (\<open>rpu.rs\<close>, \<open>status.rs\<close>): message types and their routes,
    the interface of a transport to the RPU, the status records.
  \<^item> \<open>ClockChip\<close> (\<open>clockchip.rs\<close>): programming and verifying the clock chip over a bus.  The locale
    \<open>register_bus\<close> says what a bus promises.
  \<^item> \<open>RpuRuntime\<close>, \<open>RpuRuntimeFacts\<close> (\<open>daphne-sc-rpu/src/lib.rs\<close>): the frame loop of the firmware
    over an abstract hardware record, its interlock, and the configuration session, related to a
    step relation and to the log of the frames.
  \<^item> \<open>Mmio\<close>, \<open>MmioBackend\<close> (\<open>mmio.rs\<close>): the hardware on a window of registers.  \<open>MmioSafety\<close>:
    the backend stays in the register map, keeps its invariant and never panics (locale
    \<open>returning_window\<close>).  \<open>MmioChannels\<close>: what is written is read back.  \<open>MmioWindow\<close>: the words
    put on the window and their order (locale \<open>logging_window\<close>).  \<open>MmioAlign\<close>: the alignment.

  Under \<open>daphne-sc-server/src\<close>:

  \<^item> \<open>I2c\<close> (\<open>i2c.rs\<close>): the Linux I2C device as a bus of the clock chip, and the bus search
    (locale \<open>linux_chip\<close>, a \<open>register_bus\<close>).
  \<^item> \<open>Rpmsg\<close>, \<open>RpmsgFacts\<close> (\<open>rpmsg.rs\<close>): the transport to the RPU: sequence numbers, one frame out and
    one reply back, the translation of the last reply; every exchange is an event of a watched kernel.
  \<^item> \<open>RpuLink\<close>: the transport and the firmware joined.  The locale \<open>rpu_link\<close> states what a reliable link
    does; on one a configuration does the direct calls of the hardware, and a firmware whose
    interlock is not ready refuses everything.
  \<^item> \<open>Endpoint\<close> (\<open>endpoint.rs\<close>): the timing endpoint's registers, read through \<open>/dev/mem\<close>.
  \<^item> \<open>Preflight\<close>, \<open>PreflightFacts\<close> (\<open>preflight.rs\<close>): the checks before hardware commands and their cache.
  \<^item> \<open>StatusCollector\<close>, \<open>StatusFacts\<close> (\<open>status_collector.rs\<close>): the slow-control status.
  \<^item> \<open>PbMessages\<close> (\<open>pb.rs\<close> and the schemas): the messages of the clients.
  \<^item> \<open>Handlers\<close>, \<open>HandlerFacts\<close> (\<open>handlers.rs\<close>): one handler per request, at most one command each.
  \<^item> \<open>Router\<close> (\<open>v2.rs\<close>, \<open>router.rs\<close>): envelopes and the request loop.
  \<^item> \<open>ServerReturns\<close>: everything the server does on a request returns, when what it calls returns; the
    locale \<open>returning_transport\<close> is what the handlers ask of a transport.
    \<open>ServerFacts\<close>: the preflight gate, response envelopes, the soundness of the cached preflight along
    the loop, and handlers over a link; this theory states the properties of the whole.
  \<^item> \<open>ServerMain\<close> (\<open>main.rs\<close>): arguments, environment, what is printed and the choice of the transport.
    \<open>ServerTermination\<close>: with Unicode arguments and open standard streams the program does not panic,
    whichever transport it is started with.
  \<^item> \<open>ClockchipTool\<close>, \<open>ClockchipToolFacts\<close> (\<open>bin/clockchip_tool.rs\<close>): the maintenance program of the clock
    chip; its arguments are read back, and a dry run announces the writes that the program does.
  \<^item> \<open>MmioSmoke\<close> (\<open>bin/mmio_smoke.rs\<close>): the program that prints the registers, and what it prints.
  \<^item> \<open>ZmqSmokeClient\<close> (\<open>bin/zmq_smoke_client.rs\<close>): the client's commands, requests and output;
    \<open>SmokeRoundTrip\<close>: the client against the request loop, over any DEALER socket that carries its
    message there and the answer back (\<open>served_dealer\<close>); a socket in memory is the example.

  Rust integers are words of their width; a panic of the source (an index or a slice out of range, a
  line that cannot be printed, an argument of the server that is not Unicode, an operation without
  an arm in a match) is \<open>None\<close>.  Loops of the source are bounded: the polling loops run at most
  \<open>spin_limit\<close> times (a field of the backend, 100000 by default, of width 32 bits), the scans over
  512 and 16 taps, so no fuel is needed; the request loop, which does not end, is a number of turns.
  What volatile loads return and what stores do to the device are parameters (\<open>volatile_io load
  store\<close>), and so are the system calls (\<open>i2c_kernel\<close>, \<open>rpmsg_kernel\<close>, \<open>mem_kernel\<close>, \<open>server_os\<close>), the
  ZMQ sockets (\<open>zmq_api\<close>, \<open>zmq_client_api\<close>), the standard streams of the server (\<open>console\<close>), the coding of protobuf messages (\<open>pb_codec\<close>,
  \<open>client_codec\<close>), double-precision arithmetic (\<open>f64_ops\<close>) and its formatting (\<open>print_api\<close>).

  Not modelled: the usage texts of the programs other than the server, what such a program printed
  before it ended with an error (except for the client), their panics on arguments that are not
  Unicode and on closed standard streams, the bridge to OPC UA (a C++ program) and the telemetry
  schema, which no Rust code uses.
\<close>

section \<open>The server and the firmware together\<close>

text \<open>C1: while the preflight is not ready, a request to the front end is answered with a failure and
  neither the transport to the RPU nor the operating system is touched, whatever the request.\<close>

theorem preflight_fails_closed:
  assumes "\<not> ready_for_hardware_commands preflight" and "message_type_try_from code = Some m"
    and "route_message_type m = RpuAfe"
  shows "\<exists>resp. handle_payload cd fo os code payload rpu preflight (s, k) = Some (Ok (cd_encode cd resp), (s, k))
    \<and> response_success resp = Some False"
  using payload_rejected [OF assms, of cd fo os payload rpu "(s, k)"] by (auto simp: refused_def)

definition failed_preflight :: preflight_status where
  "failed_preflight = \<lparr>ps_checks = [check_fail ''fpga_manager'' ''state=unknown'']\<rparr>"

theorem preflight_fails_closed_witness:
  "\<exists>resp. handle_payload sample_codec sample_f64 healthy_os 204 [1, 3, 200] obedient_transport failed_preflight (0, 5)
     = Some (Ok (cd_encode sample_codec resp), (0, 5)) \<and> response_success resp = Some False"
proof -
  have "\<not> ready_for_hardware_commands failed_preflight"
    by (simp add: failed_preflight_def ready_for_hardware_commands_def)
  moreover have "message_type_try_from 204 = Some WriteAfeRegReq" "route_message_type WriteAfeRegReq = RpuAfe"
    by (simp_all add: message_type_try_from_def route_message_type_def)
  ultimately show ?thesis by (rule preflight_fails_closed)
qed

text \<open>C5: every request is answered: when the transport and the operating system return, the envelope of
  a request is answered by one envelope of version 2, in the direction of responses, that names the
  request's message, task and route, has the type that follows the request's, and a message number
  below 2 ^ 63.\<close>

theorem request_answered:
  assumes "system_returns os" and "transport_returns rpu"
    and "cd_decode_envelope cd bytes = Ok req" and "is_request req"
  shows "\<exists>resp x'. handle_envelope cd fo os bytes rpu preflight x = Some (Ok (Some (cd_encode_envelope cd resp)), x')
    \<and> env_version resp = 2 \<and> env_dir resp = DIR_RESPONSE \<and> env_type resp = response_type (env_type req)
    \<and> env_correl_id resp = env_msg_id req \<and> env_task_id resp = env_task_id req \<and> env_route resp = env_route req
    \<and> unat (env_msg_id resp) < 2 ^ 63"
proof -
  obtain resp x' where "handle_envelope cd fo os bytes rpu preflight x = Some (Ok (Some (cd_encode_envelope cd resp)), x')"
    "answers_request resp req" by (rule request_reply [OF assms])
  then show ?thesis by (auto simp: answers_request_def)
qed

theorem request_answered_witness:
  "\<exists>resp x'. handle_envelope sample_codec sample_f64 healthy_os [204, 1, 3, 200] obedient_transport preflight_ready
       \<lparr>st_rpu = 0, st_system = 0, st_next_seq = 1, st_preflight = default_linux_preflight\<rparr>
     = Some (Ok (Some (cd_encode_envelope sample_codec resp)), x') \<and> env_type resp = 205 \<and> env_correl_id resp = 100"
proof -
  let ?req = "\<lparr>env_version = 2, env_dir = 0, env_type = 204, env_payload = [1, 3, 200], env_task_id = 42,
    env_msg_id = 100, env_correl_id = 0, env_route = ''test'', env_timestamp_ns = 0\<rparr> :: control_envelope_v2"
  have "cd_decode_envelope sample_codec [204, 1, 3, 200] = Ok ?req" "is_request ?req"
    by (simp_all add: sample_codec_def is_request_def DIR_REQUEST_def)
  moreover have "response_type 204 = 205" by code_simp
  ultimately show ?thesis
    using request_answered [OF healthy_returns obedient_returns, of sample_codec "[204, 1, 3, 200]" ?req] by force
qed

text \<open>C36: a message with fewer than two parts, one whose payload is longer than the limit, one that is not
  an envelope and an envelope that is not a request of version 2 are not answered and change nothing.\<close>

theorem others_ignored:
  assumes "length frames < 2 \<or> ro_max_envelope_bytes options < length (last frames)
    \<or> (\<forall>req. cd_decode_envelope cd (last frames) = Ok req \<longrightarrow> env_version req \<noteq> 2 \<or> env_dir req \<noteq> DIR_REQUEST)"
  shows "answer_frames cd fo os options rpu frames x = Some (Ok None, x)"
  using assms
  by (auto simp: answer_frames_parts handle_envelope_def needs_preflight_def is_request_def Let_def bindE_def ret_def
      split: result.split)

theorem others_ignored_witness:
  "answer_frames sample_codec sample_f64 healthy_os default_router_options obedient_transport [[7], []]
     \<lparr>st_rpu = 3, st_system = 9, st_next_seq = 1, st_preflight = default_linux_preflight\<rparr>
   = Some (Ok None, \<lparr>st_rpu = 3, st_system = 9, st_next_seq = 1, st_preflight = default_linux_preflight\<rparr>)"
  by (rule others_ignored) (simp add: sample_codec_def)

text \<open>C2: along any number of turns of the request loop, a message changes the state of the transport to
  the RPU only when it is a request of version 2 for the status or for the front end; and for the
  front end only when a preflight is ready that was collected in full less than a second before on
  the monotonic clock, or that is collected in full for this very request.\<close>

theorem hardware_needs_recent_preflight:
  assumes "serve_turns cd fo os zq options rpu socket n x0 = Some (r, x)"
    and "st_preflight x0 = default_linux_preflight"
    and "answer_frames cd fo os options rpu frames x = Some (res, x')" and "st_rpu x' \<noteq> st_rpu x"
  shows "\<exists>req m. cd_decode_envelope cd (last frames) = Ok req \<and> is_request req
    \<and> message_type_try_from (env_type req) = Some m
    \<and> (m = ReadSlowControlStatusReq \<or> route_message_type m = RpuAfe
        \<and> (\<exists>st. ready_for_hardware_commands st
             \<and> ((\<exists>t. collected_at os t st \<and> fst (os_now os (st_system x)) - t < 1000000000)
                \<or> (\<exists>k0 k1. k0 \<in> {st_system x, snd (os_now os (st_system x))} \<and> preflight_collect os k0 = Some (Ok st, k1)))))"
proof -
  have "preflight_sound os 1000000000 x0"
    using preflight_run.start [of os 1000000000] assms(2)
    by (simp add: preflight_sound_def default_linux_preflight_def linux_preflight_with_ttl_def)
  from staysD [OF sound_turns this assms(1)] have sound: "preflight_sound os 1000000000 x" .
  from answer_changes [OF assms(3,4)] obtain req st u where req: "cd_decode_envelope cd (last frames) = Ok req"
      "is_request req" "reaches_rpu (env_type req) st"
    and check: "if needs_preflight cd (last frames) then checked_preflight os x = Some (Ok st, u)
      else u = x \<and> st = preflight_ready"
    by blast
  from req(3) obtain m where m: "message_type_try_from (env_type req) = Some m"
    "m = ReadSlowControlStatusReq \<or> route_message_type m = RpuAfe \<and> ready_for_hardware_commands st"
    by (auto simp: reaches_rpu_def)
  then have "needs_preflight cd (last frames)" using req(1,2) by (auto simp: needs_preflight_def)
  with check have "checked_preflight os x = Some (Ok st, u)" by simp
  from checked_ends [OF this sound] m req show ?thesis
    unfolding fresh_status_def collected_in_check_def by blast
qed

theorem hardware_needs_recent_preflight_witness:
  "\<exists>x' res st. answer_frames sample_codec sample_f64 healthy_os default_router_options obedient_transport
      [[7], [204, 1, 3, 200]] \<lparr>st_rpu = 0, st_system = 0, st_next_seq = 1, st_preflight = default_linux_preflight\<rparr>
        = Some (res, x')
    \<and> st_rpu x' = 1 \<and> ready_for_hardware_commands st
    \<and> ((\<exists>t. collected_at healthy_os t st \<and> 0 - t < 1000000000) \<or> (\<exists>k1. preflight_collect healthy_os 0 = Some (Ok st, k1)))"
proof -
  let ?x = "\<lparr>st_rpu = 0, st_system = 0, st_next_seq = 1, st_preflight = default_linux_preflight\<rparr> :: (nat, nat) server_state"
  let ?req = "\<lparr>env_version = 2, env_dir = 0, env_type = 204, env_payload = [1, 3, 200], env_task_id = 42,
    env_msg_id = 100, env_correl_id = 0, env_route = ''test'', env_timestamp_ns = 0\<rparr> :: control_envelope_v2"
  let ?answer = "answer_frames sample_codec sample_f64 healthy_os default_router_options obedient_transport
      [[7], [204, 1, 3, 200]]"
  have dec: "cd_decode_envelope sample_codec [204, 1, 3, 200] = Ok ?req" and req: "is_request ?req"
    by (simp_all add: sample_codec_def is_request_def DIR_REQUEST_def)
  have code: "message_type_try_from 204 = Some WriteAfeRegReq" "route_message_type WriteAfeRegReq = RpuAfe"
    by (simp_all add: message_type_try_from_def route_message_type_def)
  have needs: "needs_preflight sample_codec [204, 1, 3, 200]"
    using code by (simp add: needs_preflight_def dec req)
  obtain st where st: "preflight_collect healthy_os 0 = Some (Ok st, 3)" "ready_for_hardware_commands st"
    using healthy_collect [of 0] by auto
  then obtain u where u: "checked_preflight healthy_os ?x = Some (Ok st, u)" "st_rpu u = 0"
    by (simp add: checked_preflight_def preflight_check_now_def gets_def default_linux_preflight_def preflight_refresh_def
        on_os_def zoom_def callE_def thenE_def bindE_def modify_def ret_def split: prod.split)
  obtain reply where sent: "handle_rpu_afe sample_codec WriteAfeRegReq [1, 3, 200] obedient_transport 0 = Some (Ok reply, 1)"
  proof -
    obtain resp where "handle_rpu_afe sample_codec WriteAfeRegReq [1, 3, 200] obedient_transport = bindE (submit obedient_transport
       (WriteRegister \<lparr>id_board = 1, id_pl = 4\<rparr> 3 200)) (\<lambda>out. ret (cd_encode sample_codec (resp out)))"
      using sample_write [of obedient_transport] by blast
    moreover have "validate (WriteRegister a r v) = Ok ()" for a r v by (simp add: validate_def)
    ultimately show thesis using that by (simp add: bindE_def submit_obedient ret_def)
  qed
  have "yields (handle_envelope sample_codec sample_f64 healthy_os [204, 1, 3, 200] obedient_transport st)"
    using dec req unfolding handle_envelope_def on_handlers_def
    by (simp, intro yields_intros yields_response healthy_returns
      returning_transport.yields_payload [OF returning_transportI] obedient_returns)
  then obtain a x' where env: "handle_envelope sample_codec sample_f64 healthy_os [204, 1, 3, 200] obedient_transport st u
      = Some (Ok a, x')" by (rule yieldsE)
  have rpu: "st_rpu x' = 1"
    using dec req env
  proof (cases rule: handle_envelope_request)
    case (handled payload s k v resp)
    have "s = 1"
      using payload_accepted [OF st(2) code sent, of sample_f64 healthy_os "st_system u"] handled(1) u(2) by simp
    with handled(2,3) show ?thesis by (auto elim: make_response_ends)
  qed simp
  have run: "?answer ?x = Some (Ok (case a of None \<Rightarrow> None | Some r \<Rightarrow> Some ([7], r)), x')"
    using u(1) env needs by (simp add: answer_frames_parts default_router_options_def bindE_def ret_def cong: option.case_cong)
  have turns: "serve_turns sample_codec sample_f64 healthy_os zq default_router_options obedient_transport 0 0 ?x = Some (Ok (), ?x)" for zq
    by (simp add: ret_def)
  have "\<exists>st. ready_for_hardware_commands st \<and> ((\<exists>t. collected_at healthy_os t st \<and> 0 - t < 1000000000)
      \<or> (\<exists>k1. preflight_collect healthy_os 0 = Some (Ok st, k1)))"
    using hardware_needs_recent_preflight [OF turns _ run] dec rpu code by auto
  with run rpu show ?thesis by blast
qed

text \<open>C4: a request to the front end that reaches the firmware over a reliable RPMsg link while its
  interlock is not ready is answered with a failure, whatever the preflight says, and leaves the
  hardware, the configuration session and the interlock of the firmware as they were.\<close>

theorem interlocked_request:
  assumes "link_reliable hw kn firm out" and "out (rp_kernel t) = []"
    and "\<not> ready_for_afe (rn_interlock (firm (rp_kernel t)))"
    and "message_type_try_from code = Some m" and "route_message_type m = RpuAfe"
  shows "\<exists>resp t'. handle_payload cd fo os code payload (rpmsg_afe_transport kn) preflight (t, k)
      = Some (Ok (cd_encode cd resp), (t', k))
    \<and> response_success resp = Some False
    \<and> rn_hardware (firm (rp_kernel t')) = rn_hardware (firm (rp_kernel t))
    \<and> rn_config_state (firm (rp_kernel t')) = rn_config_state (firm (rp_kernel t))
    \<and> rn_interlock (firm (rp_kernel t')) = rn_interlock (firm (rp_kernel t))"
proof (cases "ready_for_hardware_commands preflight")
  case True
  from rpu_link.interlocked_handler [OF rpu_link.intro [OF assms(1)] _ assms(3,5), where t = t] assms(2)
  obtain res t' n where run: "handle_rpu_afe cd m payload (rpmsg_afe_transport kn) t = Some (res, t')"
    "firm (rp_kernel t') = beats n (firm (rp_kernel t))" "refused cd res"
    by blast
  from payload_accepted [OF True assms(4,5) run(1), of fo os k] run(2,3) show ?thesis by (auto simp: refused_def)
next
  case False
  from payload_rejected [OF this assms(4,5), of cd fo os payload "rpmsg_afe_transport kn" "(t, k)"] show ?thesis
    by (auto simp: refused_def)
qed

theorem interlocked_request_witness:
  "\<exists>resp t'. handle_payload sample_codec sample_f64 healthy_os 204 [1, 3, 200]
      (rpmsg_afe_transport (direct_kernel fake_afe_hardware)) preflight_ready (fresh_transport new_link, 0)
    = Some (Ok (cd_encode sample_codec resp), (t', 0)) \<and> response_success resp = Some False
    \<and> rn_hardware (dl_runtime (rp_kernel t')) = default_fake_hardware"
proof -
  let ?t = "fresh_transport new_link"
  have code: "message_type_try_from 204 = Some WriteAfeRegReq" "route_message_type WriteAfeRegReq = RpuAfe"
    by (simp_all add: message_type_try_from_def route_message_type_def)
  have start: "dl_reply (rp_kernel ?t) = []" "\<not> ready_for_afe (rn_interlock (dl_runtime (rp_kernel ?t)))"
    "rn_hardware (dl_runtime (rp_kernel ?t)) = default_fake_hardware"
    by (simp_all add: new_link_facts) (simp add: runtime_new_def)
  show ?thesis
    using interlocked_request [OF direct_link_reliable [of fake_afe_hardware] start(1,2) code, of sample_codec sample_f64
        healthy_os "[1, 3, 200]" preflight_ready 0] start(3) by auto
qed

text \<open>C3: a configuration request whose numbers are in range, sent while the preflight is ready over a
  reliable RPMsg link to a firmware whose interlock is ready, stands for a command with its values.
  When all values for the DACs have 12 bits and the direct calls of that configuration succeed on the
  hardware, it does exactly these calls and its response reports success; when a value for a DAC has
  more bits, it is answered with a failure and the link is not touched.\<close>

theorem configure_request_applied:
  assumes "link_reliable hw kn firm out" and "out (rp_kernel t) = []"
    and "ready_for_hardware_commands preflight" and "ready_for_afe (rn_interlock (firm (rp_kernel t)))"
    and "message_type_try_from code = Some ConfigureFeReq" and "cd_configure_request cd payload = Ok req"
    and "list_all afe_in_range (cfg_afes req)" and "list_all channel_in_range (cfg_channels req)"
    and "unat (cfg_biasctrl req) < 65536" and "length (cfg_afes req) \<le> 65535" and "length (cfg_channels req) \<le> 65535"
  shows "\<exists>afes chs bias. configure_command req = Ok (ConfigureFrontend afes chs bias)
    \<and> list_all2 same_afe (cfg_afes req) afes \<and> list_all2 same_channel (cfg_channels req) chs
    \<and> unat bias = unat (cfg_biasctrl req)
    \<and> (if dac_values_fit req
       then \<forall>h'. configure_directly hw afes chs bias (rn_hardware (firm (rp_kernel t))) = Some (Ok (), h') \<longrightarrow>
          (\<exists>resp t'. handle_payload cd fo os code payload (rpmsg_afe_transport kn) preflight (t, k)
              = Some (Ok (cd_encode cd (ConfigureResponse resp)), (t', k))
            \<and> cfgr_success resp \<and> rn_hardware (firm (rp_kernel t')) = h')
       else \<exists>resp. handle_payload cd fo os code payload (rpmsg_afe_transport kn) preflight (t, k)
              = Some (Ok (cd_encode cd (ConfigureResponse resp)), (t, k)) \<and> \<not> cfgr_success resp)"
proof -
  obtain afes chs bias where c: "configure_command req = Ok (ConfigureFrontend afes chs bias)"
    and same: "list_all2 same_afe (cfg_afes req) afes" "list_all2 same_channel (cfg_channels req) chs"
      "unat bias = unat (cfg_biasctrl req)"
    using configure_command_total [OF assms(7-9)] by blast
  have route: "route_message_type ConfigureFeReq = RpuAfe" by (simp add: route_message_type_def)
  have lens: "length afes \<le> 65535" "length chs \<le> 65535"
    using same(1,2) assms(10,11) by (simp_all add: list_all2_lengthD)
  show ?thesis
  proof (cases "dac_values_fit req")
    case True
    then have valid: "validate (ConfigureFrontend afes chs bias) = Ok ()" using configure_command_valid [OF c] by simp
    have runs: "\<exists>resp t'. handle_payload cd fo os code payload (rpmsg_afe_transport kn) preflight (t, k)
          = Some (Ok (cd_encode cd (ConfigureResponse resp)), (t', k))
        \<and> cfgr_success resp \<and> rn_hardware (firm (rp_kernel t')) = h'"
      if direct: "configure_directly hw afes chs bias (rn_hardware (firm (rp_kernel t))) = Some (Ok (), h')" for h'
    proof -
      have idle: "firm (rp_kernel t) = firm (rp_kernel t) \<and> out (rp_kernel t) = []" using assms(2) by simp
      obtain resp t' where run: "handle_rpu_afe cd ConfigureFeReq payload (rpmsg_afe_transport kn) t
          = Some (Ok (cd_encode cd (ConfigureResponse resp)), t')" "cfgr_success resp" "rn_hardware (firm (rp_kernel t')) = h'"
        using rpu_link.configure_handler [OF rpu_link.intro [OF assms(1)] idle assms(6) c valid lens assms(4) direct]
        by (elim exE conjE)
      note accepted = payload_accepted [OF assms(3,5) route run(1), of fo os k]
      show ?thesis
        by (rule exI [of _ resp], rule exI [of _ t'], rule conjI [OF accepted conjI [OF run(2,3)]])
    qed
    show ?thesis
      unfolding if_P [OF True]
      by (intro exI [of _ afes] exI [of _ chs] exI [of _ bias] conjI c same allI impI) (rule runs)
  next
    case False
    then have "validate (ConfigureFrontend afes chs bias) \<noteq> Ok ()" using configure_command_valid [OF c] by simp
    from invalid_configuration [OF assms(6) c this, of "rpmsg_afe_transport kn" t] obtain resp where
      run: "handle_rpu_afe cd ConfigureFeReq payload (rpmsg_afe_transport kn) t
        = Some (Ok (cd_encode cd (ConfigureResponse resp)), t)" "\<not> cfgr_success resp" by (elim exE conjE)
    note refused = conjI [OF payload_accepted [OF assms(3,5) route run(1), of fo os k] run(2)]
    show ?thesis
      unfolding if_not_P [OF False]
      by (intro exI [of _ afes] exI [of _ chs] exI [of _ bias] conjI c same) (rule exI [of _ resp], rule refused)
  qed
qed

text \<open>The unit tests' hardware does every direct call.\<close>

lemma fake_hardware_configures:
  assumes "fh_apply_count h \<noteq> 0xFFFFFFFF"
  shows "\<exists>h'. configure_directly fake_afe_hardware afes chs bias h = Some (Ok (), h')
    \<and> length (fh_afe_configs h') = length (fh_afe_configs h) + length afes
    \<and> length (fh_channel_configs h') = length (fh_channel_configs h) + length chs
    \<and> fh_apply_count h' = fh_apply_count h + 1"
proof -
  have afes: "for_each afes (\<lambda>a. hw_configure_afe fake_afe_hardware (afe_record a)) h
      = Some (Ok (), h\<lparr>fh_afe_configs := fh_afe_configs h @ map afe_record afes\<rparr>)" for h
    by (induction afes arbitrary: h) (simp_all add: fake_afe_hardware_def thenE_def bindE_def modify_def ret_def)
  have chs: "for_each chs (\<lambda>c. hw_configure_channel fake_afe_hardware (channel_record c)) h
      = Some (Ok (), h\<lparr>fh_channel_configs := fh_channel_configs h @ map channel_record chs\<rparr>)" for h
    by (induction chs arbitrary: h) (simp_all add: fake_afe_hardware_def thenE_def bindE_def modify_def ret_def)
  have "hw_begin_configure_frontend fake_afe_hardware k h = Some (Ok (), h\<lparr>fh_begins := fh_begins h @ [k]\<rparr>)"
    "fh_apply_count h \<noteq> 0xFFFFFFFF \<Longrightarrow> hw_apply_configure_frontend fake_afe_hardware h
      = Some (Ok (), h\<lparr>fh_apply_count := fh_apply_count h + 1\<rparr>)" for k h
    by (simp_all add: fake_afe_hardware_def bindE_def gets_def modify_def)
  with assms show ?thesis by (simp add: configure_directly_def thenE_def bindE_def afes chs)
qed

definition sample_configuration :: configure_request where
  "sample_configuration =
     \<lparr>cfg_daphne_address = ''board'', cfg_slot = 0, cfg_timeout_ms = 500, cfg_biasctrl = 600,
      cfg_self_trigger_threshold = 0, cfg_self_trigger_xcorr = 0, cfg_tp_conf = 0,
      cfg_compensator = 0, cfg_inverters = 0,
      cfg_channels = [\<lparr>pcc_id = 7, pcc_trim = 100, pcc_offset = 2275, pcc_gain = 1\<rparr>],
      cfg_afes = [\<lparr>pac_id = 2, pac_attenuators = 1600, pac_v_bias = 800, pac_adc = None, pac_pga = None, pac_lna = None\<rparr>],
      cfg_full_stream_channels = []\<rparr>"

theorem configure_request_applied_witness:
  "\<exists>resp t'. handle_payload (sample_codec\<lparr>cd_configure_request := (\<lambda>p. Ok sample_configuration)\<rparr>)
      sample_f64 healthy_os 202 [] (rpmsg_afe_transport (direct_kernel fake_afe_hardware)) preflight_ready
      (fresh_transport ready_link, 0)
    = Some (Ok (cd_encode sample_codec (ConfigureResponse resp)), (t', 0)) \<and> cfgr_success resp
    \<and> length (fh_afe_configs (rn_hardware (dl_runtime (rp_kernel t')))) = 1
    \<and> length (fh_channel_configs (rn_hardware (dl_runtime (rp_kernel t')))) = 1
    \<and> fh_apply_count (rn_hardware (dl_runtime (rp_kernel t'))) = 1"
proof -
  let ?t = "fresh_transport ready_link" and ?cd = "sample_codec\<lparr>cd_configure_request := (\<lambda>p. Ok sample_configuration)\<rparr>"
  have ready: "ready_for_afe (rn_interlock (dl_runtime (rp_kernel ?t)))" and out: "dl_reply (rp_kernel ?t) = []"
    by (simp_all add: fresh_transport_def ready_link_def set_interlock_def ready_interlock_def ready_for_afe_def)
  have code: "message_type_try_from 202 = Some ConfigureFeReq" by (simp add: message_type_try_from_def)
  have pre: "ready_for_hardware_commands preflight_ready"
    by (simp add: preflight_ready_def ready_for_hardware_commands_def)
  have req: "cd_configure_request ?cd [] = Ok sample_configuration" by simp
  have range: "list_all afe_in_range (cfg_afes sample_configuration)"
    "list_all channel_in_range (cfg_channels sample_configuration)" "unat (cfg_biasctrl sample_configuration) < 65536"
    "length (cfg_afes sample_configuration) \<le> 65535" "length (cfg_channels sample_configuration) \<le> 65535"
    and fit: "dac_values_fit sample_configuration"
    and lens: "length (cfg_afes sample_configuration) = 1" "length (cfg_channels sample_configuration) = 1"
    by (simp_all add: sample_configuration_def afe_in_range_def afe_settings_def channel_in_range_def dac_values_fit_def)
  note applied = configure_request_applied [where fo = sample_f64 and os = healthy_os and k = 0,
      OF direct_link_reliable [of fake_afe_hardware] out pre ready code req range, unfolded if_P [OF fit]]
  then obtain afes chs bias where same: "list_all2 same_afe (cfg_afes sample_configuration) afes"
      "list_all2 same_channel (cfg_channels sample_configuration) chs"
    and runs: "\<And>h'. configure_directly fake_afe_hardware afes chs bias (rn_hardware (dl_runtime (rp_kernel ?t))) = Some (Ok (), h') \<Longrightarrow>
      \<exists>resp t'. handle_payload ?cd sample_f64 healthy_os 202 [] (rpmsg_afe_transport (direct_kernel fake_afe_hardware))
          preflight_ready (?t, 0) = Some (Ok (cd_encode ?cd (ConfigureResponse resp)), (t', 0))
        \<and> cfgr_success resp \<and> rn_hardware (dl_runtime (rp_kernel t')) = h'"
    by blast
  have start: "rn_hardware (dl_runtime (rp_kernel ?t)) = default_fake_hardware"
    by (simp add: fresh_transport_def ready_link_def set_interlock_def runtime_new_def)
  obtain h' where h': "configure_directly fake_afe_hardware afes chs bias (rn_hardware (dl_runtime (rp_kernel ?t))) = Some (Ok (), h')"
    "length (fh_afe_configs h') = 1" "length (fh_channel_configs h') = 1" "fh_apply_count h' = 1"
    using fake_hardware_configures [of default_fake_hardware afes chs bias] list_all2_lengthD [OF same(1)]
      list_all2_lengthD [OF same(2)] lens unfolding start by (auto simp: default_fake_hardware_def)
  from runs [OF h'(1)] h'(2-4) show ?thesis by fastforce
qed

end
